(* ===== verification/Prelude.thy ===== *)
theory Prelude
  imports Main "HOL-Library.Word"
begin

text \<open>
  Shared material of the development: the types every component uses, the parts of the C and
  C++ standard library the servers call (\<open>atoi\<close>, \<open>std::stoi\<close>, decimal
  printing, \<open>c_str\<close>, \<open>strcmp\<close>), faults as values, and generic lemmas on
  lists and words. Characters are bytes, so a \<open>std::string\<close> is a \<open>string\<close>
  (a list of 8-bit characters); a C string is the prefix before its first NUL.
\<close>

unbundle bit_operations_syntax

named_theorems srv_defs \<open>definitions the component proofs unfold\<close>
named_theorems wf_intros \<open>preservation lemmas of the well-formedness invariants\<close>

type_synonym byte = "8 word"
type_synonym u32 = "32 word"

text \<open>What the code does not survive: the process dies or the behaviour is undefined.\<close>

datatype fault = NullDeref | EmptyBack | Uncaught string | OutOfRange | Dangling

type_synonym 'a res = "fault + 'a"

abbreviation Ok :: "'a \<Rightarrow> 'a res" where
  "Ok \<equiv> Inr"

fun bind_res :: "'a res \<Rightarrow> ('a \<Rightarrow> 'b res) \<Rightarrow> 'b res" where
  "bind_res (Inl e) f = Inl e"
| "bind_res (Inr x) f = f x"

lemma bind_res_Inl: "bind_res m f = Inl e \<longleftrightarrow> m = Inl e \<or> (\<exists>x. m = Inr x \<and> f x = Inl e)"
  by (cases m) auto

lemma bind_res_Inr: "bind_res m f = Inr y \<longleftrightarrow> (\<exists>x. m = Inr x \<and> f x = Inr y)"
  by (cases m) auto

lemma bind_res_assoc: "bind_res (bind_res m f) g = bind_res m (\<lambda>x. bind_res (f x) g)"
  by (cases m) auto

lemma bind_res_cong: "(\<And>x. m = Ok x \<Longrightarrow> f x = g x) \<Longrightarrow> bind_res m f = bind_res m g"
  by (cases m) auto

text \<open>A postcondition of every result that is not a fault, with one rule per construct.\<close>

definition all_ok :: "('a \<Rightarrow> bool) \<Rightarrow> 'a res \<Rightarrow> bool" where
  "all_ok P m \<longleftrightarrow> (\<forall>x. m = Inr x \<longrightarrow> P x)"

named_theorems ok_rules \<open>introduction rules of all_ok\<close>

lemma all_ok_Ok [ok_rules]: "P x \<Longrightarrow> all_ok P (Ok x)"
  by (simp add: all_ok_def)

lemma all_ok_bind [ok_rules]: "(\<And>x. m = Ok x \<Longrightarrow> all_ok P (f x)) \<Longrightarrow> all_ok P (bind_res m f)"
  by (auto simp: all_ok_def bind_res_Inr)

lemma all_ok_if [ok_rules]:
  "(c \<Longrightarrow> all_ok P x) \<Longrightarrow> (\<not> c \<Longrightarrow> all_ok P y) \<Longrightarrow> all_ok P (if c then x else y)"
  by simp

lemma all_ok_prod [ok_rules]:
  "(\<And>a b. p = (a, b) \<Longrightarrow> all_ok P (f a b)) \<Longrightarrow> all_ok P (case p of (a, b) \<Rightarrow> f a b)"
  by (cases p) simp

lemma all_okD: "all_ok P m \<Longrightarrow> m = Ok x \<Longrightarrow> P x"
  by (simp add: all_ok_def)

section \<open>Characters and C strings\<close>

abbreviation ord :: "char \<Rightarrow> nat" where
  "ord c \<equiv> of_char c"

definition NUL :: char where
  "NUL = CHR 0x00"

definition c_str :: "string \<Rightarrow> string" where
  "c_str s = takeWhile (\<lambda>c. c \<noteq> NUL) s"

definition nul_free :: "string \<Rightarrow> bool" where
  "nul_free s \<longleftrightarrow> NUL \<notin> set s"

definition crlf :: string where
  "crlf = [CHR 0x0D, CHR 0x0A]"

definition lf :: string where
  "lf = [CHR 0x0A]"

lemma c_str_nul_free [simp]: "nul_free s \<Longrightarrow> c_str s = s"
  unfolding nul_free_def c_str_def by (simp add: takeWhile_eq_all_conv) metis

lemma nul_free_c_str [simp]: "nul_free (c_str s)"
  unfolding nul_free_def c_str_def by (auto dest: set_takeWhileD)

lemma c_str_idem [simp]: "c_str (c_str s) = c_str s"
  by simp

lemma nul_free_simps [simp]:
  "nul_free []" "nul_free (c # cs) \<longleftrightarrow> c \<noteq> NUL \<and> nul_free cs"
  "nul_free (xs @ ys) \<longleftrightarrow> nul_free xs \<and> nul_free ys"
  by (auto simp: nul_free_def)

section \<open>Decimal numbers: atoi, stoi and printing\<close>

definition is_space :: "char \<Rightarrow> bool" where
  "is_space c \<longleftrightarrow> ord c = 32 \<or> (9 \<le> ord c \<and> ord c \<le> 13)"

definition is_digit :: "char \<Rightarrow> bool" where
  "is_digit c \<longleftrightarrow> 48 \<le> ord c \<and> ord c \<le> 57"

definition digit_char :: "nat \<Rightarrow> char" where
  "digit_char d = char_of (48 + d)"

fun digits_val :: "nat \<Rightarrow> string \<Rightarrow> nat" where
  "digits_val acc [] = acc"
| "digits_val acc (c # cs) =
     (if is_digit c then digits_val (acc * 10 + (ord c - 48)) cs else acc)"

text \<open>
  \<open>strtol\<close> in base 10: leading white space, an optional sign, digits; the value is
  clamped to the range of \<open>long\<close> (64 bits). \<open>atoi\<close> is its conversion to
  \<open>int\<close> (glibc), which drops the high bits.
\<close>

definition clamp_long :: "int \<Rightarrow> int" where
  "clamp_long i = max (- (2 ^ 63)) (min (2 ^ 63 - 1) i)"

definition to_int32 :: "int \<Rightarrow> int" where
  "to_int32 i = (i + 2 ^ 31) mod 2 ^ 32 - 2 ^ 31"

definition strtol :: "string \<Rightarrow> int" where
  "strtol s = (case dropWhile is_space s of
       [] \<Rightarrow> 0
     | c # cs \<Rightarrow>
         if c = CHR ''-'' then clamp_long (- int (digits_val 0 cs))
         else if c = CHR ''+'' then clamp_long (int (digits_val 0 cs))
         else clamp_long (int (digits_val 0 (c # cs))))"

definition atoi :: "string \<Rightarrow> int" where
  "atoi s = to_int32 (strtol s)"

fun nat_str :: "nat \<Rightarrow> string" where
  "nat_str n = (if n < 10 then [digit_char n] else nat_str (n div 10) @ [digit_char (n mod 10)])"

declare nat_str.simps [simp del]

definition int_str :: "int \<Rightarrow> string" where
  "int_str i = (if i < 0 then CHR ''-'' # nat_str (nat (- i)) else nat_str (nat i))"

text \<open>\<open>sprintf("%.2d")\<close> and \<open>sprintf("%02d")\<close> on a value that is not negative.\<close>

definition pad2 :: "int \<Rightarrow> string" where
  "pad2 i = (let s = int_str i in if length s < 2 then CHR ''0'' # s else s)"

lemma ord_digit_char [simp]: "d < 10 \<Longrightarrow> ord (digit_char d) = 48 + d"
  by (simp add: digit_char_def)

lemma is_digit_digit_char [simp]: "d < 10 \<Longrightarrow> is_digit (digit_char d)"
  by (simp add: is_digit_def)

lemma nat_str_digits: "list_all is_digit (nat_str n)"
proof (induction n rule: nat_str.induct)
  case (1 n)
  then show ?case by (subst nat_str.simps) (simp add: list_all_iff)
qed

lemma nat_str_nonempty [simp]: "nat_str n \<noteq> []"
  by (subst nat_str.simps) simp

lemma digits_val_append:
  "list_all is_digit xs \<Longrightarrow> digits_val acc (xs @ ys) = digits_val (digits_val acc xs) ys"
  by (induction xs arbitrary: acc) auto

lemma digits_val_nat_str: "digits_val 0 (nat_str n) = n"
proof (induction n rule: nat_str.induct)
  case (1 n)
  show ?case
  proof (cases "n < 10")
    case True
    then show ?thesis by (subst nat_str.simps) simp
  next
    case False
    with "1.IH" have ih: "digits_val 0 (nat_str (n div 10)) = n div 10" by simp
    have "digits_val 0 (nat_str (n div 10) @ [digit_char (n mod 10)]) = n"
      by (subst digits_val_append [OF nat_str_digits]) (simp add: ih)
    with False show ?thesis by (subst nat_str.simps) simp
  qed
qed

lemma digit_not_space: "is_digit c \<Longrightarrow> \<not> is_space c"
  by (auto simp: is_digit_def is_space_def)

lemma digit_not_sign: "is_digit c \<Longrightarrow> c \<noteq> CHR ''-'' \<and> c \<noteq> CHR ''+''"
  by (auto simp: is_digit_def)

lemma digit_not_nul: "is_digit c \<Longrightarrow> c \<noteq> NUL"
  by (auto simp: is_digit_def NUL_def)

lemma strtol_nat_str: "int n < 2 ^ 63 \<Longrightarrow> strtol (nat_str n) = int n"
proof -
  assume n: "int n < 2 ^ 63"
  obtain c cs where s: "nat_str n = c # cs"
    by (cases "nat_str n") auto
  with nat_str_digits [of n] have "is_digit c" by simp
  then have "\<not> is_space c" "c \<noteq> CHR ''-''" "c \<noteq> CHR ''+''"
    using digit_not_space digit_not_sign by blast+
  then show ?thesis
    using n digits_val_nat_str [of n] by (simp add: strtol_def s clamp_long_def)
qed

lemma to_int32_id [simp]: "- (2 ^ 31) \<le> i \<Longrightarrow> i < 2 ^ 31 \<Longrightarrow> to_int32 i = i"
  by (simp add: to_int32_def)

lemma to_int32_range: "- (2 ^ 31) \<le> to_int32 i \<and> to_int32 i < 2 ^ 31"
proof -
  have "0 \<le> (i + 2 ^ 31) mod 2 ^ 32" "(i + 2 ^ 31) mod 2 ^ 32 < (2 ^ 32 :: int)"
    by simp_all
  then show ?thesis by (simp add: to_int32_def)
qed

lemma atoi_int_str:
  assumes "- (2 ^ 31) \<le> i" "i < 2 ^ 31"
  shows "atoi (int_str i) = i"
proof (cases "i < 0")
  case True
  have "strtol (CHR ''-'' # nat_str (nat (- i))) = i"
    using True assms by (simp add: strtol_def is_space_def digits_val_nat_str clamp_long_def)
  with True assms show ?thesis by (simp add: atoi_def int_str_def)
next
  case False
  with assms show ?thesis
    by (simp add: atoi_def int_str_def strtol_nat_str)
qed

lemma nul_free_nat_str [simp]: "nul_free (nat_str n)"
  using nat_str_digits [of n] by (auto simp: nul_free_def list_all_iff dest: digit_not_nul)

lemma nul_free_int_str [simp]: "nul_free (int_str i)"
  by (simp add: int_str_def NUL_def [symmetric]) (simp add: NUL_def)

text \<open>For evaluating \<open>atoi\<close> on concrete texts.\<close>

text \<open>\<open>atoi\<close> of a pointer that may be null.\<close>

definition atoi_ptr :: "string option \<Rightarrow> int res" where
  "atoi_ptr p = (case p of None \<Rightarrow> Inl NullDeref | Some s \<Rightarrow> Ok (atoi s))"

lemma atoi_ptr_simps [simp]: "atoi_ptr None = Inl NullDeref" "atoi_ptr (Some s) = Ok (atoi s)"
  by (simp_all add: atoi_ptr_def)

lemma atoi_ptr_Inl [simp]: "atoi_ptr p = Inl e \<longleftrightarrow> p = None \<and> e = NullDeref"
  by (cases p) auto

lemma atoi_ptr_Ok [simp]: "(\<exists>x. atoi_ptr p = Inr x) \<longleftrightarrow> p \<noteq> None"
  by (cases p) auto

lemmas atoi_eval = atoi_def strtol_def is_space_def is_digit_def clamp_long_def to_int32_def

lemma nat_str_length: "n < 10 ^ Suc k \<Longrightarrow> length (nat_str n) \<le> Suc k"
proof (induction k arbitrary: n)
  case 0
  then show ?case by (subst nat_str.simps) simp
next
  case (Suc k)
  show ?case
  proof (cases "n < 10")
    case True
    then show ?thesis by (subst nat_str.simps) simp
  next
    case False
    have "n div 10 < 10 ^ Suc k" using Suc.prems by simp
    with Suc.IH False show ?thesis by (subst nat_str.simps) simp
  qed
qed

lemma int_str_length:
  assumes "- (2 ^ 31) \<le> i" "i < 2 ^ 31"
  shows "length (int_str i) \<le> 11"
proof -
  have n: "nat \<bar>i\<bar> < 10 ^ Suc 9" using assms by simp
  from nat_str_length [OF n] show ?thesis
    by (auto simp: int_str_def abs_if split: if_splits)
qed

text \<open>\<open>std::stoi\<close>: throws when no digit is found or the value is not an \<open>int\<close>.\<close>

definition stoi :: "string \<Rightarrow> int res" where
  "stoi s = (let t = dropWhile is_space s;
                 ds = (case t of [] \<Rightarrow> []
                       | c # cs \<Rightarrow> if c = CHR ''-'' \<or> c = CHR ''+'' then cs else c # cs)
             in if ds = [] \<or> \<not> is_digit (hd ds) then Inl (Uncaught ''invalid_argument'')
                else if strtol s < - (2 ^ 31) \<or> 2 ^ 31 - 1 < strtol s
                then Inl (Uncaught ''out_of_range'')
                else Ok (strtol s))"

section \<open>Searching strings\<close>

text \<open>\<open>std::string::find\<close> for a substring: the first position, if any.\<close>

fun find_sub :: "string \<Rightarrow> string \<Rightarrow> nat option" where
  "find_sub pat [] = (if pat = [] then Some 0 else None)"
| "find_sub pat (c # cs) =
     (if take (length pat) (c # cs) = pat then Some 0 else map_option Suc (find_sub pat cs))"

definition contains :: "string \<Rightarrow> string \<Rightarrow> bool" where
  "contains pat s \<longleftrightarrow> find_sub pat s \<noteq> None"

text \<open>\<open>strchr\<close> and \<open>std::string::find\<close> for one character.\<close>

fun find_char :: "char \<Rightarrow> string \<Rightarrow> nat option" where
  "find_char x [] = None"
| "find_char x (c # cs) = (if c = x then Some 0 else map_option Suc (find_char x cs))"

lemma find_char_Some:
  "find_char x s = Some n \<Longrightarrow> n < length s \<and> s ! n = x \<and> x \<notin> set (take n s)"
proof (induction s arbitrary: n)
  case (Cons c cs)
  then show ?case by (cases "c = x") (auto simp: less_Suc_eq_0_disj)
qed simp

lemma find_char_None: "find_char x s = None \<longleftrightarrow> x \<notin> set s"
  by (induction s) auto

lemma find_char_append_hit:
  "x \<notin> set a \<Longrightarrow> find_char x (a @ x # b) = Some (length a)"
  by (induction a) auto

lemma find_sub_None:
  "find_sub pat s = None \<longleftrightarrow> \<not> (\<exists>a b. s = a @ pat @ b)"
proof (induction s)
  case (Cons c cs)
  have "(\<exists>a b. c # cs = a @ pat @ b) \<longleftrightarrow>
        take (length pat) (c # cs) = pat \<or> (\<exists>a b. cs = a @ pat @ b)"
  proof (intro iffI; (elim exE disjE)?)
    fix a b assume "c # cs = a @ pat @ b"
    then show "take (length pat) (c # cs) = pat \<or> (\<exists>a b. cs = a @ pat @ b)"
      by (cases a) auto
  next
    assume "take (length pat) (c # cs) = pat"
    then have "c # cs = [] @ pat @ drop (length pat) (c # cs)"
      by (metis append_Nil append_take_drop_id)
    then show "\<exists>a b. c # cs = a @ pat @ b" by blast
  next
    fix a b assume "cs = a @ pat @ b"
    then have "c # cs = (c # a) @ pat @ b" by simp
    then show "\<exists>a b. c # cs = a @ pat @ b" by blast
  qed
  with Cons.IH show ?case by simp
qed auto

lemma contains_iff: "contains pat s \<longleftrightarrow> (\<exists>a b. s = a @ pat @ b)"
  using find_sub_None [of pat s] by (auto simp: contains_def)

lemma find_sub_prefix_free:
  "find_sub pat s = Some n \<Longrightarrow> pat \<noteq> [] \<Longrightarrow> \<not> contains pat (take n s)"
proof (induction s arbitrary: n)
  case (Cons c cs)
  show ?case
  proof (cases "take (length pat) (c # cs) = pat")
    case True
    with Cons.prems show ?thesis by (auto simp: contains_iff)
  next
    case False
    with Cons.prems obtain m where m: "find_sub pat cs = Some m" "n = Suc m" by auto
    with Cons.IH Cons.prems have no: "\<not> contains pat (take m cs)" by blast
    have "\<not> (\<exists>b. c # take m cs = pat @ b)"
    proof
      assume "\<exists>b. c # take m cs = pat @ b"
      then obtain b where b: "c # take m cs = pat @ b" ..
      then have "c # cs = pat @ b @ drop m cs"
        by (metis append_Cons append_assoc append_take_drop_id)
      then have "take (length pat) (c # cs) = pat" by simp
      with False show False by simp
    qed
    with no m show ?thesis
      by (auto simp: contains_iff Cons_eq_append_conv)
  qed
qed (auto split: if_splits)

section \<open>First-match update of a list of records\<close>

text \<open>The pattern of every lookup loop in the servers: change the first element that matches.\<close>

fun upd_first :: "('a \<Rightarrow> bool) \<Rightarrow> ('a \<Rightarrow> 'a) \<Rightarrow> 'a list \<Rightarrow> 'a list" where
  "upd_first p f [] = []"
| "upd_first p f (x # xs) = (if p x then f x # xs else x # upd_first p f xs)"

lemma length_upd_first [simp]: "length (upd_first p f xs) = length xs"
  by (induction xs) auto

lemma upd_first_none: "find p xs = None \<Longrightarrow> upd_first p f xs = xs"
  by (induction xs) (auto split: if_splits)

lemma find_upd_first:
  "(\<And>x. p x \<Longrightarrow> p (f x)) \<Longrightarrow> find p (upd_first p f xs) = map_option f (find p xs)"
  by (induction xs) auto

lemma find_upd_first_other:
  "(\<And>x. p x \<Longrightarrow> \<not> q x) \<Longrightarrow> (\<And>x. p x \<Longrightarrow> \<not> q (f x)) \<Longrightarrow> find q (upd_first p f xs) = find q xs"
  by (induction xs) auto

lemma map_upd_first [simp]:
  "(\<And>x. g (f x) = g x) \<Longrightarrow> map g (upd_first p f xs) = map g xs"
  by (induction xs) auto

lemma map_upd_first_cond:
  "(\<And>x. p x \<Longrightarrow> g (f x) = g x) \<Longrightarrow> map g (upd_first p f xs) = map g xs"
  by (induction xs) auto

lemma list_all_upd_first:
  "list_all q xs \<Longrightarrow> (\<And>x. x \<in> set xs \<Longrightarrow> p x \<Longrightarrow> q x \<Longrightarrow> q (f x)) \<Longrightarrow> list_all q (upd_first p f xs)"
  by (induction xs) auto

lemma find_append:
  "find p (xs @ ys) = (case find p xs of None \<Rightarrow> find p ys | Some x \<Rightarrow> Some x)"
  by (induction xs) auto

lemma find_SomeD: "find p xs = Some x \<Longrightarrow> x \<in> set xs \<and> p x"
  by (induction xs) (auto split: if_splits)

end
