(* ===== verification/XorRand.thy ===== *)
theory XorRand
  imports Prelude
begin

text \<open>
  The pseudo-random generator of the two relay servers (class \<open>MyRand\<close> of
  \<open>servak_na_winapi_relays/source/relay.cpp\<close> and of
  \<open>servak_na_linux/server/relay.cpp\<close>): a 32-bit xorshift whose low byte masks every
  character of the checksum of a relay message. The interface \<open>generator\<close> says what the
  message layer relies on: a state is never merged with another one, neither by drawing a
  number nor by mixing a checksum in.
\<close>

section \<open>The class MyRand\<close>

definition xrand :: "u32 \<Rightarrow> u32" where
  "xrand a = (let b = a;
                  b = b XOR push_bit 13 b;
                  b = b XOR drop_bit 17 b;
                  b = b XOR push_bit 5 b
              in b)"

text \<open>The seed constant differs between the two servers, so it is an argument.\<close>

definition xsrand :: "u32 \<Rightarrow> int \<Rightarrow> u32" where
  "xsrand seed i = word_of_int i XOR seed"

definition xcorrect :: "int \<Rightarrow> u32 \<Rightarrow> u32" where
  "xcorrect i a = word_of_int i XOR a"

text \<open>\<open>(unsigned char)c ^ (unsigned char)(rand() & 0xff)\<close>, added to an \<open>int\<close>.\<close>

definition mask_char :: "char \<Rightarrow> u32 \<Rightarrow> int" where
  "mask_char c a = uint ((of_char c :: byte) XOR ucast (a AND 0xff))"

text \<open>
  One of the four (or five) checksum loops: draw a number per character and add the masked
  character to the running sum.
\<close>

fun contr_sum :: "string \<Rightarrow> int \<times> u32 \<Rightarrow> int \<times> u32" where
  "contr_sum [] sa = sa"
| "contr_sum (c # cs) (s, a) = contr_sum cs (s + mask_char c (xrand a), xrand a)"

section \<open>xorshift is a permutation of the 32-bit states\<close>

lemma shift_left_fixed:
  assumes "push_bit k d = d" "0 < k"
  shows "d = (0 :: 'a :: len word)"
proof (rule bit_word_eqI)
  fix n
  show "bit d n \<longleftrightarrow> bit (0 :: 'a word) n"
  proof (induction n rule: less_induct)
    case (less n)
    have "bit d n = bit (push_bit k d) n" by (simp add: assms(1))
    also have "\<dots> = (k \<le> n \<and> n < LENGTH('a) \<and> bit d (n - k))"
      by (auto simp: bit_push_bit_iff dest: bit_imp_le_length)
    also have "\<dots> = False"
      using less [of "n - k"] assms(2) by (cases "k \<le> n") auto
    finally show ?case by simp
  qed
qed

lemma shift_right_fixed:
  assumes "drop_bit k d = d" "0 < k"
  shows "d = (0 :: 'a :: len word)"
proof (rule bit_word_eqI)
  fix n
  have step: "bit d m = bit d (m + k)" for m
    using arg_cong [OF assms(1), of "\<lambda>w. bit w m"] by (simp add: bit_drop_bit_eq add.commute)
  have "bit d m = bit d (m + j * k)" for m j
    by (induction j) (simp, metis step add.assoc add.commute mult_Suc)
  from this [of n "LENGTH('a)"] have "bit d n = bit d (n + LENGTH('a) * k)" .
  moreover have "\<not> bit d (n + LENGTH('a) * k)"
  proof -
    have "LENGTH('a) \<le> LENGTH('a) * k" using assms(2) by simp
    then show ?thesis by (meson bit_imp_le_length le_trans not_le trans_le_add2)
  qed
  ultimately show "bit d n \<longleftrightarrow> bit (0 :: 'a word) n" by simp
qed

lemma xor_eq_zeroD: "(a :: 'a :: len word) XOR b = 0 \<Longrightarrow> a = b"
  by (metis xor.assoc xor.left_neutral xor.right_neutral xor_self_eq)

lemma xor_cancel_left [simp]: "(a :: 'a :: len word) XOR (a XOR b) = b"
  by (simp add: xor.assoc [symmetric])

lemma inj_shift_left_step: "0 < k \<Longrightarrow> inj (\<lambda>b :: 'a :: len word. b XOR push_bit k b)"
proof (rule injI)
  fix x y :: "'a word"
  assume k: "0 < k" and eq: "x XOR push_bit k x = y XOR push_bit k y"
  have "push_bit k (x XOR y) XOR (x XOR y) = (x XOR push_bit k x) XOR (y XOR push_bit k y)"
    by (simp add: push_bit_xor xor.left_commute xor.commute xor.assoc)
  with eq have "push_bit k (x XOR y) = x XOR y" by (simp add: xor_eq_zeroD)
  from shift_left_fixed [OF this k] show "x = y" by (rule xor_eq_zeroD)
qed

lemma inj_shift_right_step: "0 < k \<Longrightarrow> inj (\<lambda>b :: 'a :: len word. b XOR drop_bit k b)"
proof (rule injI)
  fix x y :: "'a word"
  assume k: "0 < k" and eq: "x XOR drop_bit k x = y XOR drop_bit k y"
  have "drop_bit k (x XOR y) XOR (x XOR y) = (x XOR drop_bit k x) XOR (y XOR drop_bit k y)"
    by (simp add: drop_bit_xor xor.left_commute xor.commute xor.assoc)
  with eq have "drop_bit k (x XOR y) = x XOR y" by (simp add: xor_eq_zeroD)
  from shift_right_fixed [OF this k] show "x = y" by (rule xor_eq_zeroD)
qed

lemma inj_xrand: "inj xrand"
proof -
  let ?l = "\<lambda>k (b :: u32). b XOR push_bit k b"
  let ?r = "\<lambda>k (b :: u32). b XOR drop_bit k b"
  have "xrand = ?l 5 \<circ> (?r 17 \<circ> ?l 13)"
    by (rule ext) (simp add: xrand_def Let_def)
  moreover have "inj (?l 5 \<circ> (?r 17 \<circ> ?l 13))"
    by (intro inj_compose inj_shift_left_step inj_shift_right_step) simp_all
  ultimately show ?thesis by simp
qed

lemma xrand_zero [simp]: "xrand 0 = 0"
  by (simp add: xrand_def)

lemma xrand_nonzero: "a \<noteq> 0 \<Longrightarrow> xrand a \<noteq> 0"
  using inj_xrand by (metis injD xrand_zero)

lemma inj_xcorrect: "inj (xcorrect i)"
  by (rule injI) (metis xcorrect_def xor_cancel_left)

lemma inj_xsrand_arg: "xsrand k i = xsrand k j \<Longrightarrow> (word_of_int i :: u32) = word_of_int j"
  unfolding xsrand_def by (metis xor.commute xor_cancel_left)

section \<open>Checksums\<close>

lemma mask_char_bounds: "0 \<le> mask_char c a \<and> mask_char c a \<le> 255"
proof -
  have "uint ((of_char c :: byte) XOR ucast (a AND 0xff)) < 2 ^ 8"
    using uint_lt2p [of "(of_char c :: byte) XOR ucast (a AND 0xff)"] by simp
  then show ?thesis by (simp add: mask_char_def)
qed

lemma contr_sum_append: "contr_sum (xs @ ys) sa = contr_sum ys (contr_sum xs sa)"
  by (induction xs sa rule: contr_sum.induct) auto

lemma contr_sum_state: "snd (contr_sum cs (s, a)) = (xrand ^^ length cs) a"
  by (induction cs arbitrary: s a) (auto simp: funpow_swap1)

lemma contr_sum_bounds:
  "s \<le> fst (contr_sum cs (s, a)) \<and> fst (contr_sum cs (s, a)) \<le> s + 255 * int (length cs)"
proof (induction cs arbitrary: s a)
  case (Cons c cs)
  from Cons.IH [of "s + mask_char c (xrand a)" "xrand a"] mask_char_bounds [of c "xrand a"]
  show ?case by simp
qed simp

section \<open>The interface of the message layer\<close>

locale generator =
  fixes step :: "'s \<Rightarrow> 's"
    and mix :: "int \<Rightarrow> 's \<Rightarrow> 's"
  assumes inj_step: "inj step"
    and inj_mix: "inj (mix i)"
begin

lemma inj_steps: "inj (step ^^ n)"
proof (induction n)
  case (Suc n)
  show ?case using inj_compose [OF inj_step Suc.IH] by (simp add: comp_def)
qed simp

lemma exchange_keeps_apart:
  "a \<noteq> b \<Longrightarrow> mix j ((step ^^ m) (mix i ((step ^^ n) a))) \<noteq> mix j ((step ^^ m) (mix i ((step ^^ n) b)))"
  using inj_steps inj_mix by (meson injD)

end

interpretation xr: generator xrand xcorrect
  by unfold_locales (auto intro: inj_xrand inj_xcorrect)

end
