(* ===== verification/RelayStore.thy ===== *)
theory RelayStore
  imports Prelude
begin

text \<open>
  The SQLite database of the relay server: the two tables that
  \<open>SqliteHelper::init_tables\<close> (\<open>servak_na_winapi_relays/source/sqlite_helper.h\<close>)
  creates and the SQL statements of \<open>relay.cpp\<close>, as functions on lists of rows in
  rowid order. A statement on a table that does not exist yet fails to prepare; a write fails
  when the database is not writable, which is a field of the model because the outside world
  decides it. The tables are also written by the gateway, so a property assumes nothing about
  their contents but what it says.
\<close>

section \<open>Tables\<close>

record relay_row =
  row_r_id :: int
  row_sn :: int
  row_r :: "string option list"
  row_gadget_name :: "string option"

record user_relay_row =
  ur_userID :: int
  ur_r_id :: int

record relay_tables =
  relays_tab :: "relay_row list"
  user_relays_tab :: "user_relay_row list"
  next_r_id :: int

record relay_db =
  db_tables :: "relay_tables option"
  db_writable :: bool

definition init_tables :: "relay_db \<Rightarrow> relay_db" where
  "init_tables db =
     (if db_tables db = None \<and> db_writable db
      then db\<lparr>db_tables := Some \<lparr>relays_tab = [], user_relays_tab = [], next_r_id = 1\<rparr>\<rparr>
      else db)"

section \<open>Queries\<close>

definition validate_user :: "relay_db \<Rightarrow> int \<Rightarrow> int \<Rightarrow> bool" where
  "validate_user db userID sn =
     (if userID \<le> 0 \<or> sn \<le> 0 then False
      else case db_tables db of None \<Rightarrow> False
           | Some t \<Rightarrow> list_ex (\<lambda>u. ur_userID u = userID \<and>
                 list_ex (\<lambda>r. row_r_id r = ur_r_id u \<and> row_sn r = sn) (relays_tab t))
               (user_relays_tab t))"

text \<open>\<open>SELECT r_id FROM user_relays WHERE userID=\<dots>\<close>\<close>

definition select_user_r_ids :: "relay_db \<Rightarrow> int \<Rightarrow> int list" where
  "select_user_r_ids db userID = (case db_tables db of None \<Rightarrow> []
     | Some t \<Rightarrow> map ur_r_id (filter (\<lambda>u. ur_userID u = userID) (user_relays_tab t)))"

text \<open>\<open>SELECT sn, r1, \<dots>, r8 FROM relays WHERE r_id=\<dots>\<close>: the first row.\<close>

definition select_relay :: "relay_db \<Rightarrow> int \<Rightarrow> relay_row option" where
  "select_relay db r_id = (case db_tables db of None \<Rightarrow> None
     | Some t \<Rightarrow> find (\<lambda>r. row_r_id r = r_id) (relays_tab t))"

text \<open>\<open>SqliteHelper::get_int("SELECT r_id FROM relays WHERE sn=\<dots>")\<close>: -1 when there is no row.\<close>

definition get_r_id :: "relay_db \<Rightarrow> int \<Rightarrow> int" where
  "get_r_id db sn = (case db_tables db of None \<Rightarrow> -1
     | Some t \<Rightarrow> (case find (\<lambda>r. row_sn r = sn) (relays_tab t) of
         None \<Rightarrow> -1 | Some r \<Rightarrow> row_r_id r))"

text \<open>\<open>SELECT \<dots> FROM relays JOIN user_relays ON \<dots> WHERE userID = ?\<close>: user rows in order, each
  with the relay of its id (the primary key of \<open>relays\<close>).\<close>

definition select_user_relays :: "relay_db \<Rightarrow> int \<Rightarrow> relay_row list" where
  "select_user_relays db userID =
     List.map_filter (select_relay db) (select_user_r_ids db userID)"

section \<open>Statements that write\<close>

text \<open>\<open>INSERT INTO relays (sn, r1, \<dots>) VALUES (sn, '', \<dots>)\<close>; the row takes the next id.\<close>

definition insert_relay :: "int \<Rightarrow> relay_db \<Rightarrow> relay_db" where
  "insert_relay sn db = (case db_tables db of None \<Rightarrow> db
     | Some t \<Rightarrow> if db_writable db
         then db\<lparr>db_tables := Some (t\<lparr>relays_tab := relays_tab t @
                  [\<lparr>row_r_id = next_r_id t, row_sn = sn, row_r = replicate 8 (Some []),
                    row_gadget_name = Some []\<rparr>],
                next_r_id := next_r_id t + 1\<rparr>)\<rparr>
         else db)"

definition update_relays :: "int \<Rightarrow> (relay_row \<Rightarrow> relay_row) \<Rightarrow> relay_db \<Rightarrow> relay_db" where
  "update_relays sn f db = (case db_tables db of None \<Rightarrow> db
     | Some t \<Rightarrow> db\<lparr>db_tables := Some (t\<lparr>relays_tab :=
         map (\<lambda>r. if row_sn r = sn then f r else r) (relays_tab t)\<rparr>)\<rparr>)"

text \<open>\<open>obrobnyk_relay\<close> adds a device that the table does not have yet.\<close>

definition register_relay :: "int \<Rightarrow> relay_db \<Rightarrow> relay_db" where
  "register_relay sn db = (if get_r_id db sn = -1 then insert_relay sn db else db)"

section \<open>set\_relay\_name and set\_relay\_names\<close>

definition set_relay_name :: "relay_db \<Rightarrow> int \<Rightarrow> string option \<Rightarrow> int \<Rightarrow> string \<times> relay_db" where
  "set_relay_name db sn name userID =
     (if \<not> validate_user db userID sn then (''false'', db)
      else if db_tables db = None then (''Error: Database error'', db)
      else if db_writable db
      then (''OK'', update_relays sn (\<lambda>r. r\<lparr>row_gadget_name := name\<rparr>) db)
      else (''Error: Failed to update device name'', db))"

definition set_relay_names ::
  "relay_db \<Rightarrow> int \<Rightarrow> string option list \<Rightarrow> int \<Rightarrow> string \<times> relay_db" where
  "set_relay_names db sn names userID =
     (if \<not> validate_user db userID sn then (''false'', db)
      else if db_tables db = None then (''Error: Database error'', db)
      else if db_writable db
      then (''OK'', update_relays sn (\<lambda>r. r\<lparr>row_r := names\<rparr>) db)
      else (''Error: Failed to update relay names'', db))"

section \<open>The invariant of the tables\<close>

text \<open>
  Row ids are distinct and below the sequence, serial numbers are distinct, no user row names a
  relay id that was never given out, and every relay has eight output columns.
\<close>

definition tables_wf :: "relay_tables \<Rightarrow> bool" where
  "tables_wf t \<longleftrightarrow> distinct (map row_r_id (relays_tab t)) \<and> distinct (map row_sn (relays_tab t)) \<and>
     0 < next_r_id t \<and>
     (\<forall>r \<in> set (relays_tab t). 0 < row_r_id r \<and> row_r_id r < next_r_id t \<and> length (row_r r) = 8) \<and>
     (\<forall>u \<in> set (user_relays_tab t). ur_r_id u < next_r_id t)"

definition db_wf :: "relay_db \<Rightarrow> bool" where
  "db_wf db \<longleftrightarrow> (case db_tables db of None \<Rightarrow> True | Some t \<Rightarrow> tables_wf t)"

definition known :: "relay_db \<Rightarrow> int \<Rightarrow> bool" where
  "known db sn \<longleftrightarrow> (case db_tables db of None \<Rightarrow> False
     | Some t \<Rightarrow> sn \<in> row_sn ` set (relays_tab t))"

lemma get_r_id_known:
  "db_wf db \<Longrightarrow> (get_r_id db sn = -1) = (\<not> known db sn)"
  unfolding get_r_id_def known_def db_wf_def tables_wf_def
  by (auto simp: find_None_iff image_iff dest!: find_SomeD split: option.splits)

lemma init_tables_wf [wf_intros]: "db_wf db \<Longrightarrow> db_wf (init_tables db)"
  by (auto simp: init_tables_def db_wf_def tables_wf_def)

lemma init_tables_known [simp]: "known (init_tables db) sn = known db sn"
  by (auto simp: init_tables_def known_def split: option.splits)

lemma insert_relay_wf:
  "db_wf db \<Longrightarrow> \<not> known db sn \<Longrightarrow> db_wf (insert_relay sn db)"
  by (fastforce simp: insert_relay_def db_wf_def tables_wf_def known_def split: option.splits)

lemma register_relay_wf [wf_intros]: "db_wf db \<Longrightarrow> db_wf (register_relay sn db)"
  by (simp add: register_relay_def get_r_id_known insert_relay_wf)

lemma update_relays_wf:
  assumes "db_wf db"
    and "\<And>r. row_r_id (f r) = row_r_id r" "\<And>r. row_sn (f r) = row_sn r"
    and "\<And>r. length (row_r r) = 8 \<Longrightarrow> length (row_r (f r)) = 8"
  shows "db_wf (update_relays sn f db)"
proof -
  have "map row_r_id (map (\<lambda>r. if row_sn r = sn then f r else r) rs) = map row_r_id rs"
    "map row_sn (map (\<lambda>r. if row_sn r = sn then f r else r) rs) = map row_sn rs" for rs
    using assms(2,3) by (simp_all add: comp_def)
  with assms show ?thesis
    unfolding update_relays_def db_wf_def tables_wf_def
    by (auto split: option.splits simp del: map_map)
qed

lemma set_relay_name_wf [wf_intros]: "db_wf db \<Longrightarrow> db_wf (snd (set_relay_name db sn name u))"
  by (auto simp: set_relay_name_def intro!: update_relays_wf)

lemma set_relay_names_wf [wf_intros]:
  "db_wf db \<Longrightarrow> length names = 8 \<Longrightarrow> db_wf (snd (set_relay_names db sn names u))"
  by (auto simp: set_relay_names_def intro!: update_relays_wf)

section \<open>Who may access a relay\<close>

lemma validate_user_pos: "validate_user db u sn \<Longrightarrow> 0 < u \<and> 0 < sn"
  by (auto simp: validate_user_def split: if_splits)

lemma validate_user_known: "validate_user db u sn \<Longrightarrow> known db sn"
  by (auto simp: validate_user_def known_def list_ex_iff split: if_splits option.splits)

lemma init_tables_validate [simp]: "validate_user (init_tables db) u sn = validate_user db u sn"
  by (auto simp: init_tables_def validate_user_def split: option.splits)

lemma insert_relay_validate:
  assumes "db_wf db"
  shows "validate_user (insert_relay sn db) u s = validate_user db u s"
proof (cases "db_tables db")
  case (Some t)
  with assms have old: "w \<in> set (user_relays_tab t) \<Longrightarrow> ur_r_id w \<noteq> next_r_id t" for w
    by (auto simp: db_wf_def tables_wf_def)
  show ?thesis
    using Some old
    by (auto simp: insert_relay_def validate_user_def list_ex_iff intro!: bex_cong) blast
qed (simp add: insert_relay_def)

lemma register_relay_validate:
  "db_wf db \<Longrightarrow> validate_user (register_relay sn db) u s = validate_user db u s"
  by (simp add: register_relay_def insert_relay_validate)

lemma register_relay_known:
  "db_wf db \<Longrightarrow> db_tables db \<noteq> None \<Longrightarrow> db_writable db \<Longrightarrow>
     known (register_relay sn db) s = (s = sn \<or> known db s)"
  by (auto simp: register_relay_def get_r_id_known) (auto simp: insert_relay_def known_def)

lemma update_relays_validate:
  assumes "\<And>r. row_r_id (f r) = row_r_id r" "\<And>r. row_sn (f r) = row_sn r"
  shows "validate_user (update_relays sn f db) u s = validate_user db u s"
proof -
  let ?g = "\<lambda>r. if row_sn r = sn then f r else r"
  have "list_ex (\<lambda>r. row_r_id r = i \<and> row_sn r = s) (map ?g rs) =
        list_ex (\<lambda>r. row_r_id r = i \<and> row_sn r = s) rs" for i rs
    using assms by (induction rs) auto
  then show ?thesis
    by (simp add: update_relays_def validate_user_def split: option.splits)
qed

text \<open>
  The contract the relay logic relies on: what may be asked of the tables, that registering a
  device keeps them well formed, and that it grants nobody access.
\<close>

locale relay_store =
  fixes valid :: "'db \<Rightarrow> int \<Rightarrow> int \<Rightarrow> bool"
    and known_sn :: "'db \<Rightarrow> int \<Rightarrow> bool"
    and register :: "int \<Rightarrow> 'db \<Rightarrow> 'db"
    and inv :: "'db \<Rightarrow> bool"
  assumes valid_known: "valid db u s \<Longrightarrow> known_sn db s"
    and valid_pos: "valid db u s \<Longrightarrow> 0 < u \<and> 0 < s"
    and register_inv: "inv db \<Longrightarrow> inv (register sn db)"
    and register_valid: "inv db \<Longrightarrow> valid (register sn db) u s = valid db u s"
begin

lemma register_all_inv: "inv db \<Longrightarrow> inv (fold register sns db)"
  by (induction sns arbitrary: db) (auto intro: register_inv)

lemma register_all_valid: "inv db \<Longrightarrow> valid (fold register sns db) u s = valid db u s"
  by (induction sns arbitrary: db) (auto simp: register_valid register_inv)

lemma no_access_by_registration:
  "inv db \<Longrightarrow> \<not> known_sn db s \<Longrightarrow> \<not> valid (fold register sns db) u s"
  using valid_known register_all_valid by blast

end

interpretation rst: relay_store validate_user known register_relay db_wf
  by unfold_locales
    (auto intro: validate_user_known register_relay_wf simp: register_relay_validate
      dest: validate_user_pos)

end
