(* ===== verification/Relay.thy ===== *)
theory Relay
  imports XorRand RelayStore
begin

text \<open>
  The relay control logic of \<open>servak_na_winapi_relays/source/relay.cpp\<close>: the list of
  relay devices seen so far, the poll a device sends (\<open>obrobnyk_relay\<close>), the status and
  button requests of a user, and the transfer of a device's log file. A \<open>Rele*\<close> is the
  first element of the list with its serial number. The current time and the outcome of
  \<open>DEF_RAND\<close> (a header that is not in the repository) are inputs of the model.
\<close>

section \<open>State\<close>

record rele =
  rr_status :: string
  rr_command :: string
  rr_acp_status :: int
  rr_sn :: int
  rr_time_onl :: int
  rr_put :: bool
  rr_online :: int
  rr_get_log_file_flag :: bool
  rr_userID_set_GFF :: int
  rr_time_set_GFF :: int
  rr_log_file :: string
  rr_pin :: "16 word"
  rr_my_rand :: u32

record knopka_info =
  ki_sn :: int
  ki_r_idx :: nat
  ki_text :: string

record relay_srv =
  sv_def_rand :: u32
  rele_list :: "rele list"
  g_db :: relay_db
  tables_done :: bool
  hide_log :: bool

definition xs8 :: string where
  "xs8 = ''XXXXXXXX''"

definition ZAPYTIV_BEZ_ZATRYMKY :: int where
  "ZAPYTIV_BEZ_ZATRYMKY = 50"

definition new_rele :: "u32 \<Rightarrow> rele" where
  "new_rele dr = \<lparr>rr_status = [], rr_command = [], rr_acp_status = 0, rr_sn = 0,
     rr_time_onl = 0, rr_put = False, rr_online = 0, rr_get_log_file_flag = False,
     rr_userID_set_GFF = 0, rr_time_set_GFF = 0, rr_log_file = [], rr_pin = 0,
     rr_my_rand = dr\<rparr>"

definition find_rele :: "int \<Rightarrow> rele list \<Rightarrow> rele option" where
  "find_rele sn rs = find (\<lambda>r. rr_sn r = sn) rs"

definition upd_rele :: "int \<Rightarrow> (rele \<Rightarrow> rele) \<Rightarrow> rele list \<Rightarrow> rele list" where
  "upd_rele sn f rs = upd_first (\<lambda>r. rr_sn r = sn) f rs"

definition init_db_tables :: "relay_srv \<Rightarrow> relay_srv" where
  "init_db_tables s = (if tables_done s then s
     else s\<lparr>g_db := init_tables (g_db s), tables_done := True\<rparr>)"

section \<open>The user's buttons\<close>

fun row_buttons :: "int \<Rightarrow> nat \<Rightarrow> string option list \<Rightarrow> knopka_info list" where
  "row_buttons sn i [] = []"
| "row_buttons sn i (txt # txts) =
     (case txt of
        Some t \<Rightarrow> if c_str t \<noteq> [] then [\<lparr>ki_sn = sn, ki_r_idx = i, ki_text = t\<rparr>] else []
      | None \<Rightarrow> []) @ row_buttons sn (i + 1) txts"

definition seen_rele :: "u32 \<Rightarrow> int \<Rightarrow> int \<Rightarrow> rele" where
  "seen_rele dr now sn = (new_rele dr)\<lparr>rr_sn := sn, rr_acp_status := -4095, rr_time_onl := now,
     rr_put := False, rr_online := 0, rr_get_log_file_flag := False, rr_status := xs8,
     rr_command := xs8, rr_log_file := [], rr_userID_set_GFF := 0, rr_time_set_GFF := 0\<rparr>"

definition add_seen :: "u32 \<Rightarrow> int \<Rightarrow> int \<Rightarrow> rele list \<Rightarrow> rele list" where
  "add_seen dr now sn rs = (if find_rele sn rs = None then rs @ [seen_rele dr now sn] else rs)"

fun knopky_loop ::
  "relay_db \<Rightarrow> u32 \<Rightarrow> int \<Rightarrow> int list \<Rightarrow> rele list \<Rightarrow> knopka_info list \<times> rele list" where
  "knopky_loop db dr now [] rs = ([], rs)"
| "knopky_loop db dr now (r_id # ids) rs =
     (case select_relay db r_id of
        None \<Rightarrow> knopky_loop db dr now ids rs
      | Some row \<Rightarrow>
          (let ks = row_buttons (row_sn row) 1 (row_r row);
               (ks', rs') = knopky_loop db dr now ids (add_seen dr now (row_sn row) rs)
           in (ks @ ks', rs')))"

definition get_knopky_list :: "relay_srv \<Rightarrow> int \<Rightarrow> int \<Rightarrow> knopka_info list \<times> relay_srv" where
  "get_knopky_list s now userID =
     (let (ks, rs) = knopky_loop (g_db s) (sv_def_rand s) now
                       (select_user_r_ids (g_db s) userID) (rele_list s)
      in (ks, s\<lparr>rele_list := rs\<rparr>))"

definition knopka_html :: "knopka_info \<Rightarrow> string" where
  \<open>knopka_html k = ''<button class="button" b_id="'' @ nat_str (ki_r_idx k) @ ''" sn="'' @
     int_str (ki_sn k) @ ''">'' @ ki_text k @ ''</button>'' @ lf\<close>

definition get_knopky :: "relay_srv \<Rightarrow> int \<Rightarrow> int \<Rightarrow> string \<times> relay_srv" where
  "get_knopky s now userID =
     (let (ks, s') = get_knopky_list s now userID in (concat (map knopka_html ks), s'))"

definition opt_text :: "string option \<Rightarrow> string" where
  "opt_text t = (case t of None \<Rightarrow> [] | Some x \<Rightarrow> x)"

fun names_json :: "string option list \<Rightarrow> string" where
  "names_json [] = []"
| \<open>names_json [n] = ''{"name":"'' @ opt_text n @ ''"}''\<close>
| \<open>names_json (n # ns) = ''{"name":"'' @ opt_text n @ ''"},'' @ names_json ns\<close>

definition get_relays :: "relay_srv \<Rightarrow> int \<Rightarrow> int \<Rightarrow> string" where
  \<open>get_relays s userID sn =
     (if \<not> validate_user (g_db s) userID sn then []
      else case find (\<lambda>r. row_sn r = sn) (select_user_relays (g_db s) userID) of
          None \<Rightarrow> []
        | Some r \<Rightarrow> ''{"sn":"'' @ int_str (row_sn r) @ ''","gadget_name":"'' @
            opt_text (row_gadget_name r) @ ''","relays":['' @ names_json (row_r r) @ '']}'')\<close>

definition gadget_html :: "relay_row \<Rightarrow> string" where
  \<open>gadget_html r = ''<div class="knopka"><a href="edit_relay_names.html?sn='' @
     int_str (row_sn r) @ ''" class="knopka">'' @
     (if c_str (opt_text (row_gadget_name r)) \<noteq> [] then opt_text (row_gadget_name r)
      else int_str (row_sn r)) @ ''</a></div>''\<close>

definition get_gadgets :: "relay_srv \<Rightarrow> int \<Rightarrow> string" where
  \<open>get_gadgets s userID = ''<div class="container">'' @
     concat (map gadget_html (select_user_relays (g_db s) userID)) @ ''</div>''\<close>

section \<open>Status and button requests\<close>

fun status_loop :: "knopka_info list \<Rightarrow> rele list \<Rightarrow> (string \<times> rele list) res" where
  "status_loop [] rs = Ok ([], rs)"
| "status_loop (k # ks) rs =
     (case find_rele (ki_sn k) rs of
        None \<Rightarrow> Inl NullDeref
      | Some r \<Rightarrow>
          (let st = (if 1 \<le> ki_r_idx k \<and> ki_r_idx k \<le> 8
                     then (if rr_acp_status r \<noteq> -4095 then rr_status r ! (ki_r_idx k - 1)
                           else CHR ''X'')
                     else CHR ''X'')
           in case status_loop ks
                 (upd_rele (ki_sn k) (\<lambda>r. r\<lparr>rr_online := ZAPYTIV_BEZ_ZATRYMKY\<rparr>) rs) of
                Inl e \<Rightarrow> Inl e
              | Inr (out, rs') \<Rightarrow> Ok (st # out, rs')))"

definition rr_get_status :: "relay_srv \<Rightarrow> int \<Rightarrow> int \<Rightarrow> (string \<times> relay_srv) res" where
  \<open>rr_get_status s now userID =
     (let (ks, s') = get_knopky_list s now userID
      in case status_loop ks (rele_list s') of
           Inl e \<Rightarrow> Inl e
         | Inr (out, rs) \<Rightarrow> Ok (''{"buttons":"'' @ out @ ''"}'', s'\<lparr>rele_list := rs\<rparr>))\<close>

definition press_button :: "nat \<Rightarrow> rele \<Rightarrow> rele" where
  "press_button b r =
     (let c = (if rr_status r ! b = CHR ''0'' then CHR ''1''
               else if rr_status r ! b = CHR ''1'' then CHR ''0'' else CHR ''X'')
      in r\<lparr>rr_status := (rr_status r)[b := CHR ''X''], rr_command := (rr_command r)[b := c],
           rr_put := True\<rparr>)"

definition rr_put_status :: "relay_srv \<Rightarrow> int \<Rightarrow> int \<Rightarrow> int \<Rightarrow> relay_srv" where
  "rr_put_status s sn button userID =
     (if \<not> validate_user (g_db s) userID sn then s
      else let b = button - 1 in
        case find_rele sn (rele_list s) of
          None \<Rightarrow> s
        | Some r \<Rightarrow>
            if 0 \<le> b \<and> b < 8 \<and> rr_acp_status r \<noteq> -4095
            then s\<lparr>rele_list := upd_rele sn (press_button (nat b)) (rele_list s)\<rparr>
            else s)"

section \<open>The log file of a device\<close>

definition clear_flags_and_log_file :: "rele \<Rightarrow> rele" where
  "clear_flags_and_log_file r =
     r\<lparr>rr_get_log_file_flag := False, rr_userID_set_GFF := 0, rr_log_file := []\<rparr>"

definition save_log_file :: "relay_srv \<Rightarrow> string \<Rightarrow> relay_srv" where
  "save_log_file s body =
     (if length body > 40
      then let sn = atoi (c_str (take 19 (drop 21 body)))
           in case find_rele sn (rele_list s) of
                None \<Rightarrow> s
              | Some r \<Rightarrow>
                  if rr_userID_set_GFF r \<noteq> 0
                  then s\<lparr>rele_list := upd_rele sn
                         (\<lambda>r. r\<lparr>rr_log_file := rr_log_file r @ body\<rparr>) (rele_list s)\<rparr>
                  else s
      else s)"

definition log_html_header :: string where
  \<open>log_html_header = concat (map (\<lambda>l. l @ lf)
     [''<!DOCTYPE html>'', ''<html lang="en">'', ''<head>'',
      ''    <meta charset="UTF-8">'',
      ''    <meta name="viewport" content="width=device-width, initial-scale=1.0">'',
      ''    <title>Log File</title>'', ''    <style>'', ''        body {'',
      ''            background-color: #E6F0F3;'', ''            font-family: monospace;'',
      ''            margin: 20px;'', ''            max-width: 1000px;'',
      ''            margin: 0 auto;'', ''        }'', ''        pre {'',
      ''            background-color: #E6F0F3;'', ''            padding: 20px;'',
      ''            border-radius: 5px;'', ''            white-space: pre-wrap;'',
      ''            word-wrap: break-word;'', ''        }'', ''    </style>'', ''</head>'',
      ''<body>'']) @ ''    <pre>''\<close>

definition log_html_footer :: string where
  "log_html_footer = ''</pre>'' @ lf @ ''</body>'' @ lf @ ''</html>''"

definition send_for_user_log_file :: "relay_srv \<Rightarrow> int \<Rightarrow> int \<Rightarrow> string \<times> relay_srv" where
  "send_for_user_log_file s sn userID =
     (if \<not> validate_user (g_db s) userID sn then ([], s)
      else case find_rele sn (rele_list s) of
          None \<Rightarrow> ([], s)
        | Some r \<Rightarrow>
            if length (rr_log_file r) > 0
            then if userID \<noteq> rr_userID_set_GFF r then ([], s)
                 else (log_html_header @ rr_log_file r @ log_html_footer,
                       s\<lparr>rele_list := upd_rele sn
                          (\<lambda>r. r\<lparr>rr_log_file := [], rr_userID_set_GFF := 0, rr_time_set_GFF := 0\<rparr>)
                          (rele_list s)\<rparr>)
            else ([], s))"

definition set_get_log_file_flag :: "relay_srv \<Rightarrow> int \<Rightarrow> int \<Rightarrow> int \<Rightarrow> bool \<Rightarrow> relay_srv" where
  "set_get_log_file_flag s now sn userID flag =
     (if \<not> validate_user (g_db s) userID sn then s
      else case find_rele sn (rele_list s) of
          None \<Rightarrow> s
        | Some r \<Rightarrow>
            if flag
            then if rr_userID_set_GFF r = 0
                 then s\<lparr>rele_list := upd_rele sn
                        (\<lambda>r. r\<lparr>rr_get_log_file_flag := flag, rr_userID_set_GFF := userID,
                               rr_time_set_GFF := now\<rparr>) (rele_list s)\<rparr>
                 else s
            else if rr_userID_set_GFF r = userID
                 then s\<lparr>rele_list := upd_rele sn
                        (\<lambda>r. r\<lparr>rr_get_log_file_flag := flag, rr_userID_set_GFF := 0,
                               rr_time_set_GFF := 0\<rparr>) (rele_list s)\<rparr>
                 else s)"

definition get_get_log_file_flag :: "relay_srv \<Rightarrow> int \<Rightarrow> bool \<times> relay_srv" where
  "get_get_log_file_flag s sn =
     (case find_rele sn (rele_list s) of
        None \<Rightarrow> (False, s)
      | Some r \<Rightarrow> (rr_get_log_file_flag r,
          s\<lparr>rele_list := upd_rele sn (\<lambda>r. r\<lparr>rr_get_log_file_flag := False\<rparr>) (rele_list s)\<rparr>))"

section \<open>The poll of a device: obrobnyk\_relay\<close>

definition bad_reply :: string where
  \<open>bad_reply = ''{"relays":"XXXXXXXX","online":"0","cs":"0"}''\<close>

text \<open>The loop over all relays: one not heard of for more than 15 seconds is marked offline.\<close>

definition age_relays :: "int \<Rightarrow> rele list \<Rightarrow> rele list" where
  "age_relays t_time rs =
     map (\<lambda>r. if t_time - rr_time_onl r \<le> 15 then r else r\<lparr>rr_acp_status := -4095\<rparr>) rs"

definition created_rele :: "u32 \<Rightarrow> int \<Rightarrow> int \<Rightarrow> string \<Rightarrow> 16 word \<Rightarrow> rele" where
  "created_rele dr t_time sn relays pin =
     (new_rele dr)\<lparr>rr_sn := sn, rr_acp_status := 0, rr_status := relays, rr_command := xs8,
        rr_online := 0, rr_get_log_file_flag := False, rr_time_set_GFF := 0,
        rr_time_onl := t_time, rr_my_rand := xsrand dr sn, rr_put := False, rr_pin := pin\<rparr>"

text \<open>
  The branch for a device that is already in the list. As in the source, the resend of the last
  status hangs on the test of the PIN, not on the test of \<open>init\<close>.
\<close>

definition refresh_rele ::
  "u32 \<Rightarrow> int \<Rightarrow> int \<Rightarrow> string \<Rightarrow> bool \<Rightarrow> 16 word option \<Rightarrow> rele \<Rightarrow> rele" where
  "refresh_rele dr t_time sn relays init pin r =
     (let r = (if \<not> rr_put r \<and> relays \<noteq> xs8 then r\<lparr>rr_status := relays\<rparr> else r);
          r = r\<lparr>rr_acp_status := 0\<rparr>;
          r = (if \<not> init then r\<lparr>rr_time_onl := t_time\<rparr> else r);
          r = (if init then r\<lparr>rr_my_rand := xsrand dr sn\<rparr> else r);
          r = (case pin of
                 Some p \<Rightarrow> r\<lparr>rr_pin := p\<rparr>
               | None \<Rightarrow> if relays = xs8 then r\<lparr>rr_command := rr_status r, rr_put := True\<rparr> else r)
      in if rr_time_set_GFF r > 0 \<and> t_time - rr_time_set_GFF r > 120
         then clear_flags_and_log_file (r\<lparr>rr_time_set_GFF := 0\<rparr>) else r)"

text \<open>The checksum of the received texts, drawn from the device's generator.\<close>

definition sum_received ::
  "string \<Rightarrow> string \<Rightarrow> string \<Rightarrow> string \<Rightarrow> string option \<Rightarrow> u32 \<Rightarrow> int \<times> u32" where
  "sum_received sn_txt relays acp_txt init_txt pin_txt a =
     (let sa = contr_sum sn_txt (0, a);
          sa = contr_sum relays sa;
          sa = contr_sum acp_txt sa;
          sa = contr_sum init_txt sa
      in case pin_txt of None \<Rightarrow> sa | Some p \<Rightarrow> contr_sum p sa)"

definition reply_json :: "string \<Rightarrow> int \<Rightarrow> int \<Rightarrow> string" where
  \<open>reply_json out onl sum2 = ''{"relays":"'' @ out @ ''","online":"'' @ int_str onl @
     ''","cs":"'' @ int_str sum2 @ ''"}''\<close>

text \<open>The command sent back, and the checksum over it and the fast-poll count.\<close>

definition command_out :: "bool \<Rightarrow> rele \<Rightarrow> string" where
  "command_out init r = (if init \<or> \<not> rr_put r then xs8 else rr_command r)"

definition buff_cs :: "bool \<Rightarrow> rele \<Rightarrow> string" where
  "buff_cs init r = command_out init r @ int_str (rr_online r)"

definition sum_sent :: "bool \<Rightarrow> rele \<Rightarrow> int \<times> u32" where
  "sum_sent init r = contr_sum (buff_cs init r) (0, rr_my_rand r)"

definition accept_poll :: "bool \<Rightarrow> int \<Rightarrow> rele \<Rightarrow> string \<times> rele" where
  "accept_poll init sum1 r =
     (let r = r\<lparr>rr_my_rand := xcorrect sum1 (rr_my_rand r)\<rparr>;
          reply = reply_json (command_out init r) (rr_online r) (fst (sum_sent init r));
          r1 = (if init \<or> \<not> rr_put r then r\<lparr>rr_command := xs8\<rparr> else r);
          r2 = r1\<lparr>rr_my_rand := xcorrect (fst (sum_sent init r)) (snd (sum_sent init r))\<rparr>;
          r3 = (if \<not> init then r2\<lparr>rr_put := False, rr_command := xs8\<rparr> else r2)
      in (reply, r3\<lparr>rr_online := 0\<rparr>))"

definition answer_poll ::
  "bool \<Rightarrow> int \<Rightarrow> string \<Rightarrow> string \<Rightarrow> string \<Rightarrow> string \<Rightarrow> string option \<Rightarrow> rele \<Rightarrow> string \<times> rele" where
  "answer_poll init cs sn_txt relays acp_txt init_txt pin_txt r =
     (let (sum1, a) = sum_received sn_txt relays acp_txt init_txt pin_txt (rr_my_rand r);
          r = r\<lparr>rr_my_rand := a\<rparr>
      in if cs \<noteq> sum1 then (bad_reply, r) else accept_poll init sum1 r)"

definition lengths_ok :: "string \<Rightarrow> string \<Rightarrow> string \<Rightarrow> string \<Rightarrow> string \<Rightarrow> bool" where
  "lengths_ok sn_txt acp_txt relays init_txt cs_txt \<longleftrightarrow>
     length sn_txt = 10 \<and> length relays = 8 \<and> length acp_txt = 10 \<and> length init_txt = 4 \<and>
     2 \<le> length cs_txt"

text \<open>The device's entry before the checksum is looked at: created or refreshed.\<close>

definition touch_rele ::
  "relay_srv \<Rightarrow> int \<Rightarrow> int \<Rightarrow> string \<Rightarrow> bool \<Rightarrow> string option \<Rightarrow> rele \<times> relay_srv" where
  "touch_rele s t_time sn relays init pin_txt =
     (let pin = map_option (\<lambda>p. word_of_int (atoi p) :: 16 word) pin_txt;
          rs = age_relays t_time (rele_list s)
      in case find_rele sn rs of
           None \<Rightarrow>
             (let s = init_db_tables s;
                  r = created_rele (sv_def_rand s) t_time sn relays
                        (case pin of None \<Rightarrow> 0 | Some p \<Rightarrow> p)
              in (r, s\<lparr>g_db := register_relay sn (g_db s), rele_list := rs @ [r]\<rparr>))
         | Some r \<Rightarrow>
             (let f = refresh_rele (sv_def_rand s) t_time sn relays init pin
              in (f r, s\<lparr>rele_list := upd_rele sn f rs\<rparr>)))"

definition obrobnyk_relay ::
  "relay_srv \<Rightarrow> int \<Rightarrow> string option \<Rightarrow> string option \<Rightarrow> string option \<Rightarrow> string option \<Rightarrow>
     string option \<Rightarrow> string option \<Rightarrow> string \<times> relay_srv" where
  "obrobnyk_relay s t_time sn_txt acp_txt relays init_txt cs_txt pin_txt =
     (case (sn_txt, acp_txt, relays, init_txt, cs_txt) of
        (Some snt, Some acp, Some rel, Some ini, Some cst) \<Rightarrow>
          if \<not> lengths_ok snt acp rel ini cst then (bad_reply, s)
          else
            (let cs = atoi cst;
                 sn = atoi snt;
                 init = (ini = ''true'');
                 (r, s) = touch_rele s t_time sn rel init pin_txt;
                 (reply, r') = answer_poll init cs snt rel acp ini pin_txt r
             in (reply, s\<lparr>rele_list := upd_rele sn (\<lambda>_. r') (rele_list s)\<rparr>))
      | _ \<Rightarrow> (bad_reply, s))"

section \<open>The log line of a poll\<close>

text \<open>
  What \<open>obrobnyk_relay\<close> writes with \<open>sprintf\<close> into \<open>char bbb[200]\<close>, on
  the rejecting and on the accepting path.
\<close>

definition poll_log_head :: "string \<Rightarrow> string \<Rightarrow> string \<Rightarrow> string \<Rightarrow> string \<Rightarrow> int \<Rightarrow> string" where
  "poll_log_head snt acp rel command ini cs =
     ''sn = '' @ snt @ '' Firmware v.'' @ take 4 acp @ '' resv = '' @ rel @ '' send = '' @
     command @ '' init = '' @ ini @ '' cs = '' @ int_str cs"

definition poll_log_line ::
  "relay_srv \<Rightarrow> int \<Rightarrow> string \<Rightarrow> string \<Rightarrow> string \<Rightarrow> string \<Rightarrow> string \<Rightarrow> string option \<Rightarrow> string" where
  "poll_log_line s t_time snt acp rel ini cst pin =
     (let init = (ini = ''true'');
          cs = atoi cst;
          (r, s') = touch_rele s t_time (atoi snt) rel init pin;
          (sum1, a) = sum_received snt rel acp ini pin (rr_my_rand r);
          head = poll_log_head snt acp rel (rr_command r) ini cs
      in if cs \<noteq> sum1 then head @ '' cs = '' @ int_str cs @ '' contr = '' @ int_str sum1
         else (let r = r\<lparr>rr_my_rand := xcorrect sum1 a\<rparr>
               in head @ '' '' @ buff_cs init r @ '' cs2 = '' @ int_str (fst (sum_sent init r)) @
                  (if find_rele (atoi snt) (rele_list s) = None then '' create new struct'' else [])))"

end
