(* ===== verification/RelayFacts.thy ===== *)
theory RelayFacts
  imports Relay
begin

text \<open>
  What the relay logic guarantees. The step relation \<open>relay_step\<close> has one rule per
  operation of \<open>relay.cpp\<close> (and one for the gateway, which writes the same database); every
  reachable state is well formed. Then come the facts about single operations the properties
  are built from: lookup and update of the device list, the status loop, the poll.
\<close>

section \<open>The device list\<close>

definition rele_wf :: "rele \<Rightarrow> bool" where
  "rele_wf r \<longleftrightarrow> length (rr_status r) = 8 \<and> length (rr_command r) = 8 \<and>
     (rr_online r = 0 \<or> rr_online r = ZAPYTIV_BEZ_ZATRYMKY)"

definition list_wf :: "rele list \<Rightarrow> bool" where
  "list_wf rs \<longleftrightarrow> distinct (map rr_sn rs) \<and> list_all rele_wf rs"

definition srv_wf :: "relay_srv \<Rightarrow> bool" where
  "srv_wf s \<longleftrightarrow> list_wf (rele_list s) \<and> db_wf (g_db s)"

lemma length_xs8 [simp]: "length xs8 = 8"
  by (simp add: xs8_def)

lemma find_rele_sn: "find_rele sn rs = Some r \<Longrightarrow> rr_sn r = sn"
  by (auto simp: find_rele_def dest: find_SomeD)

lemma find_rele_mem: "find_rele sn rs = Some r \<Longrightarrow> r \<in> set rs"
  by (auto simp: find_rele_def dest: find_SomeD)

lemma find_rele_None: "find_rele sn rs = None \<longleftrightarrow> sn \<notin> rr_sn ` set rs"
  by (auto simp: find_rele_def find_None_iff)

lemma find_rele_wf: "list_wf rs \<Longrightarrow> find_rele sn rs = Some r \<Longrightarrow> rele_wf r"
  by (auto simp: list_wf_def list_all_iff dest: find_rele_mem)

lemma find_upd_rele:
  "(\<And>r. rr_sn r = sn \<Longrightarrow> rr_sn (f r) = sn) \<Longrightarrow>
     find_rele sn (upd_rele sn f rs) = map_option f (find_rele sn rs)"
  by (simp add: find_rele_def upd_rele_def find_upd_first)

lemma find_upd_rele_other:
  "sn' \<noteq> sn \<Longrightarrow> (\<And>r. rr_sn r = sn \<Longrightarrow> rr_sn (f r) = sn) \<Longrightarrow>
     find_rele sn' (upd_rele sn f rs) = find_rele sn' rs"
  unfolding find_rele_def upd_rele_def by (rule find_upd_first_other) auto

lemma upd_rele_wf:
  assumes "list_wf rs" "\<And>r. rr_sn r = sn \<Longrightarrow> rr_sn (f r) = sn"
    and "\<And>r. rr_sn r = sn \<Longrightarrow> rele_wf r \<Longrightarrow> rele_wf (f r)"
  shows "list_wf (upd_rele sn f rs)"
proof -
  have "map rr_sn (upd_rele sn f rs) = map rr_sn rs"
    unfolding upd_rele_def using assms(2) by (intro map_upd_first_cond) auto
  moreover have "list_all rele_wf (upd_rele sn f rs)"
    unfolding upd_rele_def using assms by (intro list_all_upd_first) (auto simp: list_wf_def)
  ultimately show ?thesis using assms(1) by (simp add: list_wf_def)
qed

lemma upd_rele_const_wf:
  "list_wf rs \<Longrightarrow> rr_sn r = sn \<Longrightarrow> rele_wf r \<Longrightarrow> list_wf (upd_rele sn (\<lambda>_. r) rs)"
  by (rule upd_rele_wf) auto

lemma snoc_wf: "list_wf rs \<Longrightarrow> find_rele (rr_sn r) rs = None \<Longrightarrow> rele_wf r \<Longrightarrow> list_wf (rs @ [r])"
  by (auto simp: list_wf_def find_rele_None)

lemma find_rele_snoc:
  "find_rele sn (rs @ [r]) = (case find_rele sn rs of None \<Rightarrow> if rr_sn r = sn then Some r else None
                              | Some q \<Rightarrow> Some q)"
  by (simp add: find_rele_def find_append split: option.split)

lemma find_age_relays:
  "find_rele sn (age_relays t rs) =
     map_option (\<lambda>r. if t - rr_time_onl r \<le> 15 then r else r\<lparr>rr_acp_status := -4095\<rparr>) (find_rele sn rs)"
  by (induction rs) (auto simp: age_relays_def find_rele_def)

text \<open>The offline mark touches one field only.\<close>

lemma aged_fields [simp]:
  "rr_put (if c then r else r\<lparr>rr_acp_status := x\<rparr>) = rr_put r"
  "rr_command (if c then r else r\<lparr>rr_acp_status := x\<rparr>) = rr_command r"
  "rr_status (if c then r else r\<lparr>rr_acp_status := x\<rparr>) = rr_status r"
  "rr_online (if c then r else r\<lparr>rr_acp_status := x\<rparr>) = rr_online r"
  "rr_my_rand (if c then r else r\<lparr>rr_acp_status := x\<rparr>) = rr_my_rand r"
  by simp_all

lemma age_relays_wf [wf_intros]:
  assumes "list_wf rs"
  shows "list_wf (age_relays t rs)"
proof -
  have "map rr_sn (age_relays t rs) = map rr_sn rs"
    by (induction rs) (auto simp: age_relays_def)
  moreover have "list_all rele_wf (age_relays t rs)"
    using assms by (auto simp: list_wf_def age_relays_def list_all_iff rele_wf_def)
  ultimately show ?thesis using assms by (simp add: list_wf_def)
qed

lemma sn_created [simp]: "rr_sn (created_rele dr t sn relays p) = sn"
  by (simp add: created_rele_def new_rele_def)

lemma sn_seen [simp]: "rr_sn (seen_rele dr now sn) = sn"
  by (simp add: seen_rele_def new_rele_def)

lemma sn_refresh [simp]: "rr_sn (refresh_rele dr t sn relays init p r) = rr_sn r"
  by (simp add: refresh_rele_def clear_flags_and_log_file_def Let_def split: option.split)

lemma sn_press [simp]: "rr_sn (press_button b r) = rr_sn r"
  by (simp add: press_button_def Let_def)

lemma accept_fields:
  "rr_sn (snd (accept_poll init c r)) = rr_sn r"
  "rr_status (snd (accept_poll init c r)) = rr_status r"
  "rr_online (snd (accept_poll init c r)) = 0"
  "rr_log_file (snd (accept_poll init c r)) = rr_log_file r"
  by (simp_all add: accept_poll_def Let_def split: prod.split)

lemma accept_command:
  "rr_command (snd (accept_poll init c r)) = xs8 \<and>
   rr_put (snd (accept_poll init c r)) = (init \<and> rr_put r)"
  by (auto simp: accept_poll_def Let_def split: prod.split)

lemma answer_sn [simp]: "rr_sn (snd (answer_poll init cs a b c d e r)) = rr_sn r"
  by (simp add: answer_poll_def accept_fields Let_def split: prod.split)

lemma created_wf: "length relays = 8 \<Longrightarrow> rele_wf (created_rele dr t sn relays p)"
  by (simp add: rele_wf_def created_rele_def new_rele_def)

lemma refresh_wf:
  "length relays = 8 \<Longrightarrow> rele_wf r \<Longrightarrow> rele_wf (refresh_rele dr t sn relays init p r)"
  by (simp add: rele_wf_def refresh_rele_def clear_flags_and_log_file_def Let_def
      split: option.split)

lemma answer_wf: "rele_wf r \<Longrightarrow> rele_wf (snd (answer_poll init cs a b c d e r))"
  by (simp add: rele_wf_def answer_poll_def accept_fields accept_command Let_def
      split: prod.split)

lemma press_wf: "rele_wf r \<Longrightarrow> rele_wf (press_button b r)"
  by (simp add: rele_wf_def press_button_def Let_def)

lemma seen_wf: "rele_wf (seen_rele dr now sn)"
  by (simp add: rele_wf_def seen_rele_def new_rele_def)

lemma add_seen_wf: "list_wf rs \<Longrightarrow> list_wf (add_seen dr now sn rs)"
  by (simp add: add_seen_def snoc_wf seen_wf)

section \<open>The buttons of a user\<close>

lemma row_buttons_sn: "k \<in> set (row_buttons sn i txts) \<Longrightarrow> ki_sn k = sn"
  by (induction sn i txts rule: row_buttons.induct) (auto split: option.splits if_splits)

lemma row_buttons_idx:
  "k \<in> set (row_buttons sn i txts) \<Longrightarrow> i \<le> ki_r_idx k \<and> ki_r_idx k < i + length txts"
  by (induction sn i txts rule: row_buttons.induct) (fastforce split: option.splits if_splits)+

lemma add_seen_keeps: "sn \<in> rr_sn ` set rs \<Longrightarrow> sn \<in> rr_sn ` set (add_seen dr now n rs)"
  by (auto simp: add_seen_def)

lemma add_seen_has: "sn \<in> rr_sn ` set (add_seen dr now sn rs)"
  by (auto simp: add_seen_def find_rele_None image_iff split: if_splits)

lemma knopky_loop_Cons:
  "knopky_loop db dr now (r_id # ids) rs =
     (case select_relay db r_id of None \<Rightarrow> knopky_loop db dr now ids rs
      | Some row \<Rightarrow> (row_buttons (row_sn row) 1 (row_r row) @
            fst (knopky_loop db dr now ids (add_seen dr now (row_sn row) rs)),
          snd (knopky_loop db dr now ids (add_seen dr now (row_sn row) rs))))"
  by (simp add: Let_def case_prod_unfold split: option.split)

lemmas knopky_simps = knopky_loop.simps(1) knopky_loop_Cons

declare knopky_loop.simps(2) [simp del]

lemma knopky_loop_keeps:
  "sn \<in> rr_sn ` set rs \<Longrightarrow> sn \<in> rr_sn ` set (snd (knopky_loop db dr now ids rs))"
  by (induction ids arbitrary: rs)
    (simp_all add: knopky_simps add_seen_keeps split: option.split)

lemma knopky_loop_has:
  "k \<in> set (fst (knopky_loop db dr now ids rs)) \<Longrightarrow>
     ki_sn k \<in> rr_sn ` set (snd (knopky_loop db dr now ids rs))"
proof (induction ids arbitrary: rs)
  case (Cons r_id ids)
  show ?case
  proof (cases "select_relay db r_id")
    case None
    with Cons show ?thesis by (simp add: knopky_simps)
  next
    case (Some row)
    from Cons.prems Some
    consider "k \<in> set (row_buttons (row_sn row) 1 (row_r row))"
      | "k \<in> set (fst (knopky_loop db dr now ids (add_seen dr now (row_sn row) rs)))"
      by (auto simp: knopky_simps)
    then show ?thesis
    proof cases
      case 1
      then show ?thesis
        using Some knopky_loop_keeps [OF add_seen_has] row_buttons_sn by (simp add: knopky_simps)
    next
      case 2
      with Cons.IH Some show ?thesis by (simp add: knopky_simps)
    qed
  qed
qed simp

lemma knopky_loop_wf: "list_wf rs \<Longrightarrow> list_wf (snd (knopky_loop db dr now ids rs))"
  by (induction ids arbitrary: rs) (simp_all add: knopky_simps add_seen_wf split: option.split)

lemma get_knopky_list_wf [wf_intros]:
  "srv_wf s \<Longrightarrow> srv_wf (snd (get_knopky_list s now u))"
  by (simp add: get_knopky_list_def srv_wf_def knopky_loop_wf case_prod_unfold Let_def)

section \<open>The status loop\<close>

definition set_online :: "int \<Rightarrow> rele list \<Rightarrow> rele list" where
  "set_online sn rs = upd_rele sn (\<lambda>r. r\<lparr>rr_online := ZAPYTIV_BEZ_ZATRYMKY\<rparr>) rs"

definition button_char :: "rele list \<Rightarrow> knopka_info \<Rightarrow> char" where
  "button_char rs k = (case find_rele (ki_sn k) rs of None \<Rightarrow> CHR ''X''
     | Some r \<Rightarrow> if 1 \<le> ki_r_idx k \<and> ki_r_idx k \<le> 8 \<and> rr_acp_status r \<noteq> -4095
                 then rr_status r ! (ki_r_idx k - 1) else CHR ''X'')"

lemma sns_set_online [simp]: "map rr_sn (set_online sn rs) = map rr_sn rs"
  by (simp add: set_online_def upd_rele_def)

lemma mem_set_online: "sn' \<in> rr_sn ` set (set_online sn rs) \<longleftrightarrow> sn' \<in> rr_sn ` set rs"
  by (metis list.set_map sns_set_online)

lemma button_char_set_online [simp]: "button_char (set_online sn rs) k = button_char rs k"
proof (cases "ki_sn k = sn")
  case True
  then show ?thesis
    by (simp add: button_char_def set_online_def find_upd_rele split: option.split)
next
  case False
  then show ?thesis
    by (simp add: button_char_def set_online_def find_upd_rele_other)
qed

lemma status_loop_ok:
  "(\<And>k. k \<in> set ks \<Longrightarrow> ki_sn k \<in> rr_sn ` set rs) \<Longrightarrow>
     status_loop ks rs = Ok (map (button_char rs) ks, fold (\<lambda>k. set_online (ki_sn k)) ks rs)"
proof (induction ks arbitrary: rs)
  case (Cons k ks)
  from Cons.prems [of k] obtain r where r: "find_rele (ki_sn k) rs = Some r"
    by (metis find_rele_None list.set_intros(1) not_None_eq)
  have "status_loop ks (set_online (ki_sn k) rs) =
        Ok (map (button_char rs) ks, fold (\<lambda>k. set_online (ki_sn k)) ks (set_online (ki_sn k) rs))"
    using Cons.IH [of "set_online (ki_sn k) rs"] Cons.prems by (simp add: mem_set_online)
  with r show ?case
    by (simp add: set_online_def [symmetric] button_char_def)
qed simp

lemma set_online_wf: "list_wf rs \<Longrightarrow> list_wf (set_online sn rs)"
  unfolding set_online_def by (rule upd_rele_wf) (auto simp: rele_wf_def)

lemma fold_online_wf: "list_wf rs \<Longrightarrow> list_wf (fold (\<lambda>k. set_online (ki_sn k)) ks rs)"
  by (induction ks arbitrary: rs) (auto simp: set_online_wf)

lemma rr_get_status_eq:
  \<open>rr_get_status s now u =
     (let (ks, s') = get_knopky_list s now u
      in Ok (''{"buttons":"'' @ map (button_char (rele_list s')) ks @ ''"}'',
             s'\<lparr>rele_list := fold (\<lambda>k. set_online (ki_sn k)) ks (rele_list s')\<rparr>))\<close>
proof -
  obtain ks s' where k: "get_knopky_list s now u = (ks, s')" by force
  have "k \<in> set ks \<Longrightarrow> ki_sn k \<in> rr_sn ` set (rele_list s')" for k
    using k knopky_loop_has by (auto simp: get_knopky_list_def case_prod_unfold Let_def)
  from status_loop_ok [OF this] k show ?thesis
    by (simp add: rr_get_status_def)
qed

section \<open>Every operation keeps the invariant\<close>

lemma srv_upd_wf:
  assumes "srv_wf s" "\<And>r. rr_sn r = sn \<Longrightarrow> rr_sn (f r) = sn"
    and "\<And>r. rr_sn r = sn \<Longrightarrow> rele_wf r \<Longrightarrow> rele_wf (f r)"
  shows "srv_wf (s\<lparr>rele_list := upd_rele sn f (rele_list s)\<rparr>)"
  using assms upd_rele_wf [of "rele_list s" sn f] by (simp add: srv_wf_def)

lemma rr_put_status_wf [wf_intros]: "srv_wf s \<Longrightarrow> srv_wf (rr_put_status s sn b u)"
  by (auto simp: rr_put_status_def Let_def split: option.split intro!: srv_upd_wf press_wf)

lemma save_log_file_wf [wf_intros]: "srv_wf s \<Longrightarrow> srv_wf (save_log_file s body)"
  by (auto simp: save_log_file_def Let_def rele_wf_def split: option.split intro!: srv_upd_wf)

lemma send_log_file_wf [wf_intros]: "srv_wf s \<Longrightarrow> srv_wf (snd (send_for_user_log_file s sn u))"
  by (auto simp: send_for_user_log_file_def rele_wf_def split: option.split intro!: srv_upd_wf)

lemma set_flag_wf [wf_intros]: "srv_wf s \<Longrightarrow> srv_wf (set_get_log_file_flag s now sn u f)"
  by (auto simp: set_get_log_file_flag_def rele_wf_def split: option.split intro!: srv_upd_wf)

lemma take_flag_wf [wf_intros]: "srv_wf s \<Longrightarrow> srv_wf (snd (get_get_log_file_flag s sn))"
  by (auto simp: get_get_log_file_flag_def rele_wf_def split: option.split intro!: srv_upd_wf)

lemma rr_get_status_wf [wf_intros]:
  "srv_wf s \<Longrightarrow> rr_get_status s now u = Ok (out, s') \<Longrightarrow> srv_wf s'"
  using get_knopky_list_wf [of s now u]
  by (auto simp: rr_get_status_eq case_prod_unfold Let_def srv_wf_def fold_online_wf)

lemma g_db_touch:
  "db_wf (g_db s) \<Longrightarrow> db_wf (g_db (snd (touch_rele s t sn relays init pin)))"
  by (auto simp: touch_rele_def init_db_tables_def Let_def
      intro: register_relay_wf init_tables_wf split: option.split)

lemma touch_list_wf:
  assumes "list_wf (rele_list s)" "length relays = 8"
  shows "list_wf (rele_list (snd (touch_rele s t sn relays init pin)))"
proof (cases "find_rele sn (age_relays t (rele_list s))")
  case None
  then show ?thesis
    using assms by (auto simp: touch_rele_def Let_def init_db_tables_def
        intro!: snoc_wf age_relays_wf created_wf)
next
  case (Some r)
  then show ?thesis
    using assms by (auto simp: touch_rele_def Let_def intro!: upd_rele_wf age_relays_wf refresh_wf)
qed

text \<open>After \<open>touch_rele\<close> the device is in the list, with the entry it returned.\<close>

lemma touch_found:
  "find_rele sn (rele_list (snd (touch_rele s t sn relays init pin))) =
     Some (fst (touch_rele s t sn relays init pin))"
  by (auto simp: touch_rele_def Let_def find_rele_snoc find_upd_rele split: option.split)

lemma touch_wf:
  "list_wf (rele_list s) \<Longrightarrow> length relays = 8 \<Longrightarrow>
     rele_wf (fst (touch_rele s t sn relays init pin))"
  using find_rele_wf [OF touch_list_wf touch_found] by blast

lemma touch_sn: "rr_sn (fst (touch_rele s t sn relays init pin)) = sn"
  using find_rele_sn [OF touch_found] .

text \<open>The poll with all texts present and of the right lengths.\<close>

definition poll ::
  "relay_srv \<Rightarrow> int \<Rightarrow> string \<Rightarrow> string \<Rightarrow> string \<Rightarrow> string \<Rightarrow> string \<Rightarrow> string option \<Rightarrow>
     string \<times> relay_srv" where
  "poll s t snt acp rel ini cst pin =
     obrobnyk_relay s t (Some snt) (Some acp) (Some rel) (Some ini) (Some cst) pin"

lemma poll_eq:
  assumes "lengths_ok snt acp rel ini cst"
  shows "poll s t snt acp rel ini cst pin =
    (let (r, s') = touch_rele s t (atoi snt) rel (ini = ''true'') pin;
         (reply, r') = answer_poll (ini = ''true'') (atoi cst) snt rel acp ini pin r
     in (reply, s'\<lparr>rele_list := upd_rele (atoi snt) (\<lambda>_. r') (rele_list s')\<rparr>))"
  using assms by (simp add: poll_def obrobnyk_relay_def Let_def)

lemma obrobnyk_cases:
  "obrobnyk_relay s t a b c d e pin = (bad_reply, s) \<or>
   (\<exists>snt acp rel ini cst. a = Some snt \<and> b = Some acp \<and> c = Some rel \<and> d = Some ini \<and>
      e = Some cst \<and> lengths_ok snt acp rel ini cst \<and>
      obrobnyk_relay s t a b c d e pin = poll s t snt acp rel ini cst pin)"
  by (cases a; cases b; cases c; cases d; cases e) (auto simp: obrobnyk_relay_def poll_def)

lemma poll_wf:
  assumes "srv_wf s" "lengths_ok snt acp rel ini cst"
  shows "srv_wf (snd (poll s t snt acp rel ini cst pin))"
proof -
  obtain r s' where ts: "touch_rele s t (atoi snt) rel (ini = ''true'') pin = (r, s')" by force
  have len: "length rel = 8" using assms(2) by (simp add: lengths_ok_def)
  have "rele_wf r" "rr_sn r = atoi snt" "list_wf (rele_list s')" "db_wf (g_db s')"
    using touch_wf [of s rel t "atoi snt" "ini = ''true''" pin]
      touch_sn [of s t "atoi snt" rel "ini = ''true''" pin]
      touch_list_wf [of s rel t "atoi snt" "ini = ''true''" pin]
      g_db_touch [of s t "atoi snt" rel "ini = ''true''" pin] assms(1) len ts
    by (simp_all add: srv_wf_def)
  then show ?thesis
    by (simp add: poll_eq [OF assms(2)] ts srv_wf_def case_prod_unfold Let_def
        upd_rele_const_wf answer_wf)
qed

lemma obrobnyk_relay_wf [wf_intros]:
  "srv_wf s \<Longrightarrow> srv_wf (snd (obrobnyk_relay s t a b c d e pin))"
  using obrobnyk_cases [of s t a b c d e pin] poll_wf [of s] by force

section \<open>The server as a step relation\<close>

text \<open>
  One rule per operation of \<open>relay.cpp\<close>, in any order and with any arguments, and one for
  the gateway, which replaces the tables of the shared database file by other well-formed ones.
\<close>

inductive relay_step :: "relay_srv \<Rightarrow> relay_srv \<Rightarrow> bool" where
  step_poll: "relay_step s (snd (obrobnyk_relay s t snt acp rel ini cst pin))"
| step_knopky: "relay_step s (snd (get_knopky_list s t u))"
| step_status: "rr_get_status s t u = Ok (out, s') \<Longrightarrow> relay_step s s'"
| step_put: "relay_step s (rr_put_status s sn b u)"
| step_save_log: "relay_step s (save_log_file s body)"
| step_send_log: "relay_step s (snd (send_for_user_log_file s sn u))"
| step_set_flag: "relay_step s (set_get_log_file_flag s t sn u f)"
| step_take_flag: "relay_step s (snd (get_get_log_file_flag s sn))"
| step_name: "relay_step s (s\<lparr>g_db := snd (set_relay_name (g_db s) sn name u)\<rparr>)"
| step_names: "length names = 8 \<Longrightarrow>
     relay_step s (s\<lparr>g_db := snd (set_relay_names (g_db s) sn names u)\<rparr>)"
| step_log: "relay_step s (s\<lparr>hide_log := h\<rparr>)"
| step_gateway: "db_wf db \<Longrightarrow> relay_step s (s\<lparr>g_db := db\<rparr>)"

definition relay_init :: "u32 \<Rightarrow> relay_db \<Rightarrow> relay_srv" where
  "relay_init dr db = \<lparr>sv_def_rand = dr, rele_list = [], g_db = db, tables_done = False,
     hide_log = True\<rparr>"

inductive relay_reachable :: "relay_srv \<Rightarrow> bool" where
  reach_init: "db_wf db \<Longrightarrow> relay_reachable (relay_init dr db)"
| reach_step: "relay_reachable s \<Longrightarrow> relay_step s s' \<Longrightarrow> relay_reachable s'"

lemma relay_step_wf: "relay_step s s' \<Longrightarrow> srv_wf s \<Longrightarrow> srv_wf s'"
proof (induction rule: relay_step.induct)
  case (step_name s sn name u)
  then show ?case by (simp add: srv_wf_def set_relay_name_wf)
next
  case (step_names names s sn u)
  then show ?case by (simp add: srv_wf_def set_relay_names_wf)
qed (auto intro: wf_intros simp: srv_wf_def [of "hide_log_update _ _"]
      srv_wf_def [of "g_db_update _ _"], auto simp: srv_wf_def)

lemma relay_reachable_wf: "relay_reachable s \<Longrightarrow> srv_wf s"
proof (induction rule: relay_reachable.induct)
  case (reach_init db dr)
  then show ?case by (simp add: srv_wf_def relay_init_def list_wf_def)
qed (rule relay_step_wf)

section \<open>The poll protocol\<close>

lemma sum_received_eq:
  "sum_received snt rel acp ini pin a =
     contr_sum (snt @ rel @ acp @ ini @ opt_text pin) (0, a)"
  by (simp add: sum_received_def contr_sum_append opt_text_def Let_def split: option.split)

lemma poll_find:
  assumes "lengths_ok snt acp rel ini cst"
  shows "find_rele (atoi snt) (rele_list (snd (poll s t snt acp rel ini cst pin))) =
    Some (snd (answer_poll (ini = ''true'') (atoi cst) snt rel acp ini pin
           (fst (touch_rele s t (atoi snt) rel (ini = ''true'') pin))))"
  using touch_found [of "atoi snt" s t rel "ini = ''true''" pin]
    touch_sn [of s t "atoi snt" rel "ini = ''true''" pin]
  by (simp add: poll_eq [OF assms] case_prod_unfold Let_def find_upd_rele)

lemma poll_reply:
  assumes "lengths_ok snt acp rel ini cst"
  shows "fst (poll s t snt acp rel ini cst pin) =
    fst (answer_poll (ini = ''true'') (atoi cst) snt rel acp ini pin
           (fst (touch_rele s t (atoi snt) rel (ini = ''true'') pin)))"
  by (simp add: poll_eq [OF assms] case_prod_unfold Let_def)

lemma touch_other:
  "sn' \<noteq> sn \<Longrightarrow> find_rele sn' (rele_list (snd (touch_rele s t sn rel init pin))) =
     find_rele sn' (age_relays t (rele_list s))"
  by (auto simp: touch_rele_def Let_def init_db_tables_def find_rele_snoc find_upd_rele_other
      split: option.split)

lemma poll_other:
  assumes "lengths_ok snt acp rel ini cst" "sn' \<noteq> atoi snt"
  shows "find_rele sn' (rele_list (snd (poll s t snt acp rel ini cst pin))) =
     find_rele sn' (age_relays t (rele_list s))"
  using touch_other [OF assms(2)] assms(2) touch_sn
  by (simp add: poll_eq [OF assms(1)] case_prod_unfold Let_def find_upd_rele_other)

lemma touch_known:
  "find_rele sn (rele_list s) = Some r \<Longrightarrow>
     fst (touch_rele s t sn rel init pin) =
       refresh_rele (sv_def_rand s) t sn rel init
         (map_option (\<lambda>p. word_of_int (atoi p)) pin)
         (if t - rr_time_onl r \<le> 15 then r else r\<lparr>rr_acp_status := -4095\<rparr>)"
  by (simp add: touch_rele_def Let_def find_age_relays)

lemma touch_unknown:
  "find_rele sn (rele_list s) = None \<Longrightarrow>
     fst (touch_rele s t sn rel init pin) =
       created_rele (sv_def_rand s) t sn rel
         (case pin of None \<Rightarrow> 0 | Some p \<Rightarrow> word_of_int (atoi p))"
  by (simp add: touch_rele_def Let_def find_age_relays init_db_tables_def split: option.split)

lemma refresh_rand:
  "rr_my_rand (refresh_rele dr t sn rel init p r) = (if init then xsrand dr sn else rr_my_rand r)"
  by (simp add: refresh_rele_def clear_flags_and_log_file_def Let_def split: option.split)

lemma refresh_online: "rr_online (refresh_rele dr t sn rel init p r) = rr_online r"
  by (simp add: refresh_rele_def clear_flags_and_log_file_def Let_def split: option.split)

lemma refresh_put:
  "rr_put (refresh_rele dr t sn rel init p r) = (rr_put r \<or> (p = None \<and> rel = xs8))"
  by (simp add: refresh_rele_def clear_flags_and_log_file_def Let_def split: option.split)

lemma refresh_status:
  "rr_status (refresh_rele dr t sn rel init p r) =
     (if \<not> rr_put r \<and> rel \<noteq> xs8 then rel else rr_status r)"
  by (simp add: refresh_rele_def clear_flags_and_log_file_def Let_def split: option.split)

lemma refresh_command:
  "rr_command (refresh_rele dr t sn rel init p r) =
     (if p = None \<and> rel = xs8 then rr_status r else rr_command r)"
  by (simp add: refresh_rele_def clear_flags_and_log_file_def Let_def split: option.split)

lemmas refresh_fields = refresh_rand refresh_online refresh_put refresh_status refresh_command

end
