(* ===== verification/RelayDemo.thy ===== *)
theory RelayDemo
  imports RelayFacts
begin

text \<open>
  A concrete relay server the witnesses run on: one relay with the serial number 77 and eight
  named outputs, linked to the users 5 and 6, and its device in the list.
\<close>

definition demo_db :: relay_db where
  "demo_db = \<lparr>db_tables = Some \<lparr>
      relays_tab = [\<lparr>row_r_id = 1, row_sn = 77, row_r = replicate 8 (Some ''lamp''),
                     row_gadget_name = None\<rparr>],
      user_relays_tab = [\<lparr>ur_userID = 5, ur_r_id = 1\<rparr>, \<lparr>ur_userID = 6, ur_r_id = 1\<rparr>], next_r_id = 2\<rparr>, db_writable = True\<rparr>"

definition demo_rele :: rele where
  "demo_rele = (seen_rele 1 100 77)\<lparr>rr_acp_status := 0, rr_status := ''01010101'', rr_my_rand := 9\<rparr>"

definition demo_srv :: relay_srv where
  "demo_srv = (relay_init 1 demo_db)\<lparr>rele_list := [demo_rele]\<rparr>"

lemma demo_db_wf: "db_wf demo_db"
  by (simp add: db_wf_def demo_db_def tables_wf_def)

lemma demo_srv_wf: "srv_wf demo_srv"
  by (simp add: srv_wf_def demo_srv_def relay_init_def demo_db_wf list_wf_def rele_wf_def
      demo_rele_def seen_rele_def new_rele_def)

lemma demo_find: "find_rele 77 (rele_list demo_srv) = Some demo_rele"
  by (simp add: demo_srv_def find_rele_def demo_rele_def seen_rele_def)

lemma demo_user: "validate_user (g_db demo_srv) 5 77" "validate_user (g_db demo_srv) 6 77"
  by (simp_all add: validate_user_def demo_srv_def relay_init_def demo_db_def)

lemmas demo_simps = demo_rele_def seen_rele_def new_rele_def

end
