(* ===== verification/RelayProps.thy ===== *)
theory RelayProps
  imports RelayDemo
begin

text \<open>
  The properties of the relay server: the invariant of every reachable state, the poll protocol
  between device and server, the delivery of a pressed button, access control and the transfer
  of a log file. The peer of the protocol is written out as a specification: what a device must
  compute for the server to accept it, and what it can check of the answer.
\<close>

section \<open>Specification of the device's side\<close>

text \<open>The generator state the server expects the device to have when it polls.\<close>

definition session_state :: "relay_srv \<Rightarrow> int \<Rightarrow> bool \<Rightarrow> u32" where
  "session_state s sn init = (case find_rele sn (rele_list s) of
       None \<Rightarrow> xsrand (sv_def_rand s) sn
     | Some r \<Rightarrow> if init then xsrand (sv_def_rand s) sn else rr_my_rand r)"

definition device_sum ::
  "string \<Rightarrow> string \<Rightarrow> string \<Rightarrow> string \<Rightarrow> string option \<Rightarrow> u32 \<Rightarrow> int" where
  "device_sum snt acp rel ini pin b = fst (sum_received snt rel acp ini pin b)"

definition device_after_send ::
  "string \<Rightarrow> string \<Rightarrow> string \<Rightarrow> string \<Rightarrow> string option \<Rightarrow> u32 \<Rightarrow> u32" where
  "device_after_send snt acp rel ini pin b =
     (let (c, b') = sum_received snt rel acp ini pin b in xcorrect c b')"

definition device_receive :: "string \<Rightarrow> int \<Rightarrow> int \<Rightarrow> u32 \<Rightarrow> u32 option" where
  "device_receive out onl cs b =
     (let (c, b') = contr_sum (out @ int_str onl) (0, b)
      in if c = cs then Some (xcorrect c b') else None)"

lemma touch_rand:
  "rr_my_rand (fst (touch_rele s t sn rel init pin)) = session_state s sn init"
  by (cases "find_rele sn (rele_list s)")
    (simp_all add: touch_known touch_unknown session_state_def refresh_rand created_rele_def
      init_db_tables_def)

lemma accept_fst:
  "fst (accept_poll init c r) =
     reply_json (command_out init r) (rr_online r)
       (fst (sum_sent init (r\<lparr>rr_my_rand := xcorrect c (rr_my_rand r)\<rparr>)))"
  by (simp add: accept_poll_def Let_def command_out_def)

lemma accept_rand:
  "rr_my_rand (snd (accept_poll init c r)) =
     (let (c', a) = sum_sent init (r\<lparr>rr_my_rand := xcorrect c (rr_my_rand r)\<rparr>) in xcorrect c' a)"
  by (simp add: accept_poll_def Let_def case_prod_unfold)

lemma answer_accept:
  assumes "cs = fst (sum_received snt rel acp ini pin (rr_my_rand r))"
  shows "answer_poll init cs snt rel acp ini pin r =
     accept_poll init cs (r\<lparr>rr_my_rand := snd (sum_received snt rel acp ini pin (rr_my_rand r))\<rparr>)"
  using assms by (simp add: answer_poll_def case_prod_unfold Let_def)

lemma answer_reject:
  assumes "cs \<noteq> fst (sum_received snt rel acp ini pin (rr_my_rand r))"
  shows "answer_poll init cs snt rel acp ini pin r =
     (bad_reply, r\<lparr>rr_my_rand := snd (sum_received snt rel acp ini pin (rr_my_rand r))\<rparr>)"
  using assms by (simp add: answer_poll_def case_prod_unfold Let_def)

text \<open>For evaluating a checksum on concrete texts.\<close>

lemmas device_sum_eval = device_sum_def sum_received_def xrand_def mask_char_def Let_def

text \<open>An accepted poll, in terms of the entry \<open>touch_rele\<close> leaves.\<close>

lemma poll_accepted:
  fixes t :: int
  assumes "lengths_ok snt acp rel ini cst"
    and "atoi cst = device_sum snt acp rel ini pin (session_state s (atoi snt) (ini = ''true''))"
  defines "r \<equiv> fst (touch_rele s t (atoi snt) rel (ini = ''true'') pin)"
  defines "m \<equiv> device_after_send snt acp rel ini pin (session_state s (atoi snt) (ini = ''true''))"
  defines "c2 \<equiv> contr_sum (command_out (ini = ''true'') r @ int_str (rr_online r)) (0, m)"
  shows "fst (poll s t snt acp rel ini cst pin) =
           reply_json (command_out (ini = ''true'') r) (rr_online r) (fst c2)" (is ?reply)
    and "\<exists>r'. find_rele (atoi snt) (rele_list (snd (poll s t snt acp rel ini cst pin))) = Some r' \<and>
           rr_my_rand r' = xcorrect (fst c2) (snd c2) \<and> rr_command r' = xs8 \<and>
           rr_put r' = (ini = ''true'' \<and> rr_put r) \<and> rr_online r' = 0 \<and>
           rr_status r' = rr_status r" (is ?entry)
proof -
  let ?i = "ini = ''true''"
  have cs: "atoi cst = fst (sum_received snt rel acp ini pin (rr_my_rand r))"
    using assms(2) by (simp add: r_def touch_rand device_sum_def)
  have m: "xcorrect (atoi cst) (snd (sum_received snt rel acp ini pin (rr_my_rand r))) = m"
    using cs by (simp add: m_def device_after_send_def r_def touch_rand case_prod_unfold Let_def)
  note ans = answer_accept [OF cs, of ?i]
  show ?reply
    by (simp add: poll_reply [OF assms(1)] r_def [symmetric] ans accept_fst m sum_sent_def
        buff_cs_def command_out_def c2_def)
  show ?entry
    by (simp add: poll_find [OF assms(1)] r_def [symmetric] ans accept_rand accept_fields
        accept_command m sum_sent_def buff_cs_def command_out_def c2_def case_prod_unfold Let_def)
qed

section \<open>Reachable states\<close>

text \<open>
  C23. In every state the relay server can reach, by its own operations in any order and with any
  arguments and by the gateway's changes to the database, every device has one entry, its status
  and command texts fill exactly the eight characters of \<open>char[9]\<close>, its fast-poll count
  is 0 or 50, and the tables are well formed (distinct ids and serial numbers).
\<close>

theorem relay_reachable_inv:
  assumes "relay_reachable s"
  shows "distinct (map rr_sn (rele_list s)) \<and>
    (\<forall>r \<in> set (rele_list s). length (rr_status r) = 8 \<and> length (rr_command r) = 8 \<and>
       (rr_online r = 0 \<or> rr_online r = 50)) \<and> db_wf (g_db s)"
  using relay_reachable_wf [OF assms]
  by (auto simp: srv_wf_def list_wf_def list_all_iff rele_wf_def ZAPYTIV_BEZ_ZATRYMKY_def)

theorem relay_reachable_inv_witness:
  "distinct (map rr_sn (rele_list (rr_put_status (relay_init 1 demo_db) 77 1 5))) \<and>
   db_wf (g_db (rr_put_status (relay_init 1 demo_db) 77 1 5))"
  using relay_reachable_inv [OF reach_step [OF reach_init [OF demo_db_wf] step_put]] by blast

section \<open>The status request\<close>

text \<open>
  \<open>rr_get_status\<close> writes through the pointer \<open>find_rele\<close> returns without
  testing it; that pointer is never null, because \<open>get_knopky_list\<close> has entered every
  device it lists. The answer is one character per button of the user, the device's status at
  that output or X when it is offline, and the request marks the devices for fast polling.
\<close>

theorem rr_get_status_total:
  \<open>rr_get_status s now u =
     (let (ks, s') = get_knopky_list s now u
      in Ok (''{"buttons":"'' @ map (button_char (rele_list s')) ks @ ''"}'',
             s'\<lparr>rele_list := fold (\<lambda>k. set_online (ki_sn k)) ks (rele_list s')\<rparr>))\<close>
  by (rule rr_get_status_eq)

section \<open>The poll protocol\<close>


text \<open>One concrete poll for the witnesses, with its checksum evaluated once.\<close>

definition demo_poll :: "relay_srv \<Rightarrow> string \<Rightarrow> string \<times> relay_srv" where
  "demo_poll s cst = poll s 100 ''0000000077'' ''1234567890'' ''00110011'' ''fals'' cst None"

lemma demo_sn: "atoi ''0000000077'' = 77"
  by (simp add: atoi_eval)

lemma demo_cs: "atoi ''4076'' = 4076" "atoi ''4077'' = 4077"
  by (simp_all add: atoi_eval)

lemma demo_len: "length cst = 4 \<Longrightarrow>
    lengths_ok ''0000000077'' ''1234567890'' ''00110011'' ''fals'' cst"
  by (simp add: lengths_ok_def)

lemma demo_sum: "device_sum ''0000000077'' ''1234567890'' ''00110011'' ''fals'' None 9 = 4076"
  by (simp add: device_sum_eval)

lemma demo_state: "session_state demo_srv (atoi ''0000000077'') (''fals'' = ''true'') = 9"
  by (simp add: session_state_def demo_sn demo_find) (simp add: demo_rele_def)


text \<open>
  A lost step is never made up silently: when the generators of the device and the server
  differ, they still differ after any exchange that does not re-initialise, even if the device's
  checksum happened to be accepted and the device accepts the answer.
\<close>

theorem desync_persists:
  assumes "lengths_ok snt acp rel ini cst" and "ini \<noteq> ''true''"
    and "find_rele (atoi snt) (rele_list s) = Some r" and "b \<noteq> rr_my_rand r"
    and "atoi cst = device_sum snt acp rel ini pin b"
    and "atoi cst = device_sum snt acp rel ini pin (rr_my_rand r)"
  shows "\<exists>out onl cs2 r'.
    fst (poll s t snt acp rel ini cst pin) = reply_json out onl cs2 \<and>
    find_rele (atoi snt) (rele_list (snd (poll s t snt acp rel ini cst pin))) = Some r' \<and>
    device_receive out onl cs2 (device_after_send snt acp rel ini pin b) \<noteq> Some (rr_my_rand r')"
proof -
  let ?i = "ini = ''true''" and ?n = "length (snt @ rel @ acp @ ini @ opt_text pin)"
  have st: "session_state s (atoi snt) ?i = rr_my_rand r"
    using assms(2,3) by (simp add: session_state_def)
  define q where "q = fst (touch_rele s t (atoi snt) rel ?i pin)"
  define out onl where "out = command_out ?i q" and "onl = rr_online q"
  define c2 where "c2 = contr_sum (out @ int_str onl)
      (0, device_after_send snt acp rel ini pin (rr_my_rand r))"
  note acc = poll_accepted [where s = s and pin = pin and t = t, OF assms(1), unfolded st,
      OF assms(6), folded q_def, folded out_def onl_def, folded c2_def]
  have send: "device_after_send snt acp rel ini pin x =
      xcorrect (device_sum snt acp rel ini pin x) ((xrand ^^ ?n) x)" for x
    by (simp only: device_after_send_def device_sum_def sum_received_eq case_prod_unfold Let_def
        contr_sum_state)
  have "device_receive out onl (fst c2) (device_after_send snt acp rel ini pin b) \<noteq>
      Some (xcorrect (fst c2) (snd c2))"
    using xr.exchange_keeps_apart [OF assms(4), of "fst c2" "length (out @ int_str onl)" "atoi cst" ?n]
    by (simp only: device_receive_def send assms(5,6) [symmetric] case_prod_unfold Let_def c2_def
        contr_sum_state split: if_splits) simp
  with acc show ?thesis by (intro exI [of _ out] exI [of _ onl] exI [of _ "fst c2"]) auto
qed

theorem desync_persists_witness:
  "\<exists>out onl cs2 r'.
    fst (demo_poll demo_srv ''4076'') = reply_json out onl cs2 \<and>
    find_rele 77 (rele_list (snd (demo_poll demo_srv ''4076''))) = Some r' \<and>
    device_receive out onl cs2
      (device_after_send ''0000000077'' ''1234567890'' ''00110011'' ''fals'' None 314) \<noteq>
    Some (rr_my_rand r')"
proof -
  have f: "find_rele (atoi ''0000000077'') (rele_list demo_srv) = Some demo_rele"
    by (simp only: demo_sn demo_find)
  have r: "rr_my_rand demo_rele = 9" by (simp add: demo_rele_def)
  have b: "314 \<noteq> rr_my_rand demo_rele" by (simp add: r)
  have "device_sum ''0000000077'' ''1234567890'' ''00110011'' ''fals'' None 314 = 4076"
    by (simp add: device_sum_eval)
  then have cs: "atoi ''4076'' =
      device_sum ''0000000077'' ''1234567890'' ''00110011'' ''fals'' None 314"
    by (simp only: demo_cs)
  have cs9: "atoi ''4076'' =
      device_sum ''0000000077'' ''1234567890'' ''00110011'' ''fals'' None (rr_my_rand demo_rele)"
    by (simp only: demo_cs demo_sum r)
  show ?thesis
    using desync_persists [OF demo_len _ f b cs cs9] by (simp add: demo_poll_def demo_sn)
qed

text \<open>
  A pressed button is delivered exactly once: after \<open>rr_put_status\<close> by a user of the
  device, the next accepted poll carries the opposite of the output's last status at that
  position, and the command is gone from the server's entry afterwards.
\<close>

definition opposite :: "char \<Rightarrow> char" where
  "opposite c = (if c = CHR ''0'' then CHR ''1'' else CHR ''0'')"

theorem button_press_delivered:
  assumes wf: "srv_wf s" and user: "validate_user (g_db s) u (atoi snt)"
    and found: "find_rele (atoi snt) (rele_list s) = Some r"
    and online: "rr_acp_status r \<noteq> -4095" and idx: "1 \<le> k" "k \<le> 8"
    and bit: "rr_status r ! nat (k - 1) \<in> {CHR ''0'', CHR ''1''}"
    and len: "lengths_ok snt acp rel ini cst" and ini: "ini \<noteq> ''true''"
    and rel: "rel \<noteq> xs8 \<or> pin \<noteq> None"
    and cs: "atoi cst = device_sum snt acp rel ini pin (rr_my_rand r)"
  defines "s1 \<equiv> rr_put_status s (atoi snt) k u"
  shows "\<exists>cs2 r'. fst (poll s1 t snt acp rel ini cst pin) =
           reply_json ((rr_command r)[nat (k - 1) := opposite (rr_status r ! nat (k - 1))]) (rr_online r) cs2 \<and>
         find_rele (atoi snt) (rele_list (snd (poll s1 t snt acp rel ini cst pin))) = Some r' \<and>
         \<not> rr_put r' \<and> rr_command r' = xs8"
proof -
  let ?p = "press_button (nat (k - 1)) r"
  have f1: "find_rele (atoi snt) (rele_list s1) = Some ?p"
    using user found online idx
    by (simp add: s1_def rr_put_status_def Let_def find_upd_rele)
  have p: "rr_put ?p" "rr_command ?p = (rr_command r)[nat (k - 1) := opposite (rr_status r ! nat (k - 1))]"
      "rr_my_rand ?p = rr_my_rand r" "rr_online ?p = rr_online r" "rr_time_onl ?p = rr_time_onl r"
    using bit by (auto simp: press_button_def Let_def opposite_def)
  have st: "session_state s1 (atoi snt) (ini = ''true'') = rr_my_rand r"
    using f1 ini p by (simp add: session_state_def)
  have pin: "pin = None \<Longrightarrow> rel \<noteq> xs8" using rel by blast
  show ?thesis
    using poll_accepted [where s = s1 and pin = pin and t = t, OF len, unfolded st, OF cs] ini pin
    by (cases pin) (auto simp: touch_known [OF f1] command_out_def refresh_fields p)
qed

theorem button_press_delivered_witness:
  "\<exists>cs2 r'. fst (demo_poll (rr_put_status demo_srv 77 1 5) ''4076'') =
      reply_json (''1XXXXXXX'') 0 cs2 \<and>
    find_rele 77 (rele_list (snd (demo_poll (rr_put_status demo_srv 77 1 5) ''4076''))) = Some r' \<and>
    \<not> rr_put r' \<and> rr_command r' = xs8"
proof -
  have f: "find_rele (atoi ''0000000077'') (rele_list demo_srv) = Some demo_rele"
    by (simp only: demo_sn demo_find)
  have u: "validate_user (g_db demo_srv) 5 (atoi ''0000000077'')"
    by (simp only: demo_sn demo_user)
  have r: "rr_my_rand demo_rele = 9" "rr_command demo_rele = ''XXXXXXXX''" "rr_online demo_rele = 0"
      "rr_acp_status demo_rele \<noteq> -4095" "rr_status demo_rele ! nat (1 - 1) \<in> {CHR ''0'', CHR ''1''}"
    by (simp_all add: demo_simps xs8_def)
  have cs: "atoi ''4076'' =
      device_sum ''0000000077'' ''1234567890'' ''00110011'' ''fals'' None (rr_my_rand demo_rele)"
    by (simp only: demo_cs demo_sum r)
  have x: "''00110011'' \<noteq> xs8 \<or> None \<noteq> None" by (simp add: xs8_def)
  show ?thesis
    using button_press_delivered [OF demo_srv_wf u f r(4) _ _ r(5) demo_len _ x cs]
    by (simp add: demo_poll_def demo_sn r opposite_def) (simp add: demo_simps)
qed

section \<open>Polls that are rejected\<close>


lemma poll_g_db:
  "lengths_ok snt acp rel ini cst \<Longrightarrow> g_db (snd (poll s t snt acp rel ini cst pin)) =
     g_db (snd (touch_rele s t (atoi snt) rel (ini = ''true'') pin))"
  by (simp add: poll_eq case_prod_unfold Let_def)

lemma touch_g_db:
  "g_db (snd (touch_rele s t sn rel init pin)) =
     (if find_rele sn (age_relays t (rele_list s)) = None
      then register_relay sn (g_db (init_db_tables s)) else g_db s)"
  by (simp add: touch_rele_def Let_def split: option.split)

text \<open>
  The checksum is tested after the entry has been written: any poll of the right lengths,
  whatever its checksum, sets the status the users see to the text it carries (when no command is
  pending), and enters an unknown serial number into the list and, when the tables exist and can
  be written, into the database.
\<close>

theorem poll_writes_before_check:
  assumes len: "lengths_ok snt acp rel ini cst" and rel: "rel \<noteq> xs8"
    and idle: "\<And>r. find_rele (atoi snt) (rele_list s) = Some r \<Longrightarrow> \<not> rr_put r"
  shows "(\<exists>r'. find_rele (atoi snt) (rele_list (snd (poll s t snt acp rel ini cst pin))) = Some r' \<and>
            rr_status r' = rel) \<and>
         (find_rele (atoi snt) (rele_list s) = None \<and> db_wf (g_db s) \<and>
            db_tables (g_db s) \<noteq> None \<and> db_writable (g_db s) \<longrightarrow>
          known (g_db (snd (poll s t snt acp rel ini cst pin))) (atoi snt))"
    (is "?shown \<and> (_ \<longrightarrow> ?reg)")
proof -
  let ?q = "fst (touch_rele s t (atoi snt) rel (ini = ''true'') pin)"
  have "rr_status ?q = rel"
    using idle rel
    by (cases "find_rele (atoi snt) (rele_list s)")
      (auto simp: touch_known touch_unknown refresh_fields created_rele_def)
  then have shown: ?shown
    by (simp add: poll_find [OF len] answer_poll_def case_prod_unfold Let_def accept_fields)
  have reg: ?reg if "find_rele (atoi snt) (rele_list s) = None" "db_wf (g_db s)"
      "db_tables (g_db s) \<noteq> None" "db_writable (g_db s)"
  proof -
    have "g_db (init_db_tables s) = g_db s"
      using that(3) by (simp add: init_db_tables_def init_tables_def)
    then show ?thesis
      using that(1) register_relay_known [OF that(2-4)]
      by (simp add: poll_g_db [OF len] touch_g_db find_age_relays)
  qed
  show ?thesis using shown reg by blast
qed

theorem poll_writes_before_check_witness:
  "fst (demo_poll demo_srv ''4077'') = bad_reply \<and>
   (\<exists>r'. find_rele 77 (rele_list (snd (demo_poll demo_srv ''4077''))) = Some r' \<and>
      rr_status r' = ''00110011'')"
proof -
  have idle: "\<not> rr_put r" if "find_rele (atoi ''0000000077'') (rele_list demo_srv) = Some r" for r
    using that by (simp add: demo_sn demo_find) (auto simp: demo_simps)
  have x: "''00110011'' \<noteq> xs8" by (simp add: xs8_def)
  have no: "atoi ''4077'' \<noteq> fst (sum_received ''0000000077'' ''00110011'' ''1234567890'' ''fals'' None
      (rr_my_rand (fst (touch_rele demo_srv 100 (atoi ''0000000077'') ''00110011''
        (''fals'' = ''true'') None))))"
    by (simp only: touch_rand demo_state demo_cs demo_sum [unfolded device_sum_def])
  have "fst (demo_poll demo_srv ''4077'') = bad_reply"
    by (simp add: demo_poll_def poll_reply [OF demo_len] answer_reject [OF no, simplified])
  then show ?thesis
    using poll_writes_before_check [OF demo_len x idle] by (simp add: demo_poll_def demo_sn)
qed


section \<open>Access control\<close>

text \<open>Any sequence of polls, with any texts, from any devices.\<close>

record poll_msg =
  pm_time :: int
  pm_sn :: "string option"
  pm_acp :: "string option"
  pm_relays :: "string option"
  pm_init :: "string option"
  pm_cs :: "string option"
  pm_pin :: "string option"

definition poll_msg_step :: "poll_msg \<Rightarrow> relay_srv \<Rightarrow> relay_srv" where
  "poll_msg_step m s = snd (obrobnyk_relay s (pm_time m) (pm_sn m) (pm_acp m) (pm_relays m)
     (pm_init m) (pm_cs m) (pm_pin m))"

lemma init_db_validate:
  "validate_user (g_db (init_db_tables s)) u sn = validate_user (g_db s) u sn"
  by (simp add: init_db_tables_def)

lemma init_db_wf: "db_wf (g_db s) \<Longrightarrow> db_wf (g_db (init_db_tables s))"
  by (simp add: init_db_tables_def init_tables_wf)

lemma poll_validate:
  assumes "db_wf (g_db s)"
  shows "validate_user (g_db (snd (obrobnyk_relay s t a b c d e pin))) u sn =
           validate_user (g_db s) u sn"
  using obrobnyk_cases [of s t a b c d e pin] assms
    rst.register_valid [OF init_db_wf [OF assms]]
  by (auto simp: poll_g_db touch_g_db init_db_validate split: if_splits)

text \<open>
  C24. No sequence of polls, whatever devices or impostors send, gives a user access to a relay or
  takes it away: polls register serial numbers, but only the gateway links users to relays.
\<close>

theorem polls_grant_no_access:
  assumes "srv_wf s"
  shows "validate_user (g_db (fold poll_msg_step ms s)) u sn = validate_user (g_db s) u sn"
  using assms
proof (induction ms arbitrary: s)
  case (Cons m ms)
  have "srv_wf (poll_msg_step m s)"
    unfolding poll_msg_step_def by (rule obrobnyk_relay_wf) (rule Cons.prems)
  from Cons.IH [OF this] Cons.prems show ?case
    by (simp add: poll_msg_step_def poll_validate srv_wf_def)
qed simp

theorem polls_grant_no_access_witness:
  "validate_user (g_db (fold poll_msg_step
      [\<lparr>pm_time = 5, pm_sn = Some ''0000000078'', pm_acp = Some ''1234567890'',
        pm_relays = Some ''00000000'', pm_init = Some ''true'', pm_cs = Some ''12'',
        pm_pin = Some ''1234''\<rparr>] demo_srv)) 5 77"
  using polls_grant_no_access [OF demo_srv_wf] demo_user by blast



section \<open>The transfer of a log file\<close>

text \<open>
  A log file goes to the user who asked for it and to nobody else: after the request the
  device is told once to send its log, the log that names its serial number is stored, another
  user of the same relay gets nothing, and the one who asked gets the page around exactly the
  bytes received, after which the log is erased and the request closed.
\<close>

theorem log_file_transfer:
  fixes now :: int
  assumes user: "validate_user (g_db s) u sn" and other: "validate_user (g_db s) v sn" "v \<noteq> u"
    and found: "find_rele sn (rele_list s) = Some r"
    and free: "rr_userID_set_GFF r = 0" and empty: "rr_log_file r = []"
    and body: "40 < length body" "atoi (c_str (take 19 (drop 21 body))) = sn"
  defines "s1 \<equiv> set_get_log_file_flag s now sn u True"
  defines "s2 \<equiv> snd (get_get_log_file_flag s1 sn)"
  defines "s3 \<equiv> save_log_file s2 body"
  shows "fst (get_get_log_file_flag s1 sn) \<and> \<not> fst (get_get_log_file_flag s2 sn) \<and>
    send_for_user_log_file s3 sn v = ([], s3) \<and>
    fst (send_for_user_log_file s3 sn u) = log_html_header @ body @ log_html_footer \<and>
    fst (send_for_user_log_file (snd (send_for_user_log_file s3 sn u)) sn u) = []"
proof -
  have u: "u \<noteq> 0" using validate_user_pos [OF user] by simp
  have f1: "find_rele sn (rele_list s1) = Some (r\<lparr>rr_get_log_file_flag := True,
      rr_userID_set_GFF := u, rr_time_set_GFF := now\<rparr>)" and db1: "g_db s1 = g_db s"
    using user found free by (simp_all add: s1_def set_get_log_file_flag_def find_upd_rele)
  have f2: "find_rele sn (rele_list s2) = Some (r\<lparr>rr_get_log_file_flag := False,
      rr_userID_set_GFF := u, rr_time_set_GFF := now\<rparr>)" and db2: "g_db s2 = g_db s"
    using f1 db1 by (simp_all add: s2_def get_get_log_file_flag_def find_upd_rele)
  have f3: "find_rele sn (rele_list s3) = Some (r\<lparr>rr_get_log_file_flag := False,
      rr_userID_set_GFF := u, rr_time_set_GFF := now, rr_log_file := body\<rparr>)" and db3: "g_db s3 = g_db s"
    using f2 db2 u body empty by (simp_all add: s3_def save_log_file_def find_upd_rele Let_def)
  have ne: "body \<noteq> []" using body by auto
  show ?thesis
    using f1 f2 f3 db3 user other ne
    by (simp add: get_get_log_file_flag_def send_for_user_log_file_def find_upd_rele)
qed

theorem log_file_transfer_witness:
  "fst (send_for_user_log_file
      (save_log_file (snd (get_get_log_file_flag (set_get_log_file_flag demo_srv 100 77 5 True) 77))
        (''Gadget serial number: 0000000077'' @ lf @ ''relay 1 on'')) 77 5) =
   log_html_header @ (''Gadget serial number: 0000000077'' @ lf @ ''relay 1 on'') @ log_html_footer"
proof -
  let ?b = "''Gadget serial number: 0000000077'' @ lf @ ''relay 1 on''"
  have b: "40 < length ?b" "atoi (c_str (take 19 (drop 21 ?b))) = 77"
    by (simp_all add: lf_def c_str_def NUL_def atoi_eval)
  have r: "rr_userID_set_GFF demo_rele = 0" "rr_log_file demo_rele = []"
    by (simp_all add: demo_simps)
  have ne: "(6 :: int) \<noteq> 5" by simp
  show ?thesis
    using log_file_transfer [OF demo_user(1) demo_user(2) ne demo_find r b] by blast
qed

section \<open>Buffers\<close>

lemma lengths_log_head:
  "lengths_ok snt acp rel ini cst \<Longrightarrow> length command = 8 \<Longrightarrow>
     length (poll_log_head snt acp rel command ini (atoi cst)) \<le> 92"
  using int_str_length [of "atoi cst"] to_int32_range [of "strtol cst"]
  by (simp add: poll_log_head_def lengths_ok_def atoi_def)

lemma sum_received_bounds:
  "lengths_ok snt acp rel ini cst \<Longrightarrow> 0 \<le> device_sum snt acp rel ini pin a \<and>
     device_sum snt acp rel ini pin a \<le> 255 * (32 + int (length (opt_text pin)))"
  using contr_sum_bounds [of 0 "snt @ rel @ acp @ ini @ opt_text pin" a]
  by (simp add: device_sum_def sum_received_eq lengths_ok_def del: contr_sum.simps)

lemma buff_cs_length: "rele_wf r \<Longrightarrow> length (buff_cs init r) \<le> 10"
proof -
  have "length (int_str 0) = 1" "length (int_str 50) = 2"
    by (simp_all add: int_str_def nat_str.simps)
  then show "rele_wf r \<Longrightarrow> length (buff_cs init r) \<le> 10"
    by (auto simp: buff_cs_def command_out_def rele_wf_def ZAPYTIV_BEZ_ZATRYMKY_def)
qed

lemma sum_sent_bounds:
  "rele_wf r \<Longrightarrow> 0 \<le> fst (sum_sent init r) \<and> fst (sum_sent init r) \<le> 2550"
  using contr_sum_bounds [of 0 "buff_cs init r" "rr_my_rand r"] buff_cs_length [of r init]
  by (simp add: sum_sent_def)

text \<open>
  The buffers of the poll are large enough: in a reachable state the log line, on either
  path, is shorter than the 200 bytes of \<open>bbb\<close>, the answered text shorter than the 50 of
  \<open>buff_cs\<close>, and the checksum of the received texts does not overflow an \<open>int\<close>, as
  long as the PIN text has at most eight million characters.
\<close>

theorem poll_buffers_suffice:
  assumes "relay_reachable s" and len: "lengths_ok snt acp rel ini cst"
    and pin: "length (opt_text pin) \<le> 8000000"
  shows "length (poll_log_line s t snt acp rel ini cst pin) < 200 \<and>
    length (buff_cs (ini = ''true'') (fst (touch_rele s t (atoi snt) rel (ini = ''true'') pin))) < 50 \<and>
    device_sum snt acp rel ini pin (session_state s (atoi snt) (ini = ''true'')) < 2 ^ 31"
proof -
  define i where "i = (ini = ''true'')"
  define r where "r = fst (touch_rele s t (atoi snt) rel i pin)"
  define sum where "sum = device_sum snt acp rel ini pin (session_state s (atoi snt) i)"
  define m where "m = r\<lparr>rr_my_rand :=
      xcorrect sum (snd (sum_received snt rel acp ini pin (rr_my_rand r)))\<rparr>"
  define head where "head = poll_log_head snt acp rel (rr_command r) ini (atoi cst)"
  have wf: "rele_wf r"
    using relay_reachable_wf [OF assms(1)] len
    by (simp add: r_def touch_wf srv_wf_def lengths_ok_def)
  then have m: "rele_wf m" by (simp add: rele_wf_def m_def)
  have head: "length head \<le> 92"
    unfolding head_def using wf by (intro lengths_log_head [OF len]) (simp add: rele_wf_def)
  have sum: "0 \<le> sum" "sum < 2 ^ 31"
    using sum_received_bounds [OF len, of pin "session_state s (atoi snt) i"] pin
    by (simp_all add: sum_def)
  have line: "poll_log_line s t snt acp rel ini cst pin =
     (if atoi cst \<noteq> sum then head @ '' cs = '' @ int_str (atoi cst) @ '' contr = '' @ int_str sum
      else head @ '' '' @ buff_cs i m @ '' cs2 = '' @ int_str (fst (sum_sent i m)) @
        (if find_rele (atoi snt) (rele_list s) = None then '' create new struct'' else []))"
    by (simp add: poll_log_line_def case_prod_unfold Let_def device_sum_def touch_rand
        sum_def head_def m_def r_def i_def)
  have "length (int_str (atoi cst)) \<le> 11" "length (int_str sum) \<le> 11"
      "length (int_str (fst (sum_sent i m))) \<le> 11"
    using to_int32_range [of "strtol cst"] sum sum_sent_bounds [OF m, of i]
    by (auto intro!: int_str_length simp: atoi_def)
  moreover have "length (buff_cs i m) \<le> 10" "length (buff_cs i r) \<le> 10"
    using buff_cs_length m wf by blast+
  ultimately have "length (poll_log_line s t snt acp rel ini cst pin) < 200"
    using head by (simp add: line)
  with \<open>length (buff_cs i r) \<le> 10\<close> sum(2) show ?thesis
    by (simp add: sum_def r_def i_def)
qed

theorem poll_buffers_suffice_witness:
  "length (poll_log_line (relay_init 1 demo_db) 100 ''0000000077'' ''1234567890'' ''00110011''
     ''true'' ''4076'' (Some ''1234'')) < 200"
proof -
  have len: "lengths_ok ''0000000077'' ''1234567890'' ''00110011'' ''true'' ''4076''"
    by (simp add: lengths_ok_def)
  have pin: "length (opt_text (Some ''1234'')) \<le> 8000000" by (simp add: opt_text_def)
  show ?thesis
    using poll_buffers_suffice [OF reach_init [OF demo_db_wf] len pin] by blast
qed

text \<open>
  A device that re-initialises while a command is pending never gets that command: the
  accepted announcement is answered with XXXXXXXX, the stored command is overwritten, and only the
  pending mark survives, so that the next poll is answered with XXXXXXXX again.
\<close>

theorem init_drops_pending_command:
  assumes len: "lengths_ok snt acp rel ''true'' cst" and rel: "rel \<noteq> xs8"
    and found: "find_rele (atoi snt) (rele_list s) = Some r" and pending: "rr_put r"
    and cs: "atoi cst = device_sum snt acp rel ''true'' pin (xsrand (sv_def_rand s) (atoi snt))"
  shows "\<exists>cs2 r'. fst (poll s t snt acp rel ''true'' cst pin) = reply_json xs8 (rr_online r) cs2 \<and>
    find_rele (atoi snt) (rele_list (snd (poll s t snt acp rel ''true'' cst pin))) = Some r' \<and>
    rr_put r' \<and> rr_command r' = xs8"
proof -
  have st: "session_state s (atoi snt) (''true'' = ''true'') = xsrand (sv_def_rand s) (atoi snt)"
    using found by (simp add: session_state_def)
  show ?thesis
    using poll_accepted [where s = s and pin = pin and t = t, OF len, unfolded st, OF cs] pending
    by (auto simp: command_out_def touch_known [OF found] refresh_fields)
qed

theorem init_drops_pending_command_witness:
  "\<exists>cst cs2 r'. fst (poll (rr_put_status demo_srv 77 1 5) 100 ''0000000077'' ''1234567890''
       ''00110011'' ''true'' cst None) = reply_json xs8 0 cs2 \<and>
    find_rele 77 (rele_list (snd (poll (rr_put_status demo_srv 77 1 5) 100 ''0000000077''
       ''1234567890'' ''00110011'' ''true'' cst None))) = Some r' \<and> rr_put r' \<and> rr_command r' = xs8"
proof -
  let ?s = "rr_put_status demo_srv 77 1 5" and ?p = "press_button 0 demo_rele"
  let ?sum = "device_sum ''0000000077'' ''1234567890'' ''00110011'' ''true'' None (76 :: u32)"
  have f: "find_rele (atoi ''0000000077'') (rele_list ?s) = Some ?p"
    using demo_user demo_find
    by (simp add: rr_put_status_def Let_def find_upd_rele demo_sn) (simp add: demo_simps)
  have p: "rr_put ?p" "rr_online ?p = 0"
    by (simp_all add: press_button_def demo_simps Let_def)
  have sum: "?sum = 3735" by (simp add: device_sum_eval)
  have seed: "xsrand (sv_def_rand ?s) (atoi ''0000000077'') = 76"
    by (simp add: xsrand_def demo_sn rr_put_status_def demo_srv_def relay_init_def split: option.split)
  have cs: "atoi ''3735'' = device_sum ''0000000077'' ''1234567890'' ''00110011'' ''true'' None
      (xsrand (sv_def_rand ?s) (atoi ''0000000077''))"
    unfolding seed sum by (simp add: atoi_eval)
  have len: "lengths_ok ''0000000077'' ''1234567890'' ''00110011'' ''true'' ''3735''"
    by (simp add: lengths_ok_def)
  have x: "''00110011'' \<noteq> xs8" by (simp add: xs8_def)
  show ?thesis
    using init_drops_pending_command [OF len x f p(1) cs] unfolding demo_sn p(2) by blast
qed

end
