(* ===== verification/HttpText.thy ===== *)
theory HttpText
  imports Prelude
begin

text \<open>
  The HTTP text functions the servers have in copies: percent decoding
  (\<open>convert_string\<close>), status lines and error answers, MIME types by file extension, and
  the loop that pushes bytes through a socket. Where the copies differ, both are modelled:
  \<open>convert_string\<close> of \<open>servak_na_winapi_relays/source/http_utils.cpp\<close> reads
  past the length it was given, the one of \<open>esp8266_decoder/source/http_utils.cpp\<close>
  stops. The abstract counterpart is an encoder, with the round trip.
\<close>

section \<open>Percent decoding\<close>

text \<open>\<open>char\<close> is signed on the platforms the servers are built for.\<close>

definition schar :: "char \<Rightarrow> int" where
  "schar c = (if ord c < 128 then int (ord c) else int (ord c) - 256)"

definition hex_digit_val :: "char \<Rightarrow> int" where
  "hex_digit_val c = (if schar c \<le> 57 then schar c - 48 else schar c - 65 + 10)"

definition decode_pair :: "char \<Rightarrow> char \<Rightarrow> char" where
  "decode_pair a b = char_of (hex_digit_val a * 16 + hex_digit_val b)"

text \<open>
  The relay server: \<open>mem\<close> is the memory from the pointer on, \<open>n\<close> what is left of
  \<open>lnght\<close>. The two characters after a percent sign are read wherever they are; reading
  outside the buffer is a fault.
\<close>

fun convert_string_mem :: "string \<Rightarrow> nat \<Rightarrow> string res" where
  "convert_string_mem mem 0 = Ok []"
| "convert_string_mem [] (Suc n) = Inl OutOfRange"
| "convert_string_mem (c # mem) (Suc n) =
     (if c \<noteq> CHR ''%''
      then map_sum id (Cons (if c = CHR ''+'' then CHR '' '' else c)) (convert_string_mem mem n)
      else (case mem of
              a # b # mem' \<Rightarrow> map_sum id (Cons (decode_pair a b)) (convert_string_mem mem' (n - 2))
            | _ \<Rightarrow> Inl OutOfRange))"

text \<open>The MachineTime server: an escape that does not fit into the length ends the result.\<close>

fun convert_string :: "string \<Rightarrow> string" where
  "convert_string [] = []"
| "convert_string (c # cs) =
     (if c \<noteq> CHR ''%'' then (if c = CHR ''+'' then CHR '' '' else c) # convert_string cs
      else (case cs of
              a # b # cs' \<Rightarrow> decode_pair a b # convert_string cs'
            | _ \<Rightarrow> []))"

text \<open>A client's encoder: upper-case hexadecimal escapes for everything but plain characters.\<close>

definition hex_upper :: "nat \<Rightarrow> char" where
  "hex_upper d = (if d < 10 then char_of (48 + d) else char_of (55 + d))"

definition plain_char :: "char \<Rightarrow> bool" where
  "plain_char c \<longleftrightarrow> is_digit c \<or> (65 \<le> ord c \<and> ord c \<le> 90) \<or> (97 \<le> ord c \<and> ord c \<le> 122)"

definition percent_char :: "char \<Rightarrow> string" where
  "percent_char c = (if plain_char c then [c]
     else [CHR ''%'', hex_upper (ord c div 16), hex_upper (ord c mod 16)])"

definition percent_encode :: "string \<Rightarrow> string" where
  "percent_encode s = concat (map percent_char s)"

lemma hex_digit_val_upper: "d < 16 \<Longrightarrow> hex_digit_val (hex_upper d) = int d"
  by (auto simp: hex_digit_val_def hex_upper_def schar_def)

lemma ord_less_256: "ord c < 256"
  by (rule nat_of_char_less_256)

lemma decode_pair_hex: "decode_pair (hex_upper (ord c div 16)) (hex_upper (ord c mod 16)) = c"
proof -
  have b: "ord c div 16 < 16" "ord c mod 16 < 16" using ord_less_256 [of c] by linarith+
  have "int (ord c div 16) * 16 + int (ord c mod 16) = int (ord c)"
    by (metis div_mult_mod_eq of_nat_add of_nat_mult of_nat_numeral)
  then have "decode_pair (hex_upper (ord c div 16)) (hex_upper (ord c mod 16)) = char_of (int (ord c))"
    by (simp only: decode_pair_def hex_digit_val_upper [OF b(1)] hex_digit_val_upper [OF b(2)])
  also have "\<dots> = c" by (metis char_of_char of_nat_of_char)
  finally show ?thesis .
qed

lemma plain_not_special: "plain_char c \<Longrightarrow> c \<noteq> CHR ''%'' \<and> c \<noteq> CHR ''+''"
  by (auto simp: plain_char_def is_digit_def)

lemma convert_string_encode_append:
  "convert_string (percent_encode s @ rest) = s @ convert_string rest"
proof (induction s)
  case (Cons c s)
  then show ?case
    using plain_not_special [of c]
    by (simp add: percent_encode_def percent_char_def decode_pair_hex)
qed (simp add: percent_encode_def)

lemma convert_string_encode: "convert_string (percent_encode s) = s"
  using convert_string_encode_append [of s "[]"] by simp

text \<open>A client's query text and request target.\<close>

fun render_query :: "(string \<times> string) list \<Rightarrow> string" where
  "render_query [] = []"
| "render_query [(k, v)] = percent_encode k @ ''='' @ percent_encode v"
| "render_query ((k, v) # kvs) = percent_encode k @ ''='' @ percent_encode v @ ''&'' @ render_query kvs"

lemma hex_upper_plain: "d < 16 \<Longrightarrow> plain_char (hex_upper d)"
  by (auto simp: hex_upper_def plain_char_def is_digit_def)

lemma encode_chars: "c \<in> set (percent_encode s) \<Longrightarrow> plain_char c \<or> c = CHR ''%''"
proof -
  assume "c \<in> set (percent_encode s)"
  then obtain d where d: "c \<in> set (percent_char d)" by (auto simp: percent_encode_def)
  have "ord d div 16 < 16" "ord d mod 16 < 16" using ord_less_256 [of d] by linarith+
  with d hex_upper_plain show ?thesis by (auto simp: percent_char_def split: if_splits)
qed

lemma encode_free:
  "\<not> plain_char c \<Longrightarrow> c \<noteq> CHR ''%'' \<Longrightarrow> c \<notin> set (percent_encode s)"
  using encode_chars by blast

lemma encode_nonempty: "s \<noteq> [] \<Longrightarrow> percent_encode s \<noteq> []"
  by (cases s) (auto simp: percent_encode_def percent_char_def)

lemma special_not_plain:
  "\<not> plain_char (CHR ''='')" "\<not> plain_char (CHR ''&'')" "\<not> plain_char (CHR '' '')"
  "\<not> plain_char (CHR ''?'')" "\<not> plain_char (CHR 0x0A)" "\<not> plain_char (CHR 0x0D)" "\<not> plain_char NUL"
  by (simp_all add: plain_char_def is_digit_def NUL_def)

lemmas encode_separators =
  encode_free [OF special_not_plain(1), simplified] encode_free [OF special_not_plain(2), simplified]
  encode_free [OF special_not_plain(3), simplified] encode_free [OF special_not_plain(4), simplified]
  encode_free [OF special_not_plain(5), simplified] encode_free [OF special_not_plain(6), simplified]

lemma encode_no_NUL: "NUL \<notin> set (percent_encode s)"
  by (rule encode_free) (simp_all add: special_not_plain, simp add: NUL_def)

lemma render_query_chars:
  "c \<in> set (render_query kvs) \<Longrightarrow> plain_char c \<or> c = CHR ''%'' \<or> c = CHR ''='' \<or> c = CHR ''&''"
  by (induction kvs rule: render_query.induct) (auto dest: encode_chars)

definition target :: "string \<Rightarrow> (string \<times> string) list \<Rightarrow> string" where
  "target path kvs = percent_encode path @ (if kvs = [] then [] else ''?'' @ render_query kvs)"

lemma target_chars:
  "c \<in> set (target path kvs) \<Longrightarrow>
     plain_char c \<or> c = CHR ''%'' \<or> c = CHR ''='' \<or> c = CHR ''&'' \<or> c = CHR ''?''"
  by (auto simp: target_def dest: encode_chars render_query_chars split: if_splits)

lemma target_free: "\<not> plain_char c \<Longrightarrow> c \<notin> {CHR ''%'', CHR ''='', CHR ''&'', CHR ''?''} \<Longrightarrow>
    c \<notin> set (target path kvs)"
  using target_chars by blast

definition render_line :: "string \<Rightarrow> string \<Rightarrow> (string \<times> string) list \<Rightarrow> string" where
  "render_line meth path kvs = meth @ '' '' @ percent_encode path @
     (if kvs = [] then [] else ''?'' @ render_query kvs) @ '' HTTP/1.1'' @ crlf"

definition render_header :: "string \<times> string \<Rightarrow> string" where
  "render_header h = fst h @ '': '' @ snd h @ crlf"

lemma render_line_target:
  "render_line m path kvs = m @ CHR '' '' # target path kvs @ CHR '' '' # ''HTTP/1.1'' @ crlf"
  by (simp add: render_line_def target_def)

lemma set_free: "\<forall>c \<in> set m. plain_char c \<Longrightarrow> \<not> plain_char d \<Longrightarrow> d \<notin> set m"
  by blast

text \<open>Where the bounded reader sees whole escapes only, both copies agree.\<close>

lemma convert_string_mem_encode:
  "convert_string_mem (percent_encode s @ rest) (length (percent_encode s)) = Ok s"
proof (induction s)
  case (Cons c s)
  then show ?case
    using plain_not_special [of c]
    by (simp add: percent_encode_def percent_char_def decode_pair_hex)
qed (simp add: percent_encode_def)

lemma convert_string_mem_ok:
  "n + 2 \<le> length mem \<Longrightarrow> \<exists>s. convert_string_mem mem n = Ok s"
proof (induction mem n rule: convert_string_mem.induct)
  case (3 c mem n)
  show ?case
  proof (cases "c = CHR ''%''")
    case True
    with "3.prems" obtain a b m where m: "mem = a # b # m"
      by (cases mem; cases "tl mem") auto
    show ?thesis
    proof (cases n)
      case 0
      with True m show ?thesis by simp
    next
      case (Suc k)
      then have "n - 2 + 2 \<le> length m \<or> n - 2 = 0" using "3.prems" m by auto
      then have "\<exists>s. convert_string_mem m (n - 2) = Ok s"
        using "3.IH"(2) [OF _ m refl] True by (auto elim: disjE)
      with True m show ?thesis by auto
    qed
  next
    case False
    with "3.IH"(1) "3.prems" show ?thesis by fastforce
  qed
qed auto

section \<open>Status lines\<close>

text \<open>The \<open>switch(cod)\<close> all three servers share.\<close>

definition status_line :: "int \<Rightarrow> string" where
  "status_line cod = ''HTTP/1.1 '' @
     (if cod = 200 then ''200 OK'' @ crlf
      else if cod = 400 then ''400 Bad Request'' @ crlf
      else if cod = 404 then ''404 Not Found'' @ crlf
      else if cod = 405 then ''405 Method Not Allowed'' @ crlf @
             ''Allow: GET, HEAD, POST, PUT, DELETE'' @ crlf
      else if cod = 501 then ''501 Not Implemented'' @ crlf
      else if cod = 503 then ''503 Service Unavailable'' @ crlf
      else if cod = 505 then ''505 HTTP Version Not Supported'' @ crlf
      else if cod = 415 then ''415 Unsupported Type'' @ crlf
      else ''500 Internal Server Error'' @ crlf)"

section \<open>MIME types\<close>

definition tolower :: "char \<Rightarrow> char" where
  "tolower c = (if 65 \<le> ord c \<and> ord c \<le> 90 then char_of (ord c + 32) else c)"

text \<open>\<open>path.substr(path.find_last_of('.'))\<close>, in lower case.\<close>

definition file_ext :: "string \<Rightarrow> string option" where
  "file_ext path = (if CHR ''.'' \<in> set path
     then Some (map tolower (CHR ''.'' # rev (takeWhile (\<lambda>c. c \<noteq> CHR ''.'') (rev path))))
     else None)"

definition content_type_of :: "string \<Rightarrow> string" where
  "content_type_of path = (case file_ext path of
       None \<Rightarrow> ''application/octet-stream''
     | Some e \<Rightarrow> (let ext = c_str e in
         if ext = ''.html'' then ''text/html''
         else if ext = ''.css'' then ''text/css''
         else if ext = ''.js'' then ''application/javascript''
         else if ext = ''.png'' then ''image/png''
         else if ext = ''.jpg'' then ''image/jpeg''
         else if ext = ''.jpeg'' then ''image/jpeg''
         else if ext = ''.gif'' then ''image/gif''
         else if ext = ''.svg'' then ''image/svg+xml''
         else if ext = ''.ico'' then ''image/x-icon''
         else if ext = ''.xml'' then ''text/xml''
         else if ext = ''.txt'' then ''text/plain''
         else if ext = ''.bin'' then ''application/octet-stream''
         else if ext = ''.apk'' then ''application/vnd.android.package-archive''
         else ''application/octet-stream''))"

section \<open>Sending\<close>

text \<open>
  \<open>_send\<close>: the kernel takes a number of bytes per call or reports an error
  (\<open>None\<close>); the loop goes on until the whole buffer is sent. The list holds the kernel's
  answers; the result is what went out and the return value, \<open>None\<close> while the loop still
  waits for the kernel.
\<close>

fun send_loop :: "nat option list \<Rightarrow> string \<Rightarrow> nat \<Rightarrow> string \<times> int option" where
  "send_loop ks buf tot =
     (if tot < length buf
      then (case ks of
              [] \<Rightarrow> ([], None)
            | None # _ \<Rightarrow> ([], Some (-1))
            | Some n # ks' \<Rightarrow>
                (let sent = take n (drop tot buf);
                     (out, r) = send_loop ks' buf (tot + length sent)
                 in (sent @ out, r)))
      else ([], Some (int tot)))"

declare send_loop.simps [simp del]

lemma send_loop_Some:
  "tot < length buf \<Longrightarrow> send_loop (Some n # ks) buf tot =
     (take n (drop tot buf) @ fst (send_loop ks buf (tot + length (take n (drop tot buf)))),
      snd (send_loop ks buf (tot + length (take n (drop tot buf)))))"
  by (subst send_loop.simps) (simp add: case_prod_unfold Let_def)

lemma take_drop_step:
  "take n (drop t xs) @ drop (t + length (take n (drop t xs))) xs = drop t xs"
  by (metis append_take_drop_id drop_drop length_take min.commute min_def add.commute drop_all
      length_drop nat_le_linear take_all)

lemma send_loop_prefix:
  "\<exists>rest. drop tot buf = fst (send_loop ks buf tot) @ rest"
proof (induction ks arbitrary: tot)
  case Nil
  then show ?case by (subst send_loop.simps) simp
next
  case (Cons k ks)
  show ?case
  proof (cases k)
    case None
    then show ?thesis by (subst send_loop.simps) simp
  next
    case (Some n)
    let ?s = "take n (drop tot buf)"
    obtain rest where r: "drop (tot + length ?s) buf = fst (send_loop ks buf (tot + length ?s)) @ rest"
      using Cons.IH by blast
    have dt: "drop tot buf = ?s @ drop (tot + length ?s) buf" by (simp only: take_drop_step)
    show ?thesis
    proof (cases "tot < length buf")
      case True
      then have "fst (send_loop (k # ks) buf tot) = ?s @ fst (send_loop ks buf (tot + length ?s))"
        by (simp only: Some send_loop_Some fst_conv)
      with dt r show ?thesis by (metis append.assoc)
    next
      case False
      then show ?thesis by (subst send_loop.simps) simp
    qed
  qed
qed

lemma send_loop_done:
  "snd (send_loop ks buf tot) = Some (int m) \<Longrightarrow> tot \<le> length buf \<Longrightarrow>
     m = length buf \<and> fst (send_loop ks buf tot) = drop tot buf"
proof (induction ks arbitrary: tot)
  case Nil
  then show ?case by (auto simp: send_loop.simps split: if_splits)
next
  case (Cons k ks)
  show ?case
  proof (cases "tot < length buf")
    case False
    with Cons.prems show ?thesis by (subst send_loop.simps) (simp add: send_loop.simps)
  next
    case True
    then show ?thesis
    proof (cases k)
      case None
      with Cons.prems True show ?thesis by (simp add: send_loop.simps)
    next
      case (Some n)
      let ?s = "take n (drop tot buf)"
      have "snd (send_loop ks buf (tot + length ?s)) = Some (int m)"
        using Cons.prems True Some by (simp add: send_loop_Some)
      moreover have "tot + length ?s \<le> length buf" using True by (simp add: min_def) linarith
      ultimately have "m = length buf \<and>
          fst (send_loop ks buf (tot + length ?s)) = drop (tot + length ?s) buf"
        by (rule Cons.IH)
      with True Some show ?thesis
        by (simp only: send_loop_Some fst_conv take_drop_step)
    qed
  qed
qed

end
