(* ===== verification/RelayHttp.thy ===== *)
theory RelayHttp
  imports RelayFacts HttpText
begin

text \<open>
  The HTTP side of the relay server: the request record of \<open>request.h\<close>, the answers of
  \<open>http_utils.cpp\<close>, the handlers of \<open>relay_http_handlers.cpp\<close> and the dispatch in
  the main loop of \<open>server_relays.cpp\<close>. A handler returns the bytes it sends and the new
  state, or the fault that ends the process (\<open>atoi\<close> of a null pointer). The date of the
  answer, the clock and the file system are inputs.
\<close>

section \<open>Requests\<close>

record query =
  q_param :: string
  q_znach :: string

record request =
  rq_method :: int
  rq_path :: string
  rq_accept_language :: string
  rq_host :: string
  rq_user_agent :: string
  rq_prot :: string
  rq_header :: string
  rq_body :: string
  rq_query :: "query list"
  f_path :: bool
  f_accept_language :: bool
  f_host :: bool
  f_user_agent :: bool
  f_prot :: bool

definition new_request :: request where
  "new_request = \<lparr>rq_method = -1, rq_path = [], rq_accept_language = [], rq_host = [],
     rq_user_agent = [], rq_prot = [], rq_header = [], rq_body = [], rq_query = [],
     f_path = False, f_accept_language = False, f_host = False, f_user_agent = False,
     f_prot = False\<rparr>"

definition is_param :: "string \<Rightarrow> query \<Rightarrow> bool" where
  "is_param pr q \<longleftrightarrow> c_str (q_param q) = pr"

definition param :: "request \<Rightarrow> string \<Rightarrow> bool" where
  "param rq pr = list_ex (is_param pr) (rq_query rq)"

definition check_param :: "request \<Rightarrow> string \<Rightarrow> string \<Rightarrow> bool" where
  "check_param rq pr zn = list_ex (\<lambda>q. is_param pr q \<and> c_str (q_znach q) = zn) (rq_query rq)"

definition znach :: "request \<Rightarrow> string \<Rightarrow> string option" where
  "znach rq pr = map_option (\<lambda>q. c_str (q_znach q)) (find (is_param pr) (rq_query rq))"

fun remove_first :: "('a \<Rightarrow> bool) \<Rightarrow> 'a list \<Rightarrow> 'a list" where
  "remove_first p [] = []"
| "remove_first p (x # xs) = (if p x then xs else x # remove_first p xs)"

definition deleteParam :: "string \<Rightarrow> request \<Rightarrow> request" where
  "deleteParam pr rq = rq\<lparr>rq_query := remove_first (is_param pr) (rq_query rq)\<rparr>"

definition path_is :: "request \<Rightarrow> string \<Rightarrow> bool" where
  "path_is rq p \<longleftrightarrow> c_str (rq_path rq) = p"

section \<open>Answers\<close>

definition kap_type :: "int \<Rightarrow> string option \<Rightarrow> string" where
  "kap_type typ typstr =
     (if typ \<noteq> 0 then
        (if typ = 1 then ''Content-Type: text/html; charset=UTF-8'' @ crlf
         else if typ = 2 then ''Content-Type: text/plain; charset=UTF-8'' @ crlf
         else if typ = 3 then ''Content-Type: text/json; charset=UTF-8'' @ crlf
         else if typ = 4 then ''Content-Type: application/octet-stream'' @ crlf
         else if typ = 5 then ''Content-Type: text/html; charset=UTF-8'' @ crlf
         else [])
      else (case typstr of None \<Rightarrow> [] | Some t \<Rightarrow> ''Content-Type: '' @ t @ crlf))"

definition send_kap :: "string \<Rightarrow> int \<Rightarrow> int \<Rightarrow> int \<Rightarrow> string option \<Rightarrow> bool \<Rightarrow> string" where
  "send_kap date cod len typ typstr get_log_file_flag =
     status_line cod @
     (if cod = 200 then ''Content-Length: '' @ int_str len @ crlf @ kap_type typ typstr else []) @
     ''Cache-Control: no-cache'' @ crlf @ ''Server: RelayServer'' @ crlf @
     ''Date: '' @ date @ crlf @
     (if get_log_file_flag then ''X-Get: log_file'' @ crlf else []) @ crlf"

definition err_message :: string where
  "err_message = ''prykolno, yak ce robytsja''"

definition send_err :: "string \<Rightarrow> int \<Rightarrow> string" where
  "send_err date cod =
     (if cod > 1000 \<and> cod < 1999
      then send_kap date (cod - 1000) (int (length err_message)) 0 None False @ err_message
      else send_kap date cod 0 0 None False)"

section \<open>Handlers\<close>

type_synonym files = "string \<Rightarrow> string option"

definition send_page :: "string \<Rightarrow> int \<Rightarrow> string option \<Rightarrow> bool \<Rightarrow> string \<Rightarrow> string" where
  "send_page date typ typstr head body =
     send_kap date 200 (int (length body)) typ typstr False @ (if head then [] else body)"

definition serve_static :: "string \<Rightarrow> files \<Rightarrow> string \<Rightarrow> bool \<Rightarrow> string" where
  "serve_static date fs path head =
     (if contains ''/..'' path then send_err date 403
      else let path = (if path = [] \<or> path = ''/'' then ''/knopky.html'' else path)
           in case fs (c_str (''www'' @ path)) of
                None \<Rightarrow> send_err date 404
              | Some content \<Rightarrow> send_page date 0 (Some (content_type_of path)) head content)"

definition obrobka_get ::
  "relay_srv \<Rightarrow> int \<Rightarrow> string \<Rightarrow> files \<Rightarrow> request \<Rightarrow> bool \<Rightarrow> (string \<times> relay_srv) res" where
  "obrobka_get s now date fs rq head =
     (if path_is rq ''/get_status'' \<and> param rq ''userID'' then
        bind_res (atoi_ptr (znach rq ''userID'')) (\<lambda>u.
        bind_res (rr_get_status s now u) (\<lambda>(bb, s').
          Ok (send_page date 3 (Some []) head bb, s')))
      else if path_is rq ''/get_knopky'' \<and> param rq ''userID'' then
        bind_res (atoi_ptr (znach rq ''userID'')) (\<lambda>u.
          let (bb, s') = get_knopky s now u in Ok (send_page date 1 (Some []) head bb, s'))
      else if path_is rq ''/get_gadgets'' \<and> param rq ''userID'' then
        bind_res (atoi_ptr (znach rq ''userID'')) (\<lambda>u.
          Ok (send_page date 1 (Some []) head (get_gadgets s u), s))
      else if path_is rq ''/get_relays'' \<and> param rq ''userID'' \<and> param rq ''sn'' then
        bind_res (atoi_ptr (znach rq ''userID'')) (\<lambda>u.
        bind_res (atoi_ptr (znach rq ''sn'')) (\<lambda>sn.
          Ok (send_page date 3 (Some []) head (get_relays s u sn), s)))
      else if path_is rq ''/log_file'' \<and> param rq ''userID'' \<and> param rq ''sn'' then
        bind_res (atoi_ptr (znach rq ''sn'')) (\<lambda>sn.
        bind_res (atoi_ptr (znach rq ''userID'')) (\<lambda>u.
          let (bbb, s') = send_for_user_log_file s sn u
          in Ok (send_page date 1 (Some []) head bbb, s')))
      else Ok (serve_static date fs (rq_path rq) head, s))"

definition relay_keys :: "string list" where
  "relay_keys = [''relay1'', ''relay2'', ''relay3'', ''relay4'', ''relay5'', ''relay6'', ''relay7'',
     ''relay8'']"

text \<open>What \<open>obrobka_post\<close> writes into its buffer; \<open>None\<close> is the path it does not know.\<close>

definition post_body ::
  "relay_srv \<Rightarrow> int \<Rightarrow> request \<Rightarrow> (string \<times> relay_srv) option res" where
  "post_body s now rq =
     (if path_is rq ''/update_state'' then
        (let pin_txt = (if param rq ''pin'' then znach rq ''pin'' else None)
         in Ok (Some (obrobnyk_relay s now (znach rq ''sn'') (znach rq ''acp'')
              (znach rq ''relays'') (znach rq ''init'') (znach rq ''cs'') pin_txt)))
      else if path_is rq ''/log_file'' then
        Ok (Some (''OK'', save_log_file s (rq_body rq)))
      else if path_is rq ''/set_relay_name'' then
        bind_res (atoi_ptr (znach rq ''sn'')) (\<lambda>sn.
        bind_res (atoi_ptr (znach rq ''userID'')) (\<lambda>u.
          let (r, db) = set_relay_name (g_db s) sn (znach rq ''name'') u
          in Ok (Some (r, s\<lparr>g_db := db\<rparr>))))
      else if path_is rq ''/set_relay_names'' then
        bind_res (atoi_ptr (znach rq ''sn'')) (\<lambda>sn.
        bind_res (atoi_ptr (znach rq ''userID'')) (\<lambda>u.
          let (r, db) = set_relay_names (g_db s) sn (map (znach rq) relay_keys) u
          in Ok (Some (r, s\<lparr>g_db := db\<rparr>))))
      else Ok None)"

definition obrobka_post ::
  "relay_srv \<Rightarrow> int \<Rightarrow> string \<Rightarrow> request \<Rightarrow> (string \<times> relay_srv) res" where
  "obrobka_post s now date rq =
     bind_res (post_body s now rq) (\<lambda>b.
       case b of
         None \<Rightarrow> Ok (send_err date 400, s)
       | Some (buff, s') \<Rightarrow>
           if length (rq_query rq) = 5 \<and> path_is rq ''/update_state'' then
             bind_res (atoi_ptr (znach rq ''sn'')) (\<lambda>sn.
               let (flag, s'') = get_get_log_file_flag s' sn
               in Ok (send_kap date 200 (int (length buff)) 3 (Some []) flag @ buff, s''))
           else Ok (send_kap date 200 (int (length buff)) 3 None False @ buff, s'))"

definition obrobka_put :: "relay_srv \<Rightarrow> string \<Rightarrow> request \<Rightarrow> (string \<times> relay_srv) res" where
  "obrobka_put s date rq =
     (if path_is rq ''/put_status'' \<and> param rq ''sn'' \<and> param rq ''button'' then
        bind_res (atoi_ptr (znach rq ''sn'')) (\<lambda>sn.
        bind_res (atoi_ptr (znach rq ''button'')) (\<lambda>b.
        bind_res (atoi_ptr (znach rq ''userID'')) (\<lambda>u.
          Ok (send_kap date 200 0 3 None False, rr_put_status s sn b u))))
      else Ok (send_err date 400, s))"

text \<open>\<open>obrobka_delete\<close> has no path of its own (and the main loop does not call it).\<close>

definition obrobka_delete :: "relay_srv \<Rightarrow> string \<Rightarrow> request \<Rightarrow> (string \<times> relay_srv) res" where
  "obrobka_delete s date rq = Ok (send_err date 400, s)"

section \<open>The main loop\<close>

datatype conn_end = Closed | LeftOpen | ServerExit

text \<open>
  The commands in a request's \<open>command\<close> parameter. \<open>Inl\<close> of the result ends the request
  here (the server exits, or goes on to the next connection without closing this one);
  \<open>Inr\<close> is the request that is dispatched.
\<close>

definition order_flag :: "relay_srv \<Rightarrow> int \<Rightarrow> request \<Rightarrow> bool \<Rightarrow> (relay_srv \<times> request) res" where
  "order_flag s now rq flag =
     (if param rq ''sn'' then
        bind_res (atoi_ptr (znach rq ''sn'')) (\<lambda>sn.
        bind_res (atoi_ptr (znach rq ''userID'')) (\<lambda>u.
          Ok (set_get_log_file_flag s now sn u flag, deleteParam ''sn'' rq)))
      else Ok (s, rq))"

definition run_commands ::
  "relay_srv \<Rightarrow> int \<Rightarrow> request \<Rightarrow> (relay_srv \<times> (conn_end + request)) res" where
  "run_commands s now rq =
     (if \<not> param rq ''command'' then Ok (s, Inr rq)
      else if check_param rq ''command'' ''exit'' then Ok (s, Inl ServerExit)
      else
        let s = (if check_param rq ''command'' ''log_on'' then s\<lparr>hide_log := False\<rparr> else s);
            s = (if check_param rq ''command'' ''log_off'' then s\<lparr>hide_log := True\<rparr> else s)
        in if check_param rq ''command'' ''log_file'' then
             (if path_is rq ''/view_log_order.html'' then
                bind_res (order_flag s now rq True) (\<lambda>(s', rq').
                  Ok (s', Inr (deleteParam ''command'' rq')))
              else if path_is rq ''/clear_get_log_file_flag'' then
                bind_res (order_flag s now rq False) (\<lambda>(s', rq'). Ok (s', Inl LeftOpen))
              else Ok (s, Inr (deleteParam ''command'' rq)))
           else Ok (s, Inr (deleteParam ''command'' rq)))"

definition dispatch ::
  "relay_srv \<Rightarrow> int \<Rightarrow> string \<Rightarrow> files \<Rightarrow> request \<Rightarrow> (string \<times> relay_srv) res" where
  "dispatch s now date fs rq =
     (if rq_method rq = 1001 then obrobka_get s now date fs rq False
      else if rq_method rq = 1003 then obrobka_get s now date fs rq True
      else if rq_method rq = 1004 then obrobka_post s now date rq
      else if rq_method rq = 1005 then obrobka_put s date rq
      else Ok (send_err date 405, s))"

definition serve ::
  "relay_srv \<Rightarrow> int \<Rightarrow> string \<Rightarrow> files \<Rightarrow> request \<Rightarrow> (string \<times> conn_end \<times> relay_srv) res" where
  "serve s now date fs rq =
     bind_res (run_commands s now rq) (\<lambda>(s', r).
       case r of
         Inl e \<Rightarrow> Ok (send_err date 200, e, s')
       | Inr rq' \<Rightarrow> bind_res (dispatch s' now date fs rq') (\<lambda>(out, s''). Ok (out, Closed, s'')))"

end
