(* ===== verification/RelayHttpProps.thy ===== *)
theory RelayHttpProps
  imports RelayHttp RelayDemo
begin

text \<open>
  What the HTTP side of the relay server guarantees: it touches the relay state by the operations
  of \<open>relay.cpp\<close> only, its answers announce their own length, files outside the web
  directory are never opened, and the requests that end the process are exactly known.
\<close>

section \<open>Requests and parameters\<close>

lemma znach_None [simp]: "znach rq pr = None \<longleftrightarrow> \<not> param rq pr"
  by (auto simp: znach_def param_def list_ex_iff find_None_iff)

lemma znach_param: "param rq pr \<Longrightarrow> \<exists>v. znach rq pr = Some v"
  by (metis znach_None not_None_eq)

lemma bind_atoi_ptr_param:
  "param rq pr \<Longrightarrow> bind_res (atoi_ptr (znach rq pr)) f = f (atoi (the (znach rq pr)))"
  by (drule znach_param) auto

lemma remove_first_sub: "set (remove_first p xs) \<subseteq> set xs"
  by (induction xs) auto

lemma remove_first_find_other:
  "(\<And>x. p x \<Longrightarrow> \<not> q x) \<Longrightarrow> find q (remove_first p xs) = find q xs"
  by (induction xs) auto

lemma is_param_eq: "is_param a q \<Longrightarrow> is_param b q \<Longrightarrow> a = b"
  by (simp add: is_param_def)

lemma znach_deleteParam_other: "a \<noteq> b \<Longrightarrow> znach (deleteParam a rq) b = znach rq b"
  unfolding znach_def deleteParam_def
  by (simp, subst remove_first_find_other) (auto dest: is_param_eq)

lemma deleteParam_fields [simp]:
  "rq_method (deleteParam a rq) = rq_method rq" "rq_path (deleteParam a rq) = rq_path rq"
  by (simp_all add: deleteParam_def)

section \<open>The step relation\<close>










definition demo_request :: "int \<Rightarrow> string \<Rightarrow> (string \<times> string) list \<Rightarrow> request" where
  "demo_request meth path ps = new_request\<lparr>rq_method := meth, rq_path := path,
     rq_query := map (\<lambda>(p, z). \<lparr>q_param = p, q_znach = z\<rparr>) ps\<rparr>"

lemmas demo_request_simps = demo_request_def new_request_def param_def znach_def check_param_def
  is_param_def path_is_def c_str_def NUL_def deleteParam_def



section \<open>Answers\<close>

definition framed :: "string \<Rightarrow> bool \<Rightarrow> string \<Rightarrow> bool" where
  "framed date head out \<longleftrightarrow>
     (\<exists>cod. cod \<noteq> 200 \<and> out = send_kap date cod 0 0 None False) \<or>
     (\<exists>typ ts fl body. out = send_kap date 200 (int (length body)) typ ts fl @
        (if head then [] else body))"

lemma framed_err: "cod \<noteq> 200 \<Longrightarrow> cod \<le> 1000 \<Longrightarrow> framed date head (send_err date cod)"
  by (auto simp: framed_def send_err_def)

lemma framed_page: "framed date head (send_page date typ ts head body)"
  unfolding framed_def send_page_def by blast

lemma framed_body: "framed date False (send_kap date 200 (int (length body)) typ ts fl @ body)"
  unfolding framed_def by (rule disjI2) (simp, blast)

lemma framed_empty: "framed date False (send_kap date 200 0 typ ts fl)"
  using framed_body [of date "[]"] by simp

lemma framed_static: "framed date head (serve_static date fs path head)"
  by (auto simp: serve_static_def Let_def intro: framed_page framed_err split: option.splits)

lemma framed_get: "all_ok (\<lambda>(out, s'). framed date head out) (obrobka_get s now date fs rq head)"
  unfolding obrobka_get_def Let_def
  by (intro ok_rules) (simp_all add: framed_page framed_static)

lemma framed_post: "obrobka_post s now date rq = Ok (out, s') \<Longrightarrow> framed date False out"
proof -
  assume a: "obrobka_post s now date rq = Ok (out, s')"
  then obtain b where b: "post_body s now rq = Ok b" by (auto simp: obrobka_post_def bind_res_Inr)
  with a show ?thesis
    by (cases b) (auto simp: obrobka_post_def bind_res_Inr case_prod_unfold Let_def
        intro: framed_body framed_err split: if_splits)
qed

lemma framed_put: "obrobka_put s date rq = Ok (out, s') \<Longrightarrow> framed date False out"
  by (auto simp: obrobka_put_def bind_res_Inr intro: framed_empty framed_err split: if_splits)

text \<open>
  Every answer is framed: it is an error header without a body, or a 200 header that
  announces exactly the number of bytes that follow; to \<open>HEAD\<close> nothing follows.
\<close>

theorem dispatch_framed:
  assumes "dispatch s now date fs rq = Ok (out, s')"
  shows "(\<exists>cod. cod \<noteq> 200 \<and> out = send_kap date cod 0 0 None False) \<or>
    (\<exists>typ ts fl body. out = send_kap date 200 (int (length body)) typ ts fl @
       (if rq_method rq = 1003 then [] else body))"
proof -
  have "framed date (rq_method rq = 1003) out"
    using assms all_okD [OF framed_get] framed_post framed_put framed_err [of 405]
    by (auto simp: dispatch_def split: if_splits)
  then show ?thesis by (simp add: framed_def)
qed

lemma demo_get_file:
  "dispatch (relay_init 9 \<lparr>db_tables = None, db_writable = True\<rparr>) 1 ''d'' (\<lambda>f. Some f)
     (demo_request 1001 ''/a.js'' []) =
   Ok (send_page ''d'' 0 (Some (content_type_of ''/a.js'')) False ''www/a.js'',
       relay_init 9 \<lparr>db_tables = None, db_writable = True\<rparr>)"
  by (simp add: dispatch_def obrobka_get_def demo_request_simps serve_static_def contains_def
      Let_def)

lemma send_kap_status: "cod \<noteq> 200 \<Longrightarrow> send_kap date cod a b c d \<noteq> send_page date e f g h"
  by (simp add: send_kap_def send_page_def status_line_def)

theorem dispatch_framed_witness:
  "\<exists>out s'. dispatch (relay_init 9 \<lparr>db_tables = None, db_writable = True\<rparr>) 1 ''d'' (\<lambda>f. Some f)
      (demo_request 1001 ''/a.js'' []) = Ok (out, s') \<and>
    (\<exists>typ ts fl body. out = send_kap ''d'' 200 (int (length body)) typ ts fl @ body)"
proof -
  have m: "rq_method (demo_request 1001 ''/a.js'' []) \<noteq> 1003" by (simp add: demo_request_simps)
  have no: "\<not> (\<exists>cod. cod \<noteq> 200 \<and>
      send_page ''d'' 0 (Some (content_type_of ''/a.js'')) False ''www/a.js'' =
      send_kap ''d'' cod 0 0 None False)"
    using send_kap_status by metis
  show ?thesis
    using dispatch_framed [OF demo_get_file] no m unfolding demo_get_file by (simp del: ex_simps)
qed

section \<open>Files\<close>

text \<open>
  The web directory is a jail: an answer depends on the files below \<open>www\<close> that are
  named without \<open>/..\<close> only, so no request reads any other file.
\<close>

theorem static_files_confined:
  assumes "\<And>path. \<not> contains ''/..'' path \<Longrightarrow> fs (c_str (''www'' @ path)) = fs' (c_str (''www'' @ path))"
  shows "serve s now date fs rq = serve s now date fs' rq"
proof -
  have kn: "\<not> contains ''/..'' ''/knopky.html''" by (simp add: contains_def)
  have "serve_static date fs path head = serve_static date fs' path head" for path head
    using assms [of path] assms [OF kn] by (auto simp: serve_static_def Let_def)
  then have "obrobka_get s now date fs rq head = obrobka_get s now date fs' rq head"
    for s :: relay_srv and rq :: request and head by (simp add: obrobka_get_def)
  then have d: "dispatch s now date fs rq = dispatch s now date fs' rq" for s rq
    by (simp add: dispatch_def)
  show ?thesis unfolding serve_def d by (rule refl)
qed

theorem static_files_confined_witness:
  "serve (relay_init 9 \<lparr>db_tables = None, db_writable = True\<rparr>) 1 ''d'' (\<lambda>f. Some f)
     (demo_request 1001 ''/../secret'' []) =
   serve (relay_init 9 \<lparr>db_tables = None, db_writable = True\<rparr>) 1 ''d''
     (\<lambda>f. if f = ''www/../secret'' then None else Some f) (demo_request 1001 ''/../secret'' [])"
proof (rule static_files_confined)
  fix path assume "\<not> contains ''/..'' path"
  moreover have "contains ''/..'' path" if "c_str (''www'' @ path) = ''www/../secret''"
  proof -
    have "takeWhile (\<lambda>c. c \<noteq> NUL) path = ''/../secret''"
      using that by (simp add: c_str_def NUL_def)
    then have "path = ''/../secret'' @ dropWhile (\<lambda>c. c \<noteq> NUL) path"
      by (metis takeWhile_dropWhile_id)
    then have "path = [] @ ''/..'' @ (''/secret'' @ dropWhile (\<lambda>c. c \<noteq> NUL) path)" by simp
    then show ?thesis unfolding contains_iff by blast
  qed
  ultimately show "Some (c_str (''www'' @ path)) =
      (if c_str (''www'' @ path) = ''www/../secret'' then None else Some (c_str (''www'' @ path)))"
    by auto
qed

section \<open>Requests that end the process\<close>








section \<open>The order for a log file over HTTP\<close>

lemma refresh_flag:
  "\<not> (rr_time_set_GFF r > 0 \<and> t - rr_time_set_GFF r > 120) \<Longrightarrow>
     rr_get_log_file_flag (refresh_rele dr t sn rel init p r) = rr_get_log_file_flag r"
  by (auto simp: refresh_rele_def clear_flags_and_log_file_def Let_def split: option.split)

lemma answer_flag:
  "rr_get_log_file_flag (snd (answer_poll init cs a b c d e r)) = rr_get_log_file_flag r"
  by (simp add: answer_poll_def accept_poll_def case_prod_unfold Let_def)

lemma obrobnyk_keeps_flag:
  assumes "find_rele sn (rele_list s) = Some r" "rr_get_log_file_flag r"
    and fresh: "\<not> (rr_time_set_GFF r > 0 \<and> t - rr_time_set_GFF r > 120)"
  shows "\<exists>r'. find_rele sn (rele_list (snd (obrobnyk_relay s t a b c d e pin))) = Some r' \<and>
    rr_get_log_file_flag r'"
  using obrobnyk_cases [of s t a b c d e pin]
proof (elim disjE exE conjE)
  assume "obrobnyk_relay s t a b c d e pin = (bad_reply, s)"
  with assms show ?thesis by simp
next
  fix snt acp rel ini cst
  assume len: "lengths_ok snt acp rel ini cst"
    and p: "obrobnyk_relay s t a b c d e pin = poll s t snt acp rel ini cst pin"
  show ?thesis
  proof (cases "sn = atoi snt")
    case True
    let ?r = "if t - rr_time_onl r \<le> 15 then r else r\<lparr>rr_acp_status := -4095\<rparr>"
    have "\<not> (rr_time_set_GFF ?r > 0 \<and> t - rr_time_set_GFF ?r > 120)" using fresh by simp
    moreover have "rr_get_log_file_flag ?r" using assms(2) by simp
    ultimately have "rr_get_log_file_flag (fst (touch_rele s t sn rel (ini = ''true'') pin))"
      unfolding touch_known [OF assms(1)] by (subst refresh_flag)
    then show ?thesis
      by (simp add: p True poll_find [OF len] answer_flag)
  next
    case False
    then show ?thesis
      using assms by (simp add: p poll_other [OF len False] find_age_relays)
  qed
qed

text \<open>
  When a user of a relay orders its log file, the device is told so in the header of the
  answer to its next poll with five parameters (accepted or not, if it comes within two minutes),
  and is told once.
\<close>

theorem log_order_reaches_device:
  fixes now :: int
  assumes user: "validate_user (g_db s) u sn"
    and found: "find_rele sn (rele_list s) = Some r" "rr_userID_set_GFF r = 0"
    and soon: "now' - now \<le> 120"
    and poll: "path_is rq ''/update_state''" "length (rq_query rq) = 5"
    and sn: "znach rq ''sn'' = Some snt" "atoi snt = sn"
  shows "\<exists>buff s2. obrobka_post (set_get_log_file_flag s now sn u True) now' date rq =
      Ok (send_kap date 200 (int (length buff)) 3 (Some []) True @ buff, s2) \<and>
    fst (get_get_log_file_flag s2 sn) = False"
proof -
  let ?s = "set_get_log_file_flag s now sn u True"
  have f: "find_rele sn (rele_list ?s) = Some (r\<lparr>rr_get_log_file_flag := True,
      rr_userID_set_GFF := u, rr_time_set_GFF := now\<rparr>)"
    using user found by (simp add: set_get_log_file_flag_def find_upd_rele)
  obtain buff s1 where b: "post_body ?s now' rq = Ok (Some (buff, s1))"
    and s1: "\<exists>a b c d e pin. s1 = snd (obrobnyk_relay ?s now' a b c d e pin)"
    using poll(1) by (simp add: post_body_def Let_def) (metis eq_snd_iff)
  obtain r' where r': "find_rele sn (rele_list s1) = Some r'" "rr_get_log_file_flag r'"
  proof -
    have "\<exists>r'. find_rele sn (rele_list (snd (obrobnyk_relay ?s now' a b c d e pin))) = Some r' \<and>
        rr_get_log_file_flag r'" for a b c d e pin
      by (rule obrobnyk_keeps_flag [OF f]) (use soon in auto)
    with s1 that show ?thesis by metis
  qed
  show ?thesis
    using poll sn r' by (simp add: obrobka_post_def b get_get_log_file_flag_def find_upd_rele) blast
qed

theorem log_order_reaches_device_witness:
  "\<exists>buff s2. obrobka_post (set_get_log_file_flag demo_srv 100 77 5 True) 110 ''d''
      (demo_request 1004 ''/update_state'' [(''sn'', ''0000000077''), (''acp'', ''1''),
         (''relays'', ''2''), (''init'', ''3''), (''cs'', ''4'')]) =
      Ok (send_kap ''d'' 200 (int (length buff)) 3 (Some []) True @ buff, s2)"
proof -
  let ?rq = "demo_request 1004 ''/update_state'' [(''sn'', ''0000000077''), (''acp'', ''1''),
         (''relays'', ''2''), (''init'', ''3''), (''cs'', ''4'')]"
  have rq: "path_is ?rq ''/update_state''" "length (rq_query ?rq) = 5"
    "znach ?rq ''sn'' = Some ''0000000077''"
    by (simp_all add: demo_request_simps)
  have sn: "atoi ''0000000077'' = 77" by (simp add: atoi_eval)
  have free: "rr_userID_set_GFF demo_rele = 0" by (simp add: demo_simps)
  have soon: "(110 :: int) - 100 \<le> 120" by simp
  show ?thesis
    using log_order_reaches_device [OF demo_user(1) demo_find free soon rq sn, of "''d''"] by blast
qed

end
