(* ===== verification/EspTime.thy ===== *)
theory EspTime
  imports Prelude
begin

text \<open>
  Time in the MachineTime server: \<open>esp8266_decoder/source/my_time.cpp\<close>. Of the C library,
  \<open>gmtime\<close> and the two \<open>strftime\<close> formats in use are written out: the day number is
  walked through the years and months of the Gregorian calendar, from 1970 on in cycles of 400
  years. \<open>int\<close> arithmetic that overflows wraps, as the compilers in use do it. The time zone
  data base (\<open>date/tz.h\<close>, not under the repository's sources) is a parameter.
\<close>

section \<open>C division\<close>

definition cdiv :: "int \<Rightarrow> int \<Rightarrow> int" where
  "cdiv a b = (if (a < 0) = (b < 0) then \<bar>a\<bar> div \<bar>b\<bar> else - (\<bar>a\<bar> div \<bar>b\<bar>))"

definition cmod :: "int \<Rightarrow> int \<Rightarrow> int" where
  "cmod a b = a - cdiv a b * b"

lemma cdiv_nonneg [simp]: "0 \<le> a \<Longrightarrow> 0 < b \<Longrightarrow> cdiv a b = a div b"
  by (simp add: cdiv_def)

lemma cmod_nonneg [simp]: "0 \<le> a \<Longrightarrow> 0 < b \<Longrightarrow> cmod a b = a mod b"
  by (simp add: cmod_def minus_div_mult_eq_mod)

section \<open>The Gregorian calendar\<close>

definition leap :: "int \<Rightarrow> bool" where
  "leap y \<longleftrightarrow> y mod 4 = 0 \<and> (y mod 100 \<noteq> 0 \<or> y mod 400 = 0)"

definition year_days :: "int \<Rightarrow> nat" where
  "year_days y = (if leap y then 366 else 365)"

definition month_lengths :: "int \<Rightarrow> nat list" where
  "month_lengths y = [31, if leap y then 29 else 28, 31, 30, 31, 30, 31, 31, 30, 31, 30, 31]"

function year_walk :: "int \<Rightarrow> nat \<Rightarrow> int \<times> nat" where
  "year_walk y d = (if d < year_days y then (y, d) else year_walk (y + 1) (d - year_days y))"
  by pat_completeness auto

termination
  by (relation "measure snd") (auto simp: year_days_def split: if_splits)

declare year_walk.simps [simp del]

fun month_walk :: "nat list \<Rightarrow> nat \<Rightarrow> nat \<Rightarrow> nat \<times> nat" where
  "month_walk [] m d = (m, d)"
| "month_walk (l # ls) m d = (if d < l then (m, d) else month_walk ls (m + 1) (d - l))"

record tm =
  tm_sec :: int
  tm_min :: int
  tm_hour :: int
  tm_mday :: int
  tm_mon :: int
  tm_year :: int
  tm_wday :: int

definition civil :: "int \<Rightarrow> int \<times> nat \<times> nat" where
  "civil day = (let (y, r) = year_walk 1970 (nat (day mod 146097));
                    (m, d) = month_walk (month_lengths y) 0 r
                in (y + 400 * (day div 146097), m, d + 1))"

definition gmtime :: "int \<Rightarrow> tm" where
  "gmtime t = (let day = t div 86400; s = t mod 86400; (y, m, d) = civil day
     in \<lparr>tm_sec = s mod 60, tm_min = s mod 3600 div 60, tm_hour = s div 3600, tm_mday = int d,
         tm_mon = int m, tm_year = y - 1900, tm_wday = (day + 4) mod 7\<rparr>)"

definition day_names :: "string list" where
  "day_names = [''Sun'', ''Mon'', ''Tue'', ''Wed'', ''Thu'', ''Fri'', ''Sat'']"

definition month_names :: "string list" where
  "month_names = [''Jan'', ''Feb'', ''Mar'', ''Apr'', ''May'', ''Jun'', ''Jul'', ''Aug'', ''Sep'',
     ''Oct'', ''Nov'', ''Dec'']"

text \<open>\<open>%a, %d %b %Y\<close> and \<open>%H:%M:%S\<close>.\<close>

definition strf_date :: "tm \<Rightarrow> string" where
  "strf_date t = day_names ! nat (tm_wday t) @ '', '' @ pad2 (tm_mday t) @ '' '' @
     month_names ! nat (tm_mon t) @ '' '' @ int_str (tm_year t + 1900)"

definition strf_clock :: "tm \<Rightarrow> string" where
  "strf_clock t = pad2 (tm_hour t) @ '':'' @ pad2 (tm_min t) @ '':'' @ pad2 (tm_sec t)"

section \<open>my\_time.cpp\<close>

text \<open>\<open>offsetTimeZone\<close>: the data base throws for a name it does not have.\<close>

definition offsetTimeZone :: "(string \<Rightarrow> int option) \<Rightarrow> string \<Rightarrow> int res" where
  "offsetTimeZone tz name = (case tz (c_str name) of
       None \<Rightarrow> Inl (Uncaught ''unknown time zone'') | Some off \<Rightarrow> Ok off)"

definition my_time_calendar_day :: "int \<Rightarrow> tm" where
  "my_time_calendar_day day_epoch = gmtime (to_int32 (day_epoch * 86400 + 1))"

definition my_time_get_month_epoch :: "int \<Rightarrow> int" where
  "my_time_get_month_epoch day_epoch =
     (let t = my_time_calendar_day day_epoch in tm_year t * 12 + tm_mon t)"

definition my_time_str_calendar_day :: "int \<Rightarrow> string" where
  "my_time_str_calendar_day day_epoch = strf_date (my_time_calendar_day day_epoch)"

definition my_time_str_offset :: "int \<Rightarrow> int \<Rightarrow> string" where
  "my_time_str_offset now tzOffset =
     (let t = gmtime (now + tzOffset) in strf_date t @ '' '' @ strf_clock t)"

record simpl_tm =
  sm_sec :: int
  sm_min :: int
  sm_hour :: int

definition secondsToHMS :: "int \<Rightarrow> simpl_tm" where
  "secondsToHMS seconds = \<lparr>sm_sec = cmod seconds 60, sm_min = cdiv (cmod seconds 3600) 60,
     sm_hour = cdiv seconds 3600\<rparr>"

definition my_time_str_HMS :: "int \<Rightarrow> string" where
  "my_time_str_HMS seconds = (let t = secondsToHMS seconds
     in pad2 (sm_hour t) @ '':'' @ pad2 (sm_min t) @ '':'' @ pad2 (sm_sec t))"

section \<open>The walk ends in the right year and month\<close>

fun sum_years :: "int \<Rightarrow> nat \<Rightarrow> nat" where
  "sum_years y 0 = 0"
| "sum_years y (Suc n) = year_days y + sum_years (y + 1) n"

lemma year_walk_sum:
  "year_walk y d = (y', r) \<Longrightarrow> \<exists>n. y' = y + int n \<and> d = sum_years y n + r \<and> r < year_days y'"
proof (induction y d rule: year_walk.induct)
  case (1 y d)
  show ?case
  proof (cases "d < year_days y")
    case True
    with "1.prems" have "y' = y" "r = d" by (simp_all add: year_walk.simps [of y d])
    with True show ?thesis by (intro exI [of _ 0]) simp
  next
    case False
    with "1.prems" have "year_walk (y + 1) (d - year_days y) = (y', r)"
      by (simp add: year_walk.simps [of y d])
    from "1.IH" [OF False this] obtain n where
      "y' = y + 1 + int n" "d - year_days y = sum_years (y + 1) n + r" "r < year_days y'" by blast
    with False show ?thesis by (intro exI [of _ "Suc n"]) simp
  qed
qed

lemma month_walk_sum:
  "month_walk ls m d = (m', r) \<Longrightarrow> d < sum_list ls \<Longrightarrow>
     m \<le> m' \<and> m' - m < length ls \<and> d = sum_list (take (m' - m) ls) + r \<and> r < ls ! (m' - m)"
proof (induction ls arbitrary: m d)
  case (Cons l ls)
  show ?case
  proof (cases "d < l")
    case True
    with Cons.prems show ?thesis by simp
  next
    case False
    with Cons.prems have "month_walk ls (m + 1) (d - l) = (m', r)" "d - l < sum_list ls" by auto
    from Cons.IH [OF this] have ih: "m + 1 \<le> m'" "m' - (m + 1) < length ls"
      "d - l = sum_list (take (m' - (m + 1)) ls) + r" "r < ls ! (m' - (m + 1))" by blast+
    then have "m' - m = Suc (m' - (m + 1))" by simp
    with ih False show ?thesis by simp
  qed
qed simp

lemma sum_month_lengths: "sum_list (month_lengths y) = year_days y"
  by (simp add: month_lengths_def year_days_def)

text \<open>The day number a date stands for.\<close>

definition date_number :: "int \<Rightarrow> nat \<Rightarrow> nat \<Rightarrow> int" where
  "date_number y m d = (let q = (y - 1970) div 400; k = nat ((y - 1970) mod 400)
     in 146097 * q + int (sum_years 1970 k) + int (sum_list (take m (month_lengths y))) + int d - 1)"

lemma leap_cycle: "leap (y + 400 * q) = leap y"
proof -
  have "(y + 4 * (100 * q)) mod 4 = y mod 4" "(y + 100 * (4 * q)) mod 100 = y mod 100"
    "(y + 400 * q) mod 400 = y mod 400"
    by (rule mod_mult_self2)+
  then show ?thesis by (simp add: leap_def)
qed

lemma month_lengths_cycle: "month_lengths (y + 400 * q) = month_lengths y"
  by (simp add: month_lengths_def leap_cycle)

text \<open>The number of days of a run of years, in closed form.\<close>

definition leaps :: "int \<Rightarrow> int" where
  "leaps y = y div 4 - y div 100 + y div 400"

lemma div_pred: "0 < k \<Longrightarrow> (y - 1) div k = y div k - (if y mod k = 0 then 1 else (0 :: int))"
proof -
  assume k: "0 < k"
  have y: "y = k * (y div k) + y mod k" by simp
  show ?thesis
  proof (cases "y mod k = 0")
    case True
    with y have "y - 1 = k * (y div k - 1) + (k - 1)" by (simp add: algebra_simps)
    then have "(y - 1) div k = y div k - 1" by (rule int_div_pos_eq) (use k in simp_all)
    with True show ?thesis by simp
  next
    case False
    have "y - 1 = k * (y div k) + (y mod k - 1)" using y by linarith
    moreover have "0 \<le> y mod k - 1" "y mod k - 1 < k"
      using False k pos_mod_sign [of k y] pos_mod_bound [of k y] by linarith+
    ultimately have "(y - 1) div k = y div k" by (rule int_div_pos_eq)
    with False show ?thesis by simp
  qed
qed

lemma leap_count:
  "(c \<Longrightarrow> b) \<Longrightarrow> (b \<Longrightarrow> a) \<Longrightarrow>
   l' = l - (if a then 1 else 0) + (if b then 1 else 0) - (if c then 1 else 0) \<Longrightarrow>
   int (if a \<and> (\<not> b \<or> c) then 366 else 365) = 365 + l - l'"
  by auto

lemma year_days_leaps: "int (year_days y) = 365 + leaps y - leaps (y - 1)"
proof -
  have "y mod 400 = 0 \<Longrightarrow> y mod 100 = 0"
    using mod_mod_cancel [of 100 400 y] by simp
  moreover have "y mod 100 = 0 \<Longrightarrow> y mod 4 = 0"
    using mod_mod_cancel [of 4 100 y] by simp
  moreover have "leaps (y - 1) = leaps y - (if y mod 4 = 0 then 1 else 0)
      + (if y mod 100 = 0 then 1 else 0) - (if y mod 400 = 0 then 1 else 0)"
    unfolding leaps_def by (simp add: div_pred)
  ultimately show ?thesis
    unfolding year_days_def leap_def by (rule leap_count)
qed

lemma sum_years_leaps: "int (sum_years y n) = 365 * int n + leaps (y + int n - 1) - leaps (y - 1)"
proof (induction n arbitrary: y)
  case (Suc n)
  have "int (sum_years (y + 1) n) = 365 * int n + leaps (y + int n) - leaps y"
    using Suc.IH [of "y + 1"] by simp
  then show ?case using year_days_leaps [of y] by (simp add: algebra_simps)
qed simp

lemma sum_years_cycle: "sum_years 1970 400 = 146097"
  using sum_years_leaps [of 1970 400] by (simp add: leaps_def)

lemma year_walk_eq: "r < year_days (y + int n) \<Longrightarrow> year_walk y (sum_years y n + r) = (y + int n, r)"
proof (induction n arbitrary: y)
  case 0
  then show ?case by (simp add: year_walk.simps)
next
  case (Suc n)
  then have "year_walk (y + 1) (sum_years (y + 1) n + r) = (y + 1 + int n, r)"
    by (simp add: algebra_simps)
  then show ?case by (subst year_walk.simps) (simp add: algebra_simps)
qed

lemma year_walk_at:
  assumes "int d = 365 * int n + leaps (y + int n - 1) - leaps (y - 1) + int r" "r < year_days (y + int n)"
  shows "year_walk y d = (y + int n, r)"
proof -
  have "d = sum_years y n + r" using assms(1) sum_years_leaps [of y n] by linarith
  with year_walk_eq [OF assms(2)] show ?thesis by simp
qed

lemma sum_years_mono: "n \<le> m \<Longrightarrow> sum_years y n \<le> sum_years y m"
proof (induction m arbitrary: n y)
  case (Suc m)
  then show ?case by (cases n) auto
qed simp

lemma civil_correct:
  assumes "civil day = (y, m, d)"
  shows "m < 12 \<and> 1 \<le> d \<and> d \<le> month_lengths y ! m \<and> date_number y m d = day"
proof -
  let ?r = "nat (day mod 146097)" and ?q = "day div 146097"
  obtain y0 r where yw: "year_walk 1970 ?r = (y0, r)" by force
  obtain n where n: "y0 = 1970 + int n" "?r = sum_years 1970 n + r" "r < year_days y0"
    using year_walk_sum [OF yw] by blast
  have lt: "?r < 146097" by (simp add: nat_less_iff)
  have n400: "n < 400"
  proof (rule ccontr)
    assume "\<not> n < 400"
    then have "sum_years 1970 400 \<le> sum_years 1970 n" by (intro sum_years_mono) simp
    with n(2) lt sum_years_cycle show False by simp
  qed
  obtain m0 d0 where mw: "month_walk (month_lengths y0) 0 r = (m0, d0)" by force
  have mr: "m0 < 12" "r = sum_list (take m0 (month_lengths y0)) + d0" "d0 < month_lengths y0 ! m0"
    using month_walk_sum [OF mw] n(3) by (simp_all add: sum_month_lengths) (simp_all add: month_lengths_def)
  have e: "y = y0 + 400 * ?q" "m = m0" "d = d0 + 1"
    using assms by (simp_all add: civil_def yw mw)
  have k: "(y - 1970) div 400 = ?q" "(y - 1970) mod 400 = int n"
    using n400 by (simp_all add: e(1) n(1))
  have "date_number y m d = 146097 * ?q + int (sum_years 1970 n + (sum_list (take m0 (month_lengths y0)) + d0))"
    unfolding date_number_def k Let_def e(2,3) by (simp add: e(1) month_lengths_cycle)
  also have "\<dots> = 146097 * ?q + int ?r" using n(2) mr(2) by simp
  also have "\<dots> = day" by simp
  finally show ?thesis
    using mr by (simp add: e month_lengths_cycle)
qed

text \<open>
  Day numbers are turned into the right date as long as the seconds fit an \<open>int\<close>: for
  every day up to 19 January 2038 (24855) the calendar day has a month and a day of the month in
  range and stands for that day number. One day later the product overflows, and the month
  computed for it is December 1901 (month 23 instead of 1656).
\<close>

theorem calendar_until_2038:
  "(\<forall>day \<in> {0..24855}. let t = my_time_calendar_day day in
      0 \<le> tm_mon t \<and> tm_mon t < 12 \<and>
      1 \<le> tm_mday t \<and> tm_mday t \<le> int (month_lengths (tm_year t + 1900) ! nat (tm_mon t)) \<and>
      date_number (tm_year t + 1900) (nat (tm_mon t)) (nat (tm_mday t)) = day) \<and>
   my_time_get_month_epoch 24855 = 1656 \<and> my_time_get_month_epoch 24856 = 23"
proof (intro conjI ballI)
  fix day :: int assume d: "day \<in> {0..24855}"
  obtain y m dd where c: "civil day = (y, m, dd)" by (metis prod_cases3)
  have "to_int32 (day * 86400 + 1) = day * 86400 + 1" using d by (intro to_int32_id) simp_all
  then have "my_time_calendar_day day = gmtime (day * 86400 + 1)" by (simp add: my_time_calendar_day_def)
  moreover have "(day * 86400 + 1) div 86400 = day" by simp
  ultimately show "let t = my_time_calendar_day day in
      0 \<le> tm_mon t \<and> tm_mon t < 12 \<and>
      1 \<le> tm_mday t \<and> tm_mday t \<le> int (month_lengths (tm_year t + 1900) ! nat (tm_mon t)) \<and>
      date_number (tm_year t + 1900) (nat (tm_mon t)) (nat (tm_mday t)) = day"
    using civil_correct [OF c] by (simp add: gmtime_def c Let_def)
next
  have "year_walk 1970 24855 = (2038, 18)"
    using year_walk_at [of 24855 68 1970 18] by (simp add: leaps_def year_days_def)
  then show "my_time_get_month_epoch 24855 = 1656"
    by (simp add: my_time_get_month_epoch_def my_time_calendar_day_def to_int32_def gmtime_def
        civil_def month_lengths_def)
  have "year_walk 1970 121242 = (2301, 347)"
    using year_walk_at [of 121242 331 1970 347] by (simp add: leaps_def year_days_def)
  then show "my_time_get_month_epoch 24856 = 23"
    by (simp add: my_time_get_month_epoch_def my_time_calendar_day_def to_int32_def gmtime_def
        civil_def month_lengths_def leap_def)
qed

theorem calendar_until_2038_witness:
  "date_number 1970 0 1 = 0 \<and> 1 \<le> tm_mday (my_time_calendar_day 0)"
  using calendar_until_2038 by (simp add: date_number_def Let_def)

text \<open>
  Seconds are split exactly: for a time that is not negative, hours, minutes and seconds are in
  range and add up to it.
\<close>

theorem secondsToHMS_exact:
  assumes "0 \<le> seconds"
  shows "let t = secondsToHMS seconds in
    sm_hour t * 3600 + sm_min t * 60 + sm_sec t = seconds \<and>
    0 \<le> sm_min t \<and> sm_min t < 60 \<and> 0 \<le> sm_sec t \<and> sm_sec t < 60 \<and> 0 \<le> sm_hour t"
proof -
  have h: "seconds = 3600 * (seconds div 3600) + seconds mod 3600" by simp
  have m: "seconds mod 3600 = 60 * (seconds mod 3600 div 60) + seconds mod 3600 mod 60" by simp
  have s: "seconds mod 3600 mod 60 = seconds mod 60" by (rule mod_mod_cancel) simp
  have b: "0 \<le> seconds mod 3600" "seconds mod 3600 < 60 * 60" "0 \<le> seconds mod 60" "seconds mod 60 < 60"
    by simp_all
  have d: "seconds mod 3600 div 60 < 60" using b(2) m b(3) s by linarith
  have "seconds div 3600 * 3600 + seconds mod 3600 div 60 * 60 + seconds mod 60 = seconds"
    using h m s by linarith
  then show ?thesis
    using assms b d by (simp add: secondsToHMS_def Let_def pos_imp_zdiv_nonneg_iff)
qed

theorem secondsToHMS_exact_witness:
  "let t = secondsToHMS 86399 in
    sm_hour t * 3600 + sm_min t * 60 + sm_sec t = 86399 \<and>
    0 \<le> sm_min t \<and> sm_min t < 60 \<and> 0 \<le> sm_sec t \<and> sm_sec t < 60 \<and> 0 \<le> sm_hour t"
  by (rule secondsToHMS_exact) simp

end
