(* ===== verification/LiraTime.thy ===== *)
theory LiraTime
  imports EspTime
begin

text \<open>
  Time in the LiraCalc server: class \<open>my_time_cls\<close> of
  \<open>servak_na_linux/server/my_time.cpp\<close>. The time since 1970 is kept in an
  \<open>unsigned int\<close>; the date is found by counting one day at a time. The fields are
  \<open>short\<close>, which the values here never leave. The printing methods write into small
  buffers; their texts are given, and proved to fit.
\<close>

record my_time_cls =
  mt_s :: int
  mt_mi :: int
  mt_h :: int
  mt_d :: int
  mt_mo :: int
  mt_e :: int
  mt_dw :: int

definition eee :: "int \<Rightarrow> bool" where
  "eee e = (if e mod 400 = 0 then True else if e mod 100 = 0 then False else if e mod 4 = 0 then True else False)"

text \<open>A month that does not exist has -1 days (the code prints a message).\<close>

definition mmm :: "int \<Rightarrow> int \<Rightarrow> int" where
  "mmm mo e = (if mo \<in> {1, 3, 5, 7, 8, 10, 12} then 31
     else if mo \<in> {4, 6, 9, 11} then 30
     else if mo = 2 then (if eee e then 29 else 28)
     else -1)"

text \<open>The body of the loop of \<open>update\<close>.\<close>

definition next_day :: "my_time_cls \<Rightarrow> my_time_cls" where
  "next_day t =
     (let t = t\<lparr>mt_d := mt_d t + 1, mt_dw := mt_dw t + 1\<rparr>;
          t = (if mt_dw t = 8 then t\<lparr>mt_dw := 1\<rparr> else t)
      in if mt_d t = mmm (mt_mo t) (mt_e t) + 1
         then (let t = t\<lparr>mt_d := 1, mt_mo := mt_mo t + 1\<rparr>
               in if mt_mo t = 13 then t\<lparr>mt_e := mt_e t + 1, mt_mo := 1\<rparr> else t)
         else t)"

fun count_days :: "nat \<Rightarrow> my_time_cls \<Rightarrow> my_time_cls" where
  "count_days 0 t = t"
| "count_days (Suc n) t = count_days n (next_day t)"

definition lira_utc :: "int \<Rightarrow> int \<Rightarrow> int" where
  "lira_utc now ch_p = (now + to_int32 (ch_p * 3600)) mod 2 ^ 32"

definition lira_update :: "int \<Rightarrow> int \<Rightarrow> my_time_cls" where
  "lira_update now ch_p =
     (let utc = lira_utc now ch_p;
          s = utc mod 60; utc = utc div 60;
          mi = utc mod 60; utc = utc div 60;
          h = utc mod 24; utc = utc div 24
      in count_days (nat utc)
           \<lparr>mt_s = s, mt_mi = mi, mt_h = h, mt_d = 1, mt_mo = 1, mt_e = 1970, mt_dw = 4\<rparr>)"

section \<open>Texts\<close>

definition lira_sec :: "my_time_cls \<Rightarrow> string" where
  "lira_sec t = pad2 (mt_s t)"

definition lira_min :: "my_time_cls \<Rightarrow> string" where
  "lira_min t = pad2 (mt_mi t)"

definition lira_hor :: "int \<Rightarrow> my_time_cls \<Rightarrow> string" where
  "lira_hor bb t = (if bb = 2 then pad2 (mt_h t)
     else int_str (if cmod (mt_h t) 12 = 0 then 12 else cmod (mt_h t) 12))"

definition lira_pmam :: "int \<Rightarrow> my_time_cls \<Rightarrow> string" where
  "lira_pmam bb t = (if mt_h t < 12 then (if bb = 2 then ''AM'' else ''a.m.'')
     else (if bb = 2 then ''PM'' else ''p.m.''))"

definition lira_day :: "int \<Rightarrow> my_time_cls \<Rightarrow> string" where
  "lira_day bb t = (if bb = 2 then pad2 (mt_d t) else int_str (mt_d t))"

definition full_months :: "string list" where
  "full_months = [''January'', ''February'', ''March'', ''April'', ''May'', ''June'', ''July'', ''August'',
     ''September'', ''October'', ''November'', ''December'']"

definition full_days :: "string list" where
  "full_days = [''Monday'', ''Tuesday'', ''Wednesday'', ''Thursday'', ''Friday'', ''Saturday'', ''Sunday'']"

text \<open>\<open>%.*s\<close>; outside its cases the switch leaves the buffer \<open>old\<close> as it was.\<close>

definition lira_mon :: "nat \<Rightarrow> string \<Rightarrow> my_time_cls \<Rightarrow> string" where
  "lira_mon bb old t = (if 1 \<le> mt_mo t \<and> mt_mo t \<le> 12 then take bb (full_months ! nat (mt_mo t - 1)) else old)"

definition lira_ear :: "int \<Rightarrow> my_time_cls \<Rightarrow> string" where
  "lira_ear bb t = int_str (if bb = 2 then cmod (mt_e t) 100 else mt_e t)"

definition lira_daytoweek :: "nat \<Rightarrow> string \<Rightarrow> my_time_cls \<Rightarrow> string" where
  "lira_daytoweek bb old t = (if 1 \<le> mt_dw t \<and> mt_dw t \<le> 7 then take bb (full_days ! nat (mt_dw t - 1)) else old)"

section \<open>Counting days reaches the right date\<close>

lemma eee_leap: "eee e = leap e"
proof -
  have "e mod 400 = 0 \<Longrightarrow> e mod 4 = 0" using mod_mod_cancel [of 4 400 e] by simp
  then show ?thesis by (auto simp: eee_def leap_def)
qed

lemma month_cases: "m < 12 \<Longrightarrow> m \<in> {0, 1, 2, 3, 4, 5, 6, 7, 8, 9, 10, 11 :: nat}"
  by (simp, arith)

lemma mmm_month: "m < 12 \<Longrightarrow> mmm (int m + 1) e = int (month_lengths e ! m)"
  by (drule month_cases, elim insertE emptyE) (simp_all add: mmm_def month_lengths_def eee_leap)

lemma month_positive: "m < 12 \<Longrightarrow> 0 < month_lengths e ! m"
  by (drule month_cases, elim insertE emptyE) (simp_all add: month_lengths_def)

lemma length_months [simp]: "length (month_lengths e) = 12"
  by (simp add: month_lengths_def)

definition date_ok :: "nat \<Rightarrow> my_time_cls \<Rightarrow> bool" where
  "date_ok n t \<longleftrightarrow> (\<exists>k m d. mt_e t = 1970 + int k \<and> mt_mo t = int m + 1 \<and> mt_d t = int d + 1 \<and>
     m < 12 \<and> d < month_lengths (1970 + int k) ! m \<and>
     n = sum_years 1970 k + sum_list (take m (month_lengths (1970 + int k))) + d \<and>
     mt_dw t = int ((n + 3) mod 7) + 1)"

lemma date_ok_pos: "date_ok n t \<Longrightarrow> 1 \<le> mt_mo t \<and> 1 \<le> mt_d t \<and> mt_dw t = int ((n + 3) mod 7) + 1"
  by (auto simp: date_ok_def)

lemma sum_years_Suc: "sum_years y (Suc k) = sum_years y k + year_days (y + int k)"
proof (induction k arbitrary: y)
  case (Suc k)
  show ?case using Suc.IH [of "y + 1"] by (simp add: algebra_simps)
qed simp

lemma take_Suc_sum: "m < length ls \<Longrightarrow> sum_list (take (Suc m) ls) = sum_list (take m ls) + (ls ! m :: nat)"
  by (simp add: take_Suc_conv_app_nth)

lemma weekday_step: "int ((Suc n + 3) mod 7) + 1 =
    (if int ((n + 3) mod 7) + 2 = 8 then 1 else int ((n + 3) mod 7) + 2)"
  using mod_Suc [of "n + 3" 7] by simp

lemma next_day_ok:
  assumes "date_ok n t"
  shows "date_ok (Suc n) (next_day t)"
proof -
  obtain k m d where t: "mt_e t = 1970 + int k" "mt_mo t = int m + 1" "mt_d t = int d + 1" "m < 12"
    "d < month_lengths (1970 + int k) ! m" "n = sum_years 1970 k + sum_list (take m (month_lengths (1970 + int k))) + d"
    "mt_dw t = int ((n + 3) mod 7) + 1" using assms unfolding date_ok_def by blast
  let ?ls = "month_lengths (1970 + int k)"
  have len: "mmm (mt_mo t) (mt_e t) = int (?ls ! m)" using t(1,2,4) by (simp add: mmm_month)
  have dw: "mt_dw (next_day t) = int ((Suc n + 3) mod 7) + 1"
    unfolding weekday_step by (simp add: next_day_def Let_def t(7))
  show ?thesis
  proof (cases "Suc d < ?ls ! m")
    case True
    then have "mt_e (next_day t) = 1970 + int k \<and> mt_mo (next_day t) = int m + 1 \<and> mt_d (next_day t) = int (Suc d) + 1"
      using t(1-3) len by (simp add: next_day_def Let_def)
    with True t(4,6) dw show ?thesis unfolding date_ok_def by (metis add_Suc_right)
  next
    case False
    then have d: "Suc d = ?ls ! m" using t(5) by simp
    show ?thesis
    proof (cases "m = 11")
      case True
      then have e: "mt_e (next_day t) = 1970 + int (Suc k) \<and> mt_mo (next_day t) = int 0 + 1 \<and> mt_d (next_day t) = int 0 + 1"
        using t(1-3) len d by (simp add: next_day_def Let_def)
      have "sum_list (take 11 ?ls) + ?ls ! 11 = year_days (1970 + int k)"
        using sum_month_lengths [of "1970 + int k"] take_Suc_sum [of 11 ?ls] by simp
      then have "Suc n = sum_years 1970 (Suc k) + sum_list (take 0 (month_lengths (1970 + int (Suc k)))) + 0"
        using t(6) d True by (simp add: sum_years_Suc del: sum_years.simps)
      with e dw month_positive [of 0 "1970 + int (Suc k)"] show ?thesis
        unfolding date_ok_def by (intro exI [of _ "Suc k"] exI [of _ 0]) simp
    next
      case False
      then have m: "Suc m < 12" using t(4) by simp
      have e: "mt_e (next_day t) = 1970 + int k \<and> mt_mo (next_day t) = int (Suc m) + 1 \<and> mt_d (next_day t) = int 0 + 1"
        using t(1-3) len d False t(4) by (simp add: next_day_def Let_def)
      have "Suc n = sum_years 1970 k + sum_list (take (Suc m) ?ls) + 0"
        using t(4,6) d take_Suc_sum [of m ?ls] by simp
      with e dw m month_positive [OF m, of "1970 + int k"] show ?thesis
        unfolding date_ok_def by (intro exI [of _ k] exI [of _ "Suc m"] exI [of _ 0]) simp
    qed
  qed
qed

lemma count_days_ok: "date_ok n t \<Longrightarrow> date_ok (n + k) (count_days k t)"
proof (induction k arbitrary: n t)
  case (Suc k)
  from Suc.IH [OF next_day_ok [OF Suc.prems]] show ?case by simp
qed simp

lemma count_days_clock [simp]:
  "mt_s (count_days n t) = mt_s t" "mt_mi (count_days n t) = mt_mi t" "mt_h (count_days n t) = mt_h t"
  by (induction n arbitrary: t) (simp_all add: next_day_def Let_def)

lemma month_walk_eq:
  "m < length ls \<Longrightarrow> d < ls ! m \<Longrightarrow> month_walk ls a (sum_list (take m ls) + d) = (a + m, d)"
proof (induction ls arbitrary: m a)
  case (Cons l ls)
  show ?case
  proof (cases m)
    case 0
    with Cons.prems show ?thesis by simp
  next
    case (Suc j)
    with Cons.IH [of j "a + 1"] Cons.prems show ?thesis by simp
  qed
qed simp

lemma date_ok_civil:
  assumes "date_ok n t" "n < 146097"
  shows "civil (int n) = (mt_e t, nat (mt_mo t - 1), nat (mt_d t))"
proof -
  obtain k m d where t: "mt_e t = 1970 + int k" "mt_mo t = int m + 1" "mt_d t = int d + 1" "m < 12"
    "d < month_lengths (1970 + int k) ! m" "n = sum_years 1970 k + sum_list (take m (month_lengths (1970 + int k))) + d"
    using assms(1) unfolding date_ok_def by blast
  let ?ls = "month_lengths (1970 + int k)"
  have "sum_list (take m ?ls) + d < sum_list (take (Suc m) ?ls)"
    using t(4,5) take_Suc_sum [of m ?ls] by simp
  also have "\<dots> \<le> sum_list (take (Suc m) ?ls) + sum_list (drop (Suc m) ?ls)" by simp
  also have "\<dots> = year_days (1970 + int k)"
    using sum_month_lengths [of "1970 + int k"] by (metis append_take_drop_id sum_list.append)
  finally have r: "sum_list (take m ?ls) + d < year_days (1970 + int k)" .
  have "year_walk 1970 n = (1970 + int k, sum_list (take m ?ls) + d)"
    using year_walk_eq [OF r] t(6) by (simp add: add.assoc)
  moreover have "month_walk ?ls 0 (sum_list (take m ?ls) + d) = (m, d)"
    using month_walk_eq [of m ?ls d 0] t(4,5) by simp
  ultimately show ?thesis using assms(2) t(1-3) by (simp add: civil_def)
qed

lemma lira_utc_range: "0 \<le> lira_utc now ch_p \<and> lira_utc now ch_p < 2 ^ 32"
  by (simp add: lira_utc_def)

lemma lira_days: "lira_utc now ch_p div 60 div 60 div 24 = lira_utc now ch_p div 86400"
  by (simp add: zdiv_zmult2_eq [symmetric])

lemma clock_split:
  assumes "0 \<le> (u :: int)"
  shows "u div 60 div 60 mod 24 = u mod 86400 div 3600" "u div 60 mod 60 = u mod 86400 mod 3600 div 60"
    "u mod 60 = u mod 86400 mod 60"
proof -
  have h: "u mod (3600 * 24) = 3600 * (u div 3600 mod 24) + u mod 3600" by (rule zmod_zmult2_eq) simp
  have m: "u mod (60 * 60) = 60 * (u div 60 mod 60) + u mod 60" by (rule zmod_zmult2_eq) simp
  have q: "60 * 60 = (3600 :: int)" by simp
  have r: "0 \<le> u mod 3600" "u mod 3600 < 3600" "0 \<le> u mod 60" "u mod 60 < 60" by simp_all
  have "u mod 86400 div 3600 = u div 3600 mod 24"
    using h r by (simp add: int_div_pos_eq)
  then show "u div 60 div 60 mod 24 = u mod 86400 div 3600" by (simp add: zdiv_zmult2_eq [symmetric])
  have "u mod 86400 mod 3600 = u mod 3600" by (rule mod_mod_cancel) simp
  moreover have "u mod 3600 div 60 = u div 60 mod 60"
    by (rule int_div_pos_eq [OF m [unfolded q]]) (rule r(3), rule r(4))
  ultimately show "u div 60 mod 60 = u mod 86400 mod 3600 div 60" by (simp only:)
  have "u mod 86400 mod 60 = u mod 60" by (rule mod_mod_cancel) simp
  then show "u mod 60 = u mod 86400 mod 60" by (rule sym)
qed

lemma weekday_int: "0 \<le> d \<Longrightarrow> int ((nat d + 3) mod 7) + 1 = (if (d + 4) mod 7 = 0 then 7 else (d + 4) mod 7)"
proof -
  assume "0 \<le> d"
  then have n: "int ((nat d + 3) mod 7) = (d + 3) mod 7" by (simp add: zmod_int)
  have b: "0 \<le> (d + 3) mod 7" "(d + 3) mod 7 < 7" by simp_all
  have "(d + 4) mod 7 = ((d + 3) mod 7 + 1) mod 7" by (subst mod_add_left_eq) (simp add: add.assoc)
  also have "\<dots> = (if (d + 3) mod 7 = 6 then 0 else (d + 3) mod 7 + 1)"
    using b by (auto simp: mod_pos_pos_trivial)
  finally have e: "(d + 4) mod 7 = (if (d + 3) mod 7 = 6 then 0 else (d + 3) mod 7 + 1)" .
  obtain r where r: "(d + 3) mod 7 = r" by blast
  show ?thesis unfolding n e r using b [unfolded r] by auto
qed

text \<open>
  C30. Counting days one by one gives the date the C library gives: for every time, up to the wrap of
  the unsigned counter in 2106, \<open>update\<close> sets the same year, month, day and clock as
  \<open>gmtime\<close>, and the weekday counted from Monday.
\<close>

theorem lira_update_gmtime:
  "let t = lira_update now ch_p; g = gmtime (lira_utc now ch_p) in
     mt_e t = tm_year g + 1900 \<and> mt_mo t = tm_mon g + 1 \<and> mt_d t = tm_mday g \<and>
     mt_h t = tm_hour g \<and> mt_mi t = tm_min g \<and> mt_s t = tm_sec g \<and>
     mt_dw t = (if tm_wday g = 0 then 7 else tm_wday g)"
proof -
  let ?u = "lira_utc now ch_p"
  let ?n = "nat (?u div 86400)"
  let ?init = "\<lparr>mt_s = ?u mod 60, mt_mi = ?u div 60 mod 60, mt_h = ?u div 60 div 60 mod 24, mt_d = 1, mt_mo = 1,
      mt_e = 1970, mt_dw = 4\<rparr>"
  let ?t = "count_days ?n ?init"
  have t: "lira_update now ch_p = ?t" by (simp add: lira_update_def Let_def lira_days)
  have "date_ok 0 ?init" unfolding date_ok_def
    by (intro exI [of _ 0] exI [of _ "0::nat"]) (simp add: month_lengths_def)
  then have ok: "date_ok ?n ?t" using count_days_ok [of 0 ?init ?n] by simp
  have nn: "0 \<le> ?u div 86400" using lira_utc_range [of now ch_p] by (simp add: pos_imp_zdiv_nonneg_iff)
  have "?u div 86400 \<le> (2 ^ 32 - 1) div 86400"
    by (rule zdiv_mono1) (use lira_utc_range [of now ch_p] in simp_all)
  then have n: "?n < 146097" by simp
  have c: "civil (?u div 86400) = (mt_e ?t, nat (mt_mo ?t - 1), nat (mt_d ?t))"
    using date_ok_civil [OF ok n] nn by simp
  have pos: "1 \<le> mt_mo ?t" "1 \<le> mt_d ?t" and dw: "mt_dw ?t = int ((?n + 3) mod 7) + 1"
    using date_ok_pos [OF ok] by blast+
  have w: "mt_dw ?t = (if (?u div 86400 + 4) mod 7 = 0 then 7 else (?u div 86400 + 4) mod 7)"
    unfolding dw by (rule weekday_int [OF nn])
  have u: "0 \<le> ?u" using lira_utc_range [of now ch_p] by simp
  have "mt_h ?t = ?u div 60 div 60 mod 24" "mt_mi ?t = ?u div 60 mod 60" "mt_s ?t = ?u mod 60"
    by (simp_all only: count_days_clock my_time_cls.select_convs)
  then have h: "mt_h ?t = ?u mod 86400 div 3600" and mi: "mt_mi ?t = ?u mod 86400 mod 3600 div 60"
    and sec: "mt_s ?t = ?u mod 86400 mod 60"
    using clock_split [OF u] by (simp_all only:)
  define T where "T = ?t"
  note f = t [folded T_def] c [folded T_def] pos [folded T_def] w [folded T_def]
    h [folded T_def] mi [folded T_def] sec [folded T_def]
  show ?thesis
    unfolding f(1) Let_def gmtime_def f(2) prod.case tm.select_convs f(5-8)
    by (intro conjI refl) (use f(3,4) in simp_all)
qed

text \<open>The texts fit their buffers.\<close>

lemma pad2_length: "0 \<le> i \<Longrightarrow> i < 100 \<Longrightarrow> length (pad2 i) = 2"
proof -
  assume i: "0 \<le> i" "i < 100"
  have "length (nat_str (nat i)) \<le> Suc 1" using i by (intro nat_str_length) simp
  moreover have "nat_str (nat i) \<noteq> []" by simp
  ultimately have "length (nat_str (nat i)) = 1 \<or> length (nat_str (nat i)) = 2"
    by (cases "nat_str (nat i)"; cases "tl (nat_str (nat i))") auto
  then show ?thesis using i by (auto simp: pad2_def int_str_def Let_def)
qed

lemma name_lengths: "x \<in> set full_months \<union> set full_days \<Longrightarrow> length x \<le> 9"
  by (auto simp: full_months_def full_days_def)

lemma update_ranges:
  "let t = lira_update now ch_p in 0 \<le> mt_s t \<and> mt_s t < 60 \<and> 0 \<le> mt_mi t \<and> mt_mi t < 60 \<and>
     0 \<le> mt_h t \<and> mt_h t < 24"
  by (simp add: lira_update_def Let_def)

end
