(* ===== verification/LiraStatus.thy ===== *)
theory LiraStatus
  imports LiraTime
begin

text \<open>
  The message list of the LiraCalc handlers (class \<open>Status\<close> of
  \<open>servak_na_linux/server/status.cpp\<close>): up to a hundred messages, each an information or an
  error, shown as HTML with the local time. A message beyond the hundredth would be written
  outside the arrays: the fault \<open>OutOfRange\<close>.
\<close>

section \<open>Escaping\<close>

definition escape_attr_char :: "char \<Rightarrow> string" where
  \<open>escape_attr_char c = (if c = CHR ''&'' then ''&amp;''
     else if c = CHR 0x22 then ''&quot;''
     else if c = CHR 0x27 then ''&#39;''
     else if c = CHR ''<'' then ''&lt;''
     else if c = CHR ''>'' then ''&gt;''
     else [c])\<close>

definition attr_escape :: "string \<Rightarrow> string" where
  "attr_escape s = concat (map escape_attr_char s)"

section \<open>The class Status\<close>

record status_msg =
  sm_error :: bool
  sm_text :: string
  sm_key :: string
  sm_arg :: string

type_synonym lira_status = "status_msg list"

definition new_status :: lira_status where
  "new_status = []"

definition status_add :: "bool \<Rightarrow> string \<Rightarrow> string \<Rightarrow> string \<Rightarrow> lira_status \<Rightarrow> lira_status res" where
  "status_add err text key arg st = (if length st \<ge> 100 then Inl OutOfRange
     else Ok (st @ [\<lparr>sm_error = err, sm_text = c_str text, sm_key = c_str key, sm_arg = c_str arg\<rparr>]))"

definition status_info :: "string \<Rightarrow> string \<Rightarrow> string \<Rightarrow> lira_status \<Rightarrow> lira_status res" where
  "status_info text key arg st = status_add False text key arg st"

definition status_error :: "string \<Rightarrow> string \<Rightarrow> string \<Rightarrow> lira_status \<Rightarrow> lira_status res" where
  "status_error text key arg st = status_add True text key arg st"

definition status_success :: "lira_status \<Rightarrow> bool" where
  "status_success st = list_all (\<lambda>m. \<not> sm_error m) st"

definition sq :: string where
  "sq = [CHR 0x27]"

definition dq :: string where
  "dq = [CHR 0x22]"

definition msg_html :: "my_time_cls \<Rightarrow> status_msg \<Rightarrow> string" where
  "msg_html t m =
     ''<p class='' @ sq @ ''icon '' @ (if sm_error m then ''error_icon'' else ''ok_icon'') @ sq @
     ''><lable class='' @ sq @ (if sm_error m then ''msg_err'' else ''msg_ok'') @ sq @
     (if sm_key m = [] then []
      else '' data-msg-key='' @ sq @ sm_key m @ sq @ '' data-msg-arg='' @ dq @ attr_escape (sm_arg m) @ dq) @
     ''>'' @ sm_text m @ ''</lable><lable class='' @ sq @ ''msg_time'' @ sq @ ''>'' @
     lira_hor 2 t @ '':'' @ lira_min t @ '':'' @ lira_sec t @ ''</lable></p>''"

text \<open>The clock is read when the text is made; the messages are cleared.\<close>

definition status_html :: "int \<Rightarrow> int \<Rightarrow> lira_status \<Rightarrow> string \<times> lira_status" where
  "status_html now off st = (concat (map (msg_html (lira_update now off)) st), [])"

section \<open>Escaped texts stay inside their attribute\<close>

lemma attr_escape_safe:
  "c \<in> set (attr_escape s) \<Longrightarrow> c \<noteq> CHR 0x22 \<and> c \<noteq> CHR 0x27 \<and> c \<noteq> CHR ''<'' \<and> c \<noteq> CHR ''>''"
  by (auto simp: attr_escape_def escape_attr_char_def split: if_splits)

lemma status_add_success:
  "status_add err text key arg st = Ok st' \<Longrightarrow> status_success st' = (status_success st \<and> \<not> err)"
  by (auto simp: status_add_def status_success_def split: if_splits)

lemma status_success_new [simp]: "status_success new_status"
  by (simp add: status_success_def new_status_def)

end
