(* ===== verification/LiraStore.thy ===== *)
theory LiraStore
  imports LiraStatus
begin

text \<open>
  The data base of the LiraCalc server: the six tables of \<open>www/DBscripts/firebird.sql\<close> as lists of
  rows, and every SQL statement of \<open>add.cpp\<close>, \<open>save.cpp\<close> and \<open>delete.cpp\<close> as a text with the
  effect the text has on the tables.

  The engine (Firebird, \<open>libfbclient\<close>) is a parameter: it may refuse a statement (a CHECK clause, a
  column that is too narrow, a text that is not SQL), the commit may fail, and what it does with a
  statement whose quoted values contain a quote or end early is its own affair. A query without an
  order yields its rows as they were inserted, and texts are equal when their characters are. As
  documented for its API, every call stores its own status: after a refused statement the commit that
  follows succeeds and clears it. The handlers look at the status only after the commit.
\<close>

section \<open>Tables\<close>

record mash_row =
  ma_id :: int
  ma_name :: string
  ma_m1 :: string
  ma_m2 :: "string option"

record lira_row =
  li_id :: int
  li_m :: int
  li_name :: string
  li_magaz :: int
  li_form :: string
  li_form_zv :: string
  li_br :: int

record zm_row =
  zm_id :: int
  zm_m :: int
  zm_name :: "string option"
  zm_bukva :: char
  zm_zn :: "string option"
  zm_npp_s :: int

record npp_row =
  np_id :: int
  np_z :: int
  np_zn :: string
  np_umova :: string
  np_coment :: string

record um_row =
  um_id :: int
  um_l :: int
  um_umova :: string

record link_row =
  zl_id :: int
  zl_z :: int
  zl_l :: int
  zl_m :: int

record lira_db =
  mashynes :: "mash_row list"
  liry :: "lira_row list"
  zminny :: "zm_row list"
  zminny_npp :: "npp_row list"
  umovy :: "um_row list"
  zminny_lira :: "link_row list"
  next_m :: int
  next_l :: int
  next_z :: int
  next_n :: int
  next_u :: int
  next_zl :: int

section \<open>Statements and the engine\<close>

text \<open>A statement: its text, the values between quotes, and what it does to the tables.\<close>

record stmt =
  st_text :: string
  st_quoted :: "string list"
  st_effect :: "lira_db \<Rightarrow> lira_db"

record qry =
  q_text :: string
  q_quoted :: "string list"
  q_rows :: "lira_db \<Rightarrow> int list"

record firebird =
  fb_refuses :: "string \<Rightarrow> lira_db \<Rightarrow> bool"
  fb_commit_err :: "string \<Rightarrow> lira_db \<Rightarrow> bool"
  fb_foreign :: "string \<Rightarrow> lira_db \<Rightarrow> lira_db"
  fb_foreign_rows :: "string \<Rightarrow> lira_db \<Rightarrow> int list"

definition clean_value :: "string \<Rightarrow> bool" where
  "clean_value s \<longleftrightarrow> list_all (\<lambda>c. c \<noteq> CHR 0x27 \<and> c \<noteq> NUL) s"

text \<open>
  Start of a transaction, the statement, the commit and the test of \<open>status_vector[1]\<close>, with the
  rollback when it is set.
\<close>

definition sql_exec :: "firebird \<Rightarrow> stmt \<Rightarrow> lira_db \<Rightarrow> bool \<times> lira_db" where
  "sql_exec fb st db = (let text = c_str (st_text st)
     in if fb_commit_err fb text db then (True, db)
        else if \<not> list_all clean_value (st_quoted st) then (False, fb_foreign fb text db)
        else if fb_refuses fb text db then (False, db)
        else (False, st_effect st db))"

text \<open>A query: the rows fetched before the commit, none when the text is refused.\<close>

definition sql_query :: "firebird \<Rightarrow> qry \<Rightarrow> lira_db \<Rightarrow> bool \<times> int list" where
  "sql_query fb q db = (let text = c_str (q_text q)
     in (fb_commit_err fb text db,
         if \<not> list_all clean_value (q_quoted q) then fb_foreign_rows fb text db
         else if fb_refuses fb text db then []
         else q_rows q db))"

text \<open>\<open>if(isc_dsql_fetch(...) == 0) x = to_int(...)\<close> over a variable that was zero.\<close>

definition first_or_zero :: "int list \<Rightarrow> int" where
  "first_or_zero rows = (case rows of [] \<Rightarrow> 0 | x # xs \<Rightarrow> x)"

text \<open>\<open>sprintf\<close> into an array of \<open>n\<close> characters.\<close>

definition fits :: "nat \<Rightarrow> string \<Rightarrow> unit res" where
  "fits n text = (if length (c_str text) < n then Ok () else Inl OutOfRange)"

definition quoted :: "string \<Rightarrow> string" where
  "quoted s = sq @ s @ sq"

definition qint :: "int \<Rightarrow> string" where
  "qint i = quoted (int_str i)"

abbreviation stmt_of :: "string \<Rightarrow> (lira_db \<Rightarrow> lira_db) \<Rightarrow> stmt" where
  "stmt_of text f \<equiv> \<lparr>st_text = text, st_quoted = [], st_effect = f\<rparr>"

definition change_where :: "('a \<Rightarrow> bool) \<Rightarrow> ('a \<Rightarrow> 'a) \<Rightarrow> 'a list \<Rightarrow> 'a list" where
  "change_where P f rows = map (\<lambda>r. if P r then f r else r) rows"

definition delete_where :: "('a \<Rightarrow> bool) \<Rightarrow> 'a list \<Rightarrow> 'a list" where
  "delete_where P rows = filter (\<lambda>r. \<not> P r) rows"

section \<open>Statements of save.cpp\<close>

definition upd_zm_zn :: "string option \<Rightarrow> int \<Rightarrow> stmt" where
  "upd_zm_zn zn z = \<lparr>st_text = (case zn of
       Some v \<Rightarrow> ''UPDATE ZMINNY SET ZNACHENNJA='' @ quoted v @ '' WHERE Z_ID='' @ qint z
     | None \<Rightarrow> ''UPDATE ZMINNY SET ZNACHENNJA=null WHERE Z_ID='' @ qint z),
     st_quoted = (case zn of Some v \<Rightarrow> [v] | None \<Rightarrow> []),
     st_effect = (\<lambda>db. db\<lparr>zminny := change_where (\<lambda>r. zm_id r = z) (\<lambda>r. r\<lparr>zm_zn := zn\<rparr>) (zminny db)\<rparr>)\<rparr>"

definition upd_zm_name :: "string option \<Rightarrow> int \<Rightarrow> stmt" where
  "upd_zm_name name z = \<lparr>st_text = (case name of
       Some v \<Rightarrow> ''UPDATE ZMINNY SET NAME='' @ quoted v @ '' WHERE Z_ID='' @ qint z
     | None \<Rightarrow> ''UPDATE ZMINNY SET NAME=null WHERE Z_ID='' @ qint z),
     st_quoted = (case name of Some v \<Rightarrow> [v] | None \<Rightarrow> []),
     st_effect = (\<lambda>db. db\<lparr>zminny := change_where (\<lambda>r. zm_id r = z) (\<lambda>r. r\<lparr>zm_name := name\<rparr>) (zminny db)\<rparr>)\<rparr>"

definition upd_zm_npp_s :: "int \<Rightarrow> int \<Rightarrow> stmt" where
  "upd_zm_npp_s n z = stmt_of (''UPDATE ZMINNY SET NPP_S='' @ qint n @ '' WHERE Z_ID='' @ qint z)
     (\<lambda>db. db\<lparr>zminny := change_where (\<lambda>r. zm_id r = z) (\<lambda>r. r\<lparr>zm_npp_s := n\<rparr>) (zminny db)\<rparr>)"

definition upd_umova :: "string \<Rightarrow> int \<Rightarrow> stmt" where
  "upd_umova t u = \<lparr>st_text = ''UPDATE UMOVY SET UMOVA='' @ quoted t @ '' WHERE U_ID='' @ int_str u,
     st_quoted = [t],
     st_effect = (\<lambda>db. db\<lparr>umovy := change_where (\<lambda>r. um_id r = u) (\<lambda>r. r\<lparr>um_umova := t\<rparr>) (umovy db)\<rparr>)\<rparr>"

definition upd_npp :: "string \<Rightarrow> string \<Rightarrow> string \<Rightarrow> int \<Rightarrow> stmt" where
  "upd_npp um co zn n = \<lparr>st_text = ''UPDATE ZMINNY_NPP SET UMOVA='' @ quoted um @ '', COMENT='' @ quoted co @
       '', ZNACHENNJA='' @ quoted zn @ '' WHERE N_ID='' @ qint n,
     st_quoted = [um, co, zn],
     st_effect = (\<lambda>db. db\<lparr>zminny_npp := change_where (\<lambda>r. np_id r = n)
       (\<lambda>r. r\<lparr>np_umova := um, np_coment := co, np_zn := zn\<rparr>) (zminny_npp db)\<rparr>)\<rparr>"

definition upd_mash :: "string \<Rightarrow> string \<Rightarrow> string option \<Rightarrow> int \<Rightarrow> stmt" where
  "upd_mash name m1 m2 m = \<lparr>st_text = ''UPDATE MASHYNES SET NAME='' @ quoted name @ '', M1='' @ quoted m1 @ '', M2='' @
       (case m2 of None \<Rightarrow> ''null'' | Some v \<Rightarrow> quoted v) @ '' WHERE M_ID='' @ qint m,
     st_quoted = [name, m1] @ (case m2 of None \<Rightarrow> [] | Some v \<Rightarrow> [v]),
     st_effect = (\<lambda>db. db\<lparr>mashynes := change_where (\<lambda>r. ma_id r = m)
       (\<lambda>r. r\<lparr>ma_name := name, ma_m1 := m1, ma_m2 := m2\<rparr>) (mashynes db)\<rparr>)\<rparr>"

definition upd_lira :: "string \<Rightarrow> string \<Rightarrow> string \<Rightarrow> int \<Rightarrow> int \<Rightarrow> int \<Rightarrow> stmt" where
  "upd_lira name form form_zv magaz br l = \<lparr>st_text = ''UPDATE LIRY SET NAME='' @ quoted name @ '', FORM='' @ quoted form @
       '', FORM_ZV='' @ quoted form_zv @ '', MAGAZ='' @ qint magaz @ '', BR_KOL_LIR='' @ qint br @
       '' WHERE L_ID='' @ qint l @ '';'',
     st_quoted = [name, form, form_zv],
     st_effect = (\<lambda>db. db\<lparr>liry := change_where (\<lambda>r. li_id r = l)
       (\<lambda>r. r\<lparr>li_name := name, li_form := form, li_form_zv := form_zv, li_magaz := magaz, li_br := br\<rparr>) (liry db)\<rparr>)\<rparr>"

section \<open>Statements of add.cpp\<close>

definition q_lira_m :: "int \<Rightarrow> qry" where
  "q_lira_m l = \<lparr>q_text = ''SELECT M_ID FROM LIRY WHERE L_ID='' @ int_str l, q_quoted = [],
     q_rows = (\<lambda>db. map li_m (filter (\<lambda>r. li_id r = l) (liry db)))\<rparr>"

definition q_zm :: "int \<Rightarrow> char \<Rightarrow> qry" where
  "q_zm m b = \<lparr>q_text = ''SELECT Z_ID FROM ZMINNY WHERE M_ID='' @ int_str m @ '' AND BUKVA='' @ quoted [b],
     q_quoted = [[b]],
     q_rows = (\<lambda>db. map zm_id (filter (\<lambda>r. zm_m r = m \<and> zm_bukva r = b) (zminny db)))\<rparr>"

definition q_link :: "int \<Rightarrow> int \<Rightarrow> int \<Rightarrow> qry" where
  "q_link m l z = \<lparr>q_text = ''SELECT ZL_ID FROM ZMINNY_LIRA WHERE M_ID='' @ int_str m @ '' AND L_ID='' @ int_str l @
       '' AND Z_ID='' @ int_str z @ '' '', q_quoted = [],
     q_rows = (\<lambda>db. map zl_id (filter (\<lambda>r. zl_m r = m \<and> zl_l r = l \<and> zl_z r = z) (zminny_lira db)))\<rparr>"

definition ins_link :: "int \<Rightarrow> int \<Rightarrow> int \<Rightarrow> stmt" where
  "ins_link z l m = stmt_of (''INSERT INTO ZMINNY_LIRA(Z_ID, L_ID, M_ID) VALUES ('' @ int_str z @ '', '' @ int_str l @
       '', '' @ int_str m @ '');'')
     (\<lambda>db. db\<lparr>zminny_lira := zminny_lira db @ [\<lparr>zl_id = next_zl db, zl_z = z, zl_l = l, zl_m = m\<rparr>],
       next_zl := next_zl db + 1\<rparr>)"

definition ins_zm :: "int \<Rightarrow> char \<Rightarrow> stmt" where
  "ins_zm m b = \<lparr>st_text = ''INSERT INTO ZMINNY(M_ID, BUKVA, NPP_S) VALUES ('' @ int_str m @ '', '' @ quoted [b] @ '', 0);'',
     st_quoted = [[b]],
     st_effect = (\<lambda>db. db\<lparr>zminny := zminny db @ [\<lparr>zm_id = next_z db, zm_m = m, zm_name = None, zm_bukva = b,
       zm_zn = None, zm_npp_s = 0\<rparr>], next_z := next_z db + 1\<rparr>)\<rparr>"

definition npp_marker :: string where
  "npp_marker = ''srakadupakurvamaty''"

definition ins_npp :: "int \<Rightarrow> stmt" where
  "ins_npp z = stmt_of (''INSERT INTO ZMINNY_NPP(Z_ID, ZNACHENNJA, UMOVA, COMENT) VALUES ('' @ int_str z @ '', 1, '' @
       quoted ''1=1'' @ '', '' @ quoted npp_marker @ '');'')
     (\<lambda>db. db\<lparr>zminny_npp := zminny_npp db @ [\<lparr>np_id = next_n db, np_z = z, np_zn = ''1'', np_umova = ''1=1'',
       np_coment = npp_marker\<rparr>], next_n := next_n db + 1\<rparr>)"

definition q_npp_marker :: qry where
  "q_npp_marker = \<lparr>q_text = ''SELECT N_ID FROM ZMINNY_NPP WHERE COMENT='' @ quoted npp_marker, q_quoted = [],
     q_rows = (\<lambda>db. map np_id (filter (\<lambda>r. np_coment r = npp_marker) (zminny_npp db)))\<rparr>"

definition q_npp_count :: "int \<Rightarrow> qry" where
  "q_npp_count z = \<lparr>q_text = ''SELECT COUNT(*) FROM ZMINNY_NPP WHERE Z_ID='' @ int_str z, q_quoted = [],
     q_rows = (\<lambda>db. [int (length (filter (\<lambda>r. np_z r = z) (zminny_npp db)))])\<rparr>"

definition upd_npp_coment :: "string \<Rightarrow> int \<Rightarrow> stmt" where
  "upd_npp_coment t n = \<lparr>st_text = ''UPDATE ZMINNY_NPP SET COMENT='' @ quoted t @ '' WHERE N_ID='' @ int_str n,
     st_quoted = [t],
     st_effect = (\<lambda>db. db\<lparr>zminny_npp := change_where (\<lambda>r. np_id r = n) (\<lambda>r. r\<lparr>np_coment := t\<rparr>) (zminny_npp db)\<rparr>)\<rparr>"

definition umova_marker :: string where
  "umova_marker = ''qqqqqqqqqqqqqqqqq''"

definition ins_umova :: "int \<Rightarrow> stmt" where
  "ins_umova l = stmt_of (''INSERT INTO UMOVY(L_ID, UMOVA) VALUES ('' @ int_str l @ '', '' @ quoted umova_marker @ '');'')
     (\<lambda>db. db\<lparr>umovy := umovy db @ [\<lparr>um_id = next_u db, um_l = l, um_umova = umova_marker\<rparr>], next_u := next_u db + 1\<rparr>)"

definition q_umova_marker :: qry where
  "q_umova_marker = \<lparr>q_text = ''SELECT U_ID FROM UMOVY WHERE UMOVA='' @ quoted umova_marker, q_quoted = [],
     q_rows = (\<lambda>db. map um_id (filter (\<lambda>r. um_umova r = umova_marker) (umovy db)))\<rparr>"

definition q_lira_count :: "int \<Rightarrow> qry" where
  "q_lira_count m = \<lparr>q_text = ''SELECT COUNT(M_ID) AS LIRS FROM (SELECT M_ID FROM LIRY WHERE M_ID='' @ int_str m @
       '') LL GROUP BY M_ID'', q_quoted = [],
     q_rows = (\<lambda>db. let n = length (filter (\<lambda>r. li_m r = m) (liry db)) in if n = 0 then [] else [int n])\<rparr>"

definition lira_marker :: string where
  "lira_marker = ''srakadupacurvamaty11''"

definition ins_lira :: "int \<Rightarrow> stmt" where
  "ins_lira m = stmt_of (''INSERT INTO LIRY(M_ID, FORM, FORM_ZV, MAGAZ, NAME, BR_KOL_LIR) VALUES ('' @ int_str m @
       '', '' @ quoted ''i=x'' @ '', '' @ quoted ''x=i'' @ '', 1, '' @ quoted lira_marker @ '', 4);'')
     (\<lambda>db. db\<lparr>liry := liry db @ [\<lparr>li_id = next_l db, li_m = m, li_name = lira_marker, li_magaz = 1, li_form = ''i=x'',
       li_form_zv = ''x=i'', li_br = 4\<rparr>], next_l := next_l db + 1\<rparr>)"

definition q_lira_marker :: "int \<Rightarrow> qry" where
  "q_lira_marker m = \<lparr>q_text = ''SELECT L_ID FROM LIRY WHERE NAME='' @ quoted lira_marker @ '' AND M_ID='' @ int_str m,
     q_quoted = [],
     q_rows = (\<lambda>db. map li_id (filter (\<lambda>r. li_name r = lira_marker \<and> li_m r = m) (liry db)))\<rparr>"

definition upd_lira_name :: "int \<Rightarrow> stmt" where
  "upd_lira_name l = stmt_of (''UPDATE LIRY SET NAME='' @ quoted ''new lire'' @ '' WHERE L_ID='' @ int_str l)
     (\<lambda>db. db\<lparr>liry := change_where (\<lambda>r. li_id r = l) (\<lambda>r. r\<lparr>li_name := ''new lire''\<rparr>) (liry db)\<rparr>)"

definition q_mash_name :: "string \<Rightarrow> qry" where
  "q_mash_name name = \<lparr>q_text = ''SELECT M_ID FROM MASHYNES WHERE NAME='' @ quoted name, q_quoted = [name],
     q_rows = (\<lambda>db. map ma_id (filter (\<lambda>r. ma_name r = name) (mashynes db)))\<rparr>"

definition ins_mash :: "string \<Rightarrow> string \<Rightarrow> stmt" where
  "ins_mash name m1 = \<lparr>st_text = ''INSERT INTO MASHYNES(NAME, M1) VALUES('' @ quoted name @ '','' @ quoted m1 @ '')'',
     st_quoted = [name, m1],
     st_effect = (\<lambda>db. db\<lparr>mashynes := mashynes db @ [\<lparr>ma_id = next_m db, ma_name = name, ma_m1 = m1, ma_m2 = None\<rparr>],
       next_m := next_m db + 1\<rparr>)\<rparr>"

section \<open>Statements of delete.cpp\<close>

definition del_npp_of :: "int \<Rightarrow> stmt" where
  "del_npp_of z = stmt_of (''DELETE FROM ZMINNY_NPP WHERE Z_ID='' @ qint z)
     (\<lambda>db. db\<lparr>zminny_npp := delete_where (\<lambda>r. np_z r = z) (zminny_npp db)\<rparr>)"

definition clear_zm_npp :: "int \<Rightarrow> stmt" where
  "clear_zm_npp z = stmt_of (''UPDATE ZMINNY SET NPP_S=0 WHERE Z_ID='' @ qint z)
     (\<lambda>db. db\<lparr>zminny := change_where (\<lambda>r. zm_id r = z) (\<lambda>r. r\<lparr>zm_npp_s := 0\<rparr>) (zminny db)\<rparr>)"

definition del_npp :: "int \<Rightarrow> stmt" where
  "del_npp n = stmt_of (''DELETE FROM ZMINNY_NPP WHERE N_ID='' @ qint n)
     (\<lambda>db. db\<lparr>zminny_npp := delete_where (\<lambda>r. np_id r = n) (zminny_npp db)\<rparr>)"

definition q_lira_m_quoted :: "int \<Rightarrow> qry" where
  "q_lira_m_quoted l = \<lparr>q_text = ''SELECT M_ID FROM LIRY WHERE L_ID='' @ qint l, q_quoted = [],
     q_rows = (\<lambda>db. map li_m (filter (\<lambda>r. li_id r = l) (liry db)))\<rparr>"

definition q_links_of_zm :: "int \<Rightarrow> qry" where
  "q_links_of_zm z = \<lparr>q_text = ''SELECT Z_ID FROM ZMINNY_LIRA WHERE Z_ID='' @ qint z, q_quoted = [],
     q_rows = (\<lambda>db. map zl_z (filter (\<lambda>r. zl_z r = z) (zminny_lira db)))\<rparr>"

definition q_zm_npp_s :: "int \<Rightarrow> qry" where
  "q_zm_npp_s z = \<lparr>q_text = ''SELECT NPP_S FROM ZMINNY WHERE Z_ID='' @ qint z, q_quoted = [],
     q_rows = (\<lambda>db. map zm_npp_s (filter (\<lambda>r. zm_id r = z) (zminny db)))\<rparr>"

definition del_zm :: "int \<Rightarrow> stmt" where
  "del_zm z = stmt_of (''DELETE FROM ZMINNY WHERE Z_ID='' @ qint z)
     (\<lambda>db. db\<lparr>zminny := delete_where (\<lambda>r. zm_id r = z) (zminny db)\<rparr>)"

definition del_link :: "int \<Rightarrow> int \<Rightarrow> stmt" where
  "del_link l z = stmt_of (''DELETE FROM ZMINNY_LIRA WHERE L_ID='' @ qint l @ '' AND Z_ID='' @ qint z)
     (\<lambda>db. db\<lparr>zminny_lira := delete_where (\<lambda>r. zl_l r = l \<and> zl_z r = z) (zminny_lira db)\<rparr>)"

definition del_umova :: "int \<Rightarrow> stmt" where
  "del_umova u = stmt_of (''DELETE FROM UMOVY WHERE U_ID='' @ qint u)
     (\<lambda>db. db\<lparr>umovy := delete_where (\<lambda>r. um_id r = u) (umovy db)\<rparr>)"

definition q_liry_of :: "int \<Rightarrow> qry" where
  "q_liry_of m = \<lparr>q_text = ''SELECT L_ID FROM LIRY WHERE M_ID='' @ qint m, q_quoted = [],
     q_rows = (\<lambda>db. map li_id (filter (\<lambda>r. li_m r = m) (liry db)))\<rparr>"

definition del_umovy_of :: "int \<Rightarrow> stmt" where
  "del_umovy_of l = stmt_of (''DELETE FROM UMOVY WHERE L_ID='' @ qint l)
     (\<lambda>db. db\<lparr>umovy := delete_where (\<lambda>r. um_l r = l) (umovy db)\<rparr>)"

definition q_switches_of :: "int \<Rightarrow> qry" where
  "q_switches_of m = \<lparr>q_text = ''SELECT Z_ID FROM ZMINNY WHERE M_ID='' @ qint m @ '' AND NPP_S!=0'', q_quoted = [],
     q_rows = (\<lambda>db. map zm_id (filter (\<lambda>r. zm_m r = m \<and> zm_npp_s r \<noteq> 0) (zminny db)))\<rparr>"

definition del_links_of_mash :: "int \<Rightarrow> stmt" where
  "del_links_of_mash m = stmt_of (''DELETE FROM ZMINNY_LIRA WHERE M_ID='' @ qint m)
     (\<lambda>db. db\<lparr>zminny_lira := delete_where (\<lambda>r. zl_m r = m) (zminny_lira db)\<rparr>)"

definition del_zm_of_mash :: "int \<Rightarrow> stmt" where
  "del_zm_of_mash m = stmt_of (''DELETE FROM ZMINNY WHERE M_ID='' @ qint m)
     (\<lambda>db. db\<lparr>zminny := delete_where (\<lambda>r. zm_m r = m) (zminny db)\<rparr>)"

definition del_liry_of_mash :: "int \<Rightarrow> stmt" where
  "del_liry_of_mash m = stmt_of (''DELETE FROM LIRY WHERE M_ID='' @ qint m)
     (\<lambda>db. db\<lparr>liry := delete_where (\<lambda>r. li_m r = m) (liry db)\<rparr>)"

definition del_mash :: "int \<Rightarrow> stmt" where
  "del_mash m = stmt_of (''DELETE FROM MASHYNES WHERE M_ID='' @ qint m)
     (\<lambda>db. db\<lparr>mashynes := delete_where (\<lambda>r. ma_id r = m) (mashynes db)\<rparr>)"

text \<open>
  The two grouped queries of \<open>delete_lira\<close>: the variables whose only row in \<open>ZMINNY_LIRA\<close> for the
  machine is one of the lyre. Their \<open>SELECT *\<close> over a \<open>GROUP BY\<close> of one column is accepted by some
  engines and refused by others; the rows are those of an engine that accepts it.
\<close>

definition only_here :: "int \<Rightarrow> int \<Rightarrow> lira_db \<Rightarrow> int list" where
  "only_here m l db = (let rows = filter (\<lambda>r. zl_m r = m) (zminny_lira db)
     in map zl_z (filter (\<lambda>r. zl_l r = l \<and> length (filter (\<lambda>r'. zl_z r' = zl_z r) rows) = 1) rows))"

definition grouped_text :: "int \<Rightarrow> int \<Rightarrow> string" where
  "grouped_text m l = ''SELECT Z_ID FROM (SELECT * FROM (SELECT ZL_ID, Z_ID, L_ID FROM ZMINNY_LIRA ZMLR1 WHERE M_ID='' @
     qint m @ '') ZMLR2 GROUP BY Z_ID HAVING COUNT(Z_ID)=1) ZMLR3 WHERE L_ID='' @ qint l"

definition q_only_here :: "int \<Rightarrow> int \<Rightarrow> qry" where
  "q_only_here m l = \<lparr>q_text = grouped_text m l, q_quoted = [], q_rows = only_here m l\<rparr>"

definition q_switches_only_here :: "int \<Rightarrow> int \<Rightarrow> qry" where
  "q_switches_only_here m l = \<lparr>q_text = ''SELECT ZMLR4.Z_ID AS Z_ID FROM ('' @ grouped_text m l @
       '') ZMLR4 LEFT JOIN ZMINNY ZM ON ZMLR4.Z_ID=ZM.Z_ID WHERE ZM.NPP_S!=0'', q_quoted = [],
     q_rows = (\<lambda>db. concat (map (\<lambda>z. map zm_id (filter (\<lambda>r. zm_id r = z \<and> zm_npp_s r \<noteq> 0) (zminny db))) (only_here m l db)))\<rparr>"

definition del_umovy_of_lira :: "int \<Rightarrow> stmt" where
  "del_umovy_of_lira l = stmt_of (''DELETE FROM UMOVY WHERE L_ID='' @ int_str l)
     (\<lambda>db. db\<lparr>umovy := delete_where (\<lambda>r. um_l r = l) (umovy db)\<rparr>)"

definition del_links_of_lira :: "int \<Rightarrow> stmt" where
  "del_links_of_lira l = stmt_of (''DELETE FROM ZMINNY_LIRA WHERE L_ID='' @ int_str l)
     (\<lambda>db. db\<lparr>zminny_lira := delete_where (\<lambda>r. zl_l r = l) (zminny_lira db)\<rparr>)"

definition del_npp_plain :: "int \<Rightarrow> stmt" where
  "del_npp_plain z = stmt_of (''DELETE FROM ZMINNY_NPP WHERE Z_ID='' @ int_str z)
     (\<lambda>db. db\<lparr>zminny_npp := delete_where (\<lambda>r. np_z r = z) (zminny_npp db)\<rparr>)"

definition del_zm_plain :: "int \<Rightarrow> stmt" where
  "del_zm_plain z = stmt_of (''DELETE FROM ZMINNY WHERE Z_ID='' @ int_str z)
     (\<lambda>db. db\<lparr>zminny := delete_where (\<lambda>r. zm_id r = z) (zminny db)\<rparr>)"

definition del_lira_row :: "int \<Rightarrow> stmt" where
  "del_lira_row l = stmt_of (''DELETE FROM LIRY WHERE L_ID='' @ int_str l)
     (\<lambda>db. db\<lparr>liry := delete_where (\<lambda>r. li_id r = l) (liry db)\<rparr>)"

end
