(* ===== verification/LiraRelay.thy ===== *)
theory LiraRelay
  imports Relay
begin

text \<open>
  The relay part of the LiraCalc server: \<open>servak_na_linux/server/relay.cpp\<close>. Unlike the
  relay server of its own, this one keeps its devices in a singly linked list that it walks with
  pointers to pointers, so the list is modelled as a heap: addresses, nodes with a \<open>next\<close>
  pointer, and cells (the head variable, the \<open>next\<close> field of a node, the local variable
  \<open>rr_tmp2\<close>) that pointers to pointers stand for. Freed addresses are not used again, so a
  pointer to freed memory is the fault \<open>Dangling\<close>. A text too long for its array is the fault
  \<open>OutOfRange\<close>. What is only printed on the console is left out, except for the bound of the
  line buffer.
\<close>

section \<open>The list in memory\<close>

record lrele =
  lr_status :: string
  lr_command :: string
  lr_acp :: int
  lr_sn :: int
  lr_time_onl :: int
  lr_put :: bool
  lr_online :: int
  lr_rand :: u32

type_synonym ptr = "nat option"

record lnode =
  ln_rele :: lrele
  ln_next :: ptr

record lira_relay =
  lr_heap :: "nat \<Rightarrow> lnode option"
  lr_head :: ptr
  lr_alloc :: nat

datatype cell = HeadCell | NextCell nat | LocalCell

definition deref :: "lira_relay \<Rightarrow> ptr \<Rightarrow> lnode res" where
  "deref st p = (case p of None \<Rightarrow> Inl NullDeref
     | Some a \<Rightarrow> (case lr_heap st a of None \<Rightarrow> Inl Dangling | Some n \<Rightarrow> Ok n))"

definition read_cell :: "lira_relay \<Rightarrow> ptr \<Rightarrow> cell \<Rightarrow> ptr res" where
  "read_cell st tmp2 c = (case c of HeadCell \<Rightarrow> Ok (lr_head st) | LocalCell \<Rightarrow> Ok tmp2
     | NextCell a \<Rightarrow> bind_res (deref st (Some a)) (\<lambda>n. Ok (ln_next n)))"

definition write_node :: "nat \<Rightarrow> lnode \<Rightarrow> lira_relay \<Rightarrow> lira_relay" where
  "write_node a n st = st\<lparr>lr_heap := (lr_heap st)(a := Some n)\<rparr>"

definition update_rele :: "nat \<Rightarrow> (lrele \<Rightarrow> lrele) \<Rightarrow> lira_relay \<Rightarrow> lira_relay res" where
  "update_rele a f st = bind_res (deref st (Some a)) (\<lambda>n.
     Ok (write_node a (n\<lparr>ln_rele := f (ln_rele n)\<rparr>) st))"

definition set_next :: "ptr \<Rightarrow> ptr \<Rightarrow> lira_relay \<Rightarrow> lira_relay res" where
  "set_next p q st = bind_res (deref st p) (\<lambda>n. Ok (write_node (the p) (n\<lparr>ln_next := q\<rparr>) st))"

text \<open>\<open>*rr = p\<close> for a cell other than the local variable.\<close>

definition write_cell :: "cell \<Rightarrow> ptr \<Rightarrow> lira_relay \<Rightarrow> lira_relay res" where
  "write_cell c p st = (case c of HeadCell \<Rightarrow> Ok (st\<lparr>lr_head := p\<rparr>) | LocalCell \<Rightarrow> Ok st
     | NextCell a \<Rightarrow> set_next (Some a) p st)"

definition free_node :: "ptr \<Rightarrow> lira_relay \<Rightarrow> lira_relay res" where
  "free_node p st = bind_res (deref st p) (\<lambda>n. Ok (st\<lparr>lr_heap := (lr_heap st)(the p := None)\<rparr>))"

section \<open>Percent in double arithmetic\<close>

text \<open>
  \<open>(int)((((double)acp) / 4095) * 100)\<close>: both operations round to 53 bits, to the nearest even
  value, and the conversion cuts the fraction off.
\<close>

definition round_div :: "int \<Rightarrow> int \<Rightarrow> int" where
  "round_div a b = (let q = a div b; r = a mod b
     in if 2 * r < b \<or> (2 * r = b \<and> even q) then q else q + 1)"

fun scale_up :: "nat \<Rightarrow> int \<Rightarrow> nat \<Rightarrow> nat" where
  "scale_up 0 a s = s"
| "scale_up (Suc n) a s = (if 4095 * 2 ^ 52 \<le> a * 2 ^ s then s else scale_up n a (s + 1))"

fun scale_down :: "nat \<Rightarrow> int \<Rightarrow> nat \<Rightarrow> nat" where
  "scale_down 0 a t = t"
| "scale_down (Suc n) a t = (if a < 2 ^ (53 + t) then t else scale_down n a (t + 1))"

definition acp_percent :: "int \<Rightarrow> int" where
  "acp_percent acp =
     (let a = \<bar>acp\<bar>;
          s = scale_up 70 a 0;
          m = round_div (a * 2 ^ s) 4095;
          t = scale_down 12 (m * 100) 0;
          y = round_div (m * 100) (2 ^ t) * 2 ^ t;
          v = y div 2 ^ s
      in if acp < 0 then - v else v)"

section \<open>The poll of a device\<close>

definition lira_seed :: u32 where
  "lira_seed = 0xaabbccdd"

text \<open>\<open>strcpy\<close> into an array of nine.\<close>

definition strcpy9 :: "string \<Rightarrow> string res" where
  "strcpy9 s = (if length s > 8 then Inl OutOfRange else Ok s)"

definition bbb_ok :: "string \<Rightarrow> unit res" where
  "bbb_ok line = (if length line > 199 then Inl OutOfRange else Ok ())"

definition pad3 :: "int \<Rightarrow> string" where
  "pad3 i = (let s = int_str i in replicate (3 - length s) (CHR '' '') @ s)"

definition lira_line_head :: "int \<Rightarrow> string \<Rightarrow> int \<Rightarrow> string" where
  "lira_line_head sn relays acp = ''sn = '' @ int_str sn @ [CHR 0x09] @ ''resv = '' @ relays @
     [CHR 0x09, CHR 0x09] @ ''acp = '' @ pad3 (acp_percent acp) @ ''%'' @ [CHR 0x09] @ ''send = ''"

definition created_lrele :: "int \<Rightarrow> int \<Rightarrow> string \<Rightarrow> int \<Rightarrow> lrele res" where
  "created_lrele t_time sn relays acp = bind_res (strcpy9 relays) (\<lambda>status.
     Ok \<lparr>lr_status = status, lr_command = xs8, lr_acp = acp, lr_sn = sn, lr_time_onl = t_time,
         lr_put = False, lr_online = 0, lr_rand = xsrand lira_seed sn\<rparr>)"

definition refresh_lrele :: "int \<Rightarrow> int \<Rightarrow> string \<Rightarrow> int \<Rightarrow> bool \<Rightarrow> lrele \<Rightarrow> lrele res" where
  "refresh_lrele t_time sn relays acp init r =
     bind_res (if \<not> lr_put r \<and> relays \<noteq> xs8
               then bind_res (strcpy9 relays) (\<lambda>status. Ok (r\<lparr>lr_status := status\<rparr>)) else Ok r) (\<lambda>r.
       let r = r\<lparr>lr_acp := acp\<rparr>;
           r = (if \<not> init then r\<lparr>lr_time_onl := t_time\<rparr> else r)
       in Ok (if init then r\<lparr>lr_rand := xsrand lira_seed sn\<rparr>
              else if relays = xs8 then r\<lparr>lr_command := lr_status r, lr_put := True\<rparr> else r))"

definition lira_sum :: "string \<Rightarrow> string \<Rightarrow> string \<Rightarrow> string \<Rightarrow> u32 \<Rightarrow> int \<times> u32" where
  "lira_sum sn_txt relays acp_txt init_txt a =
     contr_sum init_txt (contr_sum acp_txt (contr_sum relays (contr_sum sn_txt (0, a))))"

definition lira_command :: "bool \<Rightarrow> lrele \<Rightarrow> string" where
  "lira_command init r = (if init \<or> \<not> lr_put r then xs8 else lr_command r)"

text \<open>The part of \<open>obrobnyk_relay\<close> from the second \<open>sprintf\<close> on, for a device's entry.\<close>

definition answer_lrele ::
  "string \<Rightarrow> bool \<Rightarrow> bool \<Rightarrow> int \<Rightarrow> string \<Rightarrow> string \<Rightarrow> string \<Rightarrow> string \<Rightarrow> lrele \<Rightarrow> (string \<times> lrele) res" where
  "answer_lrele bbb created init cs sn_txt relays acp_txt init_txt r =
     (let bbb = bbb @ lr_command r @ [CHR 0x09, CHR 0x09] @ ''init = '' @ init_txt @
            [CHR 0x09, CHR 0x09] @ ''cs = '' @ int_str cs;
          (sum1, a) = lira_sum sn_txt relays acp_txt init_txt (lr_rand r);
          r = r\<lparr>lr_rand := a\<rparr>
      in if cs \<noteq> sum1
         then bind_res (bbb_ok (bbb @ replicate 7 (CHR 0x09) @ ''cs = '' @ int_str cs @ [CHR 0x09] @
                  ''contr = '' @ int_str sum1)) (\<lambda>_. Ok (bad_reply, r))
         else
           let r = r\<lparr>lr_rand := xcorrect sum1 (lr_rand r)\<rparr>;
               out = lira_command init r;
               text = out @ int_str (lr_online r);
               (sum2, a) = contr_sum text (0, lr_rand r);
               reply = reply_json out (lr_online r) sum2;
               r = (if init \<or> \<not> lr_put r then r\<lparr>lr_command := xs8\<rparr> else r);
               r = r\<lparr>lr_rand := xcorrect sum2 a\<rparr>;
               r = (if \<not> init then r\<lparr>lr_put := False, lr_command := xs8\<rparr> else r);
               bbb = bbb @ ''  '' @ text @ ''  '' @ [CHR 0x09, CHR 0x09] @ ''cs2 = '' @ int_str sum2 @
                 (if created then [CHR 0x09, CHR 0x09] @ ''create new struct'' else [])
           in bind_res (bbb_ok bbb) (\<lambda>_. Ok (reply, r\<lparr>lr_online := 0\<rparr>)))"

text \<open>
  The walk to the device: \<open>rrr\<close> runs to the end of the list, \<open>rr\<close> stays at the first node
  with the serial number. \<open>None\<close> is a walk that never ends.
\<close>

partial_function (option) find_loop :: "lira_relay \<Rightarrow> int \<Rightarrow> cell \<Rightarrow> cell \<Rightarrow> cell res option" where
  "find_loop st sn rr rrr =
     (case read_cell st None rrr of
        Inl e \<Rightarrow> Some (Inl e)
      | Inr None \<Rightarrow> Some (Ok rr)
      | Inr (Some b) \<Rightarrow>
          (case bind_res (read_cell st None rr) (\<lambda>p. bind_res (deref st p) (\<lambda>n.
                 Ok (if lr_sn (ln_rele n) \<noteq> sn then NextCell (the p) else rr))) of
             Inl e \<Rightarrow> Some (Inl e)
           | Inr rr' \<Rightarrow>
               (case deref st (Some b) of
                  Inl e \<Rightarrow> Some (Inl e)
                | Inr n \<Rightarrow> find_loop st sn rr' (NextCell b))))"

definition new_node :: "lrele \<Rightarrow> lira_relay \<Rightarrow> nat \<times> lira_relay" where
  "new_node r st = (lr_alloc st,
     (write_node (lr_alloc st) \<lparr>ln_rele = r, ln_next = None\<rparr> st)\<lparr>lr_alloc := lr_alloc st + 1\<rparr>)"

definition lira_obrobnyk ::
  "int \<Rightarrow> int \<Rightarrow> string \<Rightarrow> string \<Rightarrow> int \<Rightarrow> string \<Rightarrow> bool \<Rightarrow> int \<Rightarrow> string \<Rightarrow> lira_relay \<Rightarrow>
     (string \<times> lira_relay) res option" where
  "lira_obrobnyk now sn sn_txt relays acp acp_txt init cs init_txt st =
     (let bbb = lira_line_head sn relays acp in
      case bbb_ok bbb of Inl e \<Rightarrow> Some (Inl e) | Inr _ \<Rightarrow>
      (case find_loop st sn HeadCell HeadCell of
         None \<Rightarrow> None
       | Some (Inl e) \<Rightarrow> Some (Inl e)
       | Some (Inr rr) \<Rightarrow> Some (bind_res (read_cell st None rr) (\<lambda>p. case p of
            None \<Rightarrow>
              bind_res (created_lrele now sn relays acp) (\<lambda>r.
              bind_res (answer_lrele bbb True init cs sn_txt relays acp_txt init_txt r) (\<lambda>(out, r).
                let (a, st) = new_node r st
                in bind_res (write_cell rr (Some a) st) (\<lambda>st. Ok (out, st))))
          | Some a \<Rightarrow>
              bind_res (deref st (Some a)) (\<lambda>n.
              bind_res (refresh_lrele now sn relays acp init (ln_rele n)) (\<lambda>r.
              bind_res (answer_lrele bbb False init cs sn_txt relays acp_txt init_txt r) (\<lambda>(out, r).
                Ok (out, write_node a (n\<lparr>ln_rele := r\<rparr>) st))))))))"

section \<open>Status requests\<close>

text \<open>
  The list of all devices (\<open>sn == 0\<close>): the loop that also removes the devices not heard of for
  two days. As in the code, \<open>*rr\<close> is read again after the pointer it stands for was changed.
\<close>

definition expire :: "lira_relay \<Rightarrow> nat \<Rightarrow> lnode \<Rightarrow> cell \<Rightarrow> cell \<Rightarrow> bool \<Rightarrow> (ptr \<times> lira_relay) res" where
  "expire st a n rr rr_tmp fl =
     (let tmp2 = ln_next n
      in bind_res (if fl then Ok (st\<lparr>lr_head := tmp2\<rparr>)
                   else bind_res (read_cell st tmp2 rr_tmp) (\<lambda>p. set_next p tmp2 st)) (\<lambda>st.
         bind_res (read_cell st tmp2 rr) (\<lambda>p.
         bind_res (free_node p st) (\<lambda>st. Ok (tmp2, st)))))"

partial_function (option) list_loop ::
  "int \<Rightarrow> lira_relay \<Rightarrow> cell \<Rightarrow> cell \<Rightarrow> ptr \<Rightarrow> bool \<Rightarrow> string \<Rightarrow> (string \<times> lira_relay) res option" where
  "list_loop tmm st rr rr_tmp tmp2 fl buff =
     (case read_cell st tmp2 rr of
        Inl e \<Rightarrow> Some (Inl e)
      | Inr None \<Rightarrow> Some (Ok (buff @ '']}'', st))
      | Inr (Some a) \<Rightarrow>
          (case deref st (Some a) of
             Inl e \<Rightarrow> Some (Inl e)
           | Inr n \<Rightarrow>
               (let age = tmm - lr_time_onl (ln_rele n);
                    n = (if age > 8 then n\<lparr>ln_rele := (ln_rele n)\<lparr>lr_acp := -4095\<rparr>\<rparr> else n);
                    st = write_node a n st
                in if age > 172800
                   then (case expire st a n rr rr_tmp fl of
                           Inl e \<Rightarrow> Some (Inl e)
                         | Inr p \<Rightarrow> list_loop tmm (snd p) LocalCell rr_tmp (fst p) fl buff)
                   else list_loop tmm st (NextCell a) rr tmp2 False
                          (buff @ (if fl then [] else '','') @ [CHR 0x22] @ int_str (lr_sn (ln_rele n)) @ [CHR 0x22]))))"

text \<open>The search loop of the other requests: nodes on the way are marked offline after a minute.\<close>

partial_function (option) seek_loop ::
  "int \<Rightarrow> int \<Rightarrow> lira_relay \<Rightarrow> ptr \<Rightarrow> (ptr \<times> lira_relay) res option" where
  "seek_loop tmm sn st p =
     (case p of
        None \<Rightarrow> Some (Ok (None, st))
      | Some a \<Rightarrow>
          (case deref st p of
             Inl e \<Rightarrow> Some (Inl e)
           | Inr n \<Rightarrow>
               (let n = (if tmm - lr_time_onl (ln_rele n) > 60
                         then n\<lparr>ln_rele := (ln_rele n)\<lparr>lr_acp := -4095\<rparr>\<rparr> else n);
                    st = write_node a n st
                in if lr_sn (ln_rele n) = sn then Some (Ok (p, st)) else seek_loop tmm sn st (ln_next n))))"

definition no_device :: string where
  \<open>no_device = ''{"buttons":"XX0110XX","output":"-1%"}''\<close>

definition device_offline :: string where
  \<open>device_offline = ''{"buttons":"XXXXXXXX","output":"offline"}''\<close>

definition device_json :: "lrele \<Rightarrow> string" where
  \<open>device_json r = ''{"buttons":"'' @ lr_status r @ ''","output":"'' @ int_str (acp_percent (lr_acp r)) @ ''%"}''\<close>

definition show_device :: "lrele \<Rightarrow> string" where
  "show_device r = (if lr_acp r \<noteq> -4095 then device_json r else device_offline)"

definition lira_get_status :: "int \<Rightarrow> int \<Rightarrow> lira_relay \<Rightarrow> (string \<times> lira_relay) res option" where
  \<open>lira_get_status now sn st =
     (if sn = 0 then list_loop now st HeadCell HeadCell None True ''{"rr":[''
      else case seek_loop now sn st (lr_head st) of
          None \<Rightarrow> None
        | Some (Inl e) \<Rightarrow> Some (Inl e)
        | Some (Inr (None, st)) \<Rightarrow> Some (Ok (no_device, st))
        | Some (Inr (Some a, st)) \<Rightarrow> Some (bind_res (deref st (Some a)) (\<lambda>n.
            bind_res (update_rele a (\<lambda>r. r\<lparr>lr_online := 50\<rparr>) st) (\<lambda>st.
              Ok (show_device (ln_rele n), st)))))\<close>

definition press_lrele :: "nat \<Rightarrow> lrele \<Rightarrow> lrele" where
  "press_lrele b r = r\<lparr>lr_status := (lr_status r)[b := CHR ''X''],
     lr_command := (lr_command r)[b := if lr_status r ! b = CHR ''0'' then CHR ''1'' else CHR ''0''],
     lr_put := True\<rparr>"

text \<open>
  A button outside the texts reads a byte that was never written, overwrites the terminator of the
  text that is sent next, or leaves the arrays: the fault \<open>OutOfRange\<close> stands for all three.
\<close>

definition press_device :: "int \<Rightarrow> lrele \<Rightarrow> (string \<times> lrele) res" where
  "press_device b r =
     (if lr_acp r \<noteq> -4095
      then if b < 0 \<or> b \<ge> int (length (lr_status r)) \<or> b \<ge> int (length (lr_command r)) then Inl OutOfRange
           else let r = press_lrele (nat b) r in Ok (device_json r, r)
      else Ok (device_offline, r))"

definition lira_put_status :: "int \<Rightarrow> int \<Rightarrow> int \<Rightarrow> lira_relay \<Rightarrow> (string \<times> lira_relay) res option" where
  "lira_put_status now sn button st =
     (case seek_loop now sn st (lr_head st) of
        None \<Rightarrow> None
      | Some (Inl e) \<Rightarrow> Some (Inl e)
      | Some (Inr (None, st)) \<Rightarrow> Some (Ok (no_device, st))
      | Some (Inr (Some a, st)) \<Rightarrow> Some (bind_res (deref st (Some a)) (\<lambda>n.
          bind_res (press_device (button - 1) (ln_rele n)) (\<lambda>(out, r).
            Ok (out, write_node a (n\<lparr>ln_rele := r\<lparr>lr_online := 50\<rparr>\<rparr>) st)))))"

end
