(* ===== verification/LiraEdit.thy ===== *)
theory LiraEdit
  imports LiraStore LiraRelay
begin

text \<open>
  The editing handlers of the LiraCalc server: \<open>add.cpp\<close>, \<open>save.cpp\<close> and \<open>delete.cpp\<close> of
  \<open>servak_na_linux/server\<close>. Each sends a sequence of statements, looks at the status after every
  commit and answers with an identifier, a JSON text or the messages of a \<open>Status\<close>. The engine
  \<open>fb\<close>, the clock \<open>now\<close> and the time zone \<open>off\<close> are arguments. A statement too long for its
  array is the fault \<open>OutOfRange\<close>. Connecting is left out: \<open>connect_db\<close> ends the process when
  there is no data base.
\<close>

section \<open>Steps the handlers share\<close>

type_synonym edit = "lira_status \<times> lira_db"

definition exec_msg :: "firebird \<Rightarrow> stmt \<Rightarrow> string \<Rightarrow> edit \<Rightarrow> edit res" where
  "exec_msg fb st msg e = (let (err, db) = sql_exec fb st (snd e)
     in if err then bind_res (status_error msg [] [] (fst e)) (\<lambda>status. Ok (status, db))
        else Ok (fst e, db))"

fun exec_all :: "firebird \<Rightarrow> (int \<Rightarrow> stmt) \<Rightarrow> string \<Rightarrow> int list \<Rightarrow> edit \<Rightarrow> edit res" where
  "exec_all fb st msg [] e = Ok e"
| "exec_all fb st msg (i # is) e = bind_res (exec_msg fb (st i) msg e) (exec_all fb st msg is)"

definition error_if :: "bool \<Rightarrow> string \<Rightarrow> string \<Rightarrow> string \<Rightarrow> lira_status \<Rightarrow> lira_status res" where
  "error_if c text key arg status = (if c then status_error text key arg status else Ok status)"

definition answer_status :: "int \<Rightarrow> int \<Rightarrow> edit \<Rightarrow> string \<times> lira_db" where
  "answer_status now off e = (fst (status_html now off (fst e)), snd e)"

text \<open>\<open>if(status.success()) status.info(...)\<close> at the end of a handler.\<close>

definition finish :: "int \<Rightarrow> int \<Rightarrow> string \<Rightarrow> string \<Rightarrow> edit \<Rightarrow> (string \<times> lira_db) res" where
  "finish now off text key e = bind_res
     (if status_success (fst e) then status_info text key [] (fst e) else Ok (fst e))
     (\<lambda>status. Ok (answer_status now off (status, snd e)))"

section \<open>Numbers\<close>

text \<open>A \<open>double\<close>: \<open>m * 2 ^ e\<close>, or not finite. \<open>%.20f\<close> prints the exact value, rounded to twenty
  digits after the point.\<close>

datatype dbl = Fin int int | Inf bool | NaN

definition dbl_zero :: "dbl \<Rightarrow> bool" where
  "dbl_zero d = (case d of Fin m e \<Rightarrow> m = 0 | _ \<Rightarrow> False)"

definition pad_zeros :: "nat \<Rightarrow> string \<Rightarrow> string" where
  "pad_zeros n s = replicate (n - length s) (CHR ''0'') @ s"

definition fmt20 :: "dbl \<Rightarrow> string" where
  "fmt20 d = (case d of
      NaN \<Rightarrow> ''nan''
    | Inf neg \<Rightarrow> (if neg then ''-inf'' else ''inf'')
    | Fin m e \<Rightarrow>
        (let a = \<bar>m\<bar> * 10 ^ 20;
             n = (if e \<ge> 0 then a * 2 ^ nat e else round_div a (2 ^ nat (- e)))
         in (if m < 0 then ''-'' else []) @ int_str (n div 10 ^ 20) @ ''.'' @ pad_zeros 20 (int_str (n mod 10 ^ 20))))"

text \<open>\<open>to_roman\<close>: the inner loop of one numeral, then the outer loop over the thirteen.\<close>

function roman_while :: "int \<Rightarrow> string \<Rightarrow> int \<Rightarrow> string \<Rightarrow> int \<times> string" where
  "roman_while v s n r = (if 0 < v \<and> n \<ge> v then roman_while v s (n - v) (r @ s) else (n, r))"
  by auto
termination by (relation "measure (\<lambda>(v, s, n, r). nat n)") auto

declare roman_while.simps [simp del]

definition roman_numerals :: "(int \<times> string) list" where
  "roman_numerals = [(1000, ''M''), (900, ''CM''), (500, ''D''), (400, ''CD''), (100, ''C''), (90, ''XC''), (50, ''L''),
     (40, ''XL''), (10, ''X''), (9, ''IX''), (5, ''V''), (4, ''IV''), (1, ''I'')]"

fun roman_loop :: "(int \<times> string) list \<Rightarrow> int \<Rightarrow> string \<Rightarrow> string" where
  "roman_loop [] n r = r"
| "roman_loop ((v, s) # vs) n r = (let (n, r) = roman_while v s n r in roman_loop vs n r)"

definition to_roman :: "int \<Rightarrow> string" where
  "to_roman n = (if n \<le> 0 then int_str n else roman_loop roman_numerals n [])"

section \<open>save.cpp\<close>

definition save_zm ::
  "firebird \<Rightarrow> int \<Rightarrow> int \<Rightarrow> int \<Rightarrow> int \<Rightarrow> char \<Rightarrow> int \<Rightarrow> string \<Rightarrow> dbl \<Rightarrow> lira_db \<Rightarrow> (string \<times> lira_db) res" where
  "save_zm fb now off m_id z_id bukva npp_s name zn db =
     bind_res (error_if (npp_s < 0 \<or> npp_s > 2) ''NPP_S != 0...2'' [] [] new_status) (\<lambda>status.
     bind_res (error_if (m_id = 0 \<or> z_id = 0) ''indeks M_ID abo Z_ID dorivnjuje nulju.'' ''srv_zm_index_zero'' [] status) (\<lambda>status.
     if status_success status then
       bind_res (if npp_s = 0
                 then status_info (''zminna '' @ [bukva] @ '' zberezhena.'') ''srv_zm_saved'' [bukva] status
                 else status_info (''peremykach '' @ [bukva] @ '' zberezhena.'') ''srv_switch_saved'' [bukva] status) (\<lambda>status.
       let s1 = upd_zm_zn (if \<not> dbl_zero zn then Some (fmt20 zn) else None) z_id;
           s2 = upd_zm_name (if c_str name \<noteq> [] then Some (c_str name) else None) z_id
       in bind_res (fits 200 (st_text s1)) (\<lambda>_.
          bind_res (exec_msg fb s1 ''ERROR INSERT INTO ZMINNY ZNACHENNJA'' (status, db)) (\<lambda>e.
          bind_res (fits 200 (st_text s2)) (\<lambda>_.
          bind_res (exec_msg fb s2 ''ERROR INSERT INTO ZMINNY NAME'' e) (\<lambda>e.
          bind_res (exec_msg fb (upd_zm_npp_s npp_s z_id) ''ERROR INSERT INTO ZMINNY NPP_S'' e) (\<lambda>e.
          Ok (answer_status now off e)))))))
     else Ok (answer_status now off (status, db))))"

definition save_usl ::
  "firebird \<Rightarrow> int \<Rightarrow> int \<Rightarrow> int \<Rightarrow> int \<Rightarrow> string \<Rightarrow> lira_db \<Rightarrow> (string \<times> lira_db) res" where
  "save_usl fb now off u_id l_id umova db = (let umova = c_str umova in
     bind_res (error_if (length umova < 3) (''umova '' @ umova @ '' maje menshe 3-h symvoliv.'') ''srv_umova_short'' umova new_status) (\<lambda>status.
     bind_res (error_if (u_id = 0 \<or> l_id = 0) ''indeks U_ID abo L_ID dorivnjuje nulju.'' ''srv_usl_index_zero'' [] status) (\<lambda>status.
     if status_success status then
       bind_res (status_info (''umova '' @ umova @ '' zberezhena.'') ''srv_umova_saved'' umova status) (\<lambda>status.
       bind_res (fits 200 (st_text (upd_umova umova u_id))) (\<lambda>_.
       bind_res (exec_msg fb (upd_umova umova u_id) ''ERROR INSERT INTO UMOVY'' (status, db)) (\<lambda>e.
       Ok (answer_status now off e))))
     else Ok (answer_status now off (status, db)))))"

definition save_npp ::
  "firebird \<Rightarrow> int \<Rightarrow> int \<Rightarrow> int \<Rightarrow> int \<Rightarrow> dbl \<Rightarrow> string \<Rightarrow> string \<Rightarrow> lira_db \<Rightarrow> (string \<times> lira_db) res" where
  "save_npp fb now off n_id z_id zn umova coment db = (let umova = c_str umova; coment = c_str coment in
     bind_res (error_if (length umova < 3) (''umova '' @ umova @ '' maje menshe 3-h symvoliv.'') ''srv_umova_short'' umova new_status) (\<lambda>status.
     bind_res (error_if (length coment < 1) (''komentar '' @ coment @ '' maje menshe 3-h symvoliv.'') ''srv_coment_short'' coment status) (\<lambda>status.
     bind_res (error_if (n_id = 0 \<or> z_id = 0) ''indeks N_ID abo Z_ID dorivnjuje nulju.'' ''srv_npp_index_zero'' [] status) (\<lambda>status.
     bind_res (error_if (dbl_zero zn) (''konstanta '' @ coment @ '' dorivnjuje nulju.'') ''srv_const_zero'' coment status) (\<lambda>status.
     if status_success status then
       bind_res (status_info (''konstanta '' @ coment @ '' zberezhena.'') ''srv_const_saved'' coment status) (\<lambda>status.
       let s = upd_npp umova coment (fmt20 zn) n_id
       in bind_res (fits 200 (st_text s)) (\<lambda>_.
          bind_res (exec_msg fb s ''ERROR INSERT INTO ZMINNY_NPP'' (status, db)) (\<lambda>e.
          Ok (answer_status now off e))))
     else Ok (answer_status now off (status, db)))))))"

definition save_mash ::
  "firebird \<Rightarrow> int \<Rightarrow> int \<Rightarrow> int \<Rightarrow> string \<Rightarrow> string \<Rightarrow> string \<Rightarrow> lira_db \<Rightarrow> (string \<times> lira_db) res" where
  "save_mash fb now off m_id name m1 m2 db = (let name = c_str name; m1 = c_str m1; m2 = c_str m2 in
     bind_res (error_if (length name < 3) (''im'' @ sq @ ''ja verstata '' @ name @ '' maje menshe 3-h symvoliv.'')
       ''srv_mashname_short'' name new_status) (\<lambda>status.
     bind_res (error_if (length m1 < 3) ''perelik kolis  maje menshe 3-h symvoliv.'' ''srv_gears_short'' [] status) (\<lambda>status.
     if status_success status then
       bind_res (status_info (''verstat '' @ name @ '' zberezheno.'') ''srv_mash_saved'' name status) (\<lambda>status.
       let s = upd_mash name m1 (if m2 = [] then None else Some m2) m_id
       in bind_res (fits 2000 (st_text s)) (\<lambda>_.
          bind_res (exec_msg fb s ''ERROR INSERT INTO MASHYNES'' (status, db)) (\<lambda>e.
          Ok (answer_status now off e))))
     else Ok (answer_status now off (status, db)))))"

definition save_lira ::
  "firebird \<Rightarrow> int \<Rightarrow> int \<Rightarrow> int \<Rightarrow> int \<Rightarrow> string \<Rightarrow> int \<Rightarrow> int \<Rightarrow> string \<Rightarrow> string \<Rightarrow> lira_db \<Rightarrow> (string \<times> lira_db) res" where
  "save_lira fb now off m_id l_id name magaz br form form_zv db =
    (let name = c_str name; form = c_str form; form_zv = c_str form_zv; short = '' maje menshe 3-h symvoliv.'' in
     bind_res (error_if (length name < 3) (''im'' @ sq @ ''ja liry '' @ name @ short) ''srv_liraname_short'' name new_status) (\<lambda>status.
     bind_res (error_if (length form < 3) (''osnovna formula liry '' @ name @ short) ''srv_liraform_short'' name status) (\<lambda>status.
     bind_res (error_if (length form_zv < 3) (''zvorotnja formula liry '' @ name @ short) ''srv_lirainvform_short'' name status) (\<lambda>status.
     bind_res (error_if (m_id = 0 \<or> l_id = 0) (''lira '' @ name @ ''indeks M_ID abo L_ID dorivnjuje nulju.'') ''srv_lira_index_zero'' name status) (\<lambda>status.
     bind_res (error_if (magaz \<noteq> 1 \<and> magaz \<noteq> 2) ''MAGAZ != 1/2'' [] [] status) (\<lambda>status.
     bind_res (error_if (br < 2 \<or> br > 4) ''BR_KOL_LIR != 2...4'' [] [] status) (\<lambda>status.
     if status_success status then
       let s = upd_lira name form form_zv magaz br l_id
       in bind_res (fits 2000 (st_text s)) (\<lambda>_.
          let (err, db) = sql_exec fb s db
          in bind_res (if err then status_error ''ERROR INSERT INTO LIRY'' [] [] status
                       else status_info (''lira '' @ name @ '' zberezhena.'') ''srv_lira_saved'' name status) (\<lambda>status.
             Ok (answer_status now off (status, db))))
     else Ok (answer_status now off (status, db)))))))))"

section \<open>add.cpp\<close>

definition zm_answer :: "int \<Rightarrow> int \<Rightarrow> string" where
  "zm_answer z_id zm_poz = ''{'' @ dq @ ''z_id'' @ dq @ '':'' @ int_str z_id @ '','' @ dq @ ''zm_poz'' @ dq @ '':'' @ int_str zm_poz @ ''}''"

definition link_zm :: "firebird \<Rightarrow> int \<Rightarrow> int \<Rightarrow> int \<Rightarrow> int \<Rightarrow> string \<Rightarrow> lira_db \<Rightarrow> string \<times> lira_db" where
  "link_zm fb m_id l_id z_id zm_poz msg db = (let (err, db) = sql_exec fb (ins_link z_id l_id m_id) db
     in if err then (msg, db) else (zm_answer z_id zm_poz, db))"

definition add_known_zm :: "firebird \<Rightarrow> int \<Rightarrow> int \<Rightarrow> int \<Rightarrow> int \<Rightarrow> lira_db \<Rightarrow> string \<times> lira_db" where
  "add_known_zm fb m_id l_id z_id zm_poz db =
     (let (err, zl) = sql_query fb (q_link m_id l_id z_id) db
      in if err then (''ERROR SELECT * FROM ZMINNY_LIRA 118'', db)
         else if first_or_zero zl = 0 then link_zm fb m_id l_id z_id zm_poz ''ERROR INSERT INTO ZMINNY_LIRA 132'' db
         else (zm_answer z_id zm_poz, db))"

definition add_new_zm :: "firebird \<Rightarrow> int \<Rightarrow> int \<Rightarrow> char \<Rightarrow> int \<Rightarrow> lira_db \<Rightarrow> string \<times> lira_db" where
  "add_new_zm fb m_id l_id bukva zm_poz db =
     (let (err, db) = sql_exec fb (ins_zm m_id bukva) db
      in if err then (''ERROR INSERT INTO ZMINNY 149'', db)
         else let (err, zs) = sql_query fb (q_zm m_id bukva) db
              in if err \<or> first_or_zero zs = 0 then (''ERROR SELECT * FROM ZMINNY 178'', db)
                 else link_zm fb m_id l_id (first_or_zero zs) zm_poz ''ERROR INSERT INTO ZMINNY_LIRA 192'' db)"

definition add_zminna :: "firebird \<Rightarrow> int \<Rightarrow> char \<Rightarrow> int \<Rightarrow> lira_db \<Rightarrow> string \<times> lira_db" where
  "add_zminna fb l_id bukva zm_poz db =
     (let (err, ms) = sql_query fb (q_lira_m l_id) db; m_id = first_or_zero ms
      in if err \<or> m_id = 0 then (''ERROR SELECT * FROM LIRY 46'', db)
         else let (err, zs) = sql_query fb (q_zm m_id bukva) db; z_id = first_or_zero zs
              in if err then (''ERROR SELECT * FROM ZMINNY 83'', db)
                 else if z_id \<noteq> 0 then add_known_zm fb m_id l_id z_id zm_poz db
                 else add_new_zm fb m_id l_id bukva zm_poz db)"

definition add_zm_npp :: "firebird \<Rightarrow> int \<Rightarrow> lira_db \<Rightarrow> string \<times> lira_db" where
  "add_zm_npp fb z_id db =
     (let (err, db) = sql_exec fb (ins_npp z_id) db
      in if err then (''ERROR INSERT INTO ZMINNY_NPP 24'', db)
         else let (err, ns) = sql_query fb q_npp_marker db; n_id = first_or_zero ns
              in if err \<or> n_id = 0 then (''ERROR SELECT L_ID FROM ZMINNY_NPP 57'', db)
                 else let npp_poz = first_or_zero (snd (sql_query fb (q_npp_count z_id) db));
                          (err, db) = sql_exec fb (upd_npp_coment (to_roman npp_poz) n_id) db
                      in if err then (''ERROR UPDATE ZMINNY_NPP 69'', db) else (int_str n_id, db))"

definition add_umova :: "firebird \<Rightarrow> int \<Rightarrow> lira_db \<Rightarrow> string \<times> lira_db" where
  "add_umova fb l_id db =
     (let (err, db) = sql_exec fb (ins_umova l_id) db
      in if err then (''ERROR INSERT INTO UMOVY 22'', db)
         else let (err, us) = sql_query fb q_umova_marker db; u_id = first_or_zero us
              in if err \<or> u_id = 0 then (''ERROR SELECT U_ID FROM UMOVY 55'', db)
                 else let (err, db) = sql_exec fb (upd_umova ''1=1'' u_id) db
                      in if err then (''ERROR UPDATE ZMINNY_NPP 69'', db) else (int_str u_id, db))"

definition add_lira :: "firebird \<Rightarrow> int \<Rightarrow> lira_db \<Rightarrow> string \<times> lira_db" where
  "add_lira fb m_id db =
     (let (err, cs) = sql_query fb (q_lira_count m_id) db
      in if err then (''ERROR SELECT * FROM LIRY 43'', db)
         else if first_or_zero cs \<ge> 3 then (''error: max 3 liry'', db)
         else let (err, db) = sql_exec fb (ins_lira m_id) db
              in if err then (''ERROR INSERT INTO LIRY 64'', db)
                 else let (err, ls) = sql_query fb (q_lira_marker m_id) db; l_id = first_or_zero ls
                      in if err \<or> l_id = 0 then (''ERROR SELECT L_ID FROM LIRY 97'', db)
                         else let (err, db) = sql_exec fb (upd_lira_name l_id) db
                              in if err then (''ERROR UPDATE LIRY 109'', db) else (int_str l_id, db))"

definition post_add_mash :: "firebird \<Rightarrow> int \<Rightarrow> int \<Rightarrow> string \<Rightarrow> string \<Rightarrow> lira_db \<Rightarrow> (string \<times> lira_db) res" where
  "post_add_mash fb now off mash m1 db = (let mash = c_str mash; m1 = c_str m1 in
     bind_res (fits 100 (q_text (q_mash_name mash))) (\<lambda>_.
     let (err, rows) = sql_query fb (q_mash_name mash) db in
     bind_res (error_if (rows \<noteq> []) ''taka mashynka vzhe isnuje'' ''srv_mash_exists'' [] new_status) (\<lambda>status.
     if err then Ok (''ERROR SELECT * FROM MASHYNES'', db)
     else bind_res (error_if (length mash \<le> 1) (''im'' @ sq @ ''ja verstata maje buty dovshe 1 symvola.'') ''srv_name_min1'' [] status) (\<lambda>status.
     if \<not> status_success status then Ok (answer_status now off (status, db))
     else bind_res (fits 100 (st_text (ins_mash mash m1))) (\<lambda>_.
       let (err, db) = sql_exec fb (ins_mash mash m1) db in
       if err then bind_res (status_error ''M1(M2) maje literu abo NAME maje ne-ASCII symvoly.'' ''srv_m1m2_or_name'' [] status)
           (\<lambda>status. Ok (answer_status now off (status, db)))
       else let rows = snd (sql_query fb (q_mash_name mash) db) in
         (case rows of
            m_id # _ \<Rightarrow> Ok (int_str m_id, db)
          | [] \<Rightarrow> bind_res (status_error ''M1(M2) maje literu.'' ''srv_m1m2'' [] status)
              (\<lambda>status. Ok (answer_status now off (status, db)))))))))"

section \<open>delete.cpp\<close>

definition delete_zm_npp_all :: "firebird \<Rightarrow> int \<Rightarrow> int \<Rightarrow> int \<Rightarrow> lira_db \<Rightarrow> (string \<times> lira_db) res" where
  "delete_zm_npp_all fb now off z_id db =
     bind_res (exec_msg fb (del_npp_of z_id) ''ERROR 16 npp deleted'' (new_status, db)) (\<lambda>e.
     bind_res (exec_msg fb (clear_zm_npp z_id) ''ERROR 25 npp all deleted'' e) (\<lambda>e.
     finish now off ''npp all deleted.'' ''srv_npp_all_deleted'' e))"

definition delete_zm_npp :: "firebird \<Rightarrow> int \<Rightarrow> int \<Rightarrow> int \<Rightarrow> lira_db \<Rightarrow> (string \<times> lira_db) res" where
  "delete_zm_npp fb now off n_id db =
     bind_res (exec_msg fb (del_npp n_id) ''ERROR 17 npp deleted'' (new_status, db)) (\<lambda>e.
     finish now off ''npp deleted.'' ''srv_npp_deleted'' e)"

text \<open>The part of \<open>delete_zm\<close> for a variable with one row in \<open>ZMINNY_LIRA\<close>.\<close>

definition delete_last_zm :: "firebird \<Rightarrow> int \<Rightarrow> edit \<Rightarrow> edit res" where
  "delete_last_zm fb z_id e =
     (let (err, rows) = sql_query fb (q_zm_npp_s z_id) (snd e); npp_s = first_or_zero rows in
      bind_res (error_if err ''ERROR SELECT * 76'' [] [] (fst e)) (\<lambda>status.
      bind_res (exec_msg fb (del_zm z_id) ''ERROR DELETE FROM ZMINNY'' (status, snd e)) (\<lambda>e.
      if npp_s \<noteq> 0 then exec_msg fb (del_npp_of z_id) ''ERROR ZMINNY_NPP 102 umova deleted'' e else Ok e)))"

definition delete_zm :: "firebird \<Rightarrow> int \<Rightarrow> int \<Rightarrow> int \<Rightarrow> int \<Rightarrow> lira_db \<Rightarrow> (string \<times> lira_db) res" where
  "delete_zm fb now off l_id z_id db =
     (let (err1, ms) = sql_query fb (q_lira_m_quoted l_id) db;
          (err2, zs) = sql_query fb (q_links_of_zm z_id) db in
      bind_res (error_if err1 ''ERROR SELECT * FROM LIRY 43'' [] [] new_status) (\<lambda>status.
      bind_res (error_if err2 ''ERROR SELECT * 76'' [] [] status) (\<lambda>status.
      bind_res (if length zs = 1 then delete_last_zm fb z_id (status, db) else Ok (status, db)) (\<lambda>e.
      bind_res (exec_msg fb (del_link l_id z_id) ''ERROR DELETE FROM ZMINNY_LIRA'' e) (\<lambda>e.
      finish now off ''zminna deleted.'' ''srv_zm_deleted'' e)))))"

definition delete_um :: "firebird \<Rightarrow> int \<Rightarrow> int \<Rightarrow> int \<Rightarrow> lira_db \<Rightarrow> (string \<times> lira_db) res" where
  "delete_um fb now off u_id db =
     bind_res (exec_msg fb (del_umova u_id) ''ERROR 17 umova deleted'' (new_status, db)) (\<lambda>e.
     finish now off ''umova deleted.'' ''srv_umova_deleted'' e)"

text \<open>
  An array of \<open>n\<close> numbers filled with the first rows of a query, and the loop over it that ends at
  the first zero. With all places taken the loop condition reads one place beyond the array before
  it compares the index; that value is not used.
\<close>

definition id_array :: "nat \<Rightarrow> int list \<Rightarrow> int list" where
  "id_array n rows = takeWhile (\<lambda>i. i \<noteq> 0) (take n rows)"

definition delete_mash :: "firebird \<Rightarrow> int \<Rightarrow> int \<Rightarrow> int \<Rightarrow> lira_db \<Rightarrow> (string \<times> lira_db) res" where
  "delete_mash fb now off m_id db =
     (let (err, ls) = sql_query fb (q_liry_of m_id) db in
      if err then Ok ([], db)
      else bind_res (exec_all fb del_umovy_of ''ERROR 58'' (id_array 3 ls) (new_status, db)) (\<lambda>e.
        let (err, zs) = sql_query fb (q_switches_of m_id) (snd e) in
        if err then Ok ([], snd e)
        else bind_res (exec_all fb del_npp_of ''ERROR 109'' (id_array 10 zs) e) (\<lambda>e.
          bind_res (exec_msg fb (del_links_of_mash m_id) ''ERROR 109'' e) (\<lambda>e.
          bind_res (exec_msg fb (del_zm_of_mash m_id) ''ERROR 109'' e) (\<lambda>e.
          bind_res (exec_msg fb (del_liry_of_mash m_id) ''ERROR 109'' e) (\<lambda>e.
          bind_res (exec_msg fb (del_mash m_id) ''ERROR 109'' e) (\<lambda>e.
          finish now off ''OK'' [] e)))))))"

definition refresh_page :: "int \<Rightarrow> string" where
  "refresh_page m_id = ''<meta http-equiv='' @ dq @ ''refresh'' @ dq @ '' content='' @ dq @ ''0;url=./?m_id='' @
     int_str m_id @ dq @ ''>''"

text \<open>The statements of \<open>delete_lira\<close> after its three queries.\<close>

definition delete_lira_rows :: "firebird \<Rightarrow> int \<Rightarrow> int list \<Rightarrow> int list \<Rightarrow> edit \<Rightarrow> edit res" where
  "delete_lira_rows fb l_id zs switches e =
     bind_res (exec_msg fb (del_umovy_of_lira l_id) ''ERROR INSERT INTO ZMINNY NPP_S'' e) (\<lambda>e.
     bind_res (exec_msg fb (del_links_of_lira l_id) ''ERROR 142'' e) (\<lambda>e.
     bind_res (exec_all fb del_npp_plain ''ERROR 154'' (id_array 10 switches) e) (\<lambda>e.
     bind_res (exec_all fb del_zm_plain ''ERROR 167'' (id_array 10 zs) e) (\<lambda>e.
     exec_msg fb (del_lira_row l_id) ''ERROR 179'' e))))"

definition delete_lira :: "firebird \<Rightarrow> int \<Rightarrow> int \<Rightarrow> int \<Rightarrow> lira_db \<Rightarrow> (string \<times> lira_db) res" where
  "delete_lira fb now off l_id db =
     (let (err, ms) = sql_query fb (q_lira_m_quoted l_id) db; m_id = first_or_zero ms in
      if err then Ok ([], db)
      else let (err, zs) = sql_query fb (q_only_here m_id l_id) db in
      if err then Ok ([], db)
      else let (err, sws) = sql_query fb (q_switches_only_here m_id l_id) db in
      if err then Ok ([], db)
      else bind_res (delete_lira_rows fb l_id zs sws (new_status, db)) (\<lambda>e.
        Ok (if status_success (fst e) then (refresh_page m_id, snd e) else answer_status now off e)))"

end
