(* ===== verification/LiraRequest.thy ===== *)
theory LiraRequest
  imports HttpText LiraEdit
begin

text \<open>
  Requests of the LiraCalc server: the class \<open>Request\<close> and \<open>decod_request\<close> of
  \<open>servak_na_linux/server/KM_server.cpp\<close>. The buffer is memory: a list of bytes that the parser
  changes in place, cutting the text into C strings by writing NUL over spaces, colons and line ends.
  Reading at or beyond the end of the block is the fault \<open>OutOfRange\<close>; so is reading what
  \<open>realloc\<close> added and nothing was written to.
\<close>

section \<open>The class Request\<close>

record lira_rq =
  rq_method :: int
  rq_path :: string
  rq_lang :: string
  rq_host :: string
  rq_agent :: string
  rq_prot :: string
  rq_header :: string
  rq_query :: "(string \<times> string) list"
  rq_f_path :: bool
  rq_f_lang :: bool
  rq_f_host :: bool
  rq_f_agent :: bool
  rq_f_prot :: bool

definition new_rq :: lira_rq where
  "new_rq = \<lparr>rq_method = -1, rq_path = [], rq_lang = [], rq_host = [], rq_agent = [], rq_prot = [], rq_header = [],
     rq_query = [], rq_f_path = False, rq_f_lang = False, rq_f_host = False, rq_f_agent = False, rq_f_prot = False\<rparr>"

definition GET :: int where "GET = 1001"
definition OPTIONS :: int where "OPTIONS = 1002"
definition HEAD :: int where "HEAD = 1003"
definition POST :: int where "POST = 1004"
definition PUT :: int where "PUT = 1005"
definition PATCH :: int where "PATCH = 1006"
definition DELETE :: int where "DELETE = 1007"
definition TRACE :: int where "TRACE = 1008"
definition CONNECT :: int where "CONNECT = 1009"

lemmas method_defs = GET_def OPTIONS_def HEAD_def POST_def PUT_def PATCH_def DELETE_def TRACE_def CONNECT_def

definition query_len :: "lira_rq \<Rightarrow> nat" where
  "query_len rq = length (rq_query rq)"

definition rq_param :: "lira_rq \<Rightarrow> string \<Rightarrow> bool" where
  "rq_param rq pr = list_ex (\<lambda>(p, z). c_str p = pr) (rq_query rq)"

definition lira_check_param :: "lira_rq \<Rightarrow> string \<Rightarrow> string \<Rightarrow> bool" where
  "lira_check_param rq pr zn = list_ex (\<lambda>(p, z). c_str p = pr \<and> c_str z = zn) (rq_query rq)"

text \<open>The C string of the first parameter with the name, or \<open>NULL\<close>.\<close>

definition lira_znach :: "lira_rq \<Rightarrow> string \<Rightarrow> string option" where
  "lira_znach rq pr = map_option (\<lambda>(p, z). c_str z) (find (\<lambda>(p, z). c_str p = pr) (rq_query rq))"

section \<open>Memory\<close>

definition CR :: char where
  "CR = CHR 0x0D"

definition peek :: "string \<Rightarrow> nat \<Rightarrow> char res" where
  "peek mem k = (if k < length mem then Ok (mem ! k) else Inl OutOfRange)"

definition cstr_at :: "string \<Rightarrow> nat \<Rightarrow> string res" where
  "cstr_at mem k = (if NUL \<in> set (drop k mem) then Ok (c_str (drop k mem)) else Inl OutOfRange)"

text \<open>\<open>for(; buff[j] != c && j < len; j++);\<close>\<close>

definition scan_to :: "char \<Rightarrow> string \<Rightarrow> nat \<Rightarrow> nat \<Rightarrow> nat res" where
  "scan_to c mem len j = bind_res (peek mem j) (\<lambda>_.
     if j < len then
       let e = j + length (takeWhile (\<lambda>x. x \<noteq> c) (take (len - j) (drop j mem))) in bind_res (peek mem e) (\<lambda>_. Ok e)
     else Ok j)"

section \<open>The request line\<close>

definition method_of :: "string \<Rightarrow> int" where
  "method_of m = (if m = ''GET'' then GET else if m = ''OPTIONS'' then OPTIONS else if m = ''HEAD'' then HEAD
     else if m = ''POST'' then POST else if m = ''PUT'' then PUT else if m = ''PATCH'' then PATCH
     else if m = ''DELETE'' then DELETE else if m = ''TRACE'' then TRACE else if m = ''CONNECT'' then CONNECT else -1)"

text \<open>What the scan of the lines keeps: the buffer, \<open>i\<close>, \<open>fl\<close>, \<open>bbb\<close>, the body length and the request.\<close>

record rq_scan =
  sc_mem :: string
  sc_i :: nat
  sc_fl :: nat
  sc_bbb :: nat
  sc_len :: int
  sc_rq :: lira_rq

text \<open>The second space: the path ends at a question mark or at the NUL just written.\<close>

definition take_path :: "nat \<Rightarrow> rq_scan \<Rightarrow> rq_scan res" where
  "take_path ii sc =
     (let seg = takeWhile (\<lambda>c. c \<noteq> NUL \<and> c \<noteq> CHR ''?'') (drop (sc_i sc) (sc_mem sc));
          jj = sc_i sc + length seg;
          mark = sc_mem sc ! jj = CHR ''?'';
          mem = (if mark then (sc_mem sc)[jj := NUL] else sc_mem sc)
      in bind_res (convert_string_mem (drop (sc_i sc) mem) (jj - sc_i sc + 1)) (\<lambda>path.
         bind_res (cstr_at mem (ii + 1)) (\<lambda>prot.
         Ok (sc\<lparr>sc_mem := mem, sc_bbb := (if mark then jj + 1 else sc_bbb sc), sc_fl := 0,
                sc_rq := (sc_rq sc)\<lparr>rq_path := path, rq_f_path := True, rq_prot := prot, rq_f_prot := True\<rparr>\<rparr>))))"

definition line_char :: "nat \<Rightarrow> rq_scan \<Rightarrow> rq_scan res" where
  "line_char ii sc =
     (if sc_mem sc ! ii \<noteq> CHR '' '' then Ok sc
      else let mem = (sc_mem sc)[ii := NUL]; sc = sc\<lparr>sc_mem := mem\<rparr> in
        if sc_i sc = 0 then
          (let m = method_of (c_str mem); rq = sc_rq sc in
           Ok (sc\<lparr>sc_rq := (if m = -1 then rq else rq\<lparr>rq_method := m\<rparr>), sc_fl := 1, sc_i := ii + 1\<rparr>))
        else if sc_fl sc = 1 then take_path ii sc
        else Ok sc)"

fun line_chars :: "nat list \<Rightarrow> rq_scan \<Rightarrow> rq_scan res" where
  "line_chars [] sc = Ok sc"
| "line_chars (ii # iis) sc = bind_res (line_char ii sc) (line_chars iis)"

section \<open>Header lines\<close>

definition header_field :: "string \<Rightarrow> (string \<Rightarrow> lira_rq \<Rightarrow> lira_rq) \<Rightarrow> nat \<Rightarrow> rq_scan \<Rightarrow> rq_scan res" where
  "header_field name put_v ii sc = bind_res (cstr_at (sc_mem sc) (sc_i sc)) (\<lambda>key.
     if key = name then bind_res (cstr_at (sc_mem sc) ii) (\<lambda>v. Ok (sc\<lparr>sc_rq := put_v v (sc_rq sc)\<rparr>)) else Ok sc)"

definition header_length :: "nat \<Rightarrow> rq_scan \<Rightarrow> rq_scan res" where
  "header_length ii sc = bind_res (cstr_at (sc_mem sc) (sc_i sc)) (\<lambda>key.
     if key = ''content-length'' then bind_res (cstr_at (sc_mem sc) ii) (\<lambda>v. Ok (sc\<lparr>sc_len := atoi v\<rparr>)) else Ok sc)"

definition header_line :: "nat \<Rightarrow> rq_scan \<Rightarrow> rq_scan res" where
  "header_line j sc =
     (let ii = sc_i sc + length (takeWhile (\<lambda>c. c \<noteq> CHR '':'') (take (j - sc_i sc) (drop (sc_i sc) (sc_mem sc))));
          sc = sc\<lparr>sc_mem := (sc_mem sc)[ii := NUL]\<rparr>
      in bind_res (header_field ''accept-language'' (\<lambda>v rq. rq\<lparr>rq_lang := v, rq_f_lang := True\<rparr>) (ii + 2) sc) (\<lambda>sc.
         bind_res (header_field ''host'' (\<lambda>v rq. rq\<lparr>rq_host := v, rq_f_host := True\<rparr>) (ii + 2) sc) (\<lambda>sc.
         bind_res (header_field ''user-agent'' (\<lambda>v rq. rq\<lparr>rq_agent := v, rq_f_agent := True\<rparr>) (ii + 2) sc) (\<lambda>sc.
         header_length (ii + 2) sc))))"

text \<open>
  One line that ends at \<open>j\<close>. A line of at most two characters ends the header lines. Afterwards
  \<open>i\<close> is behind the line feed, where the scan goes on one character later still.
\<close>

definition line_end :: "nat \<Rightarrow> rq_scan \<Rightarrow> (bool \<times> rq_scan) res" where
  "line_end j sc =
     (let sc = sc\<lparr>sc_mem := (sc_mem sc)[j := NUL]\<rparr> in
      bind_res (if sc_i sc = 0 then line_chars [0..<j] sc else header_line j sc) (\<lambda>sc.
      let short = int j - int (sc_i sc) \<le> 2;
          sc = (if short \<and> sc_fl sc \<noteq> 5 then sc\<lparr>sc_fl := 5\<rparr> else sc)
      in Ok (short, sc\<lparr>sc_i := j + 2\<rparr>)))"

function header_loop :: "nat \<Rightarrow> nat \<Rightarrow> rq_scan \<Rightarrow> rq_scan res" where
  "header_loop len j sc =
     (if j < len then
        if sc_mem sc ! j = CR then
          bind_res (line_end j sc) (\<lambda>(stop, sc). if stop then Ok sc else header_loop len (j + 3) sc)
        else header_loop len (j + 1) sc
      else Ok sc)"
  by auto
termination by (relation "measure (\<lambda>(len, j, sc). len - j)") auto

declare header_loop.simps [simp del]

section \<open>Body and parameters\<close>

text \<open>
  The client: what \<open>recv\<close> yields first (\<open>None\<close> for an error, the empty text for an end), what it
  yields later, ending with the connection, and whether \<open>realloc\<close> finds the memory.
\<close>

record lira_client =
  cl_first :: "string option"
  cl_more :: "string option list"
  cl_mem :: bool

definition buff_size :: nat where
  "buff_size = 2999"

definition MAX_BODY_LEN :: int where
  "MAX_BODY_LEN = 64 * 1024 * 1024"

text \<open>The loop that receives the \<open>need\<close> missing bytes.\<close>

fun recv_body :: "string option list \<Rightarrow> nat \<Rightarrow> string" where
  "recv_body ks 0 = []"
| "recv_body [] (Suc n) = []"
| "recv_body (None # ks) (Suc n) = []"
| "recv_body (Some c # ks) (Suc n) = (if c = [] then [] else take (Suc n) c @ recv_body ks (Suc n - length c))"

definition grown_mem :: "string \<Rightarrow> nat \<Rightarrow> nat \<Rightarrow> string \<Rightarrow> string" where
  "grown_mem mem rr n body = take n (take rr mem @ body @ NUL # drop (rr + length body + 1) mem)"

text \<open>The memory the parameters are read from, and where; \<open>None\<close> for \<open>return 1\<close>.\<close>

definition locate_query :: "lira_client \<Rightarrow> nat \<Rightarrow> rq_scan \<Rightarrow> (string \<times> nat \<times> lira_rq) res option" where
  "locate_query cl rr sc = (let i = sc_i sc + 2; rq = sc_rq sc; need = sc_len sc - (int rr - int i) in
     if rq_method rq = GET \<and> sc_bbb sc \<noteq> 0 then Some (Ok (sc_mem sc, sc_bbb sc, rq))
     else if (rq_method rq = POST \<or> rq_method rq = PUT \<or> rq_method rq = DELETE) \<and> need > 0 then
       if sc_len sc > MAX_BODY_LEN \<or> \<not> cl_mem cl then None
       else let mem = grown_mem (sc_mem sc) rr (nat (int rr + need + 1)) (recv_body (cl_more cl) (nat need)) in
         Some (bind_res (cstr_at mem rr) (\<lambda>body. Ok (mem, i, rq\<lparr>rq_header := rq_header rq @ body\<rparr>)))
     else Some (Ok (sc_mem sc, i, rq)))"

text \<open>The loop over the parameters, at most 256.\<close>

definition one_pair :: "string \<Rightarrow> nat \<Rightarrow> nat \<Rightarrow> ((string \<times> string) \<times> nat) res" where
  "one_pair mem len i =
     bind_res (scan_to (CHR ''='') mem len i) (\<lambda>j.
     bind_res (convert_string_mem (drop i mem) (j - i)) (\<lambda>param.
     bind_res (scan_to (CHR ''&'') mem len (j + 1)) (\<lambda>k.
     bind_res (convert_string_mem (drop (j + 1) mem) (k - (j + 1))) (\<lambda>zn.
     bind_res (peek mem k) (\<lambda>c. Ok ((param, zn), if c \<noteq> NUL then k + 1 else k))))))"

fun parse_pairs :: "nat \<Rightarrow> string \<Rightarrow> nat \<Rightarrow> nat \<Rightarrow> (string \<times> string) list res" where
  "parse_pairs 0 mem len j = Ok []"
| "parse_pairs (Suc n) mem len j =
     (if j < len \<and> mem ! j \<noteq> CR then
        bind_res (one_pair mem len j) (\<lambda>(p, j). bind_res (parse_pairs n mem len j) (\<lambda>ps. Ok (p # ps)))
      else Ok [])"

section \<open>decod_request\<close>

definition first_mem :: "string \<Rightarrow> string" where
  "first_mem bytes = bytes @ replicate (buff_size - length bytes) NUL"

definition start_scan :: "string \<Rightarrow> string \<Rightarrow> rq_scan" where
  "start_scan mem header = \<lparr>sc_mem = mem, sc_i = 0, sc_fl = 0, sc_bbb = 0, sc_len = 0, sc_rq = new_rq\<lparr>rq_header := header\<rparr>\<rparr>"

text \<open>\<open>Ok None\<close> is \<open>return 1\<close>: the connection is closed without an answer.\<close>

definition decod_request :: "lira_client \<Rightarrow> lira_rq option res" where
  "decod_request cl =
     (let bytes = (case cl_first cl of None \<Rightarrow> [] | Some b \<Rightarrow> take buff_size b);
          rr = length bytes; mem = first_mem bytes
      in bind_res (cstr_at mem 0) (\<lambda>header.
         if header = [] then Ok None
         else bind_res (header_loop (length header) 0 (start_scan mem header)) (\<lambda>sc.
           case locate_query cl rr sc of
             None \<Rightarrow> Ok None
           | Some m \<Rightarrow> bind_res m (\<lambda>(mem, i, rq).
               bind_res (cstr_at mem i) (\<lambda>q.
               bind_res (parse_pairs 256 mem (i + length q) i) (\<lambda>ps.
               Ok (Some (rq\<lparr>rq_query := ps\<rparr>))))))))"

end
