(* ===== verification/LiraRequestFacts.thy ===== *)
theory LiraRequestFacts
  imports LiraRequest
begin

text \<open>
  How \<open>decod_request\<close> reads what a client renders: lemmas on the scan of the lines (what a stretch
  without line ends, a request line and a header line do to the buffer) and on the parameters.
\<close>

section \<open>Lists as memory\<close>

lemma drop_append_length: "drop (length a) (a @ b) = b"
  by simp

lemma nth_at: "(a @ x # b) ! length a = x"
  by simp

lemma update_at: "(a @ x # b)[length a := y] = a @ y # b"
  by simp

lemma NUL_simps: "NUL \<noteq> CHR ''?''" "NUL \<noteq> CHR ''%''" "NUL \<noteq> CHR ''+''" "NUL \<noteq> CHR '' ''" "NUL \<noteq> CR"
  by (simp_all add: NUL_def CR_def)

lemma c_str_app: "NUL \<notin> set a \<Longrightarrow> c_str (a @ NUL # b) = a"
  by (induction a) (auto simp: c_str_def)

lemma cstr_at_app: "NUL \<notin> set a \<Longrightarrow> cstr_at (p @ a @ NUL # b) (length p) = Ok a"
  by (simp add: cstr_at_def c_str_app)

lemma takeWhile_free: "c \<notin> set a \<Longrightarrow> takeWhile (\<lambda>x. x \<noteq> c) a = a"
  by (induction a) auto

lemma nth_hd: "r \<noteq> [] \<Longrightarrow> (p @ r @ z) ! length p = hd r"
  by (cases r) simp_all

lemma takeWhile_upto: "\<forall>x\<in>set a. P x \<Longrightarrow> \<not> P y \<Longrightarrow> takeWhile P (a @ y # b) = a"
  by (induction a) auto

section \<open>Percent decoding with a margin\<close>

lemma convert_string_mem_append:
  "convert_string_mem (percent_encode s @ rest) (length (percent_encode s) + m) =
     map_sum id ((@) s) (convert_string_mem rest m)"
proof (induction s)
  case Nil
  show ?case by (cases "convert_string_mem rest m") (simp_all add: percent_encode_def)
next
  case (Cons c s)
  then show ?case
    using plain_not_special [of c]
    by (cases "convert_string_mem rest m") (auto simp: percent_encode_def percent_char_def decode_pair_hex)
qed

lemma convert_path:
  "convert_string_mem (percent_encode s @ NUL # rest) (length (percent_encode s) + 1) = Ok (s @ [NUL])"
  unfolding convert_string_mem_append using NUL_simps by simp

section \<open>Parameters\<close>

lemma scan_hit:
  assumes "c \<notin> set a" "length p + length a < len"
  shows "scan_to c (p @ a @ c # b) len (length p) = Ok (length p + length a)"
proof -
  have "take (len - length p) (a @ c # b) = a @ c # take (len - length p - length a - 1) b"
    using assms(2) by (simp add: take_Cons' diff_diff_eq)
  then have "takeWhile (\<lambda>x. x \<noteq> c) (take (len - length p) (a @ c # b)) = a"
    using assms(1) by (simp add: takeWhile_upto [where y = c] split: if_splits) (metis (mono_tags, lifting) takeWhile_upto)
  then show ?thesis using assms(2) by (simp add: scan_to_def peek_def)
qed

lemma scan_miss:
  assumes "c \<notin> set a"
  shows "scan_to c (p @ a @ z # b) (length p + length a) (length p) = Ok (length p + length a)"
proof -
  show ?thesis by (simp add: scan_to_def peek_def takeWhile_free [OF assms])
qed

lemma one_pair_last:
  "one_pair (p @ (percent_encode k @ ''='' @ percent_encode v) @ NUL # b)
     (length p + length (percent_encode k @ ''='' @ percent_encode v)) (length p) =
   Ok ((k, v), length p + length (percent_encode k @ ''='' @ percent_encode v))"
proof -
  let ?k = "percent_encode k" and ?v = "percent_encode v"
  let ?mem = "p @ ?k @ CHR ''='' # ?v @ NUL # b" and ?len = "length p + (length ?k + Suc (length ?v))"
  have s1: "scan_to (CHR ''='') ?mem ?len (length p) = Ok (length p + length ?k)"
    by (rule scan_hit) (simp_all add: encode_separators)
  have s2: "scan_to (CHR ''&'') ?mem ?len (Suc (length p + length ?k)) = Ok ?len"
    using scan_miss [of "CHR ''&''" ?v "p @ ?k @ [CHR ''='']" NUL b] by (simp add: encode_separators ac_simps)
  have c: "convert_string_mem (percent_encode s @ x) (length (percent_encode s)) = Ok s" for s x
    by (rule convert_string_mem_encode)
  have d: "drop (Suc (length p + length ?k)) ?mem = ?v @ NUL # b"
    using drop_append_length [of "p @ ?k @ [CHR ''='']" "?v @ NUL # b"] by simp
  have e: "?mem ! ?len = NUL" "?len < length ?mem"
    using nth_at [of "p @ ?k @ CHR ''='' # ?v" NUL b] by simp_all
  show ?thesis
    using s1 s2 c d e by (simp add: one_pair_def peek_def)
qed

lemma one_pair_more:
  assumes "length p + length (percent_encode k @ ''='' @ percent_encode v) < len"
  shows "one_pair (p @ (percent_encode k @ ''='' @ percent_encode v @ ''&'') @ b) len (length p) =
   Ok ((k, v), length p + length (percent_encode k @ ''='' @ percent_encode v @ ''&''))"
proof -
  let ?k = "percent_encode k" and ?v = "percent_encode v"
  let ?mem = "p @ ?k @ CHR ''='' # ?v @ CHR ''&'' # b" and ?e = "length p + (length ?k + Suc (length ?v))"
  have s1: "scan_to (CHR ''='') ?mem len (length p) = Ok (length p + length ?k)"
    using assms by (intro scan_hit) (simp_all add: encode_separators)
  have s2: "scan_to (CHR ''&'') ?mem len (Suc (length p + length ?k)) = Ok ?e"
    using scan_hit [of "CHR ''&''" ?v "p @ ?k @ [CHR ''='']" len b] assms by (simp add: encode_separators)
  have c: "convert_string_mem (percent_encode s @ x) (length (percent_encode s)) = Ok s" for s x
    by (rule convert_string_mem_encode)
  have d: "drop (Suc (length p + length ?k)) ?mem = ?v @ CHR ''&'' # b"
    using drop_append_length [of "p @ ?k @ [CHR ''='']" "?v @ CHR ''&'' # b"] by simp
  have e: "?mem ! ?e = CHR ''&''" "?e < length ?mem"
    using nth_at [of "p @ ?k @ CHR ''='' # ?v" "CHR ''&''" b] by simp_all
  show ?thesis
    using s1 s2 c d e by (simp add: one_pair_def peek_def NUL_def)
qed

lemma query_start:
  "kvs \<noteq> [] \<Longrightarrow> render_query kvs \<noteq> [] \<and> hd (render_query kvs) \<noteq> CR"
proof -
  assume "kvs \<noteq> []"
  then have "render_query kvs \<noteq> []" by (cases kvs rule: render_query.cases) auto
  moreover from this have "hd (render_query kvs) \<in> set (render_query kvs)" by simp
  ultimately show ?thesis
    using render_query_chars [of "hd (render_query kvs)" kvs] special_not_plain(6) by (auto simp: CR_def)
qed

lemma parse_rendered:
  "length kvs \<le> n \<Longrightarrow> parse_pairs n (p @ render_query kvs @ NUL # b) (length p + length (render_query kvs)) (length p) = Ok kvs"
proof (induction kvs arbitrary: n p rule: render_query.induct)
  case 1
  then show ?case by (cases n) simp_all
next
  case (2 k v)
  then obtain m where n: "n = Suc m" by (cases n) auto
  have s: "(p @ render_query [(k, v)] @ NUL # b) ! length p \<noteq> CR" "length p < length p + length (render_query [(k, v)])"
    using query_start [of "[(k, v)]"] nth_hd [of "render_query [(k, v)]" p "NUL # b"] by simp_all
  have e: "parse_pairs m mem len len = Ok []" for mem len by (cases m) simp_all
  from s one_pair_last [of p k v b] show ?case by (simp add: n e)
next
  case (3 k v e kvs)
  let ?r = "render_query (e # kvs)"
  let ?h = "percent_encode k @ ''='' @ percent_encode v @ ''&''"
  obtain m where n: "n = Suc m" using 3 by (cases n) auto
  have r: "render_query ((k, v) # e # kvs) = ?h @ ?r" by simp
  have s: "(p @ (?h @ ?r) @ NUL # b) ! length p \<noteq> CR"
    using query_start [of "(k, v) # e # kvs"] nth_hd [of "?h @ ?r" p "NUL # b"] unfolding r by simp
  have q: "?r \<noteq> []" using query_start [of "e # kvs"] by simp
  have one: "one_pair (p @ (?h @ ?r) @ NUL # b) (length p + length (?h @ ?r)) (length p) = Ok ((k, v), length p + length ?h)"
    using one_pair_more [of p k v "length p + length (?h @ ?r)" "?r @ NUL # b"] q by simp
  have ih: "parse_pairs m (p @ (?h @ ?r) @ NUL # b) (length p + length (?h @ ?r)) (length p + length ?h) = Ok (e # kvs)"
    using "3.IH" [of m "p @ ?h"] "3.prems" n by (simp add: add.assoc)
  show ?case
    unfolding r n using s one ih q by (simp del: append_assoc)
qed

section \<open>The request line\<close>

lemma nth_mid: "length p \<le> k \<Longrightarrow> k < length p + length r \<Longrightarrow> (p @ r @ z) ! k \<in> set r"
  by (subst nth_append, subst nth_append) auto

lemma line_chars_append: "line_chars (xs @ ys) sc = bind_res (line_chars xs sc) (line_chars ys)"
proof (induction xs arbitrary: sc)
  case (Cons ii xs)
  then show ?case by (cases "line_char ii sc") simp_all
qed simp

lemma line_chars_skip: "(\<And>ii. ii \<in> set xs \<Longrightarrow> sc_mem sc ! ii \<noteq> CHR '' '') \<Longrightarrow> line_chars xs sc = Ok sc"
  by (induction xs) (simp_all add: line_char_def)

lemma line_chars_mid:
  assumes "sc_mem sc = p @ r @ z" "CHR '' '' \<notin> set r"
  shows "line_chars [length p..<length p + length r] sc = Ok sc"
  using nth_mid [of p _ r z] assms by (intro line_chars_skip) fastforce

lemma upt_split: "a \<le> b \<Longrightarrow> b < (c :: nat) \<Longrightarrow> [a..<c] = [a..<b] @ b # [b + 1..<c]"
proof -
  assume "a \<le> b" "b < c"
  then have "[a..<c] = [a..<b] @ [b..<c]" by (metis le_add_diff_inverse less_imp_le_nat upt_add_eq_append)
  with \<open>b < c\<close> show ?thesis by (simp add: upt_conv_Cons)
qed

lemma take_path_rendered:
  assumes "sc_mem sc = p @ target path kvs @ NUL # q @ NUL # post" "sc_i sc = length p" "NUL \<notin> set q"
    "ii = length p + length (target path kvs)"
  shows "take_path ii sc = Ok (sc\<lparr>
     sc_mem := p @ percent_encode path @ (if kvs = [] then [] else NUL # render_query kvs) @ NUL # q @ NUL # post,
     sc_bbb := (if kvs = [] then sc_bbb sc else length p + length (percent_encode path) + 1), sc_fl := 0,
     sc_rq := (sc_rq sc)\<lparr>rq_path := path @ [NUL], rq_f_path := True, rq_prot := q, rq_f_prot := True\<rparr>\<rparr>)"
proof -
  let ?e = "percent_encode path" and ?P = "\<lambda>c. c \<noteq> NUL \<and> c \<noteq> CHR ''?''"
  have e: "\<forall>c\<in>set ?e. ?P c"
    using encode_no_NUL [of path] encode_separators(4) [of path] by metis
  show ?thesis
  proof (cases "kvs = []")
    case True
    have m: "sc_mem sc = p @ ?e @ NUL # q @ NUL # post" using assms(1) True by (simp add: target_def)
    have tw: "takeWhile ?P (?e @ NUL # x) = ?e" for x by (rule takeWhile_upto [OF e]) simp
    have at: "(p @ ?e @ NUL # q @ NUL # post) ! (length p + length ?e) = NUL"
      using nth_at [of "p @ ?e" NUL] by simp
    have c: "cstr_at (p @ ?e @ NUL # q @ NUL # post) (Suc (length p + length ?e)) = Ok q"
      using cstr_at_app [OF assms(3), of "p @ ?e @ [NUL]" post] by simp
    show ?thesis
      using True assms(4) by (simp add: take_path_def m assms(2) tw at c NUL_simps target_def convert_path [simplified])
  next
    case False
    let ?r = "render_query kvs"
    have m: "sc_mem sc = p @ ?e @ CHR ''?'' # ?r @ NUL # q @ NUL # post" using assms(1) False by (simp add: target_def)
    have tw: "takeWhile ?P (?e @ CHR ''?'' # x) = ?e" for x by (rule takeWhile_upto [OF e]) simp
    have at: "(p @ ?e @ CHR ''?'' # x) ! (length p + length ?e) = CHR ''?''" for x
      using nth_at [of "p @ ?e" "CHR ''?''"] by simp
    have up: "(p @ ?e @ CHR ''?'' # x)[length p + length ?e := NUL] = p @ ?e @ NUL # x" for x
      using update_at [of "p @ ?e" "CHR ''?''" x NUL] by simp
    have c: "cstr_at (p @ ?e @ NUL # ?r @ NUL # q @ NUL # post) (Suc (Suc (length p + (length ?e + length ?r)))) = Ok q"
      using cstr_at_app [OF assms(3), of "p @ ?e @ NUL # ?r @ [NUL]" post] by simp
    show ?thesis
      using False assms(4) by (simp add: take_path_def m assms(2) tw at up c target_def convert_path [simplified] Let_def)
  qed
qed

lemma line_chars_rendered:
  assumes m: "\<forall>c\<in>set meth. plain_char c" "method_of meth \<noteq> -1" "meth \<noteq> []"
    and mem: "sc_mem sc = meth @ CHR '' '' # target path kvs @ CHR '' '' # q @ NUL # post"
    and q: "NUL \<notin> set q" "CHR '' '' \<notin> set q" and i: "sc_i sc = 0"
    and j: "j = length meth + length (target path kvs) + length q + 2"
  shows "line_chars [0..<j] sc = Ok (sc\<lparr>
     sc_mem := meth @ NUL # percent_encode path @ (if kvs = [] then [] else NUL # render_query kvs) @ NUL # q @ NUL # post,
     sc_i := length meth + 1,
     sc_bbb := (if kvs = [] then sc_bbb sc else length meth + length (percent_encode path) + 2), sc_fl := 0,
     sc_rq := (sc_rq sc)\<lparr>rq_method := method_of meth, rq_path := path @ [NUL], rq_f_path := True, rq_prot := q, rq_f_prot := True\<rparr>\<rparr>)"
proof -
  let ?a = "length meth" and ?t = "target path kvs"
  let ?b = "?a + 1 + length ?t"
  let ?mem1 = "meth @ NUL # ?t @ CHR '' '' # q @ NUL # post" and ?mem2 = "meth @ NUL # ?t @ NUL # q @ NUL # post"
  let ?sc1 = "sc\<lparr>sc_mem := ?mem1, sc_rq := (sc_rq sc)\<lparr>rq_method := method_of meth\<rparr>, sc_fl := 1, sc_i := ?a + 1\<rparr>"
  have sm: "CHR '' '' \<notin> set meth" "NUL \<notin> set meth" using m(1) special_not_plain by blast+
  have st: "CHR '' '' \<notin> set ?t" using target_free [OF special_not_plain(3)] by simp
  have split: "[0..<j] = [0..<?a] @ ?a # [?a + 1..<?b] @ ?b # [?b + 1..<j]"
    using upt_split [of 0 ?a j] upt_split [of "?a + 1" ?b j] j by simp
  have s1: "line_chars [0..<?a] sc = Ok sc"
    using line_chars_mid [of sc "[]" meth] mem sm by simp
  have s2: "line_char ?a sc = Ok ?sc1"
    using m(2) by (simp add: line_char_def mem nth_at update_at i c_str_app [OF sm(2)] Let_def)
  have s3: "line_chars [?a + 1..<?b] ?sc1 = Ok ?sc1"
    using line_chars_mid [of ?sc1 "meth @ [NUL]" ?t] st by simp
  have at: "?mem1 ! ?b = CHR '' ''" using nth_at [of "meth @ NUL # ?t" "CHR '' ''"] by simp
  have up: "?mem1[?b := NUL] = ?mem2" using update_at [of "meth @ NUL # ?t" "CHR '' ''"] by simp
  have s4: "line_char ?b ?sc1 = take_path ?b (?sc1\<lparr>sc_mem := ?mem2\<rparr>)"
    using at up m(3) by (simp add: line_char_def Let_def)
  have s5: "take_path ?b (?sc1\<lparr>sc_mem := ?mem2\<rparr>) = Ok (?sc1\<lparr>
     sc_mem := (meth @ [NUL]) @ percent_encode path @ (if kvs = [] then [] else NUL # render_query kvs) @ NUL # q @ NUL # post,
     sc_bbb := (if kvs = [] then sc_bbb sc else length meth + length (percent_encode path) + 2), sc_fl := 0,
     sc_rq := (sc_rq sc)\<lparr>rq_method := method_of meth, rq_path := path @ [NUL], rq_f_path := True, rq_prot := q, rq_f_prot := True\<rparr>\<rparr>)"
    (is "_ = Ok ?sc2")
    using take_path_rendered [of "?sc1\<lparr>sc_mem := ?mem2\<rparr>" "meth @ [NUL]" path kvs q post ?b] q(1)
    by (cases "kvs = []") simp_all
  have s6: "line_chars [?b + 1..<j] ?sc2 = Ok ?sc2"
  proof -
    have len: "?b + 1 = length (meth @ NUL # percent_encode path @ (if kvs = [] then [] else NUL # render_query kvs) @ [NUL])"
      by (simp add: target_def)
    have "j = length (meth @ NUL # percent_encode path @ (if kvs = [] then [] else NUL # render_query kvs) @ [NUL]) + length q"
      using j by (simp add: target_def)
    then show ?thesis
      unfolding len using q(2) by (simp only:) (rule line_chars_mid [where z = "NUL # post"], simp_all)
  qed
  show ?thesis
    unfolding split line_chars_append s1 bind_res.simps line_chars.simps s2 s3 s4 s5 s6 by simp
qed

section \<open>Header lines\<close>

definition key_char :: "char \<Rightarrow> bool" where
  "key_char c \<longleftrightarrow> c \<noteq> NUL \<and> c \<noteq> CR \<and> c \<noteq> CHR '':''"

definition head_ok :: "string \<times> string \<Rightarrow> bool" where
  "head_ok h \<longleftrightarrow> fst h \<noteq> [] \<and> (\<forall>c\<in>set (fst h). key_char c) \<and> (\<forall>c\<in>set (snd h). c \<noteq> NUL \<and> c \<noteq> CR)"

text \<open>What a header line means to the server.\<close>

definition meet_header :: "string \<times> string \<Rightarrow> int \<times> lira_rq \<Rightarrow> int \<times> lira_rq" where
  "meet_header h s = (if fst h = ''accept-language'' then (fst s, (snd s)\<lparr>rq_lang := snd h, rq_f_lang := True\<rparr>)
     else if fst h = ''host'' then (fst s, (snd s)\<lparr>rq_host := snd h, rq_f_host := True\<rparr>)
     else if fst h = ''user-agent'' then (fst s, (snd s)\<lparr>rq_agent := snd h, rq_f_agent := True\<rparr>)
     else if fst h = ''content-length'' then (atoi (snd h), snd s) else s)"

lemma header_field_at:
  "cstr_at (sc_mem sc) (sc_i sc) = Ok k \<Longrightarrow> cstr_at (sc_mem sc) ii = Ok v \<Longrightarrow>
     header_field name f ii sc = Ok (if k = name then sc\<lparr>sc_rq := f v (sc_rq sc)\<rparr> else sc)"
  by (simp add: header_field_def)

lemma header_length_at:
  "cstr_at (sc_mem sc) (sc_i sc) = Ok k \<Longrightarrow> cstr_at (sc_mem sc) ii = Ok v \<Longrightarrow>
     header_length ii sc = Ok (if k = ''content-length'' then sc\<lparr>sc_len := atoi v\<rparr> else sc)"
  by (simp add: header_length_def)

lemma header_line_rendered:
  assumes h: "head_ok (k, v)" and mem: "sc_mem sc = p @ k @ CHR '':'' # CHR '' '' # v @ NUL # post"
    and i: "sc_i sc = length p" and j: "j = length p + length k + 2 + length v"
  shows "header_line j sc = Ok (sc\<lparr>sc_mem := p @ k @ NUL # CHR '' '' # v @ NUL # post,
     sc_len := fst (meet_header (k, v) (sc_len sc, sc_rq sc)), sc_rq := snd (meet_header (k, v) (sc_len sc, sc_rq sc))\<rparr>)"
proof -
  have k: "NUL \<notin> set k" "\<forall>c\<in>set k. c \<noteq> CHR '':''" and v: "NUL \<notin> set v"
    using h by (auto simp: head_ok_def key_char_def)
  have "take (j - length p) (k @ CHR '':'' # CHR '' '' # v @ NUL # post) = k @ CHR '':'' # CHR '' '' # v"
    by (simp add: j)
  then have tw: "takeWhile (\<lambda>c. c \<noteq> CHR '':'') (take (j - length p) (k @ CHR '':'' # CHR '' '' # v @ NUL # post)) = k"
    using takeWhile_upto [OF k(2), of "CHR '':''"] by simp
  have up: "(p @ k @ CHR '':'' # CHR '' '' # v @ NUL # post)[length p + length k := NUL] = p @ k @ NUL # CHR '' '' # v @ NUL # post"
    using update_at [of "p @ k" "CHR '':''"] by simp
  have ck: "cstr_at (p @ k @ NUL # x) (length p) = Ok k" for x using cstr_at_app [OF k(1)] by simp
  have cv: "cstr_at (p @ k @ NUL # CHR '' '' # v @ NUL # post) (Suc (Suc (length p + length k))) = Ok v"
    using cstr_at_app [OF v, of "p @ k @ NUL # CHR '' '' # []" post] by simp
  let ?M = "p @ k @ NUL # CHR '' '' # v @ NUL # post" and ?ii = "length p + length k + 2"
  have at: "cstr_at (sc_mem s) (sc_i s) = Ok k \<and> cstr_at (sc_mem s) ?ii = Ok v"
    if "sc_mem s = ?M" "sc_i s = length p" for s :: rq_scan
    using that ck cv by simp
  have fld: "sc_mem s = ?M \<Longrightarrow> sc_i s = length p \<Longrightarrow> header_field name f ?ii s =
      Ok (if k = name then s\<lparr>sc_rq := f v (sc_rq s)\<rparr> else s)" for s :: rq_scan and name f
    using at [of s] by (intro header_field_at) simp_all
  have len: "sc_mem s = ?M \<Longrightarrow> sc_i s = length p \<Longrightarrow> header_length ?ii s =
      Ok (if k = ''content-length'' then s\<lparr>sc_len := atoi v\<rparr> else s)" for s :: rq_scan
    using at [of s] by (intro header_length_at) simp_all
  show ?thesis
    unfolding header_line_def Let_def mem i drop_append_length tw up
    using i by (simp add: fld len meet_header_def del: add_2_eq_Suc')
qed

lemma loop_skip:
  assumes "\<And>k. j \<le> k \<Longrightarrow> k < j' \<Longrightarrow> sc_mem sc ! k \<noteq> CR" "j \<le> j'" "j' \<le> len"
  shows "header_loop len j sc = header_loop len j' sc"
  using assms
proof (induction "j' - j" arbitrary: j)
  case (Suc n)
  then have "header_loop len (j + 1) sc = header_loop len j' sc" by (intro Suc.hyps(1)) auto
  moreover have "j < len" "sc_mem sc ! j \<noteq> CR" using Suc by auto
  ultimately show ?case by (subst header_loop.simps) simp
qed simp

lemma loop_line:
  assumes "sc_mem sc = p @ x # r @ CR # post" "CR \<notin> set r" "j = length p + 1 + length r" "j < len"
  shows "header_loop len (length p + 1) sc =
    bind_res (line_end j sc) (\<lambda>(stop, sc). if stop then Ok sc else header_loop len (j + 3) sc)"
proof -
  have "header_loop len (length p + 1) sc = header_loop len j sc"
  proof (rule loop_skip)
    fix k assume k: "length p + 1 \<le> k" "k < j"
    have "sc_mem sc = (p @ [x]) @ r @ CR # post" using assms by simp
    then have "sc_mem sc ! k \<in> set r"
      using nth_mid [of "p @ [x]" k r "CR # post"] k assms(3) by simp
    then show "sc_mem sc ! k \<noteq> CR" using assms(2) by metis
  qed (use assms in auto)
  moreover have "sc_mem sc ! j = CR"
    using assms nth_at [of "p @ x # r" CR post] by simp
  ultimately show ?thesis using assms(4) by (subst (asm) (2) header_loop.simps) simp
qed

lemma line_end_header:
  assumes h: "head_ok (k, v)" and mem: "sc_mem sc = p @ k @ CHR '':'' # CHR '' '' # v @ CR # post"
    and i: "sc_i sc = length p" "p \<noteq> []" and j: "j = length p + length k + 2 + length v"
  shows "line_end j sc = Ok (False, sc\<lparr>sc_mem := p @ k @ NUL # CHR '' '' # v @ NUL # post,
     sc_len := fst (meet_header (k, v) (sc_len sc, sc_rq sc)), sc_rq := snd (meet_header (k, v) (sc_len sc, sc_rq sc)),
     sc_i := j + 2\<rparr>)"
proof -
  have up: "(sc_mem sc)[j := NUL] = p @ k @ CHR '':'' # CHR '' '' # v @ NUL # post"
    using update_at [of "p @ k @ CHR '':'' # CHR '' '' # v" CR post NUL] by (simp add: mem j add.assoc)
  have "k \<noteq> []" using h by (simp add: head_ok_def)
  then have long: "\<not> int j - int (length p) \<le> 2" using j by (cases k) auto
  have "header_line j (sc\<lparr>sc_mem := (sc_mem sc)[j := NUL]\<rparr>) = Ok (sc\<lparr>sc_mem := p @ k @ NUL # CHR '' '' # v @ NUL # post,
     sc_len := fst (meet_header (k, v) (sc_len sc, sc_rq sc)), sc_rq := snd (meet_header (k, v) (sc_len sc, sc_rq sc))\<rparr>)"
    using header_line_rendered [OF h, of "sc\<lparr>sc_mem := (sc_mem sc)[j := NUL]\<rparr>" p post j] up i j by simp
  with i long show ?thesis by (simp add: line_end_def Let_def)
qed

lemma crlf_CR: "crlf = [CR, CHR 0x0A]"
  by (simp add: crlf_def CR_def)

lemma render_pair: "render_header (k, v) = k @ CHR '':'' # CHR '' '' # v @ crlf"
  by (simp add: render_header_def)

lemma loop_headers:
  assumes "list_all head_ok hs" "sc_mem sc = p @ concat (map render_header hs) @ crlf @ body @ post" "CR \<notin> set body"
    "len = length p + length (concat (map render_header hs)) + 2 + length body" "sc_i sc = length p" "p \<noteq> []"
  shows "\<exists>mid. length mid = length (concat (map render_header hs)) \<and>
    header_loop len (length p + 1) sc = Ok (sc\<lparr>sc_mem := p @ mid @ crlf @ body @ post, sc_i := length p + length mid,
      sc_len := fst (fold meet_header hs (sc_len sc, sc_rq sc)), sc_rq := snd (fold meet_header hs (sc_len sc, sc_rq sc))\<rparr>)"
  using assms
proof (induction hs arbitrary: p sc)
  case Nil
  have "header_loop len (length p + 1) sc = header_loop len len sc"
  proof (rule loop_skip)
    fix k assume k: "length p + 1 \<le> k" "k < len"
    have m: "sc_mem sc = (p @ [CR]) @ (CHR 0x0A # body) @ post" using Nil by (simp add: crlf_CR)
    have "sc_mem sc ! k \<in> set (CHR 0x0A # body)"
      unfolding m by (rule nth_mid) (use k Nil in simp_all)
    then show "sc_mem sc ! k \<noteq> CR" using Nil by (auto simp: CR_def)
  qed (use Nil in simp_all)
  then show ?case
    using Nil by (intro exI [of _ "[]"]) (simp add: header_loop.simps)
next
  case (Cons h hs)
  obtain k v where h: "h = (k, v)" by force
  let ?rest = "concat (map render_header hs)"
  let ?j = "length p + length k + 2 + length v" and ?post = "CHR 0x0A # ?rest @ crlf @ body @ post"
  have ok: "head_ok (k, v)" "list_all head_ok hs" using Cons.prems h by simp_all
  then have key: "k \<noteq> []" "CR \<notin> set k" "CR \<notin> set v" by (auto simp: head_ok_def key_char_def)
  have mem: "sc_mem sc = p @ k @ CHR '':'' # CHR '' '' # v @ CR # ?post"
    using Cons.prems h by (simp add: render_pair crlf_CR)
  let ?p = "p @ k @ NUL # CHR '' '' # v @ NUL # [CHR 0x0A]"
  let ?sc = "sc\<lparr>sc_mem := p @ k @ NUL # CHR '' '' # v @ NUL # ?post,
     sc_len := fst (meet_header (k, v) (sc_len sc, sc_rq sc)), sc_rq := snd (meet_header (k, v) (sc_len sc, sc_rq sc)),
     sc_i := ?j + 2\<rparr>"
  have e: "line_end ?j sc = Ok (False, ?sc)"
    using line_end_header [OF ok(1) mem] Cons.prems by simp
  have "header_loop len (length p + 1) sc =
      bind_res (line_end ?j sc) (\<lambda>(stop, sc). if stop then Ok sc else header_loop len (?j + 3) sc)"
  proof (rule loop_line [where r = "tl k @ CHR '':'' # CHR '' '' # v" and x = "hd k"])
    show "sc_mem sc = p @ hd k # (tl k @ CHR '':'' # CHR '' '' # v) @ CR # ?post"
      using mem key by (metis append_Cons append_assoc list.collapse)
    show "CR \<notin> set (tl k @ CHR '':'' # CHR '' '' # v)"
      using key list.set_sel(2) [of k CR] by (auto simp: CR_def)
    show "?j = length p + 1 + length (tl k @ CHR '':'' # CHR '' '' # v)" using key by (cases k) simp_all
    show "?j < len" using Cons.prems h by (simp add: render_pair)
  qed
  then have step: "header_loop len (length p + 1) sc = header_loop len (length ?p + 1) ?sc"
    unfolding e by (simp add: eval_nat_numeral add.assoc)
  have "\<exists>mid. length mid = length ?rest \<and>
    header_loop len (length ?p + 1) ?sc = Ok (?sc\<lparr>sc_mem := ?p @ mid @ crlf @ body @ post, sc_i := length ?p + length mid,
      sc_len := fst (fold meet_header hs (sc_len ?sc, sc_rq ?sc)), sc_rq := snd (fold meet_header hs (sc_len ?sc, sc_rq ?sc))\<rparr>)"
    using Cons.prems h by (intro Cons.IH ok(2)) (simp_all add: render_pair crlf_CR)
  then obtain mid where mid: "length mid = length ?rest"
    "header_loop len (length ?p + 1) ?sc = Ok (?sc\<lparr>sc_mem := ?p @ mid @ crlf @ body @ post, sc_i := length ?p + length mid,
      sc_len := fst (fold meet_header hs (sc_len ?sc, sc_rq ?sc)), sc_rq := snd (fold meet_header hs (sc_len ?sc, sc_rq ?sc))\<rparr>)"
    by blast
  show ?case
    unfolding step mid(2)
    by (intro exI [of _ "k @ NUL # CHR '' '' # v @ NUL # CHR 0x0A # mid"]) (simp add: mid(1) h render_pair crlf_CR)
qed

section \<open>All lines of a request\<close>

text \<open>The request line after the scan.\<close>

definition cut_line :: "string \<Rightarrow> string \<Rightarrow> (string \<times> string) list \<Rightarrow> string" where
  "cut_line meth path kvs = meth @ NUL # percent_encode path @ (if kvs = [] then [] else NUL # render_query kvs) @
     NUL # ''HTTP/1.1'' @ [NUL, CHR 0x0A]"

definition line_rq :: "string \<Rightarrow> string \<Rightarrow> string \<Rightarrow> lira_rq" where
  "line_rq header meth path = new_rq\<lparr>rq_header := header, rq_method := method_of meth, rq_path := path @ [NUL],
     rq_f_path := True, rq_prot := ''HTTP/1.1'', rq_f_prot := True\<rparr>"

lemma length_cut_line: "length (cut_line meth path kvs) = length (render_line meth path kvs)"
  by (simp add: cut_line_def render_line_def crlf_def)

lemma method_plain:
  "method_of meth \<noteq> -1 \<Longrightarrow> (\<forall>c\<in>set meth. plain_char c) \<and> meth \<noteq> []"
  by (auto simp: method_of_def plain_char_def split: if_splits)

lemma scan_rendered:
  assumes m: "method_of meth \<noteq> -1" and hs: "list_all head_ok hs"
    and mem: "mem = render_line meth path kvs @ concat (map render_header hs) @ crlf @ body @ post" and b: "CR \<notin> set body"
    and len: "len = length (render_line meth path kvs) + length (concat (map render_header hs)) + 2 + length body"
  shows "\<exists>mid. length mid = length (concat (map render_header hs)) \<and>
    header_loop len 0 (start_scan mem header) = Ok \<lparr>sc_mem = cut_line meth path kvs @ mid @ crlf @ body @ post,
      sc_i = length (cut_line meth path kvs) + length mid, sc_fl = 0,
      sc_bbb = (if kvs = [] then 0 else length meth + length (percent_encode path) + 2),
      sc_len = fst (fold meet_header hs (0, line_rq header meth path)),
      sc_rq = snd (fold meet_header hs (0, line_rq header meth path))\<rparr>"
proof -
  let ?t = "target path kvs" and ?h = "concat (map render_header hs)"
  let ?j = "length meth + length ?t + 10" and ?post = "CHR 0x0A # ?h @ crlf @ body @ post"
  let ?r = "meth @ CHR '' '' # ?t @ CHR '' '' # ''HTTP/1.1''"
  let ?sc = "start_scan mem header"
  have mp: "\<forall>c\<in>set meth. plain_char c" "meth \<noteq> []" using method_plain [OF m] by simp_all
  have memr: "mem = ?r @ CR # ?post"
    by (simp add: mem render_line_target crlf_CR)
  have free: "CR \<notin> set ?r"
    using mp(1) special_not_plain(6) target_free [OF special_not_plain(6)] by (auto simp: CR_def)
  have skip: "header_loop len 0 ?sc = header_loop len ?j ?sc"
  proof (rule loop_skip)
    fix k assume "k < ?j"
    then have "sc_mem ?sc ! k \<in> set ?r"
      using nth_mid [of "[]" k ?r "CR # ?post"] memr by (simp add: start_scan_def)
    with free show "sc_mem ?sc ! k \<noteq> CR" by metis
  qed (simp_all add: len render_line_target crlf_def)
  have lr: "?j = length ?r" by simp
  have at: "mem ! ?j = CR" unfolding lr memr by (rule nth_at)
  have up: "mem[?j := NUL] = meth @ CHR '' '' # ?t @ CHR '' '' # ''HTTP/1.1'' @ NUL # ?post"
    unfolding lr memr update_at by simp
  let ?sc1 = "\<lparr>sc_mem = cut_line meth path kvs @ ?h @ crlf @ body @ post, sc_i = ?j + 2, sc_fl = 0,
      sc_bbb = (if kvs = [] then 0 else length meth + length (percent_encode path) + 2),
      sc_len = 0, sc_rq = line_rq header meth path\<rparr>"
  have chars: "line_chars [0..<?j] (?sc\<lparr>sc_mem := mem[?j := NUL]\<rparr>) = Ok (?sc1\<lparr>sc_i := length meth + 1\<rparr>)"
  proof -
    have q: "NUL \<notin> set ''HTTP/1.1''" "CHR '' '' \<notin> set ''HTTP/1.1''" by (simp_all add: NUL_def)
    show ?thesis
      using line_chars_rendered [OF mp(1) m mp(2) _ q, of "?sc\<lparr>sc_mem := mem[?j := NUL]\<rparr>" path kvs ?post ?j]
      unfolding up by (cases "kvs = []") (simp_all add: start_scan_def line_rq_def cut_line_def)
  qed
  have e: "line_end ?j ?sc = Ok (False, ?sc1)"
    using chars by (simp add: line_end_def Let_def start_scan_def)
  have j: "length (cut_line meth path kvs) = ?j + 2" by (simp add: cut_line_def target_def)
  have "?j < len" by (simp add: len render_line_target crlf_def)
  with at e have "header_loop len ?j ?sc = header_loop len (?j + 3) ?sc1"
    by (subst header_loop.simps) (simp add: start_scan_def)
  then have step: "header_loop len 0 ?sc = header_loop len (length (cut_line meth path kvs) + 1) ?sc1"
    unfolding skip j by (simp add: eval_nat_numeral)
  have "\<exists>mid. length mid = length ?h \<and> header_loop len (length (cut_line meth path kvs) + 1) ?sc1 =
     Ok (?sc1\<lparr>sc_mem := cut_line meth path kvs @ mid @ crlf @ body @ post, sc_i := length (cut_line meth path kvs) + length mid,
      sc_len := fst (fold meet_header hs (sc_len ?sc1, sc_rq ?sc1)), sc_rq := snd (fold meet_header hs (sc_len ?sc1, sc_rq ?sc1))\<rparr>)"
    by (intro loop_headers hs) (use b j in \<open>simp_all add: len render_line_target crlf_def, auto simp: cut_line_def\<close>)
  then show ?thesis unfolding step by simp
qed

section \<open>Header values\<close>

definition last_header :: "string \<Rightarrow> (string \<times> string) list \<Rightarrow> string" where
  "last_header k hs = (case map_of (rev hs) k of None \<Rightarrow> [] | Some v \<Rightarrow> v)"

lemma fold_rq:
  "rq_method (snd (fold meet_header hs s)) = rq_method (snd s)" "rq_path (snd (fold meet_header hs s)) = rq_path (snd s)"
  "rq_query (snd (fold meet_header hs s)) = rq_query (snd s)" "rq_f_path (snd (fold meet_header hs s)) = rq_f_path (snd s)"
  "rq_f_prot (snd (fold meet_header hs s)) = rq_f_prot (snd s)"
  by (induction hs arbitrary: s) (simp_all add: meet_header_def)

lemma fold_no_length:
  "\<forall>h\<in>set hs. fst h \<noteq> ''content-length'' \<Longrightarrow> fst (fold meet_header hs s) = fst s"
  by (induction hs arbitrary: s) (simp_all add: meet_header_def)

lemma fold_values:
  "rq_lang (snd (fold meet_header hs s)) = (case map_of (rev hs) ''accept-language'' of None \<Rightarrow> rq_lang (snd s) | Some v \<Rightarrow> v)"
  "rq_host (snd (fold meet_header hs s)) = (case map_of (rev hs) ''host'' of None \<Rightarrow> rq_host (snd s) | Some v \<Rightarrow> v)"
  "rq_agent (snd (fold meet_header hs s)) = (case map_of (rev hs) ''user-agent'' of None \<Rightarrow> rq_agent (snd s) | Some v \<Rightarrow> v)"
  by (induction hs rule: rev_induct) (auto simp: meet_header_def split: option.split)

lemma fold_last:
  "rq_lang rq = [] \<Longrightarrow> rq_lang (snd (fold meet_header hs (n, rq))) = last_header ''accept-language'' hs"
  "rq_host rq = [] \<Longrightarrow> rq_host (snd (fold meet_header hs (n, rq))) = last_header ''host'' hs"
  "rq_agent rq = [] \<Longrightarrow> rq_agent (snd (fold meet_header hs (n, rq))) = last_header ''user-agent'' hs"
  by (simp_all add: fold_values last_header_def split: option.split)

section \<open>The body\<close>

lemma recv_body_all:
  "[] \<notin> set cs \<Longrightarrow> recv_body (map Some cs) (length (concat cs)) = concat cs"
proof (induction cs)
  case (Cons c cs)
  then obtain m where m: "length (concat (c # cs)) = Suc m" by (cases c) auto
  have "Suc m - length c = length (concat cs)" using m by simp
  with Cons m show ?case by auto
qed simp

end
