(* ===== verification/LiraRequestProps.thy ===== *)
theory LiraRequestProps
  imports LiraRequestFacts
begin

text \<open>
  Properties of the request parser of the LiraCalc server: it gives back what a client renders, however
  the body arrives; and what it does with requests no client should send.
\<close>

section \<open>A client's rendering is parsed back\<close>

definition lira_head :: "string \<Rightarrow> string \<Rightarrow> (string \<times> string) list \<Rightarrow> (string \<times> string) list \<Rightarrow> string" where
  "lira_head meth path kvs hs = render_line meth path (if meth = ''GET'' then kvs else []) @ concat (map render_header hs) @ crlf"

definition lira_body :: "string \<Rightarrow> (string \<times> string) list \<Rightarrow> string" where
  "lira_body meth kvs = (if meth = ''GET'' then [] else render_query kvs)"

definition length_header :: "string \<Rightarrow> string \<times> string" where
  "length_header body = (''content-length'', nat_str (length body))"

lemma lira_length_ok: "head_ok (length_header body)"
proof -
  have "c \<noteq> NUL \<and> c \<noteq> CR" if "c \<in> set (nat_str (length body))" for c
    using that nat_str_digits [of "length body"] by (auto simp: list_all_iff is_digit_def NUL_def CR_def)
  then show ?thesis by (simp add: length_header_def head_ok_def key_char_def) (simp add: NUL_def CR_def)
qed

lemma query_free: "NUL \<notin> set (render_query kvs)" "CR \<notin> set (render_query kvs)"
  using render_query_chars [of NUL kvs] render_query_chars [of CR kvs] special_not_plain
  by (auto simp: NUL_def CR_def)

lemma head_free: "head_ok h \<Longrightarrow> NUL \<notin> set (render_header h)"
  by (auto simp: head_ok_def key_char_def render_header_def crlf_def NUL_def)

lemma lira_head_free:
  assumes "method_of meth \<noteq> -1" "list_all head_ok hs"
  shows "NUL \<notin> set (lira_head meth path kvs hs)"
proof -
  have "NUL \<notin> set (target path q)" for q
    using target_free [OF special_not_plain(7)] by (auto simp: NUL_def)
  moreover have "NUL \<notin> set meth" using method_plain [OF assms(1)] special_not_plain(7) by blast
  moreover have "NUL \<notin> set (concat (map render_header hs))"
    using assms(2) head_free by (auto simp: list_all_iff)
  ultimately show ?thesis
    by (simp add: lira_head_def render_line_target crlf_def) (simp add: NUL_def)
qed

text \<open>The memory from the body on when the first segment holds it all, or after the rest was received.\<close>

lemma locate_rest:
  assumes "sc_mem sc = p @ b1 @ post" "sc_i sc + 2 = length p" "sc_len sc = int (length (b1 @ rest))"
    "rq_method (sc_rq sc) \<in> {POST, PUT, DELETE}" "int (length (b1 @ rest)) \<le> MAX_BODY_LEN" "rest \<noteq> []" "NUL \<notin> set rest"
    "recv_body ks (length rest) = rest"
  shows "locate_query \<lparr>cl_first = f, cl_more = ks, cl_mem = True\<rparr> (length (p @ b1)) sc =
    Some (Ok (p @ (b1 @ rest) @ [NUL], length p, (sc_rq sc)\<lparr>rq_header := rq_header (sc_rq sc) @ rest\<rparr>))"
proof -
  have g: "rq_method (sc_rq sc) \<noteq> GET" using assms(4) by (auto simp: method_defs)
  have need: "sc_len sc - (int (length (p @ b1)) - int (sc_i sc + 2)) = int (length rest)"
    using assms(2,3) by simp
  have n: "nat (int (length (p @ b1)) + int (length rest) + 1) = length ((p @ b1) @ rest @ [NUL])" by simp
  have m: "grown_mem (sc_mem sc) (length (p @ b1)) (length ((p @ b1) @ rest @ [NUL])) rest = p @ (b1 @ rest) @ [NUL]"
    unfolding grown_mem_def assms(1) by simp
  have c: "cstr_at (p @ (b1 @ rest) @ [NUL]) (length (p @ b1)) = Ok rest"
    using cstr_at_app [OF assms(7), of "p @ b1" "[]"] by simp
  show ?thesis
    unfolding locate_query_def Let_def need n lira_client.simps nat_int assms(8) m c
    using g assms by auto
qed

lemma locate_whole:
  assumes "rq_method (sc_rq sc) \<noteq> GET \<or> sc_bbb sc = 0" "sc_len sc \<le> int rr - int (sc_i sc + 2)"
  shows "locate_query cl rr sc = Some (Ok (sc_mem sc, sc_i sc + 2, sc_rq sc))"
  using assms by (auto simp: locate_query_def Let_def)

lemma first_text:
  assumes "NUL \<notin> set x" "length x < buff_size"
  shows "first_mem x = x @ NUL # replicate (buff_size - length x - 1) NUL" "cstr_at (first_mem x) 0 = Ok x"
proof -
  obtain m where "buff_size - length x = Suc m" using assms(2) by (cases "buff_size - length x") auto
  then show "first_mem x = x @ NUL # replicate (buff_size - length x - 1) NUL" by (simp add: first_mem_def)
  then show "cstr_at (first_mem x) 0 = Ok x" using cstr_at_app [OF assms(1), of "[]"] by simp
qed

lemma fold_length:
  assumes "length body \<le> 64 * 1024 * 1024" "''content-length'' \<notin> fst ` set hs"
  shows "fst (fold meet_header (length_header body # hs) (0, rq)) = int (length body)"
    "snd (fold meet_header (length_header body # hs) (0, rq)) = snd (fold meet_header hs (int (length body), rq))"
proof -
  have a: "atoi (nat_str (length body)) = int (length body)"
    using atoi_int_str [of "int (length body)"] assms(1) by (simp add: int_str_def)
  have "\<forall>h\<in>set hs. fst h \<noteq> ''content-length''" using assms(2) by (metis image_eqI)
  then show "fst (fold meet_header (length_header body # hs) (0, rq)) = int (length body)"
    using a by (simp add: fold_no_length meet_header_def length_header_def)
  show "snd (fold meet_header (length_header body # hs) (0, rq)) = snd (fold meet_header hs (int (length body), rq))"
    using a by (simp add: meet_header_def length_header_def)
qed

text \<open>The parameters once their place in memory is known.\<close>

lemma decod_from:
  assumes "cl_first cl = Some x" "NUL \<notin> set x" "x \<noteq> []" "length x < buff_size"
    "header_loop (length x) 0 (start_scan (first_mem x) x) = Ok sc"
    "locate_query cl (length x) sc = Some (Ok (p @ render_query kvs @ NUL # post, length p, rq))" "length kvs \<le> 256"
  shows "decod_request cl = Ok (Some (rq\<lparr>rq_query := kvs\<rparr>))"
proof -
  have c: "cstr_at (p @ render_query kvs @ NUL # post) (length p) = Ok (render_query kvs)"
    using cstr_at_app [OF query_free(1)] .
  show ?thesis
    using assms first_text(2) [OF assms(2,4)] c parse_rendered [OF assms(7), of p post]
    by (simp add: decod_request_def Let_def)
qed

lemma method_names:
  "meth \<in> {''GET'', ''POST'', ''PUT'', ''DELETE''} \<Longrightarrow> method_of meth \<noteq> -1 \<and>
     (method_of meth = GET \<longleftrightarrow> meth = ''GET'') \<and> (meth \<noteq> ''GET'' \<longrightarrow> method_of meth \<in> {POST, PUT, DELETE})"
  by (auto simp: method_of_def method_defs)

lemma locate_rendered:
  assumes meth: "meth \<in> {''GET'', ''POST'', ''PUT'', ''DELETE''}" and q: "q \<noteq> [] \<longrightarrow> meth = ''GET''"
    and mem: "sc_mem sc = cut_line meth path q @ mid @ crlf @ b1 @ NUL # zs"
    and i: "sc_i sc + 2 = length (cut_line meth path q @ mid @ crlf)"
    and bbb: "sc_bbb sc = (if q = [] then 0 else length meth + length (percent_encode path) + 2)"
    and len: "sc_len sc = int (length body)" and m: "rq_method (sc_rq sc) = method_of meth"
    and body: "body = b1 @ concat cs" "[] \<notin> set cs" "length body \<le> 64 * 1024 * 1024" "NUL \<notin> set body"
      "meth = ''GET'' \<longrightarrow> body = []"
    and rr: "rr = length ((cut_line meth path q @ mid @ crlf) @ b1)"
  shows "\<exists>p post h. locate_query \<lparr>cl_first = f, cl_more = map Some cs, cl_mem = True\<rparr> rr sc =
    Some (Ok (p @ (if q = [] then body else render_query q) @ NUL # post, length p, (sc_rq sc)\<lparr>rq_header := h\<rparr>))"
proof -
  note mm = method_names [OF meth]
  consider (url) "q \<noteq> []" "meth = ''GET''" | (whole) "q = []" "cs = []"
    | (parts) "meth \<noteq> ''GET''" "q = []" "concat cs \<noteq> []"
    using body q by (cases cs; cases "q = []") auto
  then show ?thesis
  proof cases
    case url
    then show ?thesis
      using m mm by (intro exI [of _ "meth @ NUL # percent_encode path @ [NUL]"]
          exI [of _ "''HTTP/1.1'' @ [NUL, CHR 0x0A] @ mid @ crlf @ b1 @ NUL # zs"] exI [of _ "rq_header (sc_rq sc)"])
        (simp add: locate_query_def mem bbb cut_line_def)
  next
    case whole
    have "b1 = body" using body(1) whole by simp
    moreover have "locate_query \<lparr>cl_first = f, cl_more = map Some cs, cl_mem = True\<rparr> rr sc = Some (Ok (sc_mem sc, sc_i sc + 2, sc_rq sc))"
    proof (rule locate_whole)
      show "rq_method (sc_rq sc) \<noteq> GET \<or> sc_bbb sc = 0" using whole(1) bbb by simp
      show "sc_len sc \<le> int rr - int (sc_i sc + 2)" unfolding i rr len body(1) using whole(2) by simp
    qed
    ultimately show ?thesis using whole(1)
      unfolding mem i by (intro exI [of _ "cut_line meth path q @ mid @ crlf"] exI [of _ zs] exI [of _ "rq_header (sc_rq sc)"]) simp
  next
    case parts
    have nul: "NUL \<notin> set (concat cs)" using body(1,4) by simp
    have "locate_query \<lparr>cl_first = f, cl_more = map Some cs, cl_mem = True\<rparr> rr sc =
      Some (Ok ((cut_line meth path q @ mid @ crlf) @ (b1 @ concat cs) @ [NUL], length (cut_line meth path q @ mid @ crlf),
        (sc_rq sc)\<lparr>rq_header := rq_header (sc_rq sc) @ concat cs\<rparr>))"
      unfolding rr using parts body m mm recv_body_all [OF body(2)] nul mem i len
      by (intro locate_rest) (simp_all add: MAX_BODY_LEN_def)
    then show ?thesis using parts(2)
      unfolding body(1) [symmetric] by (intro exI [of _ "cut_line meth path q @ mid @ crlf"] exI [of _ "[]"]
        exI [of _ "rq_header (sc_rq sc) @ concat cs"]) simp
  qed
qed

text \<open>The scan and the place of the parameters, for any body without NUL and carriage return.\<close>

lemma located_rendered:
  assumes meth: "meth \<in> {''GET'', ''POST'', ''PUT'', ''DELETE''}" and q: "q \<noteq> [] \<longrightarrow> meth = ''GET''"
    and hs: "list_all head_ok hs" "''content-length'' \<notin> fst ` set hs"
    and body: "body = b1 @ concat cs" "[] \<notin> set cs" "length body \<le> 64 * 1024 * 1024" "NUL \<notin> set body"
      "meth = ''GET'' \<longrightarrow> body = []" "CR \<notin> set body"
    and x: "x = render_line meth path q @ concat (map render_header (length_header body # hs)) @ crlf @ b1"
    and mem: "mem = x @ NUL # zs"
  shows "NUL \<notin> set x" "x \<noteq> []"
    "\<exists>sc p post h. header_loop (length x) 0 (start_scan mem x) = Ok sc \<and> sc_i sc + 2 \<le> length x \<and>
      sc_rq sc = snd (fold meet_header hs (int (length body), line_rq x meth path)) \<and>
      locate_query \<lparr>cl_first = f, cl_more = map Some cs, cl_mem = True\<rparr> (length x) sc =
        Some (Ok (p @ (if q = [] then body else render_query q) @ NUL # post, length p, (sc_rq sc)\<lparr>rq_header := h\<rparr>))"
proof -
  let ?H = "length_header body # hs"
  note m = method_names [OF meth, THEN conjunct1]
  have H: "list_all head_ok ?H" using hs(1) lira_length_ok by simp
  have b1: "NUL \<notin> set b1" "CR \<notin> set b1" using body(1,4,6) by simp_all
  show "x \<noteq> []" by (simp add: x render_line_def)
  show "NUL \<notin> set x"
  proof -
    have "NUL \<notin> set (target path q)" using target_free [OF special_not_plain(7)] by (auto simp: NUL_def)
    moreover have "NUL \<notin> set meth" using method_plain [OF m] special_not_plain(7) by blast
    moreover have "NUL \<notin> set (concat (map render_header ?H))" using H head_free by (auto simp: list_all_iff)
    ultimately show ?thesis using b1(1) by (simp add: x render_line_target crlf_def) (simp add: NUL_def)
  qed
  have mem': "mem = render_line meth path q @ concat (map render_header ?H) @ crlf @ b1 @ NUL # zs"
    using mem x by simp
  have len: "length x = length (render_line meth path q) + length (concat (map render_header ?H)) + 2 + length b1"
    using x by (simp add: crlf_def)
  let ?rq = "snd (fold meet_header hs (int (length body), line_rq x meth path))"
  obtain mid where lmid: "length mid = length (concat (map render_header ?H))"
    and scan: "header_loop (length x) 0 (start_scan mem x) = Ok \<lparr>sc_mem = cut_line meth path q @ mid @ crlf @ b1 @ NUL # zs,
      sc_i = length (cut_line meth path q) + length mid, sc_fl = 0,
      sc_bbb = (if q = [] then 0 else length meth + length (percent_encode path) + 2),
      sc_len = int (length body), sc_rq = ?rq\<rparr>" (is "_ = Ok ?sc")
    using scan_rendered [OF m H mem' b1(2) len, of x] unfolding fold_length [OF body(3) hs(2)] by blast
  have "\<exists>p post h. locate_query \<lparr>cl_first = f, cl_more = map Some cs, cl_mem = True\<rparr> (length x) ?sc =
      Some (Ok (p @ (if q = [] then body else render_query q) @ NUL # post, length p, (sc_rq ?sc)\<lparr>rq_header := h\<rparr>))"
    by (intro locate_rendered [OF meth q _ _ _ _ _ body(1-5), where mid = mid and zs = zs])
      (simp_all add: crlf_def length_cut_line fold_rq line_rq_def lmid len)
  moreover have "sc_i ?sc + 2 \<le> length x" using len lmid by (simp add: length_cut_line)
  ultimately show "\<exists>sc p post h. header_loop (length x) 0 (start_scan mem x) = Ok sc \<and> sc_i sc + 2 \<le> length x \<and>
      sc_rq sc = ?rq \<and> locate_query \<lparr>cl_first = f, cl_more = map Some cs, cl_mem = True\<rparr> (length x) sc =
        Some (Ok (p @ (if q = [] then body else render_query q) @ NUL # post, length p, (sc_rq sc)\<lparr>rq_header := h\<rparr>))"
    using scan by (intro exI [of _ ?sc]) simp
qed

lemma decod_rendered:
  assumes meth: "meth \<in> {''GET'', ''POST'', ''PUT'', ''DELETE''}" and n: "length kvs \<le> 256"
    and hs: "list_all head_ok hs" "''content-length'' \<notin> fst ` set hs"
    and body: "lira_body meth kvs = b1 @ concat cs" "[] \<notin> set cs" "length (lira_body meth kvs) \<le> 64 * 1024 * 1024"
    and x: "x = lira_head meth path kvs (length_header (lira_body meth kvs) # hs) @ b1" "length x < 2999"
  shows "\<exists>rq. decod_request \<lparr>cl_first = Some x, cl_more = map Some cs, cl_mem = True\<rparr> = Ok (Some rq) \<and>
    rq_method rq = method_of meth \<and> rq_path rq = path @ [NUL] \<and> rq_query rq = kvs \<and> rq_f_path rq \<and> rq_f_prot rq \<and>
    rq_lang rq = last_header ''accept-language'' hs \<and> rq_host rq = last_header ''host'' hs \<and>
    rq_agent rq = last_header ''user-agent'' hs"
proof -
  let ?body = "lira_body meth kvs" and ?q = "if meth = ''GET'' then kvs else []"
  let ?zs = "replicate (buff_size - length x - 1) NUL"
  let ?rq = "snd (fold meet_header hs (int (length ?body), line_rq x meth path))"
  have q: "?q \<noteq> [] \<longrightarrow> meth = ''GET''" by simp
  have bf: "NUL \<notin> set ?body" "meth = ''GET'' \<longrightarrow> ?body = []" "CR \<notin> set ?body" by (simp_all add: lira_body_def query_free)
  have xx: "x = render_line meth path ?q @ concat (map render_header (length_header ?body # hs)) @ crlf @ b1"
    using x(1) by (simp add: lira_head_def)
  have xl: "length x < buff_size" using x(2) by (simp add: buff_size_def)
  note loc = located_rendered [OF meth q hs body bf xx refl]
  have mem: "first_mem x = x @ NUL # ?zs" by (rule first_text(1) [OF loc(1) xl])
  obtain sc p post h where sc: "header_loop (length x) 0 (start_scan (first_mem x) x) = Ok sc" "sc_rq sc = ?rq"
    and l: "locate_query \<lparr>cl_first = Some x, cl_more = map Some cs, cl_mem = True\<rparr> (length x) sc =
      Some (Ok (p @ (if ?q = [] then ?body else render_query ?q) @ NUL # post, length p, (sc_rq sc)\<lparr>rq_header := h\<rparr>))"
    using loc(3) [of ?zs "Some x"] unfolding mem by blast
  have t: "(if ?q = [] then ?body else render_query ?q) = render_query kvs" by (simp add: lira_body_def)
  have "decod_request \<lparr>cl_first = Some x, cl_more = map Some cs, cl_mem = True\<rparr> =
      Ok (Some (((sc_rq sc)\<lparr>rq_header := h\<rparr>)\<lparr>rq_query := kvs\<rparr>))"
    by (rule decod_from [OF _ loc(1) loc(2) xl sc(1) l [unfolded t] n]) (simp_all add: mem)
  then show ?thesis
    by (simp add: sc(2) fold_rq fold_last line_rq_def new_rq_def)
qed

text \<open>
  C11. What a client sends is what the handlers get: for GET, POST, PUT and DELETE, any path, up to 256
  parameters (all bytes allowed, percent-encoded, in the URL of a GET and in the body otherwise) and
  well-formed headers, with head and whatever part of the body arrives first below 2999 bytes and the rest
  of the body in any number of segments, parsing yields the method, the path (with a NUL behind it), the
  parameters in order and the values of the headers the server knows.
\<close>

theorem lira_request_roundtrip:
  assumes meth: "meth \<in> {''GET'', ''POST'', ''PUT'', ''DELETE''}" and n: "length kvs \<le> 256"
    and hs: "list_all head_ok hs" "''content-length'' \<notin> fst ` set hs"
    and body: "lira_body meth kvs = b1 @ concat cs" "[] \<notin> set cs" "length (lira_body meth kvs) \<le> 64 * 1024 * 1024"
    and x: "x = lira_head meth path kvs (length_header (lira_body meth kvs) # hs) @ b1" "length x < 2999"
  shows "\<exists>rq. decod_request \<lparr>cl_first = Some x, cl_more = map Some cs, cl_mem = True\<rparr> = Ok (Some rq) \<and>
    rq_method rq = method_of meth \<and> rq_path rq = path @ [NUL] \<and> rq_query rq = kvs \<and> rq_f_path rq \<and> rq_f_prot rq \<and>
    rq_lang rq = last_header ''accept-language'' hs \<and> rq_host rq = last_header ''host'' hs \<and>
    rq_agent rq = last_header ''user-agent'' hs"
  by (rule decod_rendered [OF assms])

text \<open>A press of the second button of relay 7, its body in two parts.\<close>

definition demo_press :: lira_client where
  "demo_press = \<lparr>cl_first = Some (lira_head ''PUT'' ''/lialiapam'' [(''sn'', ''7''), (''button'', ''2'')]
     [(''content-length'', ''13''), (''host'', ''localhost'')] @ ''sn=7&b''), cl_more = [Some ''utto'', Some ''n=2''], cl_mem = True\<rparr>"

theorem lira_request_roundtrip_witness:
  "\<exists>rq. decod_request demo_press = Ok (Some rq) \<and> rq_method rq = PUT \<and>
     rq_query rq = [(''sn'', ''7''), (''button'', ''2'')] \<and> rq_host rq = ''localhost''"
proof -
  have q: "lira_body ''PUT'' [(''sn'', ''7''), (''button'', ''2'')] = ''sn=7&button=2''"
    by (simp add: lira_body_def percent_encode_def percent_char_def plain_char_def is_digit_def)
  have l: "length_header ''sn=7&button=2'' = (''content-length'', ''13'')"
    by code_simp
  have h: "list_all head_ok [(''host'', ''localhost'')]" by (simp add: head_ok_def key_char_def NUL_def CR_def)
  have n: "length (lira_head ''PUT'' ''/lialiapam'' [(''sn'', ''7''), (''button'', ''2'')]
      (length_header (lira_body ''PUT'' [(''sn'', ''7''), (''button'', ''2'')]) # [(''host'', ''localhost'')]) @ ''sn=7&b'') < 2999"
    unfolding q l by (simp add: lira_head_def render_line_def render_header_def crlf_def percent_encode_def percent_char_def
        plain_char_def is_digit_def)
  show ?thesis
    using lira_request_roundtrip [of "''PUT''" "[(''sn'', ''7''), (''button'', ''2'')]" "[(''host'', ''localhost'')]" "''sn=7&b''"
        "[''utto'', ''n=2'']", OF _ _ h _ _ _ _ refl n]
    unfolding q l by (simp add: demo_press_def method_of_def PUT_def last_header_def) blast
qed

end
