(* ===== verification/RelayDecod.thy ===== *)
theory RelayDecod
  imports RelayHttp LiraRequestProps
begin

text \<open>
  Requests of the relay server: \<open>decod_request\<close> of \<open>servak_na_winapi_relays/source/server_relays.cpp\<close>,
  by its comment a copy of the one of the LiraCalc server. The scan of the lines is the same, so it is
  shared (\<open>header_loop\<close> of \<open>LiraRequest\<close>); its own are the larger buffer, how much of the body is
  missing, what is added to the header, and the log files, whose body is kept as it is. The bytes of a log
  file are a vector, here a string.
\<close>

section \<open>The request\<close>

definition relay_buff_size :: nat where
  "relay_buff_size = 1024 * 101"

text \<open>The request of the scan as a request of the relay server.\<close>

definition relay_request :: "lira_rq \<Rightarrow> string \<Rightarrow> request" where
  "relay_request r body = request.make (lira_rq.rq_method r) (lira_rq.rq_path r) (rq_lang r) (lira_rq.rq_host r) (rq_agent r)
     (lira_rq.rq_prot r) (lira_rq.rq_header r) body (map (\<lambda>(p, z). \<lparr>q_param = p, q_znach = z\<rparr>) (lira_rq.rq_query r))
     (rq_f_path r) (rq_f_lang r) (rq_f_host r) (rq_f_agent r) (rq_f_prot r)"

definition is_log_file :: "lira_rq \<Rightarrow> bool" where
  "is_log_file r \<longleftrightarrow> c_str (lira_rq.rq_path r) = ''/log_file'' \<and> lira_rq.rq_method r = POST"

text \<open>
  The memory the parameters are read from, and where; \<open>None\<close> for \<open>return 1\<close>. The missing bytes are
  counted from the end of the first text. A count below zero for \<open>std::string(buff + i, n)\<close> is a
  \<open>length_error\<close>.
\<close>

definition relay_locate :: "lira_client \<Rightarrow> nat \<Rightarrow> rq_scan \<Rightarrow> (string \<times> nat \<times> lira_rq) res option" where
  "relay_locate cl len sc = (let i = sc_i sc + 2; rq = sc_rq sc; already = int len - int i; need = sc_len sc - already in
     if lira_rq.rq_method rq = GET \<and> sc_bbb sc \<noteq> 0 then Some (Ok (sc_mem sc, sc_bbb sc, rq))
     else if (lira_rq.rq_method rq = POST \<or> lira_rq.rq_method rq = PUT \<or> lira_rq.rq_method rq = DELETE) \<and>
             sc_len sc + int i > int len then
       if sc_len sc > MAX_BODY_LEN \<or> \<not> cl_mem cl then None
       else let got = recv_body (cl_more cl) (nat need);
                mem = grown_mem (sc_mem sc) len (nat (int len + need + 1)) got;
                n = already + int (length got)
            in Some (if is_log_file rq then Ok (mem, i, rq)
                 else if n < 0 then Inl (Uncaught ''length_error'')
                 else Ok (mem, i, rq\<lparr>lira_rq.rq_header := lira_rq.rq_header rq @ take (nat n) (drop i mem)\<rparr>))
     else Some (Ok (sc_mem sc, i, rq)))"

text \<open>\<open>Ok None\<close> is \<open>return 1\<close>: the connection is closed without an answer.\<close>

definition relay_decod_request :: "lira_client \<Rightarrow> request option res" where
  "relay_decod_request cl =
     (let bytes = (case cl_first cl of None \<Rightarrow> [] | Some b \<Rightarrow> take relay_buff_size b);
          mem = bytes @ replicate (relay_buff_size - length bytes) NUL
      in bind_res (cstr_at mem 0) (\<lambda>header.
         if header = [] then Ok None
         else bind_res (header_loop (length header) 0 (start_scan mem header)) (\<lambda>sc.
           case relay_locate cl (length header) sc of
             None \<Rightarrow> Ok None
           | Some m \<Rightarrow> bind_res m (\<lambda>(mem, i, rq).
               bind_res (cstr_at mem i) (\<lambda>q.
               if is_log_file rq then Ok (Some (relay_request rq q))
               else bind_res (parse_pairs 256 mem (i + length q) i) (\<lambda>ps.
                 Ok (Some (relay_request (rq\<lparr>lira_rq.rq_query := ps\<rparr>) []))))))))"

text \<open>A connection of the main loop: the request, or nothing.\<close>

definition relay_connection ::
  "relay_srv \<Rightarrow> int \<Rightarrow> string \<Rightarrow> files \<Rightarrow> lira_client \<Rightarrow> (string \<times> conn_end \<times> relay_srv) res" where
  "relay_connection s now date fs cl = bind_res (relay_decod_request cl) (\<lambda>r.
     case r of None \<Rightarrow> Ok ([], Closed, s) | Some rq \<Rightarrow> serve s now date fs rq)"

section \<open>Facts\<close>

lemma recv_body_len: "length (recv_body ks n) \<le> n"
  by (induction ks n rule: recv_body.induct) auto

text \<open>The place of the parameters is that of the LiraCalc server; only the header differs.\<close>

lemma relay_locate_like:
  assumes "locate_query cl len sc = Some (Ok (m, i, rq))" "sc_i sc + 2 \<le> len"
  shows "\<exists>h. relay_locate cl len sc = Some (Ok (m, i, (sc_rq sc)\<lparr>lira_rq.rq_header := h\<rparr>))"
proof -
  let ?r = "sc_rq sc" and ?i = "sc_i sc + 2" and ?need = "sc_len sc - (int len - int (sc_i sc + 2))"
  let ?url = "lira_rq.rq_method ?r = GET \<and> sc_bbb sc \<noteq> 0"
    and ?more = "lira_rq.rq_method ?r = POST \<or> lira_rq.rq_method ?r = PUT \<or> lira_rq.rq_method ?r = DELETE"
  have keep: "?r = ?r\<lparr>lira_rq.rq_header := lira_rq.rq_header ?r\<rparr>" by simp
  have need: "sc_len sc + int ?i > int len \<longleftrightarrow> ?need > 0" by auto
  let ?got = "recv_body (cl_more cl) (nat ?need)"
  let ?mem = "grown_mem (sc_mem sc) len (nat (int len + ?need + 1)) ?got"
  have pos: "\<not> int len - int ?i + int (length ?got) < 0" using assms(2) by simp
  consider (url) "?url" | (more) "\<not> ?url" "?more" "?need > 0" | (whole) "\<not> ?url" "\<not> (?more \<and> ?need > 0)" by blast
  then show ?thesis
  proof cases
    case url
    then have "m = sc_mem sc" "i = sc_bbb sc" using assms(1) by (simp_all add: locate_query_def Let_def)
    then show ?thesis using url keep by (intro exI [of _ "lira_rq.rq_header ?r"]) (simp add: relay_locate_def Let_def)
  next
    case more
    then have ok: "\<not> (sc_len sc > MAX_BODY_LEN \<or> \<not> cl_mem cl)"
      using assms(1) by (auto simp: locate_query_def Let_def split: if_splits)
    then have "bind_res (cstr_at ?mem len) (\<lambda>body. Ok (?mem, ?i, ?r\<lparr>lira_rq.rq_header := lira_rq.rq_header ?r @ body\<rparr>)) = Ok (m, i, rq)"
      using assms(1) more unfolding locate_query_def Let_def by (simp only: if_True if_False simp_thms option.inject)
    then have mi: "m = ?mem" "i = ?i" by (auto simp: bind_res_Inr)
    show ?thesis
    proof (cases "is_log_file ?r")
      case True
      then have "relay_locate cl len sc = Some (Ok (?mem, ?i, ?r))"
        using more ok need unfolding relay_locate_def Let_def by (simp only: if_True if_False simp_thms)
      then show ?thesis using mi keep by (intro exI [of _ "lira_rq.rq_header ?r"]) simp
    next
      case False
      then have "relay_locate cl len sc = Some (Ok (?mem, ?i, ?r\<lparr>lira_rq.rq_header := lira_rq.rq_header ?r @
          take (nat (int len - int ?i + int (length ?got))) (drop ?i ?mem)\<rparr>))"
        using more ok need pos unfolding relay_locate_def Let_def by (simp only: if_True if_False simp_thms)
      then show ?thesis using mi by blast
    qed
  next
    case whole
    then have "m = sc_mem sc" "i = ?i" using assms(1) unfolding locate_query_def Let_def by (auto split: if_splits)
    moreover have "relay_locate cl len sc = Some (Ok (sc_mem sc, ?i, ?r))"
      using whole need unfolding relay_locate_def Let_def by (simp only: if_True if_False simp_thms)
    ultimately show ?thesis using keep by (intro exI [of _ "lira_rq.rq_header ?r"]) simp
  qed
qed

lemma relay_decod_from:
  assumes "cl_first cl = Some x" "NUL \<notin> set x" "x \<noteq> []" "length x < relay_buff_size"
    "header_loop (length x) 0 (start_scan (x @ NUL # replicate (relay_buff_size - length x - 1) NUL) x) = Ok sc"
    "relay_locate cl (length x) sc = Some (Ok (p @ t @ NUL # post, length p, rq))" "NUL \<notin> set t"
  shows "relay_decod_request cl = (if is_log_file rq then Ok (Some (relay_request rq t))
     else bind_res (parse_pairs 256 (p @ t @ NUL # post) (length p + length t) (length p)) (\<lambda>ps.
       Ok (Some (relay_request (rq\<lparr>lira_rq.rq_query := ps\<rparr>) []))))"
proof -
  have z: "replicate (relay_buff_size - length x) NUL = NUL # replicate (relay_buff_size - length x - 1) NUL"
    using assms(4) by (cases "relay_buff_size - length x") simp_all
  have c: "cstr_at (x @ NUL # zs) 0 = Ok x" for zs using cstr_at_app [OF assms(2), of "[]"] by simp
  have d: "cstr_at (p @ t @ NUL # post) (length p) = Ok t" using cstr_at_app [OF assms(7)] .
  show ?thesis
    using assms(1,3-6) d by (simp add: relay_decod_request_def Let_def z c)
qed

lemma relay_request_simps:
  "request.rq_method (relay_request r b) = lira_rq.rq_method r" "request.rq_path (relay_request r b) = lira_rq.rq_path r"
  "request.rq_body (relay_request r b) = b" "request.f_path (relay_request r b) = rq_f_path r"
  "request.rq_query (relay_request r b) = map (\<lambda>(p, z). \<lparr>q_param = p, q_znach = z\<rparr>) (lira_rq.rq_query r)"
  "request.rq_host (relay_request r b) = lira_rq.rq_host r" "request.rq_user_agent (relay_request r b) = rq_agent r"
  "request.rq_accept_language (relay_request r b) = rq_lang r"
  by (simp_all add: relay_request_def request.make_def)

lemma relay_reads_rendered:
  assumes meth: "meth \<in> {''GET'', ''POST'', ''PUT'', ''DELETE''}" and n: "length kvs \<le> 256"
    and hs: "list_all head_ok hs" "''content-length'' \<notin> fst ` set hs" and path: "c_str path \<noteq> ''/log_file''"
    and body: "lira_body meth kvs = b1 @ concat cs" "[] \<notin> set cs" "length (lira_body meth kvs) \<le> 64 * 1024 * 1024"
    and x: "x = lira_head meth path kvs (length_header (lira_body meth kvs) # hs) @ b1" "length x < relay_buff_size"
  shows "\<exists>h. relay_decod_request \<lparr>cl_first = Some x, cl_more = map Some cs, cl_mem = True\<rparr> =
    Ok (Some (relay_request ((snd (fold meet_header hs (int (length (lira_body meth kvs)), line_rq x meth path)))
      \<lparr>lira_rq.rq_header := h, lira_rq.rq_query := kvs\<rparr>) []))"
proof -
  let ?body = "lira_body meth kvs" and ?q = "if meth = ''GET'' then kvs else []"
  let ?zs = "replicate (relay_buff_size - length x - 1) NUL"
  let ?cl = "\<lparr>cl_first = Some x, cl_more = map Some cs, cl_mem = True\<rparr>"
  let ?rq = "snd (fold meet_header hs (int (length ?body), line_rq x meth path))"
  have q: "?q \<noteq> [] \<longrightarrow> meth = ''GET''" by simp
  have bf: "NUL \<notin> set ?body" "meth = ''GET'' \<longrightarrow> ?body = []" "CR \<notin> set ?body" by (simp_all add: lira_body_def query_free)
  have xx: "x = render_line meth path ?q @ concat (map render_header (length_header ?body # hs)) @ crlf @ b1"
    using x(1) by (simp add: lira_head_def)
  note loc = located_rendered [OF meth q hs body bf xx refl]
  have t: "(if ?q = [] then ?body else render_query ?q) = render_query kvs" by (simp add: lira_body_def)
  obtain sc p post h where sc: "header_loop (length x) 0 (start_scan (x @ NUL # ?zs) x) = Ok sc" "sc_i sc + 2 \<le> length x" "sc_rq sc = ?rq"
    and l: "locate_query ?cl (length x) sc = Some (Ok (p @ render_query kvs @ NUL # post, length p, (sc_rq sc)\<lparr>lira_rq.rq_header := h\<rparr>))"
    using loc(3) [of ?zs "Some x"] unfolding t by blast
  obtain h' where l': "relay_locate ?cl (length x) sc = Some (Ok (p @ render_query kvs @ NUL # post, length p, ?rq\<lparr>lira_rq.rq_header := h'\<rparr>))"
    using relay_locate_like [OF l sc(2)] unfolding sc(3) by blast
  have path': "lira_rq.rq_path ?rq = path @ [NUL]" by (simp add: fold_rq line_rq_def)
  have "c_str (path @ [NUL]) = c_str path" by (induction path) (simp_all add: c_str_def)
  then have log: "\<not> is_log_file (?rq\<lparr>lira_rq.rq_header := h'\<rparr>)" using path path' by (simp add: is_log_file_def)
  show ?thesis
    using relay_decod_from [OF _ loc(1,2) x(2) sc(1) l' query_free(1)] log parse_rendered [OF n, of p post] by auto
qed

section \<open>Properties\<close>

text \<open>
  C12. What the gateway or a device sends is what the handlers of the relay server get: for GET, POST, PUT
  and DELETE, any path but that of the log files, up to 256 parameters with any bytes and well-formed
  headers, with head and first part of the body below 101 kilobytes and the rest in any segments.
\<close>

theorem relay_request_roundtrip:
  assumes meth: "meth \<in> {''GET'', ''POST'', ''PUT'', ''DELETE''}" and n: "length kvs \<le> 256"
    and hs: "list_all head_ok hs" "''content-length'' \<notin> fst ` set hs" and path: "c_str path \<noteq> ''/log_file''"
    and body: "lira_body meth kvs = b1 @ concat cs" "[] \<notin> set cs" "length (lira_body meth kvs) \<le> 64 * 1024 * 1024"
    and x: "x = lira_head meth path kvs (length_header (lira_body meth kvs) # hs) @ b1" "length x < relay_buff_size"
  shows "\<exists>rq. relay_decod_request \<lparr>cl_first = Some x, cl_more = map Some cs, cl_mem = True\<rparr> = Ok (Some rq) \<and>
    request.rq_method rq = method_of meth \<and> request.rq_path rq = path @ [NUL] \<and>
    request.rq_query rq = map (\<lambda>(p, z). \<lparr>q_param = p, q_znach = z\<rparr>) kvs \<and>
    request.rq_host rq = last_header ''host'' hs \<and> request.rq_user_agent rq = last_header ''user-agent'' hs \<and>
    (\<forall>s now date fs. relay_connection s now date fs \<lparr>cl_first = Some x, cl_more = map Some cs, cl_mem = True\<rparr> =
       serve s now date fs rq)"
  using relay_reads_rendered [OF meth n hs path body x]
  by (auto simp: relay_connection_def relay_request_simps fold_rq fold_last line_rq_def new_rq_def)

theorem relay_request_roundtrip_witness:
  "\<exists>rq. relay_decod_request \<lparr>cl_first = Some (lira_head ''PUT'' ''/knopka'' [(''sn'', ''7''), (''knopka'', ''2'')]
     [(''content-length'', ''13''), (''host'', ''localhost'')] @ ''sn=7&k''), cl_more = [Some ''nopka'', Some ''=2''], cl_mem = True\<rparr> =
     Ok (Some rq) \<and> request.rq_query rq = [\<lparr>q_param = ''sn'', q_znach = ''7''\<rparr>, \<lparr>q_param = ''knopka'', q_znach = ''2''\<rparr>]"
proof -
  let ?kvs = "[(''sn'', ''7''), (''knopka'', ''2'')]"
  have q: "lira_body ''PUT'' ?kvs = ''sn=7&knopka=2''"
    by (simp add: lira_body_def percent_encode_def percent_char_def plain_char_def is_digit_def)
  have l: "length_header ''sn=7&knopka=2'' = (''content-length'', ''13'')" by code_simp
  have h: "list_all head_ok [(''host'', ''localhost'')]" by (simp add: head_ok_def key_char_def NUL_def CR_def)
  have n: "length (lira_head ''PUT'' ''/knopka'' ?kvs (length_header (lira_body ''PUT'' ?kvs) # [(''host'', ''localhost'')]) @ ''sn=7&k'') < relay_buff_size"
    unfolding q l by (simp add: lira_head_def render_line_def render_header_def crlf_def percent_encode_def percent_char_def
        plain_char_def is_digit_def relay_buff_size_def)
  show ?thesis
    using relay_request_roundtrip [of "''PUT''" ?kvs "[(''host'', ''localhost'')]" "''/knopka''" "''sn=7&k''"
        "[''nopka'', ''=2'']", OF _ _ h _ _ _ _ _ refl n]
    unfolding q l by (simp add: c_str_def NUL_def) blast
qed

text \<open>
  A log file arrives as it was sent: the body of a POST to \<open>/log_file\<close>, any text without NUL and
  carriage return, in any segments, is the body of the request, byte by byte.
\<close>

theorem relay_log_roundtrip:
  assumes hs: "list_all head_ok hs" "''content-length'' \<notin> fst ` set hs"
    and body: "body = b1 @ concat cs" "[] \<notin> set cs" "length body \<le> 64 * 1024 * 1024" "NUL \<notin> set body" "CR \<notin> set body"
    and x: "x = render_line ''POST'' ''/log_file'' [] @ concat (map render_header (length_header body # hs)) @ crlf @ b1"
      "length x < relay_buff_size"
  shows "\<exists>rq. relay_decod_request \<lparr>cl_first = Some x, cl_more = map Some cs, cl_mem = True\<rparr> = Ok (Some rq) \<and>
    request.rq_method rq = POST \<and> request.rq_path rq = ''/log_file'' @ [NUL] \<and> request.rq_body rq = body"
proof -
  let ?zs = "replicate (relay_buff_size - length x - 1) NUL"
  let ?cl = "\<lparr>cl_first = Some x, cl_more = map Some cs, cl_mem = True\<rparr>"
  let ?rq = "snd (fold meet_header hs (int (length body), line_rq x ''POST'' ''/log_file''))"
  have meth: "''POST'' \<in> {''GET'', ''POST'', ''PUT'', ''DELETE''}" "''POST'' = ''GET'' \<longrightarrow> body = []" "([] :: (string \<times> string) list) \<noteq> [] \<longrightarrow> ''POST'' = ''GET''"
    by simp_all
  note loc = located_rendered [OF meth(1,3) hs body(1-4) meth(2) body(5) x(1) refl]
  obtain sc p post h where sc: "header_loop (length x) 0 (start_scan (x @ NUL # ?zs) x) = Ok sc" "sc_i sc + 2 \<le> length x" "sc_rq sc = ?rq"
    and l: "locate_query ?cl (length x) sc = Some (Ok (p @ body @ NUL # post, length p, (sc_rq sc)\<lparr>lira_rq.rq_header := h\<rparr>))"
    using loc(3) [of ?zs "Some x"] by auto
  obtain h' where l': "relay_locate ?cl (length x) sc = Some (Ok (p @ body @ NUL # post, length p, ?rq\<lparr>lira_rq.rq_header := h'\<rparr>))"
    using relay_locate_like [OF l sc(2)] unfolding sc(3) by blast
  have rq: "lira_rq.rq_path ?rq = ''/log_file'' @ [NUL]" "lira_rq.rq_method ?rq = POST"
    by (simp_all add: fold_rq line_rq_def method_of_def)
  then have log: "is_log_file (?rq\<lparr>lira_rq.rq_header := h'\<rparr>)" by (simp add: is_log_file_def c_str_def NUL_def)
  have "relay_decod_request ?cl = Ok (Some (relay_request (?rq\<lparr>lira_rq.rq_header := h'\<rparr>) body))"
    using relay_decod_from [OF _ loc(1,2) x(2) sc(1) l' body(4)] log by simp
  then show ?thesis using rq by (simp add: relay_request_simps)
qed

end
