(* ===== verification/ChaCha.thy ===== *)
theory ChaCha
  imports Prelude
begin

text \<open>
  The byte stream of the MachineTime server's cipher: class \<open>MyRand\<close> of
  \<open>esp8266_decoder/source/MyCrypter.h\<close> with \<open>USE_CHACHA20\<close>, a ChaCha block
  function over 16 words of 32 bits. The keys come from the configuration
  (\<open>g_setup.get\<close>), an argument of the model. The quarter round, and with it the whole
  round function, is shown to be a permutation.
\<close>

section \<open>Quarter rounds\<close>

definition rol32 :: "nat \<Rightarrow> u32 \<Rightarrow> u32" where
  "rol32 n x = push_bit n x OR drop_bit (32 - n) x"

fun quarter :: "u32 \<times> u32 \<times> u32 \<times> u32 \<Rightarrow> u32 \<times> u32 \<times> u32 \<times> u32" where
  "quarter (a, b, c, d) =
     (let a = a + b; d = d XOR a; d = rol32 16 d;
          c = c + d; b = b XOR c; b = rol32 12 b;
          a = a + b; d = d XOR a; d = rol32 8 d;
          c = c + d; b = b XOR c; b = rol32 7 b
      in (a, b, c, d))"

definition chacha_qr :: "nat \<Rightarrow> nat \<Rightarrow> nat \<Rightarrow> nat \<Rightarrow> u32 list \<Rightarrow> u32 list" where
  "chacha_qr i j k l x =
     (let (a, b, c, d) = quarter (x ! i, x ! j, x ! k, x ! l)
      in x[i := a, j := b, k := c, l := d])"

definition double_round :: "u32 list \<Rightarrow> u32 list" where
  "double_round x =
     (let x = chacha_qr 0 4 8 12 x; x = chacha_qr 1 5 9 13 x;
          x = chacha_qr 2 6 10 14 x; x = chacha_qr 3 7 11 15 x;
          x = chacha_qr 0 5 10 15 x; x = chacha_qr 1 6 11 12 x;
          x = chacha_qr 2 7 8 13 x; x = chacha_qr 3 4 9 14 x
      in x)"

section \<open>The generator\<close>

record my_rand =
  cr_state :: "u32 list"
  cr_buf :: "byte list"
  cr_pos :: nat

definition word_bytes :: "u32 \<Rightarrow> byte list" where
  "word_bytes v = [ucast (v AND 0xff), ucast (drop_bit 8 v AND 0xff),
     ucast (drop_bit 16 v AND 0xff), ucast (drop_bit 24 v AND 0xff)]"

definition nullRand :: "(string \<Rightarrow> string) \<Rightarrow> my_rand \<Rightarrow> my_rand" where
  "nullRand cfg r =
     (let k = map (\<lambda>n. word_of_int (atoi (c_str (cfg n))) :: u32)
                [''myRandKey1'', ''myRandKey2'', ''myRandKey3'', ''myRandKey4'']
      in r\<lparr>cr_state := [0x61707865, 0x3320646e, 0x79622d32, 0x6b206574] @ k @ k @ [0, 0, 0, 0],
           cr_pos := 64\<rparr>)"

definition gen_block :: "my_rand \<Rightarrow> my_rand" where
  "gen_block r =
     (let x = (double_round ^^ 10) (cr_state r)
      in r\<lparr>cr_buf := concat (map2 (\<lambda>a b. word_bytes (a + b)) x (cr_state r)),
           cr_state := (cr_state r)[12 := cr_state r ! 12 + 1], cr_pos := 0\<rparr>)"

definition next_byte :: "my_rand \<Rightarrow> byte \<times> my_rand" where
  "next_byte r = (let r = (if cr_pos r \<ge> 64 then gen_block r else r)
                  in (cr_buf r ! cr_pos r, r\<lparr>cr_pos := cr_pos r + 1\<rparr>))"

definition burn4 :: "my_rand \<Rightarrow> my_rand" where
  "burn4 r = snd (next_byte (snd (next_byte (snd (next_byte (snd (next_byte r)))))))"

definition bytes_word :: "byte list \<Rightarrow> u32" where
  "bytes_word bs = ucast (bs ! 0) OR push_bit 8 (ucast (bs ! 1)) OR
     push_bit 16 (ucast (bs ! 2)) OR push_bit 24 (ucast (bs ! 3))"

fun mix_words :: "nat \<Rightarrow> nat \<Rightarrow> byte list \<Rightarrow> u32 list \<Rightarrow> u32 list" where
  "mix_words i 0 zerno st = st"
| "mix_words i (Suc n) zerno st =
     mix_words (i + 1) n zerno
       (st[4 + i mod 8 := st ! (4 + i mod 8) XOR bytes_word (take 4 (drop (i * 4) zerno))])"

definition seed_rand :: "(string \<Rightarrow> string) \<Rightarrow> byte list \<Rightarrow> my_rand \<Rightarrow> my_rand" where
  "seed_rand cfg zerno r =
     (let r = nullRand cfg r;
          st = mix_words 0 (length zerno div 4) zerno (cr_state r)
      in burn4 (r\<lparr>cr_state := st[12 := 0], cr_pos := 64\<rparr>))"

definition korr :: "byte \<Rightarrow> my_rand \<Rightarrow> my_rand" where
  "korr ks r =
     burn4 (r\<lparr>cr_state := (cr_state r)[13 := cr_state r ! 13 XOR ucast ks], cr_pos := 64\<rparr>)"

definition new_rand :: "(string \<Rightarrow> string) \<Rightarrow> byte list \<Rightarrow> my_rand" where
  "new_rand cfg junk = nullRand cfg \<lparr>cr_state = replicate 16 0, cr_buf = junk, cr_pos = 0\<rparr>"

section \<open>Shape of the state\<close>

definition rand_wf :: "my_rand \<Rightarrow> bool" where
  "rand_wf r \<longleftrightarrow> length (cr_state r) = 16 \<and> cr_pos r \<le> 64 \<and> (cr_pos r < 64 \<longrightarrow> length (cr_buf r) = 64)"

lemma length_word_bytes [simp]: "length (word_bytes v) = 4"
  by (simp add: word_bytes_def)

lemma length_chacha_qr [simp]: "length (chacha_qr i j k l x) = length x"
  by (simp add: chacha_qr_def case_prod_unfold Let_def)

lemma length_double_round [simp]: "length (double_round x) = length x"
  by (simp add: double_round_def Let_def)

lemma length_rounds [simp]: "length ((double_round ^^ n) x) = length x"
  by (induction n) simp_all

lemma length_map2_bytes: "length (concat (map2 (\<lambda>a b. word_bytes (f a b)) xs ys)) = 4 * min (length xs) (length ys)"
  by (induction xs ys rule: list_induct2') simp_all

lemma gen_block_wf:
  "length (cr_state r) = 16 \<Longrightarrow>
     length (cr_buf (gen_block r)) = 64 \<and> length (cr_state (gen_block r)) = 16 \<and> cr_pos (gen_block r) = 0"
  by (simp add: gen_block_def Let_def length_map2_bytes)

lemma next_byte_wf: "rand_wf r \<Longrightarrow> rand_wf (snd (next_byte r))"
  using gen_block_wf [of r] by (auto simp: next_byte_def rand_wf_def Let_def)

lemma burn4_wf: "rand_wf r \<Longrightarrow> rand_wf (burn4 r)"
  by (simp add: burn4_def next_byte_wf)

lemma length_mix_words [simp]: "length (mix_words i n z st) = length st"
  by (induction n arbitrary: i st) simp_all

lemma seed_rand_wf: "rand_wf (seed_rand cfg z r)"
  unfolding seed_rand_def Let_def by (rule burn4_wf) (simp add: rand_wf_def nullRand_def)

lemma korr_wf: "rand_wf r \<Longrightarrow> rand_wf (korr ks r)"
  unfolding korr_def by (rule burn4_wf) (simp add: rand_wf_def)

lemma new_rand_wf: "rand_wf (new_rand cfg junk)"
  by (simp add: new_rand_def nullRand_def rand_wf_def)

text \<open>Seeding forgets everything but the keys: the buffer that is left over is never read.\<close>

lemma next_byte_fresh:
  "cr_state r = cr_state r' \<Longrightarrow> cr_pos r = 64 \<Longrightarrow> cr_pos r' = 64 \<Longrightarrow> next_byte r = next_byte r'"
  by (cases r; cases r') (simp add: next_byte_def gen_block_def Let_def)

lemma burn4_fresh:
  "cr_state r = cr_state r' \<Longrightarrow> cr_pos r = 64 \<Longrightarrow> cr_pos r' = 64 \<Longrightarrow> burn4 r = burn4 r'"
  unfolding burn4_def by (simp add: next_byte_fresh [of r r'])

lemma seed_rand_forgets: "seed_rand cfg z r = seed_rand cfg z r'"
  unfolding seed_rand_def Let_def by (rule burn4_fresh) (simp_all add: nullRand_def)

lemma korr_fresh: "cr_state r = cr_state r' \<Longrightarrow> korr ks r = korr ks r'"
  unfolding korr_def by (rule burn4_fresh) simp_all

section \<open>The round function is a permutation\<close>

definition ror32 :: "nat \<Rightarrow> u32 \<Rightarrow> u32" where
  "ror32 n x = drop_bit n x OR push_bit (32 - n) x"

lemma ror32_rol32: "0 < n \<Longrightarrow> n < 32 \<Longrightarrow> ror32 n (rol32 n x) = x"
proof (rule bit_word_eqI)
  fix m :: nat
  assume n: "0 < n" "n < 32" and "m < LENGTH(32)"
  then have m: "m < 32" by simp
  show "bit (ror32 n (rol32 n x)) m = bit x m"
  proof (cases "m + n < 32")
    case True
    with n m show ?thesis by (auto simp: ror32_def rol32_def bit_simps)
  next
    case False
    then have "32 + (m + n - 32) - n = m" by simp
    with n m False show ?thesis by (auto simp: ror32_def rol32_def bit_simps)
  qed
qed

fun unquarter :: "u32 \<times> u32 \<times> u32 \<times> u32 \<Rightarrow> u32 \<times> u32 \<times> u32 \<times> u32" where
  "unquarter (a, b, c, d) =
     (let b = ror32 7 b; b = b XOR c; c = c - d; d = ror32 8 d; d = d XOR a; a = a - b;
          b = ror32 12 b; b = b XOR c; c = c - d; d = ror32 16 d; d = d XOR a; a = a - b
      in (a, b, c, d))"

lemma unquarter_quarter: "unquarter (quarter q) = q"
  by (cases q) (simp add: Let_def ror32_rol32 xor.assoc)

lemmas quarter_unfold = quarter.simps

declare quarter.simps [simp del] unquarter.simps [simp del]

lemma inj_quarter: "inj quarter"
  by (rule inj_on_inverseI [of _ unquarter]) (rule unquarter_quarter)

text \<open>The example of RFC 7539, section 2.1.1.\<close>

lemma quarter_rfc7539:
  "quarter (0x11111111, 0x01020304, 0x9b8d6f43, 0x01234567) =
     (0xea2a92f4, 0xcb1cf8ce, 0x4581472e, 0x5881c4bb)"
  by (simp add: quarter_unfold rol32_def Let_def)

definition chacha_unqr :: "nat \<Rightarrow> nat \<Rightarrow> nat \<Rightarrow> nat \<Rightarrow> u32 list \<Rightarrow> u32 list" where
  "chacha_unqr i j k l x =
     (let (a, b, c, d) = unquarter (x ! i, x ! j, x ! k, x ! l)
      in x[i := a, j := b, k := c, l := d])"

lemma chacha_unqr_qr:
  assumes "distinct [i, j, k, l]" "i < length x" "j < length x" "k < length x" "l < length x"
  shows "chacha_unqr i j k l (chacha_qr i j k l x) = x"
proof -
  obtain a b c d where q: "quarter (x ! i, x ! j, x ! k, x ! l) = (a, b, c, d)"
    by (metis prod_cases4)
  then have u: "unquarter (a, b, c, d) = (x ! i, x ! j, x ! k, x ! l)"
    by (metis unquarter_quarter)
  have "chacha_unqr i j k l (x[i := a, j := b, k := c, l := d]) =
      (x[i := a, j := b, k := c, l := d])[i := x ! i, j := x ! j, k := x ! k, l := x ! l]"
    using assms u by (simp add: chacha_unqr_def nth_list_update)
  also have "\<dots> = x"
    using assms by (intro nth_equalityI) (auto simp: nth_list_update)
  finally show ?thesis by (simp add: chacha_qr_def q)
qed

lemma chacha_qr_inj:
  assumes "distinct [i, j, k, l]" "list_all (\<lambda>n. n < 16) [i, j, k, l]"
    "length x = 16" "length y = 16"
  shows "(chacha_qr i j k l x = chacha_qr i j k l y) = (x = y)"
proof -
  have b: "i < 16" "j < 16" "k < 16" "l < 16" using assms(2) by simp_all
  have "chacha_unqr i j k l (chacha_qr i j k l x) = x"
    by (rule chacha_unqr_qr [OF assms(1)]) (simp_all only: assms(3) b)
  moreover have "chacha_unqr i j k l (chacha_qr i j k l y) = y"
    by (rule chacha_unqr_qr [OF assms(1)]) (simp_all only: assms(4) b)
  ultimately show ?thesis by metis
qed

lemma double_round_inj:
  "length x = 16 \<Longrightarrow> length y = 16 \<Longrightarrow> (double_round x = double_round y) = (x = y)"
  by (simp add: double_round_def Let_def chacha_qr_inj)

lemma rounds_inj:
  "length x = 16 \<Longrightarrow> length y = 16 \<Longrightarrow>
     ((double_round ^^ n) x = (double_round ^^ n) y) = (x = y)"
  by (induction n) (simp_all add: double_round_inj)

end
