(* ===== verification/Crypter.thy ===== *)
theory Crypter
  imports ChaCha
begin

text \<open>
  The message cipher of the MachineTime server: class \<open>MyCripter\<close> of
  \<open>esp8266_decoder/source/MyCrypter.h\<close>. A message is masked with the generator's bytes,
  closed by the XOR of its bytes, and armoured in groups of four printable characters; the XOR is
  then mixed into the generator, so both ends must process the same messages in the same order.
  Lengths are \<open>short\<close> in the code and are truncated to 16 bits here where it truncates
  them.
\<close>

section \<open>The armour: four characters for three bytes\<close>

definition to_int16 :: "int \<Rightarrow> int" where
  "to_int16 i = (i + 2 ^ 15) mod 2 ^ 16 - 2 ^ 15"

definition b64_c1 :: "byte \<Rightarrow> byte" where
  "b64_c1 a = 0x40 OR drop_bit 2 (a AND 0xfc)"

definition b64_c2 :: "byte \<Rightarrow> byte \<Rightarrow> byte" where
  "b64_c2 a b = 0x40 OR push_bit 4 (a AND 0x03) OR drop_bit 4 (b AND 0xf0)"

definition b64_c3 :: "byte \<Rightarrow> byte \<Rightarrow> byte" where
  "b64_c3 b c = 0x40 OR push_bit 2 (b AND 0x0f) OR drop_bit 6 (c AND 0xc0)"

definition b64_c4 :: "byte \<Rightarrow> byte" where
  "b64_c4 c = 0x40 OR (c AND 0x3f)"

text \<open>
  The loop of \<open>toBase64\<close>, \<open>n\<close> blocks still allowed: the checksum byte closes the
  data and the loop breaks after it.
\<close>

fun b64_blocks :: "nat \<Rightarrow> byte list \<Rightarrow> byte \<Rightarrow> byte list" where
  "b64_blocks 0 d cs = []"
| "b64_blocks (Suc n) [] cs = [b64_c1 cs, b64_c2 cs 0, 0x40, 0x40]"
| "b64_blocks (Suc n) [a] cs = [b64_c1 a, b64_c2 a cs, b64_c3 cs 0, 0x40]"
| "b64_blocks (Suc n) [a, b] cs = [b64_c1 a, b64_c2 a b, b64_c3 b cs, b64_c4 cs]"
| "b64_blocks (Suc n) (a # b # c # d) cs =
     [b64_c1 a, b64_c2 a b, b64_c3 b c, b64_c4 c] @ b64_blocks n d cs"

definition byte_char :: "byte \<Rightarrow> char" where
  "byte_char w = char_of (unat w)"

definition toBase64 :: "byte list \<Rightarrow> byte \<Rightarrow> string" where
  "toBase64 data cs =
     (if data = [] then []
      else let reshta = (length data + 1) mod 3;
               blocks = to_int16 (int ((length data + 1) div 3 + (if reshta = 0 then 0 else 1)))
           in map (\<lambda>w. if w = 0x5c then CHR '','' else byte_char w)
                (b64_blocks (nat blocks) data cs) @
              [byte_char (0x20 OR word_of_nat reshta)])"

fun b64_unpack :: "byte list \<Rightarrow> byte list" where
  "b64_unpack (p # q # r # s # rest) =
     [push_bit 2 (p AND 0x3f) OR drop_bit 4 (q AND 0x30),
      push_bit 4 (q AND 0x0f) OR drop_bit 2 (r AND 0x3c),
      push_bit 6 (r AND 0x03) OR (s AND 0x3f)] @ b64_unpack rest"
| "b64_unpack _ = []"

text \<open>The first half of \<open>decodBuf\<close>: the masked bytes and the received checksum.\<close>

definition unBase64 :: "string \<Rightarrow> (byte list \<times> byte) option" where
  "unBase64 request =
     (let jj = to_int16 (int (length request))
      in if jj < 5 then None
         else
           let requbuf = map (\<lambda>c. if of_char c = (0x2c :: byte) then 0x5c else of_char c)
                 (take (nat jj) request);
               reshta = unat (last requbuf AND 0x03)
           in if (jj - 1) mod 4 \<noteq> 0 then None
              else
                let blocks = nat ((jj - 1) div 4);
                    n = (if reshta = 0 then blocks * 3 else (blocks - 1) * 3 + reshta) - 1;
                    bs = b64_unpack (butlast requbuf)
                in Some (take n bs, bs ! n))"

section \<open>Masking\<close>

fun mask_bytes :: "byte list \<Rightarrow> byte \<Rightarrow> my_rand \<Rightarrow> byte list \<times> byte \<times> my_rand" where
  "mask_bytes [] cs r = ([], cs, r)"
| "mask_bytes (d # ds) cs r =
     (let (k, r) = next_byte r;
          (out, cs', r) = mask_bytes ds (cs XOR d) r
      in ((d XOR k) # out, cs', r))"

fun unmask_bytes :: "byte list \<Rightarrow> byte \<Rightarrow> my_rand \<Rightarrow> byte list \<times> byte \<times> my_rand" where
  "unmask_bytes [] ks r = ([], ks, r)"
| "unmask_bytes (e # es) ks r =
     (let (k, r) = next_byte r;
          d = e XOR k;
          (out, ks', r) = unmask_bytes es (ks XOR d) r
      in (d # out, ks', r))"

definition codBuf :: "byte list \<Rightarrow> my_rand \<Rightarrow> string \<times> my_rand" where
  "codBuf data r =
     (if data = [] then ([], r)
      else let (data2, cs, r) = mask_bytes data 0 r
           in (toBase64 data2 cs, korr cs r))"

definition decodBuf :: "string \<Rightarrow> my_rand \<Rightarrow> byte list \<times> my_rand" where
  "decodBuf request r =
     (case unBase64 request of
        None \<Rightarrow> ([], r)
      | Some (es, c) \<Rightarrow>
          let (ds, ks, r) = unmask_bytes es 0 r
          in if ks \<noteq> c then ([], r) else (ds, korr ks r))"

section \<open>The class MyCripter\<close>

record my_cripter =
  mc_rand :: my_rand
  mc_connected :: bool
  mc_staticKey :: string

definition new_cripter :: "(string \<Rightarrow> string) \<Rightarrow> byte list \<Rightarrow> my_cripter" where
  "new_cripter cfg junk = \<lparr>mc_rand = new_rand cfg junk, mc_connected = False,
     mc_staticKey = cfg ''myStaticKeyRequest''\<rparr>"

definition text_bytes :: "string \<Rightarrow> byte list" where
  "text_bytes s = map of_char s"

definition encrypt :: "byte list \<Rightarrow> my_cripter \<Rightarrow> string \<times> my_cripter" where
  "encrypt data m = (let (t, r) = codBuf data (mc_rand m) in (t, m\<lparr>mc_rand := r\<rparr>))"

definition decrypt :: "(string \<Rightarrow> string) \<Rightarrow> string \<Rightarrow> my_cripter \<Rightarrow> byte list \<times> my_cripter" where
  "decrypt cfg request m =
     (let r0 = (if \<not> mc_connected m then seed_rand cfg (text_bytes (mc_staticKey m)) (mc_rand m)
                else mc_rand m);
          (result, r) = decodBuf request r0
      in if result \<noteq> [] then
           (if \<not> mc_connected m
            then (result, m\<lparr>mc_connected := True, mc_rand := seed_rand cfg result r\<rparr>)
            else (result, m\<lparr>mc_rand := r\<rparr>))
         else ([], m\<lparr>mc_connected := False, mc_rand := r\<rparr>))"

end
