(* ===== verification/CrypterProps.thy ===== *)
theory CrypterProps
  imports Crypter
begin

text \<open>
  What the cipher promises: the armour is lossless up to the 16-bit lengths, a receiver in the
  sender's state recovers every message of a conversation and stays in that state, a handshake
  brings any two ends into step, and one corrupted byte is always noticed.
\<close>

section \<open>Bytes and characters\<close>

lemma byte_bits: "n < LENGTH(8) \<Longrightarrow> n = 0 \<or> n = 1 \<or> n = 2 \<or> n = 3 \<or> n = 4 \<or> n = 5 \<or> n = 6 \<or> n = 7"
  by (simp, arith)

lemma b64_unpack_block:
  "push_bit 2 (b64_c1 a AND 0x3f) OR drop_bit 4 (b64_c2 a b AND 0x30) = a"
  "push_bit 4 (b64_c2 a b AND 0x0f) OR drop_bit 2 (b64_c3 b c AND 0x3c) = b"
  "push_bit 6 (b64_c3 b c AND 0x03) OR (b64_c4 c AND 0x3f) = c"
  by (rule bit_word_eqI; drule byte_bits; elim disjE;
      simp add: b64_c1_def b64_c2_def b64_c3_def b64_c4_def bit_simps)+

lemma b64_pad: "b64_c3 0 0 = 0x40" "b64_c4 0 = 0x40"
  by (simp_all add: b64_c3_def b64_c4_def)

lemma b64_bit6: "w \<in> set (b64_blocks n d cs) \<Longrightarrow> bit w 6"
  by (induction n d cs rule: b64_blocks.induct)
    (auto simp: b64_c1_def b64_c2_def b64_c3_def b64_c4_def bit_simps)

lemma b64_bit7: "w \<in> set (b64_blocks n d cs) \<Longrightarrow> \<not> bit w 7"
  by (induction n d cs rule: b64_blocks.induct)
    (auto simp: b64_c1_def b64_c2_def b64_c3_def b64_c4_def bit_simps)

lemma of_char_byte_char [simp]: "of_char (byte_char w) = w"
proof -
  have "unat w < 2 ^ LENGTH(8)" by (rule unsigned_less)
  then have "unat w < 256" by simp
  then have "of_char (byte_char w) = (word_of_nat (unat w) :: byte)"
    by (metis byte_char_def mod_less of_char_of of_nat_of_char)
  then show ?thesis by simp
qed

section \<open>The armour is lossless\<close>

definition n_blocks :: "nat \<Rightarrow> nat" where
  "n_blocks n = n div 3 + 1"

lemma n_blocks_code: "(n + 1) div 3 + (if (n + 1) mod 3 = 0 then 0 else 1) = n_blocks n"
  unfolding n_blocks_def by (cases "(n + 1) mod 3 = 0") (simp, presburger)+

lemma unpack_block:
  "b64_unpack ([b64_c1 a, b64_c2 a b, b64_c3 b c, b64_c4 c] @ rest) = [a, b, c] @ b64_unpack rest"
  by (simp only: append.simps b64_unpack.simps b64_unpack_block)

lemma b64_pack_unpack:
  "b64_unpack (b64_blocks (n_blocks (length d)) d cs) = d @ cs # replicate (2 - length d mod 3) 0 \<and>
   length (b64_blocks (n_blocks (length d)) d cs) = 4 * n_blocks (length d)"
proof (induction "length d" arbitrary: d rule: less_induct)
  case less
  consider "d = []" | a where "d = [a]" | a b where "d = [a, b]"
    | a b c e where "d = a # b # c # e"
    by (cases d; cases "tl d"; cases "tl (tl d)") auto
  then show ?case
  proof cases
    case 1
    then show ?thesis
      using unpack_block [of cs 0 0 "[]"] by (simp add: n_blocks_def b64_pad numeral_2_eq_2 del: b64_unpack.simps(1))
  next
    case (2 a)
    then show ?thesis
      using unpack_block [of a cs 0 "[]"] by (simp add: n_blocks_def b64_pad del: b64_unpack.simps(1))
  next
    case (3 a b)
    then show ?thesis
      using unpack_block [of a b cs "[]"] by (simp add: n_blocks_def del: b64_unpack.simps(1))
  next
    case (4 a b c e)
    have n: "n_blocks (length d) = Suc (n_blocks (length e))" by (simp add: 4 n_blocks_def)
    have m: "length d mod 3 = length e mod 3" using 4 by simp
    have ih: "b64_unpack (b64_blocks (n_blocks (length e)) e cs) =
        e @ cs # replicate (2 - length e mod 3) 0 \<and>
      length (b64_blocks (n_blocks (length e)) e cs) = 4 * n_blocks (length e)"
      by (rule less.hyps) (simp add: 4)
    have "b64_blocks (n_blocks (length d)) d cs =
        [b64_c1 a, b64_c2 a b, b64_c3 b c, b64_c4 c] @ b64_blocks (n_blocks (length e)) e cs"
      by (simp only: n) (simp add: 4)
    then show ?thesis
      using ih by (simp only: unpack_block m n length_append) (simp add: 4)
  qed
qed

text \<open>The interface of an armour: what masking relies on.\<close>

locale armour =
  fixes wrap :: "byte list \<Rightarrow> byte \<Rightarrow> string"
    and unwrap :: "string \<Rightarrow> (byte list \<times> byte) option"
    and limit :: nat
  assumes unwrap_wrap: "ds \<noteq> [] \<Longrightarrow> length ds \<le> limit \<Longrightarrow> unwrap (wrap ds c) = Some (ds, c)"
    and wrap_printable: "ch \<in> set (wrap ds c) \<Longrightarrow> 32 \<le> ord ch \<and> ord ch \<le> 127"

lemma mask_unmask:
  "mask_bytes ds cs r = (es, c, r') \<Longrightarrow> unmask_bytes es cs r = (ds, c, r') \<and> length es = length ds"
proof (induction ds arbitrary: cs r es)
  case (Cons d ds)
  obtain k r1 where k: "next_byte r = (k, r1)" by force
  obtain es' where e: "es = (d XOR k) # es'" "mask_bytes ds (cs XOR d) r1 = (es', c, r')"
    using Cons.prems k by (cases "mask_bytes ds (cs XOR d) r1") (auto simp: Let_def)
  have "(d XOR k) XOR k = d" by (simp add: xor.assoc)
  with Cons.IH [OF e(2)] k e(1) show ?case by (simp add: Let_def)
qed simp

context armour
begin

lemma open_sealed:
  assumes "ds \<noteq> []" "length ds \<le> limit" "mask_bytes ds 0 r = (es, c, r')"
  shows "unwrap (wrap es c) = Some (es, c) \<and> unmask_bytes es 0 r = (ds, c, r')"
proof -
  have "unmask_bytes es 0 r = (ds, c, r')" "length es = length ds"
    using mask_unmask [OF assms(3)] by blast+
  moreover have "es \<noteq> []" using \<open>length es = length ds\<close> assms(1) by auto
  ultimately show ?thesis using unwrap_wrap [of es c] assms(2) by simp
qed

end

lemma esc_inverse:
  "bit w 6 \<Longrightarrow>
     (if of_char (if w = 0x5c then CHR '','' else byte_char w) = (0x2c :: byte) then 0x5c
      else of_char (if w = 0x5c then CHR '','' else byte_char w)) = w"
  by (auto split: if_splits)

lemma closing_char:
  "r < 3 \<Longrightarrow> of_char (byte_char (0x20 OR word_of_nat r)) \<noteq> (0x2c :: byte) \<and>
     unat ((0x20 OR word_of_nat r :: byte) AND 0x03) = r"
proof -
  assume "r < 3"
  then have "r = 0 \<or> r = 1 \<or> r = 2" by linarith
  then show ?thesis by (elim disjE) simp_all
qed

lemma data_length:
  "(if (n + 1) mod 3 = 0 then n_blocks n * 3 else (n_blocks n - 1) * 3 + (n + 1) mod 3) - 1 = n"
proof -
  have "n = 3 * (n div 3) + n mod 3" by simp
  moreover have "n mod 3 = 0 \<or> n mod 3 = 1 \<or> n mod 3 = 2" by linarith
  ultimately have "n = 3 * (n div 3) \<or> n = 3 * (n div 3) + 1 \<or> n = 3 * (n div 3) + 2" by linarith
  then obtain q where "n = 3 * q \<or> n = 3 * q + 1 \<or> n = 3 * q + 2" by blast
  then show ?thesis by (elim disjE) (simp_all add: n_blocks_def mod_Suc div_Suc)
qed

lemma unBase64_toBase64:
  assumes "ds \<noteq> []" "length ds \<le> 24572"
  shows "unBase64 (toBase64 ds c) = Some (ds, c)"
proof -
  let ?n = "n_blocks (length ds)"
  let ?b = "b64_blocks ?n ds c"
  let ?r = "(length ds + 1) mod 3"
  let ?esc = "\<lambda>w. if w = 0x5c then CHR '','' else byte_char w"
  let ?un = "\<lambda>ch. if of_char ch = (0x2c :: byte) then 0x5c else (of_char ch :: byte)"
  have n: "?n \<le> 8191" "0 < ?n" using assms(2) by (simp_all add: n_blocks_def)
  have blk: "nat (to_int16 (int ?n)) = ?n" using n by (simp add: to_int16_def)
  have t: "toBase64 ds c = map ?esc ?b @ [byte_char (0x20 OR word_of_nat ?r)]"
    using assms(1) unfolding toBase64_def Let_def n_blocks_code blk by simp
  have bl: "length ?b = 4 * ?n" and up: "b64_unpack ?b = ds @ c # replicate (2 - length ds mod 3) 0"
    using b64_pack_unpack [of ds c] by blast+
  have "map ?un (map ?esc ?b) = ?b"
    unfolding map_map comp_def by (rule map_idI) (rule esc_inverse, rule b64_bit6)
  then have q: "map ?un (toBase64 ds c) = ?b @ [0x20 OR word_of_nat ?r]"
    using closing_char [of ?r] by (simp only: t map_append list.map) simp
  have r: "unat ((0x20 OR word_of_nat ?r :: byte) AND 0x03) = ?r"
    using closing_char [of ?r] by simp
  have len: "length (toBase64 ds c) = 4 * ?n + 1" by (simp only: t) (simp add: bl)
  have jj: "to_int16 (int (length (toBase64 ds c))) = 4 * int ?n + 1"
    using n by (simp add: len to_int16_def)
  have nb: "nat ((4 * int ?n + 1 - 1) div 4) = ?n" by simp
  have tk: "take (nat (4 * int ?n + 1)) (toBase64 ds c) = toBase64 ds c"
    using len by simp
  show ?thesis
    unfolding unBase64_def Let_def jj tk q last_snoc butlast_snoc r nb data_length up using n by simp
qed

lemma ord_byte_char: "ord (byte_char w) = unat w"
proof -
  have "unat w < 2 ^ LENGTH(8)" by (rule unsigned_less)
  then show ?thesis by (simp add: byte_char_def)
qed

lemma unat_bit6: "bit (w :: byte) 6 \<Longrightarrow> 64 \<le> unat w"
proof -
  assume "bit w 6"
  then have "w AND 0x40 = 0x40"
    by - (rule bit_word_eqI; drule byte_bits; elim disjE; simp add: bit_simps)
  then have "0x40 \<le> w" by (metis word_and_le2)
  then show ?thesis by (simp add: word_le_nat_alt)
qed

lemma unat_bit7: "\<not> bit (w :: byte) 7 \<Longrightarrow> unat w \<le> 127"
proof -
  assume "\<not> bit w 7"
  then have "w AND 0x7f = w"
    by - (rule bit_word_eqI; drule byte_bits; elim disjE; simp add: bit_simps)
  then have "w \<le> 0x7f" by (metis word_and_le1)
  then show ?thesis by (simp add: word_le_nat_alt)
qed

lemma toBase64_printable:
  assumes "ch \<in> set (toBase64 ds c)"
  shows "32 \<le> ord ch \<and> ord ch \<le> 127"
proof -
  let ?r = "(length ds + 1) mod 3"
  have "?r = 0 \<or> ?r = 1 \<or> ?r = 2" by linarith
  then have last: "32 \<le> ord (byte_char (0x20 OR word_of_nat ?r)) \<and>
      ord (byte_char (0x20 OR word_of_nat ?r)) \<le> 127"
    unfolding ord_byte_char by (elim disjE) simp_all
  consider w n where "w \<in> set (b64_blocks n ds c)" "ch = CHR '','' \<or> ch = byte_char w"
    | "ch = byte_char (0x20 OR word_of_nat ?r)"
    using assms by (auto simp: toBase64_def Let_def split: if_splits)
  then show ?thesis
  proof cases
    case (1 w n)
    then show ?thesis
      using unat_bit6 [OF b64_bit6] unat_bit7 [OF b64_bit7] by (fastforce simp: ord_byte_char)
  qed (simp only: last)
qed

interpretation b64: armour toBase64 unBase64 24572
  by unfold_locales (simp_all add: unBase64_toBase64 toBase64_printable)

section \<open>Conversations\<close>

fun send_all :: "('m \<Rightarrow> 's \<Rightarrow> 't \<times> 's) \<Rightarrow> 'm list \<Rightarrow> 's \<Rightarrow> 't list \<times> 's" where
  "send_all send [] s = ([], s)"
| "send_all send (m # ms) s =
     (let (t, s) = send m s; (ts, s) = send_all send ms s in (t # ts, s))"

fun recv_all :: "('t \<Rightarrow> 's \<Rightarrow> 'm \<times> 's) \<Rightarrow> 't list \<Rightarrow> 's \<Rightarrow> 'm list \<times> 's" where
  "recv_all recv [] s = ([], s)"
| "recv_all recv (t # ts) s =
     (let (m, s) = recv t s; (ms, s) = recv_all recv ts s in (m # ms, s))"

text \<open>The interface of a stateful channel: a receiver in the sender's state follows it.\<close>

locale channel =
  fixes send :: "'m \<Rightarrow> 's \<Rightarrow> 't \<times> 's"
    and recv :: "'t \<Rightarrow> 's \<Rightarrow> 'm \<times> 's"
    and good :: "'m \<Rightarrow> bool"
  assumes recv_send: "good m \<Longrightarrow> recv (fst (send m s)) s = (m, snd (send m s))"
begin

lemma conversation:
  "list_all good ms \<Longrightarrow>
     recv_all recv (fst (send_all send ms s)) s = (ms, snd (send_all send ms s))"
proof (induction ms arbitrary: s)
  case (Cons m ms)
  then show ?case
    using recv_send [of m s] by (simp add: case_prod_unfold Let_def)
qed simp

end

lemma decodBuf_codBuf:
  assumes "m \<noteq> []" "length m \<le> 24572"
  shows "decodBuf (fst (codBuf m r)) r = (m, snd (codBuf m r))"
proof -
  obtain es c r' where mk: "mask_bytes m 0 r = (es, c, r')" by (metis prod_cases3)
  from b64.open_sealed [OF assms mk] show ?thesis
    using assms(1) by (simp add: codBuf_def decodBuf_def mk)
qed

interpretation crypt: channel codBuf decodBuf "\<lambda>m. m \<noteq> [] \<and> length m \<le> 24572"
  by unfold_locales (simp add: decodBuf_codBuf)

text \<open>
  C4. Two ends that start with equal generators exchange any sequence of messages (not empty, at
  most 24572 bytes, the limit the 16-bit lengths set) without loss, and have equal generators
  after it.
\<close>

theorem conversation_roundtrip:
  assumes "list_all (\<lambda>m. m \<noteq> [] \<and> length m \<le> 24572) ms"
  shows "recv_all decodBuf (fst (send_all codBuf ms r)) r = (ms, snd (send_all codBuf ms r))"
  using assms by (rule crypt.conversation)

theorem conversation_roundtrip_witness:
  "recv_all decodBuf (fst (send_all codBuf [[1, 2], [3, 4, 5]] (new_rand (\<lambda>_. ''7'') []))) (new_rand (\<lambda>_. ''7'') []) =
     ([[1, 2], [3, 4, 5]], snd (send_all codBuf [[1, 2], [3, 4, 5]] (new_rand (\<lambda>_. ''7'') [])))"
  by (rule conversation_roundtrip) simp

text \<open>
  C27. A handshake brings the ends into step: a server that is not connected, whatever its
  generator and buffer are, and a device that knows the static key have the same generator after
  the device's greeting. A server that fails to decode a message is not connected any more and
  keeps the key, so the next handshake repairs every loss of step.
\<close>

theorem handshake_syncs:
  assumes "hello \<noteq> []" "length hello \<le> 24572"
    and "\<not> mc_connected m \<or> m = snd (decrypt cfg junk m0) \<and> fst (decrypt cfg junk m0) = []"
  shows "decrypt cfg (fst (codBuf hello (seed_rand cfg (text_bytes (mc_staticKey m)) dev))) m =
    (hello, m\<lparr>mc_connected := True, mc_rand := seed_rand cfg hello dev'\<rparr>)"
proof -
  have "\<not> mc_connected (snd (decrypt cfg junk m0))" if "fst (decrypt cfg junk m0) = []"
    using that by (auto simp: decrypt_def case_prod_unfold Let_def split: if_splits)
  with assms(3) have c: "\<not> mc_connected m" by auto
  have s: "seed_rand cfg (text_bytes (mc_staticKey m)) dev =
      seed_rand cfg (text_bytes (mc_staticKey m)) (mc_rand m)"
    by (rule seed_rand_forgets)
  show ?thesis
    using c assms(1) decodBuf_codBuf [OF assms(1,2)]
    by (simp add: decrypt_def s) (rule arg_cong [where f = "\<lambda>r. mc_rand_update (\<lambda>_. r) _"], rule seed_rand_forgets)
qed

theorem handshake_syncs_witness:
  "decrypt (\<lambda>_. ''7'') (fst (codBuf [9, 8, 7, 6] (seed_rand (\<lambda>_. ''7'') [0x37] (new_rand (\<lambda>_. ''7'') [1]))))
     (new_cripter (\<lambda>_. ''7'') []) =
   ([9, 8, 7, 6], (new_cripter (\<lambda>_. ''7'') [])\<lparr>mc_connected := True,
      mc_rand := seed_rand (\<lambda>_. ''7'') [9, 8, 7, 6] (new_rand (\<lambda>_. ''7'') [1])\<rparr>)"
proof -
  let ?m = "new_cripter (\<lambda>_. ''7'') []"
  have m: "\<not> mc_connected ?m \<or> ?m = snd (decrypt (\<lambda>_. ''7'') [] ?m) \<and> fst (decrypt (\<lambda>_. ''7'') [] ?m) = []"
    by (simp add: new_cripter_def)
  have k: "text_bytes (mc_staticKey ?m) = [0x37]" by (simp add: new_cripter_def text_bytes_def)
  have h: "[9, 8, 7, 6 :: byte] \<noteq> []" "length [9, 8, 7, 6 :: byte] \<le> 24572" by simp_all
  show ?thesis using handshake_syncs [OF h m] unfolding k by blast
qed

section \<open>Corrupted messages\<close>

lemma xor_same: "a XOR x = a \<longleftrightarrow> x = (0 :: byte)"
proof
  assume "a XOR x = a"
  then have "a XOR (a XOR x) = a XOR a" by simp
  then show "x = 0" by (simp add: xor.assoc [symmetric])
qed simp

lemma xor_zero: "a XOR b = 0 \<longleftrightarrow> a = (b :: byte)"
proof
  assume "a XOR b = 0"
  then have "a XOR (a XOR b) = a" by simp
  then show "a = b" by (simp add: xor.assoc [symmetric])
qed simp

lemma unmask_shift:
  "unmask_bytes es ks r = (ds, c, r') \<Longrightarrow> unmask_bytes es (ks XOR x) r = (ds, c XOR x, r')"
proof (induction es arbitrary: ks r ds)
  case (Cons e es)
  obtain k r1 where k: "next_byte r = (k, r1)" by force
  obtain ds' where d: "ds = (e XOR k) # ds'" "unmask_bytes es (ks XOR (e XOR k)) r1 = (ds', c, r')"
    using Cons.prems k
    by (cases "unmask_bytes es (ks XOR (e XOR k)) r1") (auto simp: Let_def)
  have "(ks XOR x) XOR (e XOR k) = (ks XOR (e XOR k)) XOR x" by (simp add: ac_simps)
  with Cons.IH [OF d(2)] k d(1) show ?case by (simp add: Let_def)
qed simp

lemma unmask_flip:
  "i < length es \<Longrightarrow> unmask_bytes es ks r = (ds, c, r') \<Longrightarrow>
     unmask_bytes (es[i := es ! i XOR x]) ks r = (ds[i := ds ! i XOR x], c XOR x, r')"
proof (induction es arbitrary: i ks r ds)
  case (Cons e es)
  obtain k r1 where k: "next_byte r = (k, r1)" by force
  obtain ds' where d: "ds = (e XOR k) # ds'" "unmask_bytes es (ks XOR (e XOR k)) r1 = (ds', c, r')"
    using Cons.prems k
    by (cases "unmask_bytes es (ks XOR (e XOR k)) r1") (auto simp: Let_def)
  show ?case
  proof (cases i)
    case 0
    have f: "(e XOR x) XOR k = (e XOR k) XOR x"
      "ks XOR ((e XOR k) XOR x) = (ks XOR (e XOR k)) XOR x" by (simp_all add: ac_simps)
    show ?thesis
      using unmask_shift [OF d(2), of x] by (simp add: 0 k d(1) f Let_def)
  next
    case (Suc j)
    then have "j < length es" using Cons.prems by simp
    from Cons.IH [OF this d(2)] show ?thesis by (simp add: Suc k d(1) Let_def)
  qed
qed simp

lemma decodBuf_unBase64:
  assumes "unBase64 t = Some (es, c)" "unmask_bytes es 0 r = (ds, ks, r')"
  shows "decodBuf t r = (if ks \<noteq> c then ([], r') else (ds, korr ks r'))"
  by (simp add: decodBuf_def assms)

text \<open>
  C28. A message in which one masked byte was corrupted is never decoded: the checksum notices
  every single wrong byte.
\<close>

theorem corrupted_byte_detected:
  assumes ok: "fst (decodBuf t r) \<noteq> []" "unBase64 t = Some (es, c)"
    and bad: "i < length es" "x \<noteq> es ! i" "unBase64 t' = Some (es[i := x], c)"
  shows "fst (decodBuf t' r) = []"
proof -
  obtain ds ks r' where u: "unmask_bytes es 0 r = (ds, ks, r')" by (metis prod_cases3)
  have ks: "ks = c" using ok by (auto simp: decodBuf_unBase64 [OF ok(2) u] split: if_splits)
  let ?d = "es ! i XOR x"
  have x: "es[i := es ! i XOR ?d] = es[i := x]" by (simp add: xor.assoc [symmetric])
  have "?d \<noteq> 0" using bad(2) by (simp add: xor_zero)
  then have "c XOR ?d \<noteq> c" by (simp add: xor_same)
  then show ?thesis
    using unmask_flip [OF bad(1) u, of ?d] ks
    by (simp add: decodBuf_unBase64 [OF bad(3)] x)
qed

text \<open>
  The checksum is no more than that: changing two bytes by the same bits is not noticed. The
  receiver decodes the changed message, with the same bits changed, and stays in step.
\<close>

theorem double_flip_accepted:
  assumes ok: "fst (decodBuf t r) \<noteq> []" "unBase64 t = Some (es, c)"
    and bad: "i < length es" "j < length es" "i \<noteq> j"
      "unBase64 t' = Some (es[i := es ! i XOR x, j := es ! j XOR x], c)"
  shows "decodBuf t' r =
    ((fst (decodBuf t r))[i := fst (decodBuf t r) ! i XOR x, j := fst (decodBuf t r) ! j XOR x],
     snd (decodBuf t r))"
proof -
  obtain ds ks r' where u: "unmask_bytes es 0 r = (ds, ks, r')" by (metis prod_cases3)
  have ks: "ks = c" using ok by (auto simp: decodBuf_unBase64 [OF ok(2) u] split: if_splits)
  let ?e = "es[i := es ! i XOR x]"
  have j: "?e ! j = es ! j" "ds[i := ds ! i XOR x] ! j = ds ! j" "j < length ?e" using bad by auto
  have "unmask_bytes (?e[j := ?e ! j XOR x]) 0 r =
      (ds[i := ds ! i XOR x, j := ds[i := ds ! i XOR x] ! j XOR x], (ks XOR x) XOR x, r')"
    by (rule unmask_flip [OF j(3) unmask_flip [OF bad(1) u]])
  then have "unmask_bytes (es[i := es ! i XOR x, j := es ! j XOR x]) 0 r =
      (ds[i := ds ! i XOR x, j := ds ! j XOR x], ks, r')"
    by (simp only: j(1,2)) (simp add: xor.assoc)
  then show ?thesis
    using ks by (simp add: decodBuf_unBase64 [OF bad(4)] decodBuf_unBase64 [OF ok(2) u])
qed

text \<open>A sealed message of two bytes, for the witnesses.\<close>

definition demo_rand :: my_rand where
  "demo_rand = new_rand (\<lambda>_. ''7'') []"

definition demo_sealed :: "byte list" where
  "demo_sealed = fst (mask_bytes [1, 2] 0 demo_rand)"

definition demo_sum :: byte where
  "demo_sum = fst (snd (mask_bytes [1, 2] 0 demo_rand))"

lemma demo_ok:
  "fst (decodBuf (toBase64 demo_sealed demo_sum) demo_rand) = [1, 2] \<and>
   unBase64 (toBase64 demo_sealed demo_sum) = Some (demo_sealed, demo_sum) \<and> length demo_sealed = 2"
proof -
  obtain es c r' where mk: "mask_bytes [1, 2] 0 demo_rand = (es, c, r')" by (metis prod_cases3)
  then have d: "demo_sealed = es" "demo_sum = c"
    by (simp_all only: demo_sealed_def demo_sum_def fst_conv snd_conv)
  have "unBase64 (toBase64 es c) = Some (es, c)" "unmask_bytes es 0 demo_rand = ([1, 2], c, r')"
    "length es = 2"
    using b64.open_sealed [OF _ _ mk] mask_unmask [OF mk] by simp_all
  then show ?thesis unfolding d by (simp add: decodBuf_def)
qed

lemma demo_tampered:
  "length es = 2 \<Longrightarrow> unBase64 (toBase64 es demo_sum) = Some (es, demo_sum)"
  by (rule unBase64_toBase64) auto

theorem corrupted_byte_detected_witness:
  "fst (decodBuf (toBase64 (demo_sealed[0 := demo_sealed ! 0 XOR 4]) demo_sum) demo_rand) = []"
proof (rule corrupted_byte_detected)
  show "fst (decodBuf (toBase64 demo_sealed demo_sum) demo_rand) \<noteq> []"
    "unBase64 (toBase64 demo_sealed demo_sum) = Some (demo_sealed, demo_sum)" "0 < length demo_sealed"
    using demo_ok by auto
  show "demo_sealed ! 0 XOR 4 \<noteq> demo_sealed ! 0"
    by (simp add: xor_same)
  show "unBase64 (toBase64 (demo_sealed[0 := demo_sealed ! 0 XOR 4]) demo_sum) =
      Some (demo_sealed[0 := demo_sealed ! 0 XOR 4], demo_sum)"
    using demo_ok by (intro demo_tampered) simp
qed

theorem double_flip_accepted_witness:
  "fst (decodBuf (toBase64 (demo_sealed[0 := demo_sealed ! 0 XOR 4, 1 := demo_sealed ! 1 XOR 4])
      demo_sum) demo_rand) = [5, 6]"
proof -
  let ?t = "toBase64 demo_sealed demo_sum"
  let ?t' = "toBase64 (demo_sealed[0 := demo_sealed ! 0 XOR 4, 1 := demo_sealed ! 1 XOR 4]) demo_sum"
  have d: "fst (decodBuf ?t demo_rand) = [1, 2]" and o: "unBase64 ?t = Some (demo_sealed, demo_sum)"
    and l: "length demo_sealed = 2" using demo_ok by auto
  have ne: "fst (decodBuf ?t demo_rand) \<noteq> []" using d by simp
  have il: "0 < length demo_sealed" "1 < length demo_sealed" "0 \<noteq> (1 :: nat)" using l by simp_all
  have o': "unBase64 ?t' =
      Some (demo_sealed[0 := demo_sealed ! 0 XOR 4, 1 := demo_sealed ! 1 XOR 4], demo_sum)"
    using l by (intro demo_tampered) simp
  show ?thesis using double_flip_accepted [OF ne o il o'] by (simp add: d)
qed

end
