(* ===== verification/Setup.thy ===== *)
theory Setup
  imports Prelude
begin

text \<open>
  The configuration of the MachineTime server: \<open>esp8266_decoder/source/setup.cpp\<close> and the
  start-up code of \<open>server.cpp\<close> that reads it. A configuration file is its bytes
  (\<open>None\<close> when it cannot be opened); the table is the vector of pairs \<open>m_items\<close>, in
  its order.
\<close>

section \<open>Lines\<close>

definition blank :: "char \<Rightarrow> bool" where
  "blank c \<longleftrightarrow> c = CHR '' '' \<or> c = CHR 0x09 \<or> c = CHR 0x0D \<or> c = CHR 0x0A"

definition trim :: "string \<Rightarrow> string" where
  "trim text = rev (dropWhile blank (rev (dropWhile blank text)))"

definition is_ignored_line :: "string \<Rightarrow> bool" where
  "is_ignored_line text = (case trim text of [] \<Rightarrow> True
     | c # _ \<Rightarrow> c = CHR ''['' \<or> c = CHR ''#'')"

text \<open>
  Without an equals sign, the key is the first word and the value the rest of the line
  (\<open>iss >> key\<close>, \<open>getline\<close>).
\<close>

definition split_line :: "string \<Rightarrow> string \<times> string" where
  "split_line text = (let trimmed = trim text in
     case find_char (CHR ''='') trimmed of
       Some eq \<Rightarrow> (trim (take eq trimmed), trim (drop (eq + 1) trimmed))
     | None \<Rightarrow> (let rest = dropWhile is_space trimmed;
                    rest' = dropWhile (\<lambda>c. \<not> is_space c) rest
                in (takeWhile (\<lambda>c. \<not> is_space c) rest,
                    trim (takeWhile (\<lambda>c. c \<noteq> CHR 0x0A) rest'))))"

text \<open>\<open>std::getline\<close> until the end of the stream: a last line without a newline counts.\<close>

fun get_lines :: "string \<Rightarrow> string \<Rightarrow> string list" where
  "get_lines acc [] = (if acc = [] then [] else [rev acc])"
| "get_lines acc (c # cs) =
     (if c = CHR 0x0A then rev acc # get_lines [] cs else get_lines (c # acc) cs)"

definition pop_cr :: "string \<Rightarrow> string" where
  "pop_cr line = (if line \<noteq> [] \<and> last line = CHR 0x0D then butlast line else line)"

section \<open>The table\<close>

type_synonym items = "(string \<times> string) list"

record setup_config =
  m_path :: string
  m_items :: items

definition items_get :: "string \<Rightarrow> items \<Rightarrow> string option" where
  "items_get key its = map_option snd (find (\<lambda>e. fst e = key) its)"

definition items_set :: "string \<Rightarrow> string \<Rightarrow> items \<Rightarrow> items" where
  "items_set key v its = (if find (\<lambda>e. fst e = key) its \<noteq> None
     then upd_first (\<lambda>e. fst e = key) (\<lambda>e. (fst e, v)) its else its @ [(key, v)])"

definition setup_get :: "setup_config \<Rightarrow> string \<Rightarrow> string" where
  "setup_get s key = (case items_get key (m_items s) of None \<Rightarrow> [] | Some v \<Rightarrow> v)"

text \<open>\<open>get(id, value, max_len)\<close>: the return value, and the value when it is written.\<close>

definition setup_get_buf :: "setup_config \<Rightarrow> string \<Rightarrow> int \<Rightarrow> int \<times> string option" where
  "setup_get_buf s key max_len = (case items_get key (m_items s) of
       None \<Rightarrow> (0, None)
     | Some v \<Rightarrow> if max_len = 0 then (int (length v) + 1, None)
         else if max_len \<le> int (length v) then (-2, None)
         else (int (length v) + 1, Some v))"

definition setup_getDefined :: "setup_config \<Rightarrow> string \<Rightarrow> int" where
  "setup_getDefined s key = (case items_get key (m_items s) of None \<Rightarrow> 0
     | Some v \<Rightarrow> int (length v) + 1)"

definition setup_set :: "string \<Rightarrow> string \<Rightarrow> setup_config \<Rightarrow> int \<times> setup_config" where
  "setup_set key v s = (if key = [] then (-1, s)
     else (1, s\<lparr>m_items := items_set key v (m_items s)\<rparr>))"

section \<open>Reading and writing the file\<close>

fun read_items :: "string list \<Rightarrow> items \<Rightarrow> nat \<Rightarrow> items \<times> nat" where
  "read_items [] its n = (its, n)"
| "read_items (l # ls) its n =
     (let line = pop_cr l in
      if is_ignored_line line then read_items ls its n
      else let (key, value) = split_line line
           in if key = [] then read_items ls its n
              else read_items ls (items_set key value its) (n + 1))"

definition setup_open :: "string \<Rightarrow> string option \<Rightarrow> setup_config \<Rightarrow> nat \<times> setup_config" where
  "setup_open path file s = (case file of
       None \<Rightarrow> (0, s\<lparr>m_path := path, m_items := []\<rparr>)
     | Some bytes \<Rightarrow> let (its, n) = read_items (get_lines [] bytes) [] 0
         in (n, s\<lparr>m_path := path, m_items := its\<rparr>))"

definition setup_close :: "setup_config \<Rightarrow> int \<times> setup_config" where
  "setup_close s = (0, s\<lparr>m_items := [], m_path := []\<rparr>)"

definition item_line :: "string \<times> string \<Rightarrow> string" where
  "item_line e = fst e @ ''='' @ snd e @ lf"

text \<open>\<open>save\<close>: the return value and the file, if it is written (\<open>ok\<close>: it can be opened).\<close>

definition setup_save :: "setup_config \<Rightarrow> bool \<Rightarrow> int \<times> string option" where
  "setup_save s ok = (if m_path s = [] \<or> \<not> ok then (0, None)
     else (1, Some (concat (map item_line (m_items s)))))"

definition setup_length :: "string option \<Rightarrow> nat" where
  "setup_length file = (case file of None \<Rightarrow> 0
     | Some bytes \<Rightarrow> length (filter (\<lambda>l. \<not> is_ignored_line (pop_cr l)) (get_lines [] bytes)))"

section \<open>Command line\<close>

definition config_flag :: "string \<Rightarrow> bool" where
  "config_flag a \<longleftrightarrow> a = ''-c'' \<or> a = ''--config''"

definition param_flag :: "string \<Rightarrow> bool" where
  "param_flag a \<longleftrightarrow> a = ''-p'' \<or> a = ''--param''"

text \<open>\<open>parse_arguments\<close>, without the program name: \<open>None\<close> when it returns false.\<close>

fun parse_args :: "string list \<Rightarrow> string \<Rightarrow> items \<Rightarrow> (string \<times> items) option" where
  "parse_args [] cfg ovr = Some (cfg, ovr)"
| "parse_args [a] cfg ovr = None"
| "parse_args (a # b # rest) cfg ovr =
     (if config_flag a then parse_args rest b ovr
      else if param_flag a then
        (case find_char (CHR ''='') b of
           None \<Rightarrow> parse_args rest cfg ovr
         | Some eq \<Rightarrow> parse_args rest cfg (ovr @ [(take eq b, drop (eq + 1) b)]))
      else None)"

definition parse_arguments :: "string list \<Rightarrow> (string \<times> items) option" where
  "parse_arguments argv = parse_args (tl argv) ''conf.ini'' []"

definition apply_overrides :: "items \<Rightarrow> setup_config \<Rightarrow> setup_config" where
  "apply_overrides ovr s = fold (\<lambda>(key, v) s. snd (setup_set key v s)) ovr s"

section \<open>Ports\<close>

record port_config =
  pc_port :: int
  pc_workers :: int
  pc_id :: string

definition starts_digit :: "string \<Rightarrow> bool" where
  "starts_digit s \<longleftrightarrow> s \<noteq> [] \<and> is_digit (hd s)"

text \<open>One of the two numbers of a port: 0 when it is not set, \<open>None\<close> when the entry is skipped.\<close>

definition port_number :: "setup_config \<Rightarrow> string \<Rightarrow> int option res" where
  "port_number s key = (if setup_getDefined s key = 0 then Ok (Some 0)
     else if \<not> starts_digit (setup_get s key) then Ok None
     else map_sum id Some (stoi (c_str (setup_get s key))))"

definition read_port :: "setup_config \<Rightarrow> nat \<Rightarrow> port_config list res" where
  "read_port s i =
     (let k = ''port_'' @ nat_str i in
      if setup_getDefined s k = 0 \<or> c_str (setup_get s k) \<noteq> ''true'' then Ok []
      else bind_res (port_number s (k @ ''_port'')) (\<lambda>p.
        case p of None \<Rightarrow> Ok []
        | Some port \<Rightarrow> bind_res (port_number s (k @ ''_workers'')) (\<lambda>w.
            case w of None \<Rightarrow> Ok []
            | Some workers \<Rightarrow> Ok (if port \<noteq> 0 \<and> workers \<noteq> 0
                then [\<lparr>pc_port = port, pc_workers = workers, pc_id = k\<rparr>] else []))))"

fun read_ports :: "setup_config \<Rightarrow> nat list \<Rightarrow> port_config list res" where
  "read_ports s [] = Ok []"
| "read_ports s (i # is) = bind_res (read_port s i) (\<lambda>a. bind_res (read_ports s is) (\<lambda>b. Ok (a @ b)))"

definition read_port_configs :: "setup_config \<Rightarrow> port_config list res" where
  "read_port_configs s = read_ports s [0..<256]"

end
