(* ===== verification/SetupProps.thy ===== *)
theory SetupProps
  imports Setup
begin

text \<open>
  The laws of the configuration table as an interface, what overrides do, and the round trip
  between the table and the file it is saved to.
\<close>

section \<open>The table as a key-value store\<close>

locale kv_store =
  fixes get :: "string \<Rightarrow> 's \<Rightarrow> string option"
    and set :: "string \<Rightarrow> string \<Rightarrow> 's \<Rightarrow> 's"
  assumes get_set: "get k (set k v s) = Some v"
    and get_set_other: "k \<noteq> k' \<Longrightarrow> get k (set k' v s) = get k s"
begin

text \<open>After any sequence of settings, a key has the last value given to it.\<close>

lemma get_fold:
  "get k (fold (\<lambda>(i, v). set i v) ovr s) =
     (case find (\<lambda>e. fst e = k) (rev ovr) of Some e \<Rightarrow> Some (snd e) | None \<Rightarrow> get k s)"
proof (induction ovr arbitrary: s)
  case (Cons e ovr)
  then show ?case
    by (cases e) (auto simp: get_set get_set_other find_append split: option.splits)
qed simp

end

lemma items_get_set: "items_get k (items_set k v its) = Some v"
  by (auto simp: items_get_def items_set_def find_upd_first find_append find_None_iff
      dest: find_SomeD split: option.splits)

lemma items_get_set_other: "k \<noteq> k' \<Longrightarrow> items_get k (items_set k' v its) = items_get k its"
proof -
  assume "k \<noteq> k'"
  then have "find (\<lambda>e. fst e = k) (upd_first (\<lambda>e. fst e = k') (\<lambda>e. (fst e, v)) its) =
      find (\<lambda>e. fst e = k) its"
    by (intro find_upd_first_other) auto
  with \<open>k \<noteq> k'\<close> show ?thesis
    by (simp add: items_get_def items_set_def find_append split: option.split)
qed

interpretation cfg: kv_store items_get items_set
  by unfold_locales (simp_all add: items_get_set items_get_set_other)

lemma apply_overrides_items:
  "(\<And>e. e \<in> set ovr \<Longrightarrow> fst e \<noteq> []) \<Longrightarrow>
     m_items (apply_overrides ovr s) = fold (\<lambda>(i, v). items_set i v) ovr (m_items s)"
proof (induction ovr arbitrary: s)
  case (Cons e ovr)
  from Cons.prems [of e] have "fst e \<noteq> []" by simp
  with Cons show ?case
    by (cases e) (simp add: apply_overrides_def setup_set_def)
qed (simp add: apply_overrides_def)

text \<open>
  The command line wins: after the overrides are applied, a parameter has the last value the
  command line gives it, and the value of the file when it gives none.
\<close>

theorem overrides_win:
  assumes "\<And>e. e \<in> set ovr \<Longrightarrow> fst e \<noteq> []"
  shows "setup_get (apply_overrides ovr s) k =
    (case find (\<lambda>e. fst e = k) (rev ovr) of Some e \<Rightarrow> snd e | None \<Rightarrow> setup_get s k)"
  using cfg.get_fold [of k ovr "m_items s"]
  by (auto simp: setup_get_def apply_overrides_items [OF assms] split: option.splits)

theorem overrides_win_witness:
  "setup_get (apply_overrides [(''a'', ''1''), (''b'', ''2''), (''a'', ''3'')]
     \<lparr>m_path = ''f'', m_items = [(''a'', ''0'')]\<rparr>) ''a'' = ''3''"
  by (subst overrides_win) auto

section \<open>Saving and opening\<close>

definition tight :: "string \<Rightarrow> bool" where
  "tight s \<longleftrightarrow> s = [] \<or> \<not> blank (hd s) \<and> \<not> blank (last s)"

definition item_ok :: "string \<times> string \<Rightarrow> bool" where
  "item_ok e \<longleftrightarrow> fst e \<noteq> [] \<and> tight (fst e) \<and> tight (snd e) \<and> CHR ''='' \<notin> set (fst e) \<and>
     CHR 0x0A \<notin> set (fst e) \<and> CHR 0x0A \<notin> set (snd e) \<and>
     hd (fst e) \<noteq> CHR ''['' \<and> hd (fst e) \<noteq> CHR ''#''"

lemma dropWhile_hd: "\<not> p (hd s) \<Longrightarrow> dropWhile p s = s"
  by (cases s) auto

definition item_text :: "string \<times> string \<Rightarrow> string" where
  "item_text e = fst e @ ''='' @ snd e"

lemma trim_tight: "tight s \<Longrightarrow> trim s = s"
  by (auto simp: tight_def trim_def dropWhile_hd hd_rev)

lemma get_lines_line:
  "CHR 0x0A \<notin> set l \<Longrightarrow> get_lines acc (l @ CHR 0x0A # rest) = (rev acc @ l) # get_lines [] rest"
  by (induction l arbitrary: acc) auto

lemma get_lines_items:
  "list_all item_ok its \<Longrightarrow>
     get_lines [] (concat (map item_line its)) = map item_text its"
proof (induction its)
  case (Cons e its)
  then have "CHR 0x0A \<notin> set (item_text e)" by (auto simp: item_ok_def item_text_def)
  from get_lines_line [OF this, of "[]" "concat (map item_line its)"] Cons
  have "get_lines [] (item_text e @ CHR 0x0A # concat (map item_line its)) =
      map item_text (e # its)" by simp
  moreover have "concat (map item_line (e # its)) =
      item_text e @ CHR 0x0A # concat (map item_line its)"
    by (simp add: item_line_def item_text_def lf_def)
  ultimately show ?case by (simp only:)
qed simp

lemma item_line_read:
  assumes "item_ok e"
  defines "l \<equiv> item_text e"
  shows "pop_cr l = l \<and> \<not> is_ignored_line l \<and> split_line l = e"
proof -
  have t: "tight l"
    using assms by (auto simp: tight_def item_ok_def item_text_def blank_def hd_append)
  have ne: "l \<noteq> []" "hd l = hd (fst e)" using assms by (auto simp: item_ok_def item_text_def)
  then have cr: "pop_cr l = l" using t by (auto simp: pop_cr_def tight_def blank_def)
  have ig: "\<not> is_ignored_line l"
    using ne assms(1) by (auto simp: is_ignored_line_def trim_tight [OF t] item_ok_def split: list.split)
  have f: "find_char (CHR ''='') l = Some (length (fst e))"
    using assms(1) find_char_append_hit [of "CHR ''=''" "fst e" "snd e"] by (simp add: l_def item_text_def item_ok_def)
  have "take (length (fst e)) l = fst e" "drop (length (fst e) + 1) l = snd e" by (simp_all add: l_def item_text_def)
  with assms(1) f have "split_line l = e"
    by (simp add: split_line_def trim_tight [OF t] Let_def item_ok_def trim_tight)
  with cr ig show ?thesis by blast
qed

lemma read_items_saved:
  "list_all item_ok its \<Longrightarrow> distinct (map fst its) \<Longrightarrow> set (map fst its) \<inter> set (map fst acc) = {} \<Longrightarrow>
     read_items (map item_text its) acc n = (acc @ its, n + length its)"
proof (induction its arbitrary: acc n)
  case (Cons e its)
  have e: "item_ok e" using Cons.prems by simp
  have "fst e \<notin> set (map fst acc)" using Cons.prems(3) by (metis Int_iff empty_iff list.map(2) list.set_intros(1))
  then have "find (\<lambda>x. fst x = fst e) acc = None"
    unfolding find_None_iff by (metis image_eqI list.set_map)
  then have s: "items_set (fst e) (snd e) acc = acc @ [e]" by (simp add: items_set_def)
  have "read_items (map item_text its) (acc @ [e]) (n + 1) =
      ((acc @ [e]) @ its, n + 1 + length its)"
    using Cons.prems by (intro Cons.IH) auto
  moreover have "fst e \<noteq> []" using e by (simp add: item_ok_def)
  ultimately show ?case
    using item_line_read [OF e] s by (simp add: case_prod_unfold Let_def)
qed simp

text \<open>
  C29. A saved configuration reads back as it was: with distinct keys, and keys and values without
  surrounding blanks, line breaks or the characters that mark a comment, opening the saved file
  restores the table in its order and counts its entries.
\<close>

theorem save_open_roundtrip:
  assumes "list_all item_ok (m_items s)" "distinct (map fst (m_items s))" "m_path s \<noteq> []"
  shows "setup_open path (snd (setup_save s True)) s' =
    (length (m_items s), s'\<lparr>m_path := path, m_items := m_items s\<rparr>)"
  using read_items_saved [OF assms(1,2), of "[]" 0] assms(3)
  by (simp add: setup_open_def setup_save_def get_lines_items [OF assms(1)])

theorem save_open_roundtrip_witness:
  "setup_open ''x'' (snd (setup_save \<lparr>m_path = ''f'', m_items = [(''port_0'', ''true''), (''k'', [])]\<rparr> True))
     \<lparr>m_path = [], m_items = [(''old'', ''1'')]\<rparr> =
   (2, \<lparr>m_path = ''x'', m_items = [(''port_0'', ''true''), (''k'', [])]\<rparr>)"
  by (subst save_open_roundtrip) (simp_all add: item_ok_def tight_def blank_def)

end
