(* ===== verification/EspHttp.thy ===== *)
theory EspHttp
  imports HttpText
begin

text \<open>
  The HTTP layer of the MachineTime server, files under \<open>esp8266_decoder/source\<close>: the
  request and response records (\<open>request.h\<close>, \<open>response.h\<close>), the parser
  (\<open>http_parser.cpp\<close>), the receive loops and answers (\<open>http_utils.h\<close>,
  \<open>http_utils.cpp\<close>). A connection is the bytes the peer sends and how it ends. A loop that
  polls a closed connection for ever is a \<open>partial_function\<close>, with \<open>None\<close> for not
  returning.
\<close>

section \<open>Requests\<close>

record e_query =
  eq_param :: string
  eq_znach :: string

record e_request =
  er_method :: int
  er_path :: string
  er_prot :: string
  er_header :: string
  er_body :: string
  er_body_str :: string
  er_query :: "e_query list"
  er_headers :: "e_query list"

definition new_e_request :: e_request where
  "new_e_request = \<lparr>er_method = -1, er_path = [], er_prot = [], er_header = [], er_body = [],
     er_body_str = [], er_query = [], er_headers = []\<rparr>"

datatype q_arr = QUERY | HEADERS

definition q_of :: "q_arr \<Rightarrow> e_request \<Rightarrow> e_query list" where
  "q_of arr rq = (case arr of QUERY \<Rightarrow> er_query rq | HEADERS \<Rightarrow> er_headers rq)"

text \<open>\<open>my_strcmp\<close> on two C strings, without their terminators.\<close>

fun my_strcmp :: "string \<Rightarrow> string \<Rightarrow> bool" where
  "my_strcmp (a # s) (b # t) = (if a \<noteq> b then False else my_strcmp s t)"
| "my_strcmp [] [] = True"
| "my_strcmp _ _ = False"

definition is_pr :: "string \<Rightarrow> e_query \<Rightarrow> bool" where
  "is_pr pr q = my_strcmp (c_str (eq_param q)) pr"

definition e_param :: "e_request \<Rightarrow> q_arr \<Rightarrow> string \<Rightarrow> bool" where
  "e_param rq arr pr = list_ex (is_pr pr) (q_of arr rq)"

definition e_check_param :: "e_request \<Rightarrow> q_arr \<Rightarrow> string \<Rightarrow> string \<Rightarrow> bool" where
  "e_check_param rq arr pr zn =
     list_ex (\<lambda>q. is_pr pr q \<and> my_strcmp (c_str (eq_znach q)) zn) (q_of arr rq)"

definition e_znach :: "e_request \<Rightarrow> q_arr \<Rightarrow> string \<Rightarrow> string" where
  "e_znach rq arr pr = (case find (is_pr pr) (q_of arr rq) of None \<Rightarrow> []
     | Some q \<Rightarrow> c_str (eq_znach q))"

fun erase_first :: "('a \<Rightarrow> bool) \<Rightarrow> 'a list \<Rightarrow> 'a list" where
  "erase_first p [] = []"
| "erase_first p (x # xs) = (if p x then xs else x # erase_first p xs)"

definition e_deleteParam :: "string \<Rightarrow> q_arr \<Rightarrow> e_request \<Rightarrow> e_request" where
  "e_deleteParam pr arr rq = (case arr of
       QUERY \<Rightarrow> rq\<lparr>er_query := erase_first (is_pr pr) (er_query rq)\<rparr>
     | HEADERS \<Rightarrow> rq\<lparr>er_headers := erase_first (is_pr pr) (er_headers rq)\<rparr>)"

definition push_query :: "string \<Rightarrow> string \<Rightarrow> e_request \<Rightarrow> e_request" where
  "push_query p z rq = rq\<lparr>er_query := er_query rq @ [\<lparr>eq_param = p, eq_znach = z\<rparr>]\<rparr>"

definition strToLowerCase :: "string \<Rightarrow> string" where
  "strToLowerCase s = map tolower s"

definition push_header :: "string \<Rightarrow> string \<Rightarrow> e_request \<Rightarrow> e_request" where
  "push_header p z rq =
     (if z = [] then rq
      else rq\<lparr>er_headers := er_headers rq @ [\<lparr>eq_param = strToLowerCase p,
          eq_znach = takeWhile (\<lambda>c. c \<noteq> CHR 0x0D \<and> c \<noteq> CHR 0x0A) (dropWhile (\<lambda>c. c = CHR '' '') z)\<rparr>]\<rparr>)"

section \<open>The parser\<close>

definition parse_method :: "string \<Rightarrow> int" where
  "parse_method s =
     (if s = ''GET'' then 1590 else if s = ''HEAD'' then 1591 else if s = ''POST'' then 1592
      else if s = ''PUT'' then 1593 else if s = ''DELETE'' then 1594 else if s = ''PATCH'' then 1595
      else if s = ''OPTIONS'' then 1596 else if s = ''TRACE'' then 1597
      else if s = ''CONNECT'' then 1598 else -1)"

text \<open>
  \<open>parse_query_string\<close> on a C string. The bound of 256 pairs in the source never takes
  effect, because \<open>query_idx\<close> is not incremented.
\<close>

function parse_query_string :: "string \<Rightarrow> e_request \<Rightarrow> e_request" where
  "parse_query_string cur rq =
     (if cur = [] then rq
      else case find_char (CHR ''='') cur of
          None \<Rightarrow> rq
        | Some e \<Rightarrow>
            (let key = take e cur;
                 rest = drop (e + 1) cur;
                 val_len = (case find_char (CHR ''&'') rest of None \<Rightarrow> length rest | Some a \<Rightarrow> a);
                 rq' = (if e > 0 then push_query (convert_string key) (convert_string (take val_len rest)) rq
                        else rq)
             in if val_len = length rest then rq'
                else parse_query_string (drop (val_len + 1) rest) rq'))"
  by pat_completeness auto

termination
  by (relation "measure (\<lambda>(cur, rq). length cur)") (auto split: option.splits)

declare parse_query_string.simps [simp del]

definition first_line_pars :: "string \<Rightarrow> e_request \<Rightarrow> bool \<times> e_request" where
  "first_line_pars line rq =
     (let l = c_str line in
      case find_char (CHR '' '') l of
        None \<Rightarrow> (False, rq)
      | Some m \<Rightarrow>
          (let rq = rq\<lparr>er_method := parse_method (take m l)\<rparr>;
               rest = drop (m + 1) l
           in if er_method rq = -1 then (False, rq)
              else case find_char (CHR '' '') rest of
                  None \<Rightarrow> (False, rq)
                | Some p \<Rightarrow>
                    (let path_str = take p rest;
                         rq = (case find_char (CHR ''?'') path_str of
                                 Some q \<Rightarrow> parse_query_string (drop (q + 1) path_str)
                                             (rq\<lparr>er_path := take q path_str\<rparr>)
                               | None \<Rightarrow> rq\<lparr>er_path := path_str\<rparr>);
                         rq = rq\<lparr>er_path := convert_string (er_path rq)\<rparr>;
                         proto = drop (p + 1) rest;
                         rq = (case find_char (CHR 0x0D) proto of
                                 Some n \<Rightarrow> rq\<lparr>er_prot := take n proto\<rparr>
                               | None \<Rightarrow> (case find_char (CHR 0x0A) proto of
                                   Some n \<Rightarrow> rq\<lparr>er_prot := take n proto\<rparr>
                                 | None \<Rightarrow> rq))
                     in case find_sub ''/..'' (er_path rq) of
                          Some x \<Rightarrow> (False, rq\<lparr>er_path := take x (er_path rq)\<rparr>)
                        | None \<Rightarrow> (True, rq))))"

definition line_parse :: "string \<Rightarrow> e_request \<Rightarrow> bool \<times> e_request" where
  "line_parse line rq = (case find_char (CHR '':'') line of
       None \<Rightarrow> (False, rq)
     | Some n \<Rightarrow> (True, push_header (take n line) (drop (n + 1) line) rq))"

section \<open>Receiving\<close>

datatype conn_fin = PeerClosed | ConnError

record conn =
  cn_bytes :: string
  cn_fin :: conn_fin

text \<open>\<open>_resv_line\<close>: up to and including the newline; what is left when the peer closes, nothing
  on an error.\<close>

definition resv_line :: "conn \<Rightarrow> string \<times> conn" where
  "resv_line c = (case find_char (CHR 0x0A) (cn_bytes c) of
       Some n \<Rightarrow> (take (n + 1) (cn_bytes c), c\<lparr>cn_bytes := drop (n + 1) (cn_bytes c)\<rparr>)
     | None \<Rightarrow> (case cn_fin c of PeerClosed \<Rightarrow> cn_bytes c | ConnError \<Rightarrow> [],
         c\<lparr>cn_bytes := []\<rparr>))"

text \<open>
  \<open>_resv\<close>: \<open>n\<close> bytes are missing. A closed connection makes \<open>recv\<close> return 0 and the
  loop ask again. The second component is the return value's sign: false on an error.
\<close>

partial_function (option) resv :: "nat \<Rightarrow> string \<Rightarrow> conn \<Rightarrow> (string \<times> bool \<times> conn) option" where
  "resv n acc c =
     (if n = 0 then Some (acc, True, c)
      else if cn_bytes c \<noteq> []
      then resv (n - length (take n (cn_bytes c))) (acc @ take n (cn_bytes c))
             (c\<lparr>cn_bytes := drop n (cn_bytes c)\<rparr>)
      else if cn_fin c = PeerClosed then resv n acc c
      else Some (acc, False, c))"

text \<open>\<open>read_http_headers\<close>; \<open>first\<close> is \<open>first_line\<close>, \<open>res\<close> the text read so far.\<close>

partial_function (option) read_headers ::
  "bool \<Rightarrow> string \<Rightarrow> e_request \<Rightarrow> conn \<Rightarrow> (e_request \<times> conn) option" where
  "read_headers first res rq c =
     (let (line, c') = resv_line c;
          res' = res @ line
      in if first then read_headers False res' (snd (first_line_pars line rq)) c'
         else if line = crlf \<or> line = lf then Some (rq\<lparr>er_header := res'\<rparr>, c')
         else read_headers False res' (snd (line_parse line rq)) c')"

definition max_body :: int where
  "max_body = 1024 * 1024"

definition body_text :: "string \<Rightarrow> string" where
  "body_text body = takeWhile (\<lambda>ch. 32 \<le> ord ch \<and> ord ch \<le> 127) body"

text \<open>\<open>read_http_body\<close>: the buffer is zero where an error left it unfilled.\<close>

definition read_http_body :: "e_request \<Rightarrow> conn \<Rightarrow> (e_request \<times> conn) option" where
  "read_http_body rq c =
     (let len_ctr = e_znach rq HEADERS ''content-length'';
          len = atoi len_ctr
      in if len_ctr = [] \<or> len = 0 \<or> len < 0 \<or> len > max_body then Some (rq, c)
         else case resv (nat len) [] c of
             None \<Rightarrow> None
           | Some (got, ok, c') \<Rightarrow>
               (let body = got @ replicate (nat len - length got) NUL
                in Some (rq\<lparr>er_body := body, er_body_str := er_body_str rq @ body_text body\<rparr>, c')))"

definition parse_http_request :: "conn \<Rightarrow> (e_request \<times> conn) option" where
  "parse_http_request c =
     (case read_headers True [] new_e_request c of
        None \<Rightarrow> None
      | Some (rq, c') \<Rightarrow> (case read_http_body rq c' of
            None \<Rightarrow> None
          | Some (rq', c'') \<Rightarrow>
              Some (if e_check_param rq' HEADERS ''content-type'' ''application/x-www-form-urlencoded''
                    then parse_query_string (c_str (er_body_str rq')) rq' else rq', c'')))"

section \<open>Responses\<close>

record response =
  rs_code :: int
  rs_body :: string
  rs_content_type :: string

definition Response :: "int \<Rightarrow> response" where
  "Response code = \<lparr>rs_code = code, rs_body = [], rs_content_type = ''text/plain''\<rparr>"

definition Response_body :: "int \<Rightarrow> string \<Rightarrow> string \<Rightarrow> response" where
  "Response_body code body ctype = \<lparr>rs_code = code, rs_body = body, rs_content_type = ctype\<rparr>"

definition header_type :: "int \<Rightarrow> string option \<Rightarrow> string" where
  "header_type typ typstr =
     (if typ \<noteq> 0 then
        (if typ = 1 then ''Content-Type: text/html; charset=UTF-8'' @ crlf
         else if typ = 2 then ''Content-Type: text/plain; charset=UTF-8'' @ crlf
         else if typ = 3 then ''Content-Type: text/json; charset=UTF-8'' @ crlf
         else if typ = 4 then ''Content-Type: application/octet-stream'' @ crlf
         else [])
      else (case typstr of None \<Rightarrow> [] | Some t \<Rightarrow> ''Content-Type: '' @ t @ crlf))"

definition send_header ::
  "(string \<Rightarrow> string) \<Rightarrow> string \<Rightarrow> int \<Rightarrow> int \<Rightarrow> int \<Rightarrow> string option \<Rightarrow> string" where
  "send_header cfg date cod len typ typstr =
     status_line cod @
     (if cod = 200 then ''Content-Length: '' @ int_str len @ crlf @ header_type typ typstr else []) @
     ''Cache-Control: no-cache'' @ crlf @ ''Server: '' @ cfg ''serverName'' @ crlf @
     ''Date: '' @ date @ crlf @ crlf"

definition e_send_err :: "(string \<Rightarrow> string) \<Rightarrow> string \<Rightarrow> int \<Rightarrow> string" where
  "e_send_err cfg date cod =
     (if cod > 1000 \<and> cod < 1999
      then (let mes = ''prykolno, yak ce robytsja''
            in send_header cfg date (cod - 1000) (int (length mes)) 0 None @ mes)
      else send_header cfg date cod 0 0 None)"

definition sendResponse :: "(string \<Rightarrow> string) \<Rightarrow> string \<Rightarrow> e_request \<Rightarrow> response \<Rightarrow> string" where
  "sendResponse cfg date rq rs =
     (if rs_code rs = 200
      then send_header cfg date 200 (int (length (rs_body rs))) 0 (Some (c_str (rs_content_type rs))) @
           (if er_method rq \<noteq> 1591 \<and> length (rs_body rs) > 0 then rs_body rs else [])
      else e_send_err cfg date (rs_code rs))"

definition recv_file :: "(string \<Rightarrow> string option) \<Rightarrow> e_request \<Rightarrow> response" where
  "recv_file fs rq =
     (if contains ''/..'' (er_path rq) then Response 403
      else let path = (if er_path rq = [] \<or> er_path rq = ''/'' then ''/index.html'' else er_path rq)
           in case fs (c_str (''www'' @ path)) of
                None \<Rightarrow> Response 404
              | Some content \<Rightarrow> Response_body 200 content (content_type_of path))"

end
