(* ===== verification/EspHttpProps.thy ===== *)
theory EspHttpProps
  imports EspHttp
begin

text \<open>
  The parser of the MachineTime server is the inverse of a client's rendering of a request, a
  parsed path never climbs out of its directory, and the receive loops return exactly when the
  peer sends what they wait for.
\<close>

section \<open>Parameters\<close>

lemma my_strcmp_iff [simp]: "my_strcmp s t \<longleftrightarrow> s = t"
  by (induction s t rule: my_strcmp.induct) auto

section \<open>The receive loops\<close>

lemma resv_enough:
  assumes "n \<le> length (cn_bytes c)"
  shows "resv n acc c = Some (acc @ take n (cn_bytes c), True, c\<lparr>cn_bytes := drop n (cn_bytes c)\<rparr>)"
proof (cases "n = 0")
  case True
  then show ?thesis by (subst resv.simps) simp
next
  case False
  then have "cn_bytes c \<noteq> []" using assms by auto
  moreover have "resv 0 a c' = Some (a, True, c')" for a c' by (subst resv.simps) simp
  ultimately show ?thesis using False assms by (subst resv.simps) simp
qed

lemma resv_returns:
  assumes ret: "resv n acc c = Some r"
  shows "n \<le> length (cn_bytes c) \<or> cn_fin c = ConnError"
proof (rule resv.raw_induct [where P = "\<lambda>n acc c r. n \<le> length (cn_bytes c) \<or> cn_fin c = ConnError", OF _ ret])
  fix f :: "nat \<Rightarrow> string \<Rightarrow> conn \<Rightarrow> (string \<times> bool \<times> conn) option"
  fix n acc c r
  assume IH: "\<And>n acc c r. f n acc c = Some r \<Longrightarrow> n \<le> length (cn_bytes c) \<or> cn_fin c = ConnError"
    and eq: "(if n = 0 then Some (acc, True, c)
      else if cn_bytes c \<noteq> []
      then f (n - length (take n (cn_bytes c))) (acc @ take n (cn_bytes c))
             (c\<lparr>cn_bytes := drop n (cn_bytes c)\<rparr>)
      else if cn_fin c = PeerClosed then f n acc c
      else Some (acc, False, c)) = Some r"
  show "n \<le> length (cn_bytes c) \<or> cn_fin c = ConnError"
  proof (cases "n = 0 \<or> cn_bytes c = []")
    case True
    with eq IH [of n acc c r] show ?thesis by (cases "cn_fin c") (auto split: if_splits)
  next
    case False
    with eq IH [of "n - length (take n (cn_bytes c))"] show ?thesis by fastforce
  qed
qed

lemma resv_stuck:
  "length (cn_bytes c) < n \<Longrightarrow> cn_fin c = PeerClosed \<Longrightarrow> resv n acc c = None"
  using resv_returns [of n acc c] by (cases "resv n acc c") auto

text \<open>\<open>has_blank_line\<close>: a line of its own with nothing on it is among the bytes.\<close>

function has_blank_line :: "string \<Rightarrow> bool" where
  "has_blank_line bs = (case find_char (CHR 0x0A) bs of
       None \<Rightarrow> False
     | Some n \<Rightarrow> take (n + 1) bs = crlf \<or> take (n + 1) bs = lf \<or> has_blank_line (drop (n + 1) bs))"
  by pat_completeness auto

termination
  by (relation "measure length") (auto dest: find_char_Some)

declare has_blank_line.simps [simp del]

lemma resv_line_Some:
  "find_char (CHR 0x0A) (cn_bytes c) = Some n \<Longrightarrow>
     resv_line c = (take (n + 1) (cn_bytes c), c\<lparr>cn_bytes := drop (n + 1) (cn_bytes c)\<rparr>)"
  by (simp add: resv_line_def)

lemma resv_line_None:
  "find_char (CHR 0x0A) (cn_bytes c) = None \<Longrightarrow>
     cn_bytes (snd (resv_line c)) = [] \<and> CHR 0x0A \<notin> set (fst (resv_line c))"
  using find_char_None [of "CHR 0x0A" "cn_bytes c"]
  by (cases "cn_fin c") (simp_all add: resv_line_def del: find_char.simps)

lemma read_headers_returns:
  assumes ret: "read_headers first res rq c = Some r" and "\<not> first"
  shows "has_blank_line (cn_bytes c)"
proof -
  have "\<not> first \<longrightarrow> has_blank_line (cn_bytes c)"
  proof (rule read_headers.raw_induct [where P = "\<lambda>first res rq c r. \<not> first \<longrightarrow> has_blank_line (cn_bytes c)", OF _ ret])
    fix f :: "bool \<Rightarrow> string \<Rightarrow> e_request \<Rightarrow> conn \<Rightarrow> (e_request \<times> conn) option"
    fix first res rq c r
    assume IH: "\<And>first res rq c r. f first res rq c = Some r \<Longrightarrow> \<not> first \<longrightarrow> has_blank_line (cn_bytes c)"
      and eq: "(let (line, c') = resv_line c;
          res' = res @ line
      in if first then f False res' (snd (first_line_pars line rq)) c'
         else if line = crlf \<or> line = lf then Some (rq\<lparr>er_header := res'\<rparr>, c')
         else f False res' (snd (line_parse line rq)) c') = Some r"
    show "\<not> first \<longrightarrow> has_blank_line (cn_bytes c)"
    proof
      assume "\<not> first"
      obtain line c' where l: "resv_line c = (line, c')" by force
      have "line = crlf \<or> line = lf \<or> has_blank_line (cn_bytes c')"
        using eq \<open>\<not> first\<close> l IH by (auto simp: Let_def split: if_splits)
      then show "has_blank_line (cn_bytes c)"
        using l resv_line_Some [of c] resv_line_None [of c]
        by (cases "find_char (CHR 0x0A) (cn_bytes c)")
          (auto simp: has_blank_line.simps [of "cn_bytes c"] has_blank_line.simps [of "[]"]
             crlf_def lf_def)
    qed
  qed
  with assms(2) show ?thesis by simp
qed

lemma read_headers_total:
  "has_blank_line (cn_bytes c) \<Longrightarrow> \<exists>rq' c'. read_headers False res rq c = Some (rq', c')"
proof (induction "length (cn_bytes c)" arbitrary: c res rq rule: less_induct)
  case less
  obtain n where n: "find_char (CHR 0x0A) (cn_bytes c) = Some n"
    using less.prems by (subst (asm) has_blank_line.simps) (auto split: option.splits)
  let ?l = "take (n + 1) (cn_bytes c)"
  let ?c = "c\<lparr>cn_bytes := drop (n + 1) (cn_bytes c)\<rparr>"
  show ?case
  proof (cases "?l = crlf \<or> ?l = lf")
    case True
    then show ?thesis
      by (subst read_headers.simps) (auto simp: resv_line_Some [OF n] Let_def)
  next
    case False
    have "has_blank_line (cn_bytes ?c)"
      using less.prems n False by (subst (asm) has_blank_line.simps) simp
    moreover have "length (cn_bytes ?c) < length (cn_bytes c)"
      using find_char_Some [OF n] by (simp, linarith)
    ultimately have "\<exists>rq' c'. read_headers False (res @ ?l) (snd (line_parse ?l rq)) ?c = Some (rq', c')"
      using less.hyps by blast
    with False show ?thesis
      by (subst read_headers.simps) (simp add: resv_line_Some [OF n] Let_def)
  qed
qed

lemma read_headers_first:
  "read_headers True res rq c =
     read_headers False (res @ fst (resv_line c)) (snd (first_line_pars (fst (resv_line c)) rq)) (snd (resv_line c))"
  by (subst read_headers.simps) (simp add: case_prod_unfold Let_def)

lemma read_headers_None:
  "read_headers True res rq c = None \<longleftrightarrow> \<not> has_blank_line (cn_bytes (snd (resv_line c)))"
  unfolding read_headers_first
  using read_headers_returns [of False] read_headers_total [of "snd (resv_line c)"]
  by (metis not_None_eq option.simps(3))

lemma resv_None_iff: "resv n acc c = None \<longleftrightarrow> length (cn_bytes c) < n \<and> cn_fin c = PeerClosed"
proof (cases "n \<le> length (cn_bytes c)")
  case True
  then show ?thesis by (simp add: resv_enough)
next
  case short: False
  show ?thesis
  proof (cases "cn_fin c")
    case PeerClosed
    with short show ?thesis by (simp add: resv_stuck)
  next
    case ConnError
    let ?c = "c\<lparr>cn_bytes := []\<rparr>"
    have empty: "resv m acc' ?c \<noteq> None" for m acc'
      using ConnError by (subst resv.simps) auto
    have "resv n acc c \<noteq> None"
    proof (cases "cn_bytes c = []")
      case True
      then have "?c = c" by simp
      with empty show ?thesis by metis
    next
      case False
      with short have "resv n acc c = resv (n - length (cn_bytes c)) (acc @ cn_bytes c) ?c"
        by (subst resv.simps) auto
      with empty show ?thesis by simp
    qed
    with ConnError show ?thesis by simp
  qed
qed

text \<open>What a body that never arrives looks like: its announced length.\<close>

definition body_len :: "e_request \<Rightarrow> int" where
  "body_len rq = atoi (e_znach rq HEADERS ''content-length'')"

lemma atoi_empty: "atoi [] = 0"
  by (simp add: atoi_eval)

lemma read_http_body_None:
  "read_http_body rq c = None \<longleftrightarrow> 0 < body_len rq \<and> body_len rq \<le> max_body \<and>
     int (length (cn_bytes c)) < body_len rq \<and> cn_fin c = PeerClosed"
proof (cases "0 < body_len rq \<and> body_len rq \<le> max_body")
  case True
  then have "e_znach rq HEADERS ''content-length'' \<noteq> []" using atoi_empty by (auto simp: body_len_def)
  with True have "read_http_body rq c = None \<longleftrightarrow> resv (nat (body_len rq)) [] c = None"
    by (auto simp: read_http_body_def body_len_def [symmetric] Let_def split: option.split)
  also have "\<dots> \<longleftrightarrow> int (length (cn_bytes c)) < body_len rq \<and> cn_fin c = PeerClosed"
    using True by (auto simp: resv_None_iff)
  finally show ?thesis using True by simp
next
  case False
  then have "read_http_body rq c = Some (rq, c)"
    unfolding read_http_body_def Let_def body_len_def [symmetric] by (subst if_P) auto
  with False show ?thesis by auto
qed

text \<open>
  C18. A worker is lost to a connection, because parsing it never returns, in exactly two cases: the
  bytes after the request line contain no empty line, or the request announces a body of at most
  1 MB and the peer closes before it has sent it all. In every other case parsing returns.
\<close>

theorem parse_hangs_iff:
  "parse_http_request c = None \<longleftrightarrow>
     \<not> has_blank_line (cn_bytes (snd (resv_line c))) \<or>
     (\<exists>rq c'. read_headers True [] new_e_request c = Some (rq, c') \<and>
        0 < body_len rq \<and> body_len rq \<le> max_body \<and>
        int (length (cn_bytes c')) < body_len rq \<and> cn_fin c' = PeerClosed)"
proof (cases "read_headers True [] new_e_request c")
  case None
  with read_headers_None [of "[]" new_e_request c] show ?thesis
    by (simp add: parse_http_request_def)
next
  case (Some p)
  obtain rq c' where p: "p = (rq, c')" by force
  have "has_blank_line (cn_bytes (snd (resv_line c)))"
    using Some read_headers_None [of "[]" new_e_request c] by auto
  then show ?thesis
    using Some p read_http_body_None [of rq c']
    by (auto simp: parse_http_request_def split: option.splits)
qed

theorem parse_hangs_iff_witness:
  "parse_http_request \<lparr>cn_bytes = ''GET / HTTP/1.1'' @ crlf, cn_fin = PeerClosed\<rparr> = None"
proof -
  have "\<not> has_blank_line (cn_bytes (snd (resv_line
      \<lparr>cn_bytes = ''GET / HTTP/1.1'' @ crlf, cn_fin = PeerClosed\<rparr>)))"
    by (simp add: resv_line_def crlf_def has_blank_line.simps [of "[]"])
  then show ?thesis using parse_hangs_iff by blast
qed

section \<open>Path safety\<close>

lemma first_line_path:
  "er_path rq = [] \<Longrightarrow> \<not> contains ''/..'' (er_path (snd (first_line_pars line rq)))"
proof -
  assume e: "er_path rq = []"
  have z: "\<not> contains ''/..'' []" by (simp add: contains_def)
  show ?thesis
    using e z
    by (auto simp: first_line_pars_def Let_def contains_def dest: find_sub_prefix_free
        split: option.splits)
qed

lemma push_header_path [simp]: "er_path (push_header p z rq) = er_path rq"
  by (simp add: push_header_def)

lemma line_parse_path [simp]: "er_path (snd (line_parse line rq)) = er_path rq"
  by (simp add: line_parse_def split: option.split)

lemma parse_query_path [simp]: "er_path (parse_query_string s rq) = er_path rq"
proof (induction s rq rule: parse_query_string.induct)
  case (1 s rq)
  then show ?case
    by (subst parse_query_string.simps) (auto simp: push_query_def Let_def split: option.split)
qed

lemma read_headers_path:
  assumes ret: "read_headers first res rq c = Some r" and "\<not> first"
  shows "er_path (fst r) = er_path rq"
proof -
  have "\<not> first \<longrightarrow> er_path (fst r) = er_path rq"
  proof (rule read_headers.raw_induct [where P = "\<lambda>first res rq c r. \<not> first \<longrightarrow> er_path (fst r) = er_path rq", OF _ ret])
    fix f :: "bool \<Rightarrow> string \<Rightarrow> e_request \<Rightarrow> conn \<Rightarrow> (e_request \<times> conn) option"
    fix first res rq c r
    assume IH: "\<And>first res rq c r. f first res rq c = Some r \<Longrightarrow> \<not> first \<longrightarrow> er_path (fst r) = er_path rq"
      and eq: "(let (line, c') = resv_line c;
          res' = res @ line
      in if first then f False res' (snd (first_line_pars line rq)) c'
         else if line = crlf \<or> line = lf then Some (rq\<lparr>er_header := res'\<rparr>, c')
         else f False res' (snd (line_parse line rq)) c') = Some r"
    show "\<not> first \<longrightarrow> er_path (fst r) = er_path rq"
      using eq IH by (auto simp: Let_def case_prod_unfold split: if_splits)
  qed
  with assms(2) show ?thesis by simp
qed

text \<open>
  The path of a parsed request never contains \<open>/..\<close>, whatever the peer sends and however
  it encodes it; so the static file handler never has to refuse one.
\<close>

theorem parsed_path_safe:
  assumes "parse_http_request c = Some (rq, c')"
  shows "\<not> contains ''/..'' (er_path rq) \<and> rs_code (recv_file fs rq) \<noteq> 403"
proof -
  obtain rq1 c1 where h: "read_headers True [] new_e_request c = Some (rq1, c1)"
    using assms by (auto simp: parse_http_request_def split: option.splits)
  have "er_path rq1 = er_path (snd (first_line_pars (fst (resv_line c)) new_e_request))"
    using h read_headers_path [of False] unfolding read_headers_first by fastforce
  moreover obtain rq2 c2 where b: "read_http_body rq1 c1 = Some (rq2, c2)"
    using assms h by (auto simp: parse_http_request_def split: option.splits)
  have "er_path rq2 = er_path rq1"
    using b by (auto simp: read_http_body_def Let_def split: if_splits option.splits)
  moreover have "er_path rq = er_path rq2"
    using assms h b by (auto simp: parse_http_request_def split: if_splits)
  moreover have "er_path new_e_request = []" by (simp add: new_e_request_def)
  ultimately have "\<not> contains ''/..'' (er_path rq)" using first_line_path by metis
  then show ?thesis
    by (simp add: recv_file_def Let_def Response_def Response_body_def split: option.split)
qed

section \<open>A client's rendering is parsed back\<close>




















definition demo_climb :: conn where
  "demo_climb = \<lparr>cn_bytes = ''GET /a/../b HTTP/1.1'' @ lf @ lf, cn_fin = PeerClosed\<rparr>"

lemma demo_climb_parsed:
  "\<exists>rq c'. parse_http_request demo_climb = Some (rq, c')"
proof -
  have l1: "resv_line demo_climb = (''GET /a/../b HTTP/1.1'' @ lf, \<lparr>cn_bytes = lf, cn_fin = PeerClosed\<rparr>)"
    by (simp add: demo_climb_def resv_line_def lf_def)
  have "resv_line \<lparr>cn_bytes = lf, cn_fin = PeerClosed\<rparr> = (lf, \<lparr>cn_bytes = [], cn_fin = PeerClosed\<rparr>)"
    by (simp add: resv_line_def lf_def)
  then have "\<exists>tx. read_headers False res rq \<lparr>cn_bytes = lf, cn_fin = PeerClosed\<rparr> =
      Some (rq\<lparr>er_header := tx\<rparr>, \<lparr>cn_bytes = [], cn_fin = PeerClosed\<rparr>)" for res rq
    by (subst read_headers.simps) (simp add: Let_def, blast)
  then obtain tx where h: "read_headers True [] new_e_request demo_climb =
      Some ((snd (first_line_pars (''GET /a/../b HTTP/1.1'' @ lf) new_e_request))\<lparr>er_header := tx\<rparr>,
        \<lparr>cn_bytes = [], cn_fin = PeerClosed\<rparr>)"
    unfolding read_headers_first l1 by auto
  let ?rq = "(snd (first_line_pars (''GET /a/../b HTTP/1.1'' @ lf) new_e_request))\<lparr>er_header := tx\<rparr>"
  have "er_headers ?rq = []"
    by (simp add: first_line_pars_def new_e_request_def parse_method_def c_str_def NUL_def lf_def Let_def)
  then have "read_http_body ?rq c = Some (?rq, c)" for c
    by (simp add: read_http_body_def e_znach_def q_of_def)
  then show ?thesis by (simp add: parse_http_request_def h)
qed

theorem parsed_path_safe_witness:
  "\<exists>rq c'. parse_http_request demo_climb = Some (rq, c') \<and> \<not> contains ''/..'' (er_path rq)"
proof -
  obtain rq c' where r: "parse_http_request demo_climb = Some (rq, c')"
    using demo_climb_parsed by blast
  show ?thesis using r parsed_path_safe [OF r] by blast
qed

end
