(* ===== verification/MachineStore.thy ===== *)
theory MachineStore
  imports EspTime
begin

text \<open>
  The data base of the MachineTime server: the four tables that
  \<open>SqliteHelper::init_tables\<close> of \<open>esp8266_decoder/source/sqlite_helper.h\<close> creates,
  as lists of rows in insertion order, and the statements \<open>MachineTime.cpp\<close> prepares, one
  definition each. A statement on an open data base succeeds; a data base that could not be opened
  is \<open>None\<close> in the callers. Texts are bound as C strings. A column holds an integer of the
  data base (64 bits, which additions of 32-bit values do not reach here); it is cut to an
  \<open>int\<close> when the server reads it.
\<close>

section \<open>Tables\<close>

record history_row =
  hr_device :: string
  hr_day :: int
  hr_ch :: "int list"

record names_row =
  nr_device :: string
  nr_ch :: "string list"

record event_row =
  ev_device :: string
  ev_day :: int
  ev_channel :: int
  ev_type :: int
  ev_sec :: int

record session_row =
  sr_device :: string
  sr_day :: int
  sr_ch :: "int list"
  sr_working :: int

record mt_db =
  channel_history :: "history_row list"
  names_tab :: "names_row list"
  channel_events :: "event_row list"
  channel_session :: "session_row list"

definition mt_init_tables :: mt_db where
  "mt_init_tables = \<lparr>channel_history = [], names_tab = [], channel_events = [], channel_session = []\<rparr>"

text \<open>\<open>INSERT OR REPLACE\<close>: the rows with the same key go, the new one comes last.\<close>

definition replace_row :: "('a \<Rightarrow> bool) \<Rightarrow> 'a \<Rightarrow> 'a list \<Rightarrow> 'a list" where
  "replace_row key x t = filter (\<lambda>y. \<not> key y) t @ [x]"

definition hist_key :: "string \<Rightarrow> int \<Rightarrow> history_row \<Rightarrow> bool" where
  "hist_key dev ep r \<longleftrightarrow> hr_device r = dev \<and> hr_day r = ep"

definition event_key :: "string \<Rightarrow> int \<Rightarrow> event_row \<Rightarrow> bool" where
  "event_key dev ep e \<longleftrightarrow> ev_device e = dev \<and> ev_day e = ep"

section \<open>Statements\<close>

definition select_names :: "string \<Rightarrow> mt_db \<Rightarrow> string list option" where
  "select_names dev db = map_option nr_ch (find (\<lambda>r. nr_device r = dev) (names_tab db))"

definition replace_names :: "string \<Rightarrow> string list \<Rightarrow> mt_db \<Rightarrow> mt_db" where
  "replace_names dev ns db = db\<lparr>names_tab :=
     replace_row (\<lambda>r. nr_device r = dev) \<lparr>nr_device = dev, nr_ch = map c_str ns\<rparr> (names_tab db)\<rparr>"

definition replace_history :: "string \<Rightarrow> int \<Rightarrow> int list \<Rightarrow> mt_db \<Rightarrow> mt_db" where
  "replace_history dev ep ts db = db\<lparr>channel_history :=
     replace_row (hist_key dev ep) \<lparr>hr_device = dev, hr_day = ep, hr_ch = ts\<rparr> (channel_history db)\<rparr>"

definition upsert_history :: "string \<Rightarrow> int \<Rightarrow> int list \<Rightarrow> mt_db \<Rightarrow> mt_db" where
  "upsert_history dev ep add db = db\<lparr>channel_history :=
     (if list_ex (hist_key dev ep) (channel_history db)
      then upd_first (hist_key dev ep) (\<lambda>r. r\<lparr>hr_ch := map2 (+) (hr_ch r) add\<rparr>) (channel_history db)
      else channel_history db @ [\<lparr>hr_device = dev, hr_day = ep, hr_ch = add\<rparr>])\<rparr>"

definition select_history :: "string \<Rightarrow> mt_db \<Rightarrow> history_row list" where
  "select_history dev db = sort_key hr_day (filter (\<lambda>r. hr_device r = dev) (channel_history db))"

definition select_history_day :: "string \<Rightarrow> int \<Rightarrow> mt_db \<Rightarrow> int list option" where
  "select_history_day dev ep db = map_option hr_ch (find (hist_key dev ep) (channel_history db))"

definition delete_events :: "string \<Rightarrow> int \<Rightarrow> mt_db \<Rightarrow> mt_db" where
  "delete_events dev ep db =
     db\<lparr>channel_events := filter (\<lambda>e. \<not> event_key dev ep e) (channel_events db)\<rparr>"

definition delete_events_before :: "string \<Rightarrow> int \<Rightarrow> mt_db \<Rightarrow> mt_db" where
  "delete_events_before dev threshold db =
     db\<lparr>channel_events := filter (\<lambda>e. \<not> (ev_device e = dev \<and> ev_day e < threshold)) (channel_events db)\<rparr>"

definition insert_events :: "string \<Rightarrow> int \<Rightarrow> int \<Rightarrow> int \<Rightarrow> int list \<Rightarrow> mt_db \<Rightarrow> mt_db" where
  "insert_events dev ep ch typ secs db =
     db\<lparr>channel_events := channel_events db @
        map (\<lambda>s. \<lparr>ev_device = dev, ev_day = ep, ev_channel = ch, ev_type = typ, ev_sec = s\<rparr>) secs\<rparr>"

definition select_events :: "string \<Rightarrow> mt_db \<Rightarrow> event_row list" where
  "select_events dev db = filter (\<lambda>e. ev_device e = dev) (channel_events db)"

definition replace_session :: "string \<Rightarrow> int \<Rightarrow> int list \<Rightarrow> int \<Rightarrow> mt_db \<Rightarrow> mt_db" where
  "replace_session dev ep ts working db = db\<lparr>channel_session :=
     replace_row (\<lambda>r. sr_device r = dev)
       \<lparr>sr_device = dev, sr_day = ep, sr_ch = ts, sr_working = working\<rparr> (channel_session db)\<rparr>"

definition select_session :: "string \<Rightarrow> mt_db \<Rightarrow> session_row option" where
  "select_session dev db = find (\<lambda>r. sr_device r = dev) (channel_session db)"

section \<open>What a statement reads after another\<close>

lemma find_filter_not: "(\<And>x. q x \<Longrightarrow> \<not> p x) \<Longrightarrow> find q (filter (\<lambda>x. \<not> p x) xs) = find q xs"
  by (induction xs) auto

lemma find_filter_same: "find p (filter (\<lambda>x. \<not> p x) xs) = None"
  by (induction xs) auto

lemma find_replace_row: "key x \<Longrightarrow> find key (replace_row key x t) = Some x"
  by (simp add: replace_row_def find_append find_filter_same)

lemma find_replace_other:
  "(\<And>y. q y \<Longrightarrow> \<not> key y) \<Longrightarrow> \<not> q x \<Longrightarrow> find q (replace_row key x t) = find q t"
  by (simp add: replace_row_def find_append find_filter_not split: option.split)

end
