(* ===== verification/MachineTime.thy ===== *)
theory MachineTime
  imports MachineStore Crypter
begin

text \<open>
  Class \<open>MachineTime\<close> of \<open>esp8266_decoder/source/MachineTime.cpp\<close>: the working time
  of the 19 channels of a device, by day and for the current session, with the start and stop
  events. An operation takes the time it is called at (\<open>now\<close>, every \<open>std::time\<close> of
  the operation), the object and the data base. The mutexes make every operation atomic.
  \<open>month.back()\<close> of an empty vector is the fault \<open>EmptyBack\<close>.
\<close>

section \<open>State\<close>

record day =
  d_time :: int
  channel_time :: "int list"
  working_now :: "bool list"
  channel_start :: "int list list"
  channel_stop :: "int list list"
  pending_count :: "int list"

record machine =
  mt_id :: string
  mt_cripter :: my_cripter
  tzOffset :: int
  month :: "day list"
  old_month :: "day list"
  this_session :: day
  channel_names :: "string list"

type_synonym mt_state = "machine \<times> mt_db option"

definition day_at :: "int \<Rightarrow> day" where
  "day_at ep = \<lparr>d_time = ep, channel_time = replicate 19 0, working_now = replicate 19 False,
     channel_start = replicate 19 [], channel_stop = replicate 19 [], pending_count = replicate 19 0\<rparr>"

text \<open>\<open>Day(tzOffset)\<close>: the time is stored in an \<open>int\<close> before it is divided.\<close>

definition day_now :: "int \<Rightarrow> int \<Rightarrow> day" where
  "day_now now tz = day_at (cdiv (to_int32 (now + tz)) 86400)"

definition dev_of :: "machine \<Rightarrow> string" where
  "dev_of m = c_str (mt_id m)"

section \<open>Reading and writing the data base\<close>

definition db_load_names :: "mt_db \<Rightarrow> machine \<Rightarrow> machine" where
  "db_load_names db m = (case select_names (dev_of m) db of
       None \<Rightarrow> m
     | Some ns \<Rightarrow> m\<lparr>channel_names := take 1 (channel_names m) @ take 18 ns\<rparr>)"

definition db_save_names :: "machine \<Rightarrow> mt_db option \<Rightarrow> mt_db option" where
  "db_save_names m db = map_option (replace_names (dev_of m) (take 18 (drop 1 (channel_names m)))) db"

fun insert_day :: "int \<Rightarrow> day list \<Rightarrow> day list" where
  "insert_day ep [] = [day_at ep]"
| "insert_day ep (d # ds) = (if d_time d < ep then d # insert_day ep ds else day_at ep # d # ds)"

definition find_or_create_day :: "day list \<Rightarrow> int \<Rightarrow> day list" where
  "find_or_create_day ds ep = (if list_ex (\<lambda>d. d_time d = ep) ds then ds else insert_day ep ds)"

text \<open>A change through the reference that \<open>find_or_create_day\<close> returns.\<close>

definition on_day :: "int \<Rightarrow> (day \<Rightarrow> day) \<Rightarrow> day list \<Rightarrow> day list" where
  "on_day ep f ds = upd_first (\<lambda>d. d_time d = ep) f (find_or_create_day ds ep)"

definition db_save_history_day :: "string \<Rightarrow> day \<Rightarrow> mt_db option \<Rightarrow> mt_db option" where
  "db_save_history_day dev d db = map_option (replace_history dev (d_time d) (channel_time d)) db"

definition insert_day_events :: "string \<Rightarrow> day \<Rightarrow> nat \<Rightarrow> mt_db \<Rightarrow> mt_db" where
  "insert_day_events dev d ch db =
     insert_events dev (d_time d) (int ch) 1 (channel_stop d ! ch)
       (insert_events dev (d_time d) (int ch) 0 (channel_start d ! ch) db)"

definition db_save_events_day :: "string \<Rightarrow> day \<Rightarrow> mt_db option \<Rightarrow> mt_db option" where
  "db_save_events_day dev d db = map_option
     (\<lambda>db. fold (insert_day_events dev d) [0..<19] (delete_events dev (d_time d) db)) db"

fun working_mask :: "bool list \<Rightarrow> int" where
  "working_mask [] = 0"
| "working_mask (w # ws) = (if w then 1 else 0) + 2 * working_mask ws"

definition db_save_session :: "machine \<Rightarrow> mt_db option \<Rightarrow> mt_db option" where
  "db_save_session m db =
     (if month m = [] then db
      else map_option (replace_session (dev_of m) (d_time (last (month m)))
             (channel_time (this_session m)) (working_mask (working_now (this_session m)))) db)"

definition db_add_history_times :: "string \<Rightarrow> int \<Rightarrow> int list \<Rightarrow> mt_db option \<Rightarrow> mt_db option" where
  "db_add_history_times dev ep add db = map_option (upsert_history dev ep add) db"

section \<open>Days, months and sessions\<close>

definition db_save_last_day :: "machine \<Rightarrow> mt_db option \<Rightarrow> mt_db option" where
  "db_save_last_day m db =
     (if month m = [] then db
      else db_save_events_day (dev_of m) (last (month m))
             (db_save_history_day (dev_of m) (last (month m)) db))"

definition new_day :: "int \<Rightarrow> mt_state \<Rightarrow> mt_state" where
  "new_day now = (\<lambda>(m, db).
     (m\<lparr>month := month m @ [day_now now (tzOffset m)]\<rparr>, db_save_last_day m db))"

definition new_month :: "mt_state \<Rightarrow> mt_state" where
  "new_month = (\<lambda>(m, db).
     let db = db_save_last_day m db;
         db = (if old_month m = [] then db
               else map_option (delete_events_before (dev_of m) (d_time (hd (old_month m)))) db)
     in (m\<lparr>old_month := month m, month := []\<rparr>, db))"

definition add_times :: "int list \<Rightarrow> day \<Rightarrow> day" where
  "add_times ts d = d\<lparr>channel_time := map2 (\<lambda>a b. to_int32 (a + b)) (channel_time d) ts\<rparr>"

text \<open>\<open>month.back()\<close> changed.\<close>

definition back_day :: "(day \<Rightarrow> day) \<Rightarrow> machine \<Rightarrow> machine res" where
  "back_day f m = (if month m = [] then Inl EmptyBack
     else Ok (m\<lparr>month := butlast (month m) @ [f (last (month m))]\<rparr>))"

definition zero_session :: "machine \<Rightarrow> machine" where
  "zero_session m = m\<lparr>this_session := (this_session m)\<lparr>channel_time := replicate 19 0\<rparr>\<rparr>"

definition new_session :: "int \<Rightarrow> mt_state \<Rightarrow> mt_state res" where
  "new_session now = (\<lambda>(m, db).
     bind_res (back_day (add_times (channel_time (this_session m))) m) (\<lambda>m.
       let m = zero_session m;
           db = db_save_session m db;
           t = now + tzOffset m;
           tm = gmtime t
       in if d_time (last (month m)) \<noteq> cdiv t 86400
          then Ok (new_day now
                (if tm_mon tm + tm_year tm * 12 \<noteq> my_time_get_month_epoch (d_time (last (month m)))
                 then new_month (m, db) else (m, db)))
          else Ok (m, db)))"

section \<open>A packet of the device\<close>

definition fourBytesToInt :: "byte list \<Rightarrow> nat \<Rightarrow> int" where
  "fourBytesToInt data offset = sint (bytes_word (drop (offset * 4) data))"

definition push_at :: "nat \<Rightarrow> 'a \<Rightarrow> 'a list list \<Rightarrow> 'a list list" where
  "push_at i x xss = xss[i := xss ! i @ [x]]"

definition set_flags :: "nat \<Rightarrow> bool \<Rightarrow> int \<Rightarrow> machine \<Rightarrow> machine" where
  "set_flags i w p m = m\<lparr>this_session := (this_session m)
     \<lparr>working_now := (working_now (this_session m))[i := w],
      pending_count := (pending_count (this_session m))[i := p]\<rparr>\<rparr>"

definition set_time :: "nat \<Rightarrow> int \<Rightarrow> machine \<Rightarrow> machine" where
  "set_time i t m = m\<lparr>this_session := (this_session m)
     \<lparr>channel_time := (channel_time (this_session m))[i := t]\<rparr>\<rparr>"

text \<open>The body of the loop of \<open>set\<close>; the last branch of the code only prints a message.\<close>

definition set_channel :: "byte list \<Rightarrow> nat \<Rightarrow> machine \<Rightarrow> machine res" where
  "set_channel data i m =
     (let j = (if i < 11 then i else i + 1);
          time_tmp = fourBytesToInt data j div 256;
          s = this_session m;
          time_ch = channel_time s ! i;
          increased = time_tmp > time_ch;
          unchanged = (time_tmp = time_ch);
          w = working_now s ! i;
          p = pending_count s ! i
      in bind_res
           (if increased \<and> \<not> w then
              if p + 1 \<ge> 3
              then back_day (\<lambda>d. d\<lparr>channel_start := push_at i (d_time s) (channel_start d)\<rparr>)
                     (set_flags i True 0 m)
              else Ok (set_flags i w (p + 1) m)
            else if unchanged \<and> w then
              if p + 1 \<ge> 3
              then back_day (\<lambda>d. d\<lparr>channel_stop := push_at i (d_time s) (channel_stop d)\<rparr>)
                     (set_flags i False 0 m)
              else Ok (set_flags i w (p + 1) m)
            else if (increased \<and> w) \<or> (unchanged \<and> \<not> w) then Ok (set_flags i w 0 m)
            else Ok m)
           (\<lambda>m. Ok (set_time i time_tmp m)))"

fun set_channels :: "byte list \<Rightarrow> nat list \<Rightarrow> machine \<Rightarrow> machine res" where
  "set_channels data [] m = Ok m"
| "set_channels data (i # is) m = bind_res (set_channel data i m) (set_channels data is)"

definition crypt_out :: "string \<Rightarrow> machine \<Rightarrow> string \<times> machine" where
  "crypt_out t m = (let (out, c) = encrypt (text_bytes t) (mt_cripter m)
     in (out, m\<lparr>mt_cripter := c\<rparr>))"

definition crypt_in :: "(string \<Rightarrow> string) \<Rightarrow> string \<Rightarrow> machine \<Rightarrow> byte list \<times> machine" where
  "crypt_in cfg value m = (let (data, c) = decrypt cfg value (mt_cripter m)
     in (data, m\<lparr>mt_cripter := c\<rparr>))"

definition set_post :: "(string \<Rightarrow> string) \<Rightarrow> string \<Rightarrow> machine \<Rightarrow> string \<times> machine" where
  "set_post cfg value m =
     (let (data, m) = crypt_in cfg value m
      in if data = [] then crypt_out ''Invalid data size'' m
         else crypt_out (cfg ''myStaticKeyResponce'') m)"

definition mt_set :: "(string \<Rightarrow> string) \<Rightarrow> int \<Rightarrow> string \<Rightarrow> mt_state \<Rightarrow> (string \<times> mt_state) res" where
  "mt_set cfg now value = (\<lambda>(m, db).
     let (data, m) = crypt_in cfg value m
     in if length data \<noteq> 80
        then (let (out, m) = crypt_out ''Invalid data size'' m in Ok (out, (m, db)))
        else bind_res (if fourBytesToInt data 11 \<noteq> 0 then new_session now (m, db) else Ok (m, db)) (\<lambda>(m, db).
             let m = m\<lparr>this_session := (this_session m)\<lparr>d_time := to_int32 (cmod (now + tzOffset m) 86400)\<rparr>\<rparr>
             in bind_res (set_channels data [0..<19] m) (\<lambda>m.
                  let (out, m) = crypt_out (cfg ''myStaticKeyResponce'') m in Ok (out, (m, db)))))"

definition set_timeOffset :: "(string \<Rightarrow> int option) \<Rightarrow> string \<Rightarrow> machine \<Rightarrow> machine res" where
  "set_timeOffset tz name m = bind_res (offsetTimeZone tz name) (\<lambda>off. Ok (m\<lparr>tzOffset := off\<rparr>))"

definition set_name :: "int \<Rightarrow> string \<Rightarrow> mt_state \<Rightarrow> bool \<times> mt_state" where
  "set_name ch name = (\<lambda>(m, db).
     if ch < 1 \<or> ch > 18 then (False, (m, db))
     else let m = m\<lparr>channel_names := (channel_names m)[nat ch := name]\<rparr>
          in (True, (m, db_save_names m db)))"

definition delete_name :: "int \<Rightarrow> mt_state \<Rightarrow> bool \<times> mt_state" where
  "delete_name ch = (\<lambda>(m, db).
     if ch < 1 \<or> ch > 18 then (False, (m, db))
     else let m = m\<lparr>channel_names := (channel_names m)[nat ch := []]\<rparr>
          in (True, (m, db_save_names m db)))"

definition update_today :: "mt_state \<Rightarrow> mt_state" where
  "update_today = (\<lambda>(m, db).
     if month m = [] then (m, db)
     else (m, db_save_session m (db_save_history_day (dev_of m) (last (month m)) db)))"

section \<open>Start and end of an object\<close>

definition load_history_row :: "int \<Rightarrow> int \<Rightarrow> history_row \<Rightarrow> machine \<Rightarrow> machine" where
  "load_history_row today_m prev_m row m =
     (let ep = to_int32 (hr_day row); mm = my_time_get_month_epoch ep;
          f = (\<lambda>d. d\<lparr>channel_time := map to_int32 (hr_ch row)\<rparr>)
      in if mm = today_m then m\<lparr>month := on_day ep f (month m)\<rparr>
         else if mm = prev_m then m\<lparr>old_month := on_day ep f (old_month m)\<rparr>
         else m)"

definition load_event_row :: "int \<Rightarrow> int \<Rightarrow> event_row \<Rightarrow> machine \<times> int list \<Rightarrow> machine \<times> int list" where
  "load_event_row today_m prev_m row = (\<lambda>(m, stale).
     let ep = to_int32 (ev_day row); ch = to_int32 (ev_channel row);
         typ = to_int32 (ev_type row); sec = to_int32 (ev_sec row);
         mm = my_time_get_month_epoch ep;
         f = (\<lambda>d. if typ = 0 then d\<lparr>channel_start := push_at (nat ch) sec (channel_start d)\<rparr>
                  else d\<lparr>channel_stop := push_at (nat ch) sec (channel_stop d)\<rparr>)
     in if ch < 0 \<or> ch \<ge> 19 then (m, stale)
        else if mm = today_m then (m\<lparr>month := on_day ep f (month m)\<rparr>, stale)
        else if mm = prev_m then (m\<lparr>old_month := on_day ep f (old_month m)\<rparr>, stale)
        else (m, stale @ [ep]))"

definition load_rows :: "int \<Rightarrow> int \<Rightarrow> machine \<Rightarrow> mt_db \<Rightarrow> machine \<times> mt_db" where
  "load_rows today_m prev_m m db =
     (let m = fold (load_history_row today_m prev_m) (select_history (dev_of m) db) m;
          (m, stale) = fold (load_event_row today_m prev_m) (select_events (dev_of m) db) (m, [])
      in (m, fold (delete_events (dev_of m)) stale db))"

text \<open>The row of the unfinished session: kept alive on its own day, closed into that day later.\<close>

definition bit_set :: "int \<Rightarrow> nat \<Rightarrow> bool" where
  "bit_set w i \<longleftrightarrow> w div 2 ^ i mod 2 = 1"

definition resume_session :: "session_row \<Rightarrow> machine \<Rightarrow> machine" where
  "resume_session r m = m\<lparr>this_session := (this_session m)
     \<lparr>channel_time := map to_int32 (sr_ch r),
      working_now := map (bit_set (to_int32 (sr_working r))) [0..<19]\<rparr>\<rparr>"

definition close_session :: "int \<Rightarrow> int \<Rightarrow> session_row \<Rightarrow> machine \<times> mt_db \<Rightarrow> machine \<times> mt_db" where
  "close_session today_m prev_m r = (\<lambda>(m, db).
     let ep = to_int32 (sr_day r); ts = map to_int32 (sr_ch r); mm = my_time_get_month_epoch ep;
         save = (\<lambda>ds. case find (\<lambda>d. d_time d = ep) ds of None \<Rightarrow> db
                   | Some d \<Rightarrow> replace_history (dev_of m) (d_time d) (channel_time d) db)
     in if mm = today_m
        then let ds = on_day ep (add_times ts) (month m) in (m\<lparr>month := ds\<rparr>, save ds)
        else if mm = prev_m
        then let ds = on_day ep (add_times ts) (old_month m) in (m\<lparr>old_month := ds\<rparr>, save ds)
        else (m, upsert_history (dev_of m) ep ts db))"

definition restore_session :: "int \<Rightarrow> int \<Rightarrow> int \<Rightarrow> machine \<times> mt_db \<Rightarrow> machine \<times> mt_db" where
  "restore_session today today_m prev_m = (\<lambda>(m, db).
     case select_session (dev_of m) db of
       None \<Rightarrow> if today = -1 then (m\<lparr>this_session := (this_session m)
           \<lparr>channel_time := replicate 19 0, working_now := replicate 19 False\<rparr>\<rparr>, db) else (m, db)
     | Some r \<Rightarrow>
         if to_int32 (sr_day r) = today then (resume_session r m, db)
         else if to_int32 (sr_day r) > 0 then close_session today_m prev_m r (m, db)
         else (m, db))"

definition ensure_today :: "int \<Rightarrow> machine \<Rightarrow> machine" where
  "ensure_today today m =
     (if month m = [] \<or> d_time (last (month m)) \<noteq> today
      then m\<lparr>month := month m @ [day_at today]\<rparr> else m)"

definition blank_machine :: "(string \<Rightarrow> string) \<Rightarrow> byte list \<Rightarrow> int \<Rightarrow> string \<Rightarrow> int \<Rightarrow> machine" where
  "blank_machine cfg junk now dev off = \<lparr>mt_id = dev, mt_cripter = new_cripter cfg junk, tzOffset = off,
     month = [], old_month = [], this_session = day_now now off, channel_names = replicate 19 []\<rparr>"

definition new_machine ::
  "(string \<Rightarrow> string) \<Rightarrow> byte list \<Rightarrow> (string \<Rightarrow> int option) \<Rightarrow> int \<Rightarrow> string \<Rightarrow> string \<Rightarrow> mt_db option \<Rightarrow>
     mt_state res" where
  "new_machine cfg junk tz now dev tz_str dbo =
     bind_res (offsetTimeZone tz tz_str) (\<lambda>off.
       let m = blank_machine cfg junk now dev off
       in case dbo of
            None \<Rightarrow> Ok (new_day now (m, None))
          | Some db \<Rightarrow>
              (let m = db_load_names db m;
                   today = to_int32 (cdiv (now + off) 86400);
                   today_m = my_time_get_month_epoch today;
                   (m, db) = load_rows today_m (today_m - 1) m db;
                   (m, db) = restore_session today today_m (today_m - 1) (m, db);
                   m = ensure_today today m
               in Ok (m, db_save_session m (Some db))))"

definition destroy_machine :: "machine \<Rightarrow> mt_db option \<Rightarrow> mt_db option" where
  "destroy_machine m db =
     (if month m = [] then db
      else db_save_events_day (dev_of m) (last (month m))
             (db_save_session m (db_save_history_day (dev_of m) (last (month m)) db)))"

end
