(* ===== verification/MachineView.thy ===== *)
theory MachineView
  imports MachineTime
begin

text \<open>
  What class \<open>MachineTime\<close> shows of its state, as JSON text: the days of the two months it
  holds, the channels of a day (from memory, or from the data base for older days), the events of a
  channel, the names. \<open>loc\<close> is the server's own clock as text (\<open>my_time_str\<close>, which
  depends on the locale of the machine).
\<close>

definition comma :: "nat \<Rightarrow> string" where
  "comma i = (if i > 0 then '','' else [])"

text \<open>\<open>snprintf\<close> into a buffer of 64.\<close>

definition channel_json :: "nat \<Rightarrow> int \<Rightarrow> bool \<Rightarrow> string" where
  \<open>channel_json i t wn = take 63 (comma i @ ''{"id":'' @ nat_str i @ '',"time_seconds":'' @ int_str t @
     '',"working_now":'' @ (if wn then ''true'' else ''false'') @ ''}'')\<close>

definition get_day_info :: "string \<Rightarrow> int \<Rightarrow> machine \<Rightarrow> day \<Rightarrow> string res" where
  \<open>get_day_info loc now m d =
     (if month m = [] then Inl EmptyBack
      else let current = (d_time (last (month m)) = d_time d)
           in Ok (''{"server_time":"'' @ loc @ ''","gadget_time":"'' @ my_time_str_offset now (tzOffset m) @
                ''","channels":['' @
                concat (map (\<lambda>i. channel_json i
                  (if current then to_int32 (channel_time d ! i + channel_time (this_session m) ! i)
                   else channel_time d ! i)
                  (current \<and> working_now (this_session m) ! i)) [0..<19]) @ '']}''))\<close>

definition day_json :: "day \<Rightarrow> string" where
  \<open>day_json d = ''{"epoch":'' @ int_str (d_time d) @ '',"date":"'' @ my_time_str_calendar_day (d_time d) @ ''"}''\<close>

fun join_comma :: "string list \<Rightarrow> string" where
  "join_comma [] = []"
| "join_comma [x] = x"
| "join_comma (x # xs) = x @ '','' @ join_comma xs"

definition get_month_info :: "string \<Rightarrow> int \<Rightarrow> machine \<Rightarrow> string" where
  \<open>get_month_info loc now m = ''{"server_time":"'' @ loc @ ''","gadget_time":"'' @
     my_time_str_offset now (tzOffset m) @ ''","days":['' @
     join_comma (map day_json (old_month m @ month m)) @ '']}''\<close>

definition get_from_db :: "machine \<Rightarrow> int \<Rightarrow> mt_db option \<Rightarrow> string" where
  \<open>get_from_db m day db = (case db of None \<Rightarrow> [] | Some db \<Rightarrow>
     (case select_history_day (dev_of m) day db of
        None \<Rightarrow> []
      | Some ts \<Rightarrow> ''{"server_time":"","gadget_time":"","channels":['' @
          concat (map (\<lambda>i. channel_json i (to_int32 (ts ! i)) False) [0..<19]) @ '']}''))\<close>

definition int_max :: int where
  "int_max = 2 ^ 31 - 1"

definition earliest :: "machine \<Rightarrow> int" where
  "earliest m = (if old_month m \<noteq> [] then d_time (hd (old_month m))
     else if month m \<noteq> [] then d_time (hd (month m)) else int_max)"

definition find_day :: "machine \<Rightarrow> int \<Rightarrow> day option" where
  "find_day m ep = (case find (\<lambda>d. d_time d = ep) (old_month m) of
       Some d \<Rightarrow> Some d | None \<Rightarrow> find (\<lambda>d. d_time d = ep) (month m))"

definition mt_get :: "string \<Rightarrow> int \<Rightarrow> int \<Rightarrow> mt_state \<Rightarrow> string res" where
  "mt_get loc now day = (\<lambda>(m, db).
     if day = 0 then Ok (get_month_info loc now m)
     else if day < earliest m then Ok (get_from_db m day db)
     else case find_day m day of None \<Rightarrow> Ok [] | Some d \<Rightarrow> get_day_info loc now m d)"

definition get_events :: "int \<Rightarrow> int \<Rightarrow> machine \<Rightarrow> string" where
  \<open>get_events day channel m =
     (if channel < 0 \<or> channel \<ge> 19 then ''{"error":"channel out of range"}''
      else case find_day m day of
          None \<Rightarrow> ''{"error":"day not found"}''
        | Some d \<Rightarrow> ''{"day":'' @ int_str day @ '',"channel":'' @ int_str channel @ '',"starts":['' @
            join_comma (map int_str (channel_start d ! nat channel)) @ ''],"stops":['' @
            join_comma (map int_str (channel_stop d ! nat channel)) @ '']}'')\<close>

definition escape_char :: "char \<Rightarrow> string" where
  "escape_char c = (if ord c = 34 then [CHR 0x5C, CHR 0x22]
     else if ord c = 92 then [CHR 0x5C, CHR 0x5C] else [c])"

definition json_quote :: "string \<Rightarrow> string" where
  "json_quote s = [CHR 0x22] @ concat (map escape_char s) @ [CHR 0x22]"

definition get_names :: "machine \<Rightarrow> string" where
  \<open>get_names m = ''{"names":['' @ join_comma (map json_quote (take 18 (drop 1 (channel_names m)))) @ '']}''\<close>

end
