(* ===== verification/MachineTimeHttp.thy ===== *)
theory MachineTimeHttp
  imports MachineView EspHttp "HOL-Library.Char_ord" "HOL-Library.List_Lexorder"
begin

text \<open>
  The MachineTime server behind its HTTP interface: the objects by device id (a \<open>std::map\<close>,
  so a list sorted by its keys), the four request handlers of
  \<open>esp8266_decoder/source/MachineTime.cpp\<close>, the router (\<open>router.cpp\<close>), what a worker
  does with a connection (\<open>worker_pool.cpp\<close>), the saving agent and the end of the process.
  What a call takes from outside is a record: the configuration, the time zone data base, the
  clock, the content of fresh memory, the server's local time as text, the files.
\<close>

section \<open>State\<close>

record mt_srv =
  machineTime :: "(string \<times> machine) list"
  mt_g_db :: "mt_db option"

record mt_env =
  en_cfg :: "string \<Rightarrow> string"
  en_tz :: "string \<Rightarrow> int option"
  en_now :: int
  en_junk :: "byte list"
  en_loc :: string
  en_fs :: "string \<Rightarrow> string option"

fun put_machine :: "string \<Rightarrow> machine \<Rightarrow> (string \<times> machine) list \<Rightarrow> (string \<times> machine) list" where
  "put_machine k m [] = [(k, m)]"
| "put_machine k m ((k', m') # ms) =
     (if k = k' then (k, m) # ms
      else if k < k' then (k, m) # (k', m') # ms
      else (k', m') # put_machine k m ms)"

definition store_state :: "string \<Rightarrow> mt_state \<Rightarrow> mt_srv \<Rightarrow> mt_srv" where
  "store_state k st srv = srv\<lparr>machineTime := put_machine k (fst st) (machineTime srv), mt_g_db := snd st\<rparr>"

definition init_machine_time_db :: "mt_db option \<Rightarrow> mt_srv \<Rightarrow> mt_srv" where
  "init_machine_time_db opened srv = (if mt_g_db srv = None then srv\<lparr>mt_g_db := opened\<rparr> else srv)"

section \<open>Handlers\<close>

definition octets :: string where
  "octets = ''application/octet-stream''"

definition json_type :: string where
  "json_type = ''application/json''"

definition ids_json :: "mt_srv \<Rightarrow> string" where
  \<open>ids_json srv = ''{"ids":['' @ join_comma (map (\<lambda>(k, m). json_quote k) (machineTime srv)) @ '']}''\<close>

definition getMachineTime18Channels :: "mt_env \<Rightarrow> e_request \<Rightarrow> mt_srv \<Rightarrow> response res" where
  "getMachineTime18Channels en rq srv =
     (if e_param rq QUERY ''ids'' then Ok (Response_body 200 (ids_json srv) json_type)
      else case map_of (machineTime srv) (e_znach rq QUERY ''id'') of
          None \<Rightarrow> Ok (Response 404)
        | Some m \<Rightarrow>
            if e_param rq QUERY ''name'' then Ok (Response_body 200 (get_names m) json_type)
            else if e_param rq QUERY ''channel''
            then if \<not> e_param rq QUERY ''day'' then Ok (Response 400)
                 else Ok (Response_body 200 (get_events (atoi (e_znach rq QUERY ''day''))
                        (atoi (e_znach rq QUERY ''channel'')) m) json_type)
            else if e_param rq QUERY ''day''
            then bind_res (mt_get (en_loc en) (en_now en) (atoi (e_znach rq QUERY ''day'')) (m, mt_g_db srv))
                   (\<lambda>resp. if resp = [] then Ok (Response 404) else Ok (Response_body 200 resp json_type))
            else bind_res (mt_get (en_loc en) (en_now en) 0 (m, mt_g_db srv))
                   (\<lambda>resp. Ok (Response_body 200 resp json_type)))"

definition zone_header :: "e_request \<Rightarrow> string option" where
  "zone_header rq = (if e_param rq HEADERS ''x-timezone'' then Some (e_znach rq HEADERS ''x-timezone'')
     else None)"

definition adopt_zone :: "mt_env \<Rightarrow> e_request \<Rightarrow> machine \<Rightarrow> machine res" where
  "adopt_zone en rq m = (case zone_header rq of None \<Rightarrow> Ok m | Some z \<Rightarrow> set_timeOffset (en_tz en) z m)"

text \<open>The three parts of the POST handler between which other workers may run.\<close>

definition post_create :: "mt_env \<Rightarrow> e_request \<Rightarrow> mt_srv \<Rightarrow> (machine \<times> mt_srv) res" where
  "post_create en rq srv =
     bind_res (new_machine (en_cfg en) (en_junk en) (en_tz en) (en_now en) (e_znach rq QUERY ''id'')
         (case zone_header rq of None \<Rightarrow> ''UTC'' | Some z \<Rightarrow> z) (mt_g_db srv))
       (\<lambda>(m, db). Ok (m, srv\<lparr>mt_g_db := db\<rparr>))"

text \<open>Another worker may have been faster; then the object just made is destroyed again.\<close>

definition post_register :: "string \<Rightarrow> machine \<Rightarrow> mt_srv \<Rightarrow> mt_srv" where
  "post_register k m srv = (case map_of (machineTime srv) k of
       Some m' \<Rightarrow> srv\<lparr>mt_g_db := destroy_machine m (mt_g_db srv)\<rparr>
     | None \<Rightarrow> srv\<lparr>machineTime := put_machine k m (machineTime srv)\<rparr>)"

definition post_answer :: "mt_env \<Rightarrow> string \<Rightarrow> string \<Rightarrow> mt_srv \<Rightarrow> (response \<times> mt_srv) res" where
  "post_answer en k body srv = (case map_of (machineTime srv) k of
       None \<Rightarrow> Inl NullDeref
     | Some m \<Rightarrow> (let (out, m) = set_post (en_cfg en) body m
          in Ok (Response_body 200 out octets, store_state k (m, mt_g_db srv) srv)))"

definition postMachineTime18Channels :: "mt_env \<Rightarrow> e_request \<Rightarrow> mt_srv \<Rightarrow> (response \<times> mt_srv) res" where
  "postMachineTime18Channels en rq srv =
     (let k = e_znach rq QUERY ''id''
      in bind_res
           (case map_of (machineTime srv) k of
              Some m \<Rightarrow> bind_res (adopt_zone en rq m) (\<lambda>m. Ok (store_state k (m, mt_g_db srv) srv))
            | None \<Rightarrow> bind_res (post_create en rq srv) (\<lambda>(m, srv). Ok (post_register k m srv)))
           (post_answer en k (er_body_str rq)))"

definition name_answer :: "string \<Rightarrow> mt_srv \<Rightarrow> bool \<times> mt_state \<Rightarrow> response \<times> mt_srv" where
  "name_answer k srv = (\<lambda>(ok, st). (if ok then Response 200 else Response 400, store_state k st srv))"

definition putMachineTime18Channels :: "mt_env \<Rightarrow> e_request \<Rightarrow> mt_srv \<Rightarrow> (response \<times> mt_srv) res" where
  "putMachineTime18Channels en rq srv =
     (let k = e_znach rq QUERY ''id''
      in case map_of (machineTime srv) k of
          None \<Rightarrow> Ok (Response 404, srv)
        | Some m \<Rightarrow>
            if e_param rq QUERY ''name''
            then if \<not> e_param rq QUERY ''channel'' then Ok (Response 400, srv)
                 else Ok (name_answer k srv (set_name (atoi (e_znach rq QUERY ''channel''))
                        (e_znach rq QUERY ''name'') (m, mt_g_db srv)))
            else bind_res (adopt_zone en rq m) (\<lambda>m.
                 bind_res (mt_set (en_cfg en) (en_now en) (er_body_str rq) (m, mt_g_db srv)) (\<lambda>(out, st).
                   Ok (Response_body 200 out octets, store_state k st srv))))"

definition deleteMachineTime18Channels :: "e_request \<Rightarrow> mt_srv \<Rightarrow> response \<times> mt_srv" where
  "deleteMachineTime18Channels rq srv =
     (let k = e_znach rq QUERY ''id''
      in case map_of (machineTime srv) k of
          None \<Rightarrow> (Response 404, srv)
        | Some m \<Rightarrow>
            if \<not> e_param rq QUERY ''channel'' then (Response 400, srv)
            else name_answer k srv (delete_name (atoi (e_znach rq QUERY ''channel'')) (m, mt_g_db srv)))"

section \<open>Router\<close>

definition channels_path :: string where
  "channels_path = ''/MachineTime18Channels/''"

definition mt_obrobka_get :: "mt_env \<Rightarrow> e_request \<Rightarrow> mt_srv \<Rightarrow> response res" where
  "mt_obrobka_get en rq srv =
     (if er_path rq = channels_path \<and> length (er_query rq) > 1 then getMachineTime18Channels en rq srv
      else if er_path rq = channels_path
      then Ok (recv_file (en_fs en) (rq\<lparr>er_path := er_path rq @ ''index.html''\<rparr>))
      else Ok (recv_file (en_fs en) rq))"

definition mt_obrobka_post :: "mt_env \<Rightarrow> e_request \<Rightarrow> mt_srv \<Rightarrow> (response \<times> mt_srv) res" where
  "mt_obrobka_post en rq srv =
     (if er_path rq = channels_path \<and> length (er_query rq) > 0 then postMachineTime18Channels en rq srv
      else Ok (Response 400, srv))"

definition mt_obrobka_put :: "mt_env \<Rightarrow> e_request \<Rightarrow> mt_srv \<Rightarrow> (response \<times> mt_srv) res" where
  "mt_obrobka_put en rq srv =
     (if er_path rq = channels_path \<and> length (er_query rq) > 0 then putMachineTime18Channels en rq srv
      else Ok (Response 400, srv))"

definition mt_obrobka_delete :: "e_request \<Rightarrow> mt_srv \<Rightarrow> response \<times> mt_srv" where
  "mt_obrobka_delete rq srv =
     (if er_path rq = channels_path \<and> length (er_query rq) > 0 then deleteMachineTime18Channels rq srv
      else (Response 400, srv))"

definition mt_dispatch :: "mt_env \<Rightarrow> e_request \<Rightarrow> mt_srv \<Rightarrow> (response \<times> mt_srv) res" where
  "mt_dispatch en rq srv =
     (if er_method rq = 1590 \<or> er_method rq = 1591
      then bind_res (mt_obrobka_get en rq srv) (\<lambda>r. Ok (r, srv))
      else if er_method rq = 1592 then mt_obrobka_post en rq srv
      else if er_method rq = 1593 then mt_obrobka_put en rq srv
      else if er_method rq = 1594 then Ok (mt_obrobka_delete rq srv)
      else Ok (Response 405, srv))"

text \<open>A worker with a connection; \<open>None\<close>: parsing never returns.\<close>

definition serve_connection :: "mt_env \<Rightarrow> conn \<Rightarrow> mt_srv \<Rightarrow> (string \<times> mt_srv) res option" where
  "serve_connection en c srv = (case parse_http_request c of
       None \<Rightarrow> None
     | Some (rq, c') \<Rightarrow> Some (bind_res (mt_dispatch en rq srv) (\<lambda>(r, srv).
           Ok (sendResponse (en_cfg en) (en_loc en) rq r, srv))))"

section \<open>Agent and end of the process\<close>

definition agent_enabled :: "(string \<Rightarrow> string) \<Rightarrow> bool" where
  "agent_enabled cfg \<longleftrightarrow> cfg ''save_db_agent'' = ''true'' \<or> cfg ''save_db_agent'' = ''1''"

text \<open>The period in minutes; what \<open>std::stoi\<close> throws is caught.\<close>

definition agent_minutes :: "(string \<Rightarrow> string) \<Rightarrow> int" where
  "agent_minutes cfg =
     (let s = cfg ''save_db_agent_period'';
          v = (if s = [] then 30 else case stoi s of Inl e \<Rightarrow> 30 | Inr i \<Rightarrow> i)
      in if v < 1 then 1 else v)"

definition agent_tick :: "mt_srv \<Rightarrow> mt_srv" where
  "agent_tick srv = srv\<lparr>mt_g_db :=
     fold (\<lambda>(k, m) db. snd (update_today (m, db))) (machineTime srv) (mt_g_db srv)\<rparr>"

text \<open>\<open>std::exit\<close> destroys the map before the data base, which was constructed first.\<close>

definition mt_shutdown :: "mt_srv \<Rightarrow> mt_srv" where
  "mt_shutdown srv = srv\<lparr>machineTime := [],
     mt_g_db := fold (\<lambda>(k, m) db. destroy_machine m db) (machineTime srv) (mt_g_db srv)\<rparr>"

end
