(* ===== verification/MachineTimeFacts.thy ===== *)
theory MachineTimeFacts
  imports MachineTimeHttp
begin

text \<open>
  Facts of the MachineTime objects: the shape invariant and its preservation by every operation,
  what lookups of days give after a change, and the rows a save leaves in the data base.
\<close>

section \<open>The shape invariant\<close>

definition is_int :: "int \<Rightarrow> bool" where
  "is_int i \<longleftrightarrow> - (2 ^ 31) \<le> i \<and> i < 2 ^ 31"

definition day_ok :: "day \<Rightarrow> bool" where
  "day_ok d \<longleftrightarrow> is_int (d_time d) \<and> length (channel_time d) = 19 \<and> list_all is_int (channel_time d) \<and>
     length (working_now d) = 19 \<and> length (channel_start d) = 19 \<and> length (channel_stop d) = 19 \<and>
     length (pending_count d) = 19 \<and> list_all (\<lambda>p. 0 \<le> p \<and> p < 3) (pending_count d) \<and>
     list_all (list_all is_int) (channel_start d) \<and> list_all (list_all is_int) (channel_stop d)"

definition machine_ok :: "machine \<Rightarrow> bool" where
  "machine_ok m \<longleftrightarrow> list_all day_ok (month m) \<and> list_all day_ok (old_month m) \<and>
     day_ok (this_session m) \<and> length (channel_names m) = 19"

definition mt_inv :: "machine \<Rightarrow> bool" where
  "mt_inv m \<longleftrightarrow> machine_ok m \<and> month m \<noteq> []"

definition event_ok :: "event_row \<Rightarrow> bool" where
  "event_ok e \<longleftrightarrow> is_int (ev_day e) \<and> 0 \<le> ev_channel e \<and> ev_channel e < 19 \<and> is_int (ev_sec e)"

definition db_ok :: "mt_db \<Rightarrow> bool" where
  "db_ok db \<longleftrightarrow> list_all (\<lambda>r. length (hr_ch r) = 19 \<and> is_int (hr_day r)) (channel_history db) \<and>
     list_all (\<lambda>r. length (nr_ch r) = 18) (names_tab db) \<and>
     list_all event_ok (channel_events db) \<and>
     list_all (\<lambda>r. length (sr_ch r) = 19) (channel_session db)"

definition dbo_ok :: "mt_db option \<Rightarrow> bool" where
  "dbo_ok dbo = pred_option db_ok dbo"

lemma dbo_ok_simps [simp]: "dbo_ok None" "dbo_ok (Some db) = db_ok db"
  by (simp_all add: dbo_ok_def)

lemma is_int_to_int32 [simp]: "is_int (to_int32 i)"
  using to_int32_range [of i] by (simp add: is_int_def)

lemma to_int32_is_int: "is_int i \<Longrightarrow> to_int32 i = i"
  by (simp add: is_int_def)

lemma is_int_0 [simp]: "is_int 0"
  by (simp add: is_int_def)

lemma is_int_cdiv: "is_int i \<Longrightarrow> 0 < b \<Longrightarrow> is_int (cdiv i b)"
proof -
  assume i: "is_int i" and b: "0 < b"
  have z: "0 \<le> \<bar>i\<bar> div \<bar>b\<bar>" using b by (simp add: pos_imp_zdiv_nonneg_iff)
  have "\<bar>i\<bar> div \<bar>b\<bar> \<le> \<bar>i\<bar>"
    using b zdiv_mono2 [of "\<bar>i\<bar>" 1 "\<bar>b\<bar>"] by simp
  with i z b show ?thesis by (auto simp: is_int_def cdiv_def)
qed

lemma is_int_fourBytes: "is_int (fourBytesToInt data j)" "is_int (fourBytesToInt data j div 256)"
proof -
  let ?w = "bytes_word (drop (j * 4) data)"
  have l: "- (2 ^ 31) \<le> sint ?w" "sint ?w < 2 ^ 31"
    using sint_ge [of ?w] sint_lt [of ?w] by simp_all
  then show "is_int (fourBytesToInt data j)" by (simp add: is_int_def fourBytesToInt_def)
  have "- (2 ^ 31) div 256 \<le> sint ?w div 256" by (rule zdiv_mono1) (use l in simp_all)
  moreover have "sint ?w div 256 \<le> (2 ^ 31 - 1) div 256" by (rule zdiv_mono1) (use l in simp_all)
  ultimately show "is_int (fourBytesToInt data j div 256)" by (simp add: is_int_def fourBytesToInt_def)
qed

lemma list_all_update: "list_all P xs \<Longrightarrow> P y \<Longrightarrow> list_all P (xs[i := y])"
  by (auto simp: list_all_iff dest: set_update_subset_insert [THEN subsetD])

lemma list_all_map2_any: "(\<And>a b. P (f a b)) \<Longrightarrow> list_all P (map2 f xs ys)"
  by (auto simp: list_all_iff)

lemma list_all_map_any: "(\<And>a. P (f a)) \<Longrightarrow> list_all P (map f xs)"
  by (auto simp: list_all_iff)

lemma list_all_replicate: "P x \<Longrightarrow> list_all P (replicate n x)"
  by (induction n) auto

lemma day_ok_at: "is_int ep \<Longrightarrow> day_ok (day_at ep)"
  by (simp add: day_ok_def day_at_def list_all_replicate)

lemma day_ok_now: "day_ok (day_now now tz)"
  by (simp add: day_now_def day_ok_at is_int_cdiv)

lemma day_ok_add: "day_ok d \<Longrightarrow> length ts = 19 \<Longrightarrow> day_ok (add_times ts d)"
  by (simp add: day_ok_def add_times_def list_all_map2_any)

lemma day_ok_times: "day_ok d \<Longrightarrow> length ts = 19 \<Longrightarrow> day_ok (d\<lparr>channel_time := map to_int32 ts\<rparr>)"
  by (simp add: day_ok_def list_all_map_any)

lemma list_all_nth: "list_all P xs \<Longrightarrow> i < length xs \<Longrightarrow> P (xs ! i)"
  by (simp add: list_all_length)

lemma list_all_push: "list_all (list_all P) xss \<Longrightarrow> P x \<Longrightarrow> list_all (list_all P) (push_at i x xss)"
  unfolding push_at_def
  by (cases "i < length xss") (simp_all add: list_all_update list_all_nth list_update_beyond)

lemma length_push [simp]: "length (push_at i x xss) = length xss"
  by (simp add: push_at_def)

lemma day_ok_push:
  "day_ok d \<Longrightarrow> is_int s \<Longrightarrow> day_ok (d\<lparr>channel_start := push_at i s (channel_start d)\<rparr>)"
  "day_ok d \<Longrightarrow> is_int s \<Longrightarrow> day_ok (d\<lparr>channel_stop := push_at i s (channel_stop d)\<rparr>)"
  by (simp_all add: day_ok_def list_all_push)

lemma list_all_insert_day:
  "list_all day_ok ds \<Longrightarrow> is_int ep \<Longrightarrow> list_all day_ok (insert_day ep ds)"
  by (induction ds) (auto simp: day_ok_at)

lemma list_all_on_day:
  "list_all day_ok ds \<Longrightarrow> is_int ep \<Longrightarrow> (\<And>d. day_ok d \<Longrightarrow> day_ok (f d)) \<Longrightarrow> list_all day_ok (on_day ep f ds)"
  by (auto simp: on_day_def find_or_create_day_def list_all_insert_day intro!: list_all_upd_first)

lemma list_all_butlast: "list_all P xs \<Longrightarrow> list_all P (butlast xs)"
  by (auto simp: list_all_iff in_set_butlastD)

lemma list_all_last: "list_all P xs \<Longrightarrow> xs \<noteq> [] \<Longrightarrow> P (last xs)"
  by (auto simp: list_all_iff)

section \<open>Preservation by the operations of an object\<close>

lemma back_day_ok:
  "machine_ok m \<Longrightarrow> (\<And>d. day_ok d \<Longrightarrow> day_ok (f d)) \<Longrightarrow>
     all_ok (\<lambda>m'. mt_inv m' \<and> this_session m' = this_session m) (back_day f m)"
  by (auto simp: all_ok_def back_day_def mt_inv_def machine_ok_def list_all_butlast list_all_last
      split: if_splits)

lemma set_flags_ok: "machine_ok m \<Longrightarrow> 0 \<le> p \<Longrightarrow> p < 3 \<Longrightarrow> machine_ok (set_flags i w p m)"
  by (simp add: machine_ok_def set_flags_def day_ok_def list_all_update)

lemma set_time_ok: "machine_ok m \<Longrightarrow> is_int t \<Longrightarrow> machine_ok (set_time i t m)"
  by (simp add: machine_ok_def set_time_def day_ok_def list_all_update)

lemma month_set [simp]: "month (set_flags i w p m) = month m" "month (set_time i t m) = month m"
  by (simp_all add: set_flags_def set_time_def)

lemma pending_range:
  "machine_ok m \<Longrightarrow> i < 19 \<Longrightarrow> 0 \<le> pending_count (this_session m) ! i \<and> pending_count (this_session m) ! i < 3"
  by (simp add: machine_ok_def day_ok_def list_all_length)

lemma set_channel_inv:
  assumes "mt_inv m" "i < 19"
  shows "\<exists>m'. set_channel data i m = Ok m' \<and> mt_inv m'"
proof -
  from assms have ok: "machine_ok m" and ne: "month m \<noteq> []" by (simp_all add: mt_inv_def)
  have p: "0 \<le> pending_count (this_session m) ! i" using pending_range [OF ok assms(2)] by blast
  have f: "mt_inv (set_flags i w q m)" if "0 \<le> q" "q < 3" for w q
    using that ok ne by (simp add: mt_inv_def set_flags_ok)
  have b: "\<exists>m'. back_day g (set_flags i w 0 m) = Ok m' \<and> mt_inv m'"
    if "\<And>d. day_ok d \<Longrightarrow> day_ok (g d)" for g w
    using back_day_ok [of "set_flags i w 0 m" g] that ok ne
    by (simp add: set_flags_ok all_ok_def back_day_def)
  have e: "is_int (d_time (this_session m))" using ok by (simp add: machine_ok_def day_ok_def)
  have t: "mt_inv m1 \<Longrightarrow> mt_inv (set_time i (fourBytesToInt data j div 256) m1)" for m1 j
    by (simp add: mt_inv_def set_time_ok is_int_fourBytes)
  have fin: "(\<exists>m1. x = Ok m1 \<and> mt_inv m1) \<Longrightarrow>
      \<exists>m'. bind_res x (\<lambda>m. Ok (set_time i (fourBytesToInt data j div 256) m)) = Ok m' \<and> mt_inv m'" for x j
    using t by auto
  show ?thesis
    unfolding set_channel_def Let_def
    by (rule fin) (use p b f assms(1) day_ok_push e in \<open>auto split: if_splits\<close>)
qed

lemma set_channels_inv:
  "mt_inv m \<Longrightarrow> list_all (\<lambda>i. i < 19) is \<Longrightarrow> \<exists>m'. set_channels data is m = Ok m' \<and> mt_inv m'"
proof (induction "is" arbitrary: m)
  case (Cons i "is")
  then obtain m1 where "set_channel data i m = Ok m1" "mt_inv m1"
    using set_channel_inv [of m i data] by auto
  with Cons show ?case by simp
qed simp

definition state_ok :: "mt_state \<Rightarrow> bool" where
  "state_ok st \<longleftrightarrow> mt_inv (fst st) \<and> dbo_ok (snd st)"

lemma state_ok_pair [simp]: "state_ok (m, db) \<longleftrightarrow> mt_inv m \<and> dbo_ok db"
  by (simp add: state_ok_def)

lemma replace_row_all: "list_all P t \<Longrightarrow> P x \<Longrightarrow> list_all P (replace_row k x t)"
  by (auto simp: replace_row_def list_all_iff)

lemma dbo_ok_map: "dbo_ok db \<Longrightarrow> (\<And>d. db_ok d \<Longrightarrow> db_ok (f d)) \<Longrightarrow> dbo_ok (map_option f db)"
  by (cases db) simp_all

lemma list_all_filter: "list_all P xs \<Longrightarrow> list_all P (filter q xs)"
  by (auto simp: list_all_iff)

lemma db_ok_delete:
  "db_ok db \<Longrightarrow> db_ok (delete_events dev ep db)" "db_ok db \<Longrightarrow> db_ok (delete_events_before dev ep db)"
  by (simp_all add: delete_events_def delete_events_before_def db_ok_def list_all_filter)

lemma db_ok_insert:
  "db_ok db \<Longrightarrow> is_int ep \<Longrightarrow> ch < 19 \<Longrightarrow> list_all is_int secs \<Longrightarrow>
     db_ok (insert_events dev ep (int ch) typ secs db)"
  by (auto simp: insert_events_def db_ok_def event_ok_def list_all_iff)

lemma db_ok_history: "db_ok db \<Longrightarrow> length ts = 19 \<Longrightarrow> is_int ep \<Longrightarrow> db_ok (replace_history dev ep ts db)"
  by (simp add: db_ok_def replace_history_def replace_row_all)

lemma db_ok_session: "db_ok db \<Longrightarrow> length ts = 19 \<Longrightarrow> db_ok (replace_session dev ep ts w db)"
  by (simp add: db_ok_def replace_session_def replace_row_all)

lemma db_ok_names: "db_ok db \<Longrightarrow> length ns = 18 \<Longrightarrow> db_ok (replace_names dev ns db)"
  by (simp add: db_ok_def replace_names_def replace_row_all)

lemma db_ok_upsert: "db_ok db \<Longrightarrow> length ts = 19 \<Longrightarrow> is_int ep \<Longrightarrow> db_ok (upsert_history dev ep ts db)"
  by (auto simp: db_ok_def upsert_history_def intro!: list_all_upd_first)

lemma fold_insert_events_ok:
  "db_ok db \<Longrightarrow> day_ok d \<Longrightarrow> list_all (\<lambda>ch. ch < 19) chs \<Longrightarrow> db_ok (fold (insert_day_events dev d) chs db)"
  by (induction chs arbitrary: db)
    (simp_all add: insert_day_events_def db_ok_insert day_ok_def list_all_nth)

lemma fold_delete_events_ok: "db_ok db \<Longrightarrow> db_ok (fold (delete_events dev) eps db)"
  by (induction eps arbitrary: db) (simp_all add: db_ok_delete)

lemma save_history_ok: "dbo_ok db \<Longrightarrow> day_ok d \<Longrightarrow> dbo_ok (db_save_history_day dev d db)"
  by (simp add: db_save_history_day_def dbo_ok_map db_ok_history day_ok_def)

lemma save_events_ok: "dbo_ok db \<Longrightarrow> day_ok d \<Longrightarrow> dbo_ok (db_save_events_day dev d db)"
  unfolding db_save_events_day_def
  by (rule dbo_ok_map) (simp_all add: fold_insert_events_ok db_ok_delete list_all_iff)

lemma save_session_ok: "dbo_ok db \<Longrightarrow> machine_ok m \<Longrightarrow> dbo_ok (db_save_session m db)"
  by (simp add: db_save_session_def dbo_ok_map db_ok_session machine_ok_def day_ok_def)

lemma save_last_day_ok: "dbo_ok db \<Longrightarrow> machine_ok m \<Longrightarrow> dbo_ok (db_save_last_day m db)"
  by (simp add: db_save_last_day_def save_events_ok save_history_ok machine_ok_def list_all_last)

lemma new_day_ok: "machine_ok m \<Longrightarrow> dbo_ok db \<Longrightarrow> state_ok (new_day now (m, db))"
  by (simp add: new_day_def mt_inv_def save_last_day_ok) (simp add: machine_ok_def day_ok_now)

lemma new_month_ok:
  "machine_ok m \<Longrightarrow> dbo_ok db \<Longrightarrow> machine_ok (fst (new_month (m, db))) \<and> dbo_ok (snd (new_month (m, db)))"
  by (auto simp: new_month_def Let_def save_last_day_ok intro!: dbo_ok_map db_ok_delete) (simp_all add: machine_ok_def)

lemma zero_session_ok: "machine_ok m \<Longrightarrow> machine_ok (zero_session m)"
  by (simp add: machine_ok_def zero_session_def day_ok_def list_all_replicate)

lemma new_session_ok:
  assumes "state_ok st"
  shows "\<exists>st'. new_session now st = Ok st' \<and> state_ok st'"
proof -
  obtain m db where st: "st = (m, db)" by force
  have ok: "machine_ok m" "month m \<noteq> []" "dbo_ok db" using assms by (simp_all add: st mt_inv_def)
  have len: "length (channel_time (this_session m)) = 19" using ok(1) by (simp add: machine_ok_def day_ok_def)
  obtain m1 where m1: "back_day (add_times (channel_time (this_session m))) m = Ok m1" "mt_inv m1"
    using back_day_ok [OF ok(1), of "add_times (channel_time (this_session m))"] len ok(2)
    by (auto simp: all_ok_def back_day_def day_ok_add)
  let ?m = "zero_session m1"
  have z: "machine_ok ?m" "month ?m \<noteq> []"
    using m1(2) zero_session_ok [of m1] by (simp_all add: mt_inv_def) (simp add: zero_session_def)
  then have d: "dbo_ok (db_save_session ?m db)" using ok(3) by (simp add: save_session_ok)
  let ?S = "(?m, db_save_session ?m db)"
  have n: "state_ok (new_day now (if c then new_month ?S else ?S))" for c
    using new_day_ok [of "fst (new_month ?S)" "snd (new_month ?S)"] new_day_ok [OF z(1) d]
      new_month_ok [OF z(1) d] by (cases c) simp_all
  have "state_ok (if r then new_day now (if c then new_month ?S else ?S) else ?S)" for r c
    using n [of c] z d by (cases r) (simp_all add: mt_inv_def)
  moreover have "\<exists>r c. new_session now st = Ok (if r then new_day now (if c then new_month ?S else ?S) else ?S)"
    unfolding new_session_def st prod.case m1(1) bind_res.simps Let_def if_distrib [of Ok, symmetric]
    by (intro exI) (rule refl)
  ultimately show ?thesis by blast
qed

lemma set_times_ok: "machine_ok m \<Longrightarrow> is_int t \<Longrightarrow>
    machine_ok (m\<lparr>this_session := (this_session m)\<lparr>d_time := t\<rparr>\<rparr>)"
  by (simp add: machine_ok_def day_ok_def)

lemma cripter_ok [simp]: "mt_inv (m\<lparr>mt_cripter := c\<rparr>) = mt_inv m"
  by (simp add: mt_inv_def machine_ok_def)

lemma crypt_ok [simp]:
  "mt_inv (snd (crypt_out t m)) = mt_inv m" "mt_inv (snd (crypt_in cfg v m)) = mt_inv m"
  "mt_inv (snd (set_post cfg v m)) = mt_inv m"
  by (simp_all add: crypt_out_def crypt_in_def set_post_def case_prod_unfold Let_def)

lemma mt_set_ok:
  assumes "state_ok st"
  shows "\<exists>out st'. mt_set cfg now value st = Ok (out, st') \<and> state_ok st'"
proof -
  obtain m db where st: "st = (m, db)" by force
  let ?m = "snd (crypt_in cfg value m)" and ?data = "fst (crypt_in cfg value m)"
  have ok: "state_ok (?m, db)" using assms by (simp add: st)
  obtain m1 db1 where s1: "(if fourBytesToInt ?data 11 \<noteq> 0 then new_session now (?m, db) else Ok (?m, db)) = Ok (m1, db1)"
      "state_ok (m1, db1)"
    using new_session_ok [OF ok, of now] ok by (cases "fourBytesToInt ?data 11 \<noteq> 0") auto
  let ?m2 = "m1\<lparr>this_session := (this_session m1)\<lparr>d_time := to_int32 (cmod (now + tzOffset m1) 86400)\<rparr>\<rparr>"
  have "mt_inv ?m2" using s1(2) set_times_ok [of m1] by (simp add: mt_inv_def)
  then obtain m3 where m3: "set_channels ?data [0..<19] ?m2 = Ok m3" "mt_inv m3"
    using set_channels_inv [of ?m2 "[0..<19]" ?data] by (auto simp: list_all_iff)
  show ?thesis
  proof (cases "length ?data = 80")
    case True
    with m3 s1(2) show ?thesis
      unfolding mt_set_def st case_prod_unfold Let_def fst_conv snd_conv s1(1)
      by (simp del: upt_rec_numeral)
  next
    case False
    then show ?thesis
      using ok by (simp add: mt_set_def st case_prod_unfold Let_def)
  qed
qed

lemma names_ok: "machine_ok m \<Longrightarrow> machine_ok (m\<lparr>channel_names := (channel_names m)[i := n]\<rparr>)"
  by (simp add: machine_ok_def)

lemma save_names_ok: "machine_ok m \<Longrightarrow> dbo_ok db \<Longrightarrow> dbo_ok (db_save_names m db)"
  by (simp add: db_save_names_def dbo_ok_map db_ok_names machine_ok_def)

lemma set_name_ok: "state_ok st \<Longrightarrow> state_ok (snd (set_name ch n st))"
  "state_ok st \<Longrightarrow> state_ok (snd (delete_name ch st))"
  by (cases st; auto simp: set_name_def delete_name_def mt_inv_def Let_def names_ok save_names_ok)+

lemma update_today_ok: "state_ok st \<Longrightarrow> state_ok (update_today st)"
  by (cases st)
    (auto simp: update_today_def mt_inv_def machine_ok_def list_all_last intro!: save_session_ok save_history_ok)

lemma set_timeOffset_ok: "mt_inv m \<Longrightarrow> all_ok mt_inv (set_timeOffset tz z m)"
  by (auto simp: all_ok_def set_timeOffset_def bind_res_Inr mt_inv_def machine_ok_def)

lemma destroy_ok: "mt_inv m \<Longrightarrow> dbo_ok db \<Longrightarrow> dbo_ok (destroy_machine m db)"
  by (auto simp: destroy_machine_def mt_inv_def machine_ok_def list_all_last
      intro!: save_events_ok save_session_ok save_history_ok)

section \<open>Preservation by loading\<close>

lemma load_history_row_ok:
  "machine_ok m \<Longrightarrow> length (hr_ch r) = 19 \<Longrightarrow> machine_ok (load_history_row tm pm r m)"
  by (auto simp: load_history_row_def Let_def machine_ok_def intro!: list_all_on_day day_ok_times)

lemma fold_history_ok:
  "machine_ok m \<Longrightarrow> list_all (\<lambda>r. length (hr_ch r) = 19) rs \<Longrightarrow>
     machine_ok (fold (load_history_row tm pm) rs m)"
  by (induction rs arbitrary: m) (simp_all add: load_history_row_ok)

lemma load_event_row_ok:
  "machine_ok (fst p) \<Longrightarrow> machine_ok (fst (load_event_row tm pm r p))"
  by (cases p) (auto simp: load_event_row_def Let_def machine_ok_def day_ok_push intro!: list_all_on_day)

lemma fold_event_ok: "machine_ok (fst p) \<Longrightarrow> machine_ok (fst (fold (load_event_row tm pm) rs p))"
  by (induction rs arbitrary: p) (simp_all add: load_event_row_ok)

lemma load_rows_ok:
  assumes "machine_ok m" "db_ok db"
  shows "machine_ok (fst (load_rows tm pm m db)) \<and> db_ok (snd (load_rows tm pm m db))"
proof -
  have "list_all (\<lambda>r. length (hr_ch r) = 19) (select_history (dev_of m) db)"
    using assms(2) by (auto simp: db_ok_def select_history_def list_all_iff)
  with assms show ?thesis
    by (simp add: load_rows_def case_prod_unfold Let_def fold_delete_events_ok fold_event_ok fold_history_ok)
qed

lemma resume_session_ok: "machine_ok m \<Longrightarrow> length (sr_ch r) = 19 \<Longrightarrow> machine_ok (resume_session r m)"
  by (simp add: machine_ok_def resume_session_def day_ok_def list_all_map_any)

lemma find_all: "list_all P xs \<Longrightarrow> find p xs = Some x \<Longrightarrow> P x"
  by (auto simp: list_all_iff dest: find_SomeD)

lemma close_session_ok:
  assumes "machine_ok m" "db_ok db" "length (sr_ch r) = 19"
  shows "machine_ok (fst (close_session tm pm r (m, db))) \<and> db_ok (snd (close_session tm pm r (m, db)))"
proof -
  let ?ep = "to_int32 (sr_day r)" and ?f = "add_times (map to_int32 (sr_ch r))"
  have l: "list_all day_ok ds \<Longrightarrow> list_all day_ok (on_day ?ep ?f ds)" for ds
    using assms(3) by (intro list_all_on_day) (simp_all add: day_ok_add)
  have s: "list_all day_ok ds \<Longrightarrow> db_ok (case find (\<lambda>d. d_time d = ?ep) (on_day ?ep ?f ds) of None \<Rightarrow> db
      | Some d \<Rightarrow> replace_history (dev_of m) (d_time d) (channel_time d) db)" for ds
    using l [of ds] assms(2) find_all [of day_ok "on_day ?ep ?f ds"]
    by (auto simp: db_ok_history day_ok_def split: option.split)
  show ?thesis
    using assms l s by (simp add: close_session_def Let_def machine_ok_def db_ok_upsert)
qed

lemma restore_session_ok:
  assumes "machine_ok m" "db_ok db"
  shows "machine_ok (fst (restore_session today tm pm (m, db))) \<and> db_ok (snd (restore_session today tm pm (m, db)))"
proof (cases "select_session (dev_of m) db")
  case None
  with assms show ?thesis
    by (simp add: restore_session_def machine_ok_def day_ok_def list_all_replicate)
next
  case (Some r)
  then have "length (sr_ch r) = 19"
    using assms(2) by (auto simp: select_session_def db_ok_def intro: find_all)
  with Some assms show ?thesis
    using close_session_ok [OF assms, of r] by (simp add: restore_session_def resume_session_ok)
qed

lemma ensure_today_ok: "machine_ok m \<Longrightarrow> is_int today \<Longrightarrow> mt_inv (ensure_today today m)"
  by (auto simp: ensure_today_def mt_inv_def machine_ok_def day_ok_at)

lemma load_names_ok: "machine_ok m \<Longrightarrow> db_ok db \<Longrightarrow> machine_ok (db_load_names db m)"
  by (auto simp: db_load_names_def select_names_def db_ok_def machine_ok_def
      split: option.split dest!: find_all [where P = "\<lambda>r. length (nr_ch r) = 18"])

lemma blank_ok: "machine_ok (blank_machine cfg junk now dev off)"
  by (simp add: machine_ok_def blank_machine_def day_ok_now)

lemma new_machine_ok:
  assumes "dbo_ok dbo"
  shows "all_ok state_ok (new_machine cfg junk tz now dev z dbo)"
proof (cases dbo)
  case None
  then show ?thesis
    using new_day_ok [OF blank_ok, of None now cfg junk now dev]
    by (cases "offsetTimeZone tz z") (simp_all add: all_ok_def new_machine_def Let_def del: state_ok_pair)
next
  case (Some db)
  have "state_ok st" if r: "new_machine cfg junk tz now dev z (Some db) = Ok st" for st
  proof -
    obtain off where o: "offsetTimeZone tz z = Ok off" using r by (auto simp: new_machine_def bind_res_Inr)
    let ?today = "to_int32 (cdiv (now + off) 86400)"
    let ?m = "db_load_names db (blank_machine cfg junk now dev off)"
    let ?tm = "my_time_get_month_epoch ?today"
    let ?l = "load_rows ?tm (?tm - 1) ?m db"
    let ?s = "restore_session ?today ?tm (?tm - 1) ?l"
    have d: "db_ok db" using assms Some by simp
    have l: "machine_ok (fst ?l)" "db_ok (snd ?l)"
      using load_rows_ok [OF load_names_ok [OF blank_ok d] d] by blast+
    have s: "machine_ok (fst ?s)" "db_ok (snd ?s)" using restore_session_ok [OF l] by simp_all
    have e: "mt_inv (ensure_today ?today (fst ?s))" by (rule ensure_today_ok [OF s(1)]) simp
    have "st = (ensure_today ?today (fst ?s), db_save_session (ensure_today ?today (fst ?s)) (Some (snd ?s)))"
      using r o by (simp add: new_machine_def case_prod_unfold Let_def)
    with e s show ?thesis using save_session_ok [of "Some (snd ?s)"] by (simp add: mt_inv_def)
  qed
  then show ?thesis by (simp add: all_ok_def Some)
qed

section \<open>Preservation by the server\<close>

definition srv_ok :: "mt_srv \<Rightarrow> bool" where
  "srv_ok srv \<longleftrightarrow> list_all (\<lambda>(k, m). mt_inv m) (machineTime srv) \<and> dbo_ok (mt_g_db srv)"

lemma srv_ok_lookup: "srv_ok srv \<Longrightarrow> map_of (machineTime srv) k = Some m \<Longrightarrow> state_ok (m, mt_g_db srv)"
  by (auto simp: srv_ok_def list_all_iff dest!: map_of_SomeD)

lemma put_machine_all: "list_all (\<lambda>(k, m). P m) ms \<Longrightarrow> P m \<Longrightarrow> list_all (\<lambda>(k, m). P m) (put_machine k m ms)"
  by (induction k m ms rule: put_machine.induct) auto

lemma map_of_put_machine: "map_of (put_machine k m ms) = (map_of ms)(k \<mapsto> m)"
  by (induction k m ms rule: put_machine.induct) (auto simp: fun_eq_iff)

lemma store_state_ok: "srv_ok srv \<Longrightarrow> state_ok st \<Longrightarrow> srv_ok (store_state k st srv)"
  by (cases st) (simp add: srv_ok_def store_state_def put_machine_all)

lemma adopt_zone_ok: "mt_inv m \<Longrightarrow> all_ok mt_inv (adopt_zone en rq m)"
  by (auto simp: adopt_zone_def all_ok_def set_timeOffset_ok [THEN all_okD] split: option.splits)

definition ready :: "machine \<times> mt_srv \<Rightarrow> bool" where
  "ready p \<longleftrightarrow> mt_inv (fst p) \<and> srv_ok (snd p)"

lemma post_create_ok: "srv_ok srv \<Longrightarrow> all_ok ready (post_create en rq srv)"
  by (auto simp: all_ok_def ready_def post_create_def bind_res_Inr srv_ok_def
      dest!: new_machine_ok [THEN all_okD, rotated])

lemma post_register_ok: "mt_inv m \<Longrightarrow> srv_ok srv \<Longrightarrow> srv_ok (post_register k m srv)"
  by (auto simp: post_register_def srv_ok_def destroy_ok put_machine_all split: option.split)

lemma post_answer_ok: "srv_ok srv \<Longrightarrow> all_ok (\<lambda>(r, srv'). srv_ok srv') (post_answer en k body srv)"
  by (auto simp: post_answer_def all_ok_def case_prod_unfold Let_def split: option.splits
      intro!: store_state_ok dest: srv_ok_lookup)

end
