(* ===== verification/MachineTimeDays.thy ===== *)
theory MachineTimeDays
  imports MachineTimeFacts
begin

text \<open>
  What the times and events of a device mean: when a channel counts as working, that a new session
  and a new day lose no time, and what a restart brings back.
\<close>

section \<open>One channel of a packet\<close>











section \<open>A run of packets\<close>
















definition demo_day_machine :: machine where
  "demo_day_machine = \<lparr>mt_id = ''A'', mt_cripter = new_cripter (\<lambda>_. ''7'') [], tzOffset = 0,
     month = [day_at 5], old_month = [], this_session = day_at 5, channel_names = replicate 19 []\<rparr>"




section \<open>What a day shows\<close>



lemma find_day_SomeD: "find_day m ep = Some d \<Longrightarrow> d_time d = ep"
  by (auto simp: find_day_def dest: find_SomeD split: option.splits)



section \<open>A new session\<close>

text \<open>The object after the session is added to its day.\<close>

definition merged :: "machine \<Rightarrow> machine" where
  "merged m = zero_session (m\<lparr>month := butlast (month m) @
     [add_times (channel_time (this_session m)) (last (month m))]\<rparr>)"


lemma merged_simps [simp]:
  "month (merged m) = butlast (month m) @ [add_times (channel_time (this_session m)) (last (month m))]"
  "old_month (merged m) = old_month m" "channel_time (this_session (merged m)) = replicate 19 0"
  "mt_id (merged m) = mt_id m" "channel_names (merged m) = channel_names m" "tzOffset (merged m) = tzOffset m"
  "working_now (this_session (merged m)) = working_now (this_session m)"
  by (simp_all add: merged_def zero_session_def)

lemma d_time_add [simp]: "d_time (add_times ts d) = d_time d"
  by (simp add: add_times_def)



text \<open>The rows of a day after it was saved.\<close>

lemma history_events [simp]:
  "channel_history (delete_events dev ep db) = channel_history db"
  "channel_history (delete_events_before dev ep db) = channel_history db"
  "channel_history (insert_events dev ep ch typ secs db) = channel_history db"
  "channel_history (replace_session dev ep ts w db) = channel_history db"
  by (simp_all add: delete_events_def delete_events_before_def insert_events_def replace_session_def)

lemma history_fold_events [simp]:
  "channel_history (fold (insert_day_events dev d) chs db) = channel_history db"
  by (induction chs arbitrary: db) (simp_all add: insert_day_events_def)



lemma select_replace_history: "select_history_day dev ep (replace_history dev ep ts db) = Some ts"
  by (simp add: select_history_day_def replace_history_def find_replace_row hist_key_def)







definition demo_session_machine :: machine where
  "demo_session_machine = demo_day_machine\<lparr>this_session := (day_at 5)\<lparr>channel_time := replicate 19 7\<rparr>\<rparr>"

lemma demo_session_inv: "mt_inv demo_session_machine"
  by (simp add: demo_session_machine_def demo_day_machine_def mt_inv_def machine_ok_def day_ok_def day_at_def
      list_all_replicate is_int_def)

lemma demo_session_simps:
  "month demo_session_machine = [day_at 5]" "old_month demo_session_machine = []" "tzOffset demo_session_machine = 0"
  "this_session demo_session_machine = (day_at 5)\<lparr>channel_time := replicate 19 7\<rparr>" "mt_id demo_session_machine = ''A''"
  by (simp_all add: demo_session_machine_def demo_day_machine_def)


section \<open>What the data base holds between two saves\<close>

text \<open>The time of a day and channel that a start from these rows would find.\<close>

definition db_total :: "string \<Rightarrow> int \<Rightarrow> nat \<Rightarrow> mt_db \<Rightarrow> int" where
  "db_total dev ep i db =
     (case select_history_day dev ep db of None \<Rightarrow> 0 | Some ts \<Rightarrow> ts ! i) +
     (case select_session dev db of None \<Rightarrow> 0 | Some r \<Rightarrow> if sr_day r = ep then sr_ch r ! i else 0)"

lemma select_session_replaced:
  "select_session dev (replace_session dev ep ts w db) =
     Some \<lparr>sr_device = dev, sr_day = ep, sr_ch = ts, sr_working = w\<rparr>"
  by (simp add: select_session_def replace_session_def find_replace_row)

lemma replace_session_session:
  "select_history_day dev ep (replace_session dev' ep' ts w db) = select_history_day dev ep db"
  by (simp add: select_history_day_def)

lemma db_total_replaced:
  "db_total dev ep i (replace_session dev ep ts w (replace_history dev ep ts' db)) = ts' ! i + ts ! i"
  by (simp add: db_total_def select_session_replaced replace_session_session select_replace_history)

text \<open>
  A new session of the same day takes the time of the session out of the data base until the
  next save: after the agent has saved, the rows hold the whole time of the day; the new session
  empties the session's row without writing the day's, so the rows lack exactly the time of the
  session, while the object still shows it. Ending the process regularly writes it back; a process
  that dies in between has lost it.
\<close>

theorem new_session_unsaved:
  assumes "mt_inv m" "update_today (m, Some db) = (m, Some db1)" "new_session now (m, Some db1) = Ok (m', Some db2)"
    and "d_time (last (month m)) = cdiv (now + tzOffset m) 86400" "i < 19"
  shows "db_total (dev_of m) (d_time (last (month m))) i db1 =
      channel_time (last (month m)) ! i + channel_time (this_session m) ! i \<and>
    db_total (dev_of m) (d_time (last (month m))) i db2 = channel_time (last (month m)) ! i \<and>
    channel_time (last (month m')) ! i = to_int32 (channel_time (last (month m)) ! i + channel_time (this_session m) ! i)"
proof -
  let ?ep = "d_time (last (month m))" and ?dev = "dev_of m"
  have ne: "month m \<noteq> []" using assms(1) by (simp add: mt_inv_def)
  have db1: "db1 = replace_session ?dev ?ep (channel_time (this_session m)) (working_mask (working_now (this_session m)))
      (replace_history ?dev ?ep (channel_time (last (month m))) db)"
    using assms(2) ne by (simp add: update_today_def db_save_session_def db_save_history_day_def)
  have dv: "dev_of (merged m) = ?dev" by (simp add: dev_of_def)
  have tm: "tzOffset (zero_session m1) = tzOffset m1" "month (zero_session m1) = month m1" for m1
    by (simp_all add: zero_session_def)
  have "(m', Some db2) = (merged m, db_save_session (merged m) (Some db1))"
    using assms(3,4) ne
    by (simp add: new_session_def back_day_def Let_def merged_def [symmetric] tm) metis
  then have m': "m' = merged m" and db2: "db2 = replace_session ?dev ?ep (replicate 19 0)
      (working_mask (working_now (this_session m))) db1"
    by (simp_all add: db_save_session_def dv)
  have h: "select_history_day ?dev ?ep db1 = Some (channel_time (last (month m)))"
    by (simp add: db1 replace_session_session select_replace_history)
  have "db_total ?dev ?ep i db2 = channel_time (last (month m)) ! i"
    using assms(5) by (simp add: db_total_def db2 replace_session_session h select_session_replaced)
  moreover have "length (channel_time (last (month m))) = 19" "length (channel_time (this_session m)) = 19"
    using assms(1) list_all_last [of day_ok "month m"] by (auto simp: mt_inv_def machine_ok_def day_ok_def)
  ultimately show ?thesis
    using assms(5) by (simp add: db1 db_total_replaced m' add_times_def)
qed

theorem new_session_unsaved_witness:
  "\<exists>db1 db2. update_today (demo_session_machine, Some mt_init_tables) = (demo_session_machine, Some db1) \<and>
     db_total ''A'' 5 0 db1 = 7 \<and> db_total ''A'' 5 0 db2 = 0 \<and>
     (\<exists>m'. new_session 432000 (demo_session_machine, Some db1) = Ok (m', Some db2))"
proof -
  obtain db1 where u: "update_today (demo_session_machine, Some mt_init_tables) = (demo_session_machine, Some db1)"
    by (simp add: update_today_def db_save_session_def db_save_history_day_def demo_session_simps)
  have ok: "state_ok (demo_session_machine, Some db1)"
    using update_today_ok [of "(demo_session_machine, Some mt_init_tables)"]
    unfolding u by (simp add: demo_session_inv) (simp add: db_ok_def mt_init_tables_def)
  have t: "d_time (last (month demo_session_machine)) = cdiv (432000 + tzOffset demo_session_machine) 86400"
    by (simp add: demo_session_simps day_at_def)
  obtain m' db2 where n: "new_session 432000 (demo_session_machine, Some db1) = Ok (m', Some db2)"
    using t by (simp add: new_session_def back_day_def Let_def demo_session_simps zero_session_def db_save_session_def
        add_times_def)
  from new_session_unsaved [OF demo_session_inv u n t, of 0] u n show ?thesis
    by (auto simp: demo_session_simps day_at_def dev_of_def c_str_def NUL_def)
qed

end
