(* ===== verification/MachineTimeRestart.thy ===== *)
theory MachineTimeRestart
  imports MachineTimeDays
begin

text \<open>
  Stopping and starting the MachineTime server: what \<open>~MachineTime\<close> leaves in the data base
  and what the constructor makes of it, on the same day and on a later one.
\<close>

section \<open>Lookup in a list of days\<close>



lemma d_time_at [simp]: "d_time (day_at ep) = ep"
  by (simp add: day_at_def)












section \<open>Loading the rows\<close>






lemma hist_keeps [simp]:
  "this_session (load_history_row tm pm r m) = this_session m" "mt_id (load_history_row tm pm r m) = mt_id m"
  by (simp_all add: load_history_row_def Let_def)


definition push_event :: "event_row \<Rightarrow> day \<Rightarrow> day" where
  "push_event e d = (if to_int32 (ev_type e) = 0
     then d\<lparr>channel_start := push_at (nat (ev_channel e)) (ev_sec e) (channel_start d)\<rparr>
     else d\<lparr>channel_stop := push_at (nat (ev_channel e)) (ev_sec e) (channel_stop d)\<rparr>)"


lemma push_event_time [simp]: "d_time (push_event e d) = d_time d"
  by (simp add: push_event_def)


section \<open>The events of a day, written and read\<close>







section \<open>The row of the session\<close>





lemma session_events [simp]:
  "channel_session (delete_events dev ep db) = channel_session db"
  "channel_session (insert_events dev ep ch typ secs db) = channel_session db"
  "channel_session (replace_history dev ep ts db) = channel_session db"
  by (simp_all add: delete_events_def insert_events_def replace_history_def)

lemma session_fold [simp]:
  "channel_session (fold (insert_day_events dev d) chs db) = channel_session db"
  "channel_session (fold (delete_events dev) eps db) = channel_session db"
  by (induction chs arbitrary: db) (simp_all add: insert_day_events_def, induction eps arbitrary: db, simp_all)

lemma events_session [simp]:
  "channel_events (replace_session dev ep ts w db) = channel_events db"
  "channel_events (replace_history dev ep ts db) = channel_events db"
  by (simp_all add: replace_session_def replace_history_def)


section \<open>Restart on the same day\<close>










lemma load_names_keeps [simp]:
  "month (db_load_names db m) = month m" "old_month (db_load_names db m) = old_month m"
  "this_session (db_load_names db m) = this_session m" "mt_id (db_load_names db m) = mt_id m"
  by (simp_all add: db_load_names_def split: option.split)

lemma blank_simps [simp]:
  "month (blank_machine cfg junk now dev off) = []" "old_month (blank_machine cfg junk now dev off) = []"
  "this_session (blank_machine cfg junk now dev off) = day_now now off"
  "mt_id (blank_machine cfg junk now dev off) = dev"
  by (simp_all add: blank_machine_def)




section \<open>Names\<close>

lemma names_kept [simp]:
  "channel_names (load_history_row tm pm r m) = channel_names m"
  "channel_names (fst (load_event_row tm pm e (m, st))) = channel_names m"
  "channel_names (resume_session sr m) = channel_names m" "channel_names (ensure_today today m) = channel_names m"
  "channel_names (fst (close_session tm pm sr (m, db))) = channel_names m"
  by (simp_all add: load_history_row_def load_event_row_def resume_session_def ensure_today_def close_session_def Let_def)

lemma names_restore [simp]: "channel_names (fst (restore_session today tm pm p)) = channel_names (fst p)"
  by (cases p) (simp add: restore_session_def split: option.split)

lemma names_load_rows [simp]: "channel_names (fst (load_rows tm pm m db)) = channel_names m"
proof -
  have "channel_names (fold (load_history_row tm pm) rs m) = channel_names m" for rs m
    by (induction rs arbitrary: m) simp_all
  moreover have "channel_names (fst (fold (load_event_row tm pm) es p)) = channel_names (fst p)" for es p
  proof (induction es arbitrary: p)
    case (Cons e es)
    then show ?case by (cases p) simp
  qed simp
  ultimately show ?thesis by (simp add: load_rows_def case_prod_unfold Let_def)
qed

text \<open>
  A name is kept: once a name has been set, every object that a later start builds from the data
  base has it, and the other names unchanged, up to the NUL at which the data base cuts a text.
\<close>

theorem names_survive:
  assumes "mt_inv m" "set_name ch n (m, Some db) = (True, (m', Some db'))" "c_str dev = dev_of m"
    and "new_machine cfg junk tz now dev z (Some db') = Ok (m2, db2)"
  shows "channel_names m2 ! nat ch = c_str n \<and>
    (\<forall>k \<in> {1..<19}. k \<noteq> nat ch \<longrightarrow> channel_names m2 ! k = c_str (channel_names m ! k))"
proof -
  have ch: "1 \<le> ch" "ch \<le> 18" and m': "m' = m\<lparr>channel_names := (channel_names m)[nat ch := n]\<rparr>"
    and db': "db' = replace_names (dev_of m) (take 18 (drop 1 (channel_names m'))) db"
    using assms(2) by (auto simp: set_name_def Let_def db_save_names_def dev_of_def split: if_splits)
  have l: "length (channel_names m) = 19" using assms(1) by (simp add: mt_inv_def machine_ok_def)
  have s: "select_names (dev_of m) db' = Some (map c_str (take 18 (drop 1 (channel_names m'))))"
    by (simp add: db' select_names_def replace_names_def find_replace_row)
  obtain off where off: "offsetTimeZone tz z = Ok off" using assms(4) by (auto simp: new_machine_def bind_res_Inr)
  have "channel_names m2 = channel_names (db_load_names db' (blank_machine cfg junk now dev off))"
    using assms(4) by (auto simp: new_machine_def off Let_def case_prod_unfold)
  also have "\<dots> = [] # map c_str (take 18 (drop 1 (channel_names m')))"
    using assms(3) l s by (simp add: db_load_names_def dev_of_def [of "blank_machine _ _ _ _ _"]) (simp add: blank_machine_def)
  finally have e: "channel_names m2 = [] # map c_str (take 18 (drop 1 (channel_names m')))" .
  have "channel_names m2 ! k = c_str ((channel_names m)[nat ch := n] ! k)" if "1 \<le> k" "k < 19" for k
    using that l by (cases k) (simp_all add: e m')
  then show ?thesis using ch l by auto
qed

theorem names_survive_witness:
  "channel_names (fst (projr (new_machine (\<lambda>_. ''7'') [] (\<lambda>z. Some 0) 0 ''A'' ''UTC''
      (snd (snd (set_name 3 ''pump'' (demo_session_machine, Some mt_init_tables))))))) ! 3 = ''pump''"
proof -
  obtain m' db' where s: "set_name 3 ''pump'' (demo_session_machine, Some mt_init_tables) = (True, (m', Some db'))"
    by (simp add: set_name_def Let_def db_save_names_def)
  obtain m2 db2 where n: "new_machine (\<lambda>_. ''7'') [] (\<lambda>z. Some 0) 0 ''A'' ''UTC'' (Some db') = Ok (m2, db2)"
    by (cases "new_machine (\<lambda>_. ''7'') [] (\<lambda>z. Some 0) 0 ''A'' ''UTC'' (Some db')")
      (auto simp: new_machine_def offsetTimeZone_def case_prod_unfold Let_def)
  have c: "c_str ''A'' = dev_of demo_session_machine" by (simp add: dev_of_def demo_session_simps)
  from names_survive [OF demo_session_inv s c n] show ?thesis by (simp add: s n c_str_def NUL_def)
qed

end
