(* ===== verification/MachineTimeProps.thy ===== *)
theory MachineTimeProps
  imports MachineTimeFacts
begin

text \<open>
  Properties of the MachineTime server as a whole: the states it can reach when requests, the
  creation of objects by several workers and the saving agent interleave, and the one request that
  ends the process.
\<close>

section \<open>Steps\<close>

text \<open>The objects workers have created but not yet registered stand beside the server.\<close>

type_synonym mt_world = "mt_srv \<times> (string \<times> machine) list"

inductive mt_step :: "mt_world \<Rightarrow> mt_world \<Rightarrow> bool" where
  mt_request: "mt_dispatch en rq srv = Ok (r, srv') \<Longrightarrow> mt_step (srv, w) (srv', w)"
| mt_create: "post_create en rq srv = Ok (m, srv') \<Longrightarrow>
    mt_step (srv, w) (srv', w @ [(e_znach rq QUERY ''id'', m)])"
| mt_register: "mt_step (srv, w1 @ (k, m) # w2) (post_register k m srv, w1 @ w2)"
| mt_agent: "mt_step (srv, w) (agent_tick srv, w)"

inductive mt_reachable :: "mt_world \<Rightarrow> bool" where
  mt_init: "dbo_ok db \<Longrightarrow> mt_reachable (\<lparr>machineTime = [], mt_g_db = db\<rparr>, [])"
| mt_next: "mt_reachable w \<Longrightarrow> mt_step w w' \<Longrightarrow> mt_reachable w'"

inductive_cases mt_stepE: "mt_step (srv, w) w'"

inductive_simps mt_agent_simps: "mt_step (srv, []) (srv', [])"

definition keys_ok :: "mt_srv \<Rightarrow> bool" where
  "keys_ok srv \<longleftrightarrow> sorted_wrt (<) (map fst (machineTime srv))"

lemma put_machine_keys: "set (map fst (put_machine k m ms)) = insert k (set (map fst ms))"
  by (induction k m ms rule: put_machine.induct) auto

lemma put_machine_sorted:
  "sorted_wrt (<) (map fst ms) \<Longrightarrow> sorted_wrt (<) (map fst (put_machine k m ms))"
proof (induction k m ms rule: put_machine.induct)
  case (2 k m k' m' ms)
  consider "k = k'" | "k < k'" | "k' < k" by (metis linorder_neqE)
  then show ?case
  proof cases
    case 3
    then have s: "\<not> k < k'" "k \<noteq> k'" by auto
    with 2 show ?thesis
      using put_machine_keys [of k m ms] 3 by (auto simp del: set_map simp flip: )
  qed (use 2 in auto)
qed simp

lemma store_keys: "keys_ok srv \<Longrightarrow> keys_ok (store_state k st srv)"
  by (simp add: keys_ok_def store_state_def put_machine_sorted)

lemma register_keys: "keys_ok srv \<Longrightarrow> keys_ok (post_register k m srv)"
  by (auto simp: keys_ok_def post_register_def put_machine_sorted split: option.split)

definition srv_inv :: "mt_srv \<Rightarrow> bool" where
  "srv_inv srv \<longleftrightarrow> srv_ok srv \<and> keys_ok srv"

definition mt_post_ok :: "response \<times> mt_srv \<Rightarrow> bool" where
  "mt_post_ok p \<longleftrightarrow> srv_inv (snd p)"

lemma store_inv: "srv_inv srv \<Longrightarrow> state_ok st \<Longrightarrow> srv_inv (store_state k st srv)"
  by (simp add: srv_inv_def store_keys store_state_ok)

lemma srv_inv_lookup:
  "srv_inv srv \<Longrightarrow> map_of (machineTime srv) k = Some m \<Longrightarrow> mt_inv m \<and> dbo_ok (mt_g_db srv)"
  using srv_ok_lookup [of srv k m] by (simp add: srv_inv_def)

lemma create_inv: "srv_inv srv \<Longrightarrow> all_ok (\<lambda>(m, srv). mt_inv m \<and> srv_inv srv) (post_create en rq srv)"
  using post_create_ok [of srv en rq]
  by (auto simp: all_ok_def srv_inv_def ready_def keys_ok_def post_create_def bind_res_Inr)

lemma answer_inv: "srv_inv srv \<Longrightarrow> all_ok mt_post_ok (post_answer en k body srv)"
  by (auto simp: post_answer_def all_ok_def case_prod_unfold Let_def mt_post_ok_def split: option.splits
      intro!: store_inv dest: srv_inv_lookup)

lemma post_inv: "srv_inv srv \<Longrightarrow> all_ok mt_post_ok (postMachineTime18Channels en rq srv)"
proof -
  assume inv: "srv_inv srv"
  let ?k = "e_znach rq QUERY ''id''"
  have "all_ok srv_inv (case map_of (machineTime srv) ?k of
              Some m \<Rightarrow> bind_res (adopt_zone en rq m) (\<lambda>m. Ok (store_state ?k (m, mt_g_db srv) srv))
            | None \<Rightarrow> bind_res (post_create en rq srv) (\<lambda>(m, srv). Ok (post_register ?k m srv)))"
  proof (cases "map_of (machineTime srv) ?k")
    case None
    then show ?thesis
      using create_inv [OF inv, of en rq]
      by (auto simp: all_ok_def bind_res_Inr srv_inv_def post_register_ok register_keys)
  next
    case (Some m)
    with srv_inv_lookup [OF inv Some] inv show ?thesis
      using adopt_zone_ok [of m en rq]
      by (auto simp: all_ok_def bind_res_Inr intro!: store_inv)
  qed
  then show ?thesis
    unfolding postMachineTime18Channels_def Let_def
    by (auto simp: all_ok_def bind_res_Inr dest!: answer_inv [THEN all_okD, rotated])
qed

lemma name_answer_inv: "srv_inv srv \<Longrightarrow> state_ok (snd p) \<Longrightarrow> srv_inv (snd (name_answer k srv p))"
  by (cases p) (auto simp: name_answer_def intro: store_inv)

lemma put_inv: "srv_inv srv \<Longrightarrow> all_ok mt_post_ok (putMachineTime18Channels en rq srv)"
proof (cases "map_of (machineTime srv) (e_znach rq QUERY ''id'')")
  case None
  then show "srv_inv srv \<Longrightarrow> ?thesis"
    by (simp add: all_ok_def putMachineTime18Channels_def mt_post_ok_def)
next
  case (Some m)
  assume inv: "srv_inv srv"
  have st: "state_ok (m, mt_g_db srv)" using srv_inv_lookup [OF inv Some] by simp
  have set: "all_ok (\<lambda>(out, st). state_ok st) (mt_set cfg now v (m', mt_g_db srv))" if "mt_inv m'" for cfg now v m'
    using mt_set_ok [of "(m', mt_g_db srv)" cfg now v] that st by (auto simp: all_ok_def)
  have zone: "adopt_zone en rq m = Ok m' \<Longrightarrow> mt_inv m'" for m'
    using adopt_zone_ok [of m en rq] st by (auto dest: all_okD)
  have name: "mt_post_ok (name_answer k srv (set_name ch n (m, mt_g_db srv)))" for k ch n
    by (simp add: mt_post_ok_def name_answer_inv [OF inv set_name_ok(1) [OF st]])
  have put: "mt_post_ok (r, store_state k st' srv)"
    if "adopt_zone en rq m = Ok m'" "mt_set cfg now v (m', mt_g_db srv) = Ok (out, st')" for r k st' cfg now v m' out
    using all_okD [OF set [OF zone [OF that(1)]] that(2)] store_inv [OF inv] by (simp add: mt_post_ok_def)
  have triv: "mt_post_ok (r, srv)" for r by (simp add: mt_post_ok_def inv)
  show ?thesis
    unfolding putMachineTime18Channels_def Let_def Some option.case
    by (intro ok_rules) (simp_all add: name put triv)
qed

lemma delete_inv: "srv_inv srv \<Longrightarrow> srv_inv (snd (deleteMachineTime18Channels rq srv))"
  using srv_inv_lookup [of srv "e_znach rq QUERY ''id''"]
  by (auto simp: deleteMachineTime18Channels_def Let_def split: option.split
      intro!: name_answer_inv set_name_ok(2))

lemma dispatch_inv: "srv_inv srv \<Longrightarrow> all_ok mt_post_ok (mt_dispatch en rq srv)"
  using post_inv [of srv en rq] put_inv [of srv en rq] delete_inv [of srv rq]
  by (auto simp: mt_dispatch_def mt_obrobka_post_def mt_obrobka_put_def mt_obrobka_delete_def
      all_ok_def bind_res_Inr mt_post_ok_def)

lemma agent_inv: "srv_inv srv \<Longrightarrow> srv_inv (agent_tick srv)"
proof -
  have "dbo_ok db \<Longrightarrow> list_all (\<lambda>(k, m). mt_inv m) ms \<Longrightarrow>
      dbo_ok (fold (\<lambda>(k, m) db. snd (update_today (m, db))) ms db)" for ms db
  proof (induction ms arbitrary: db)
    case (Cons p ms)
    then show ?case
      using update_today_ok [of "(snd p, db)"] by (auto simp: state_ok_def)
  qed simp
  then show "srv_inv srv \<Longrightarrow> srv_inv (agent_tick srv)"
    unfolding srv_inv_def srv_ok_def keys_ok_def agent_tick_def by auto
qed

definition world_inv :: "mt_world \<Rightarrow> bool" where
  "world_inv w \<longleftrightarrow> srv_inv (fst w) \<and> list_all (\<lambda>(k, m). mt_inv m) (snd w)"

lemma step_inv: "mt_step w w' \<Longrightarrow> world_inv w \<Longrightarrow> world_inv w'"
proof (induction rule: mt_step.induct)
  case (mt_request en rq srv r srv' w)
  then show ?case using dispatch_inv [of srv en rq] by (auto simp: world_inv_def all_ok_def mt_post_ok_def)
next
  case (mt_create en rq srv m srv' w)
  then show ?case using create_inv [of srv en rq] by (auto simp: world_inv_def all_ok_def)
next
  case (mt_register srv w1 k m w2)
  then show ?case by (auto simp: world_inv_def srv_inv_def post_register_ok register_keys)
next
  case (mt_agent srv w)
  then show ?case by (simp add: world_inv_def agent_inv)
qed

lemma reachable_inv: "mt_reachable w \<Longrightarrow> world_inv w"
proof (induction rule: mt_reachable.induct)
  case (mt_init db)
  then show ?case by (simp add: world_inv_def srv_inv_def srv_ok_def keys_ok_def)
next
  case (mt_next w w')
  then show ?case by (simp add: step_inv)
qed

lemma UTC_c_str: "c_str ''UTC'' = ''UTC''"
  by (simp add: c_str_def NUL_def)

section \<open>A concrete server for the witnesses\<close>

definition demo_env :: mt_env where
  "demo_env = \<lparr>en_cfg = (\<lambda>_. ''7''), en_tz = (\<lambda>z. if z = ''UTC'' then Some 0 else None), en_now = 0,
     en_junk = [], en_loc = [], en_fs = (\<lambda>_. None)\<rparr>"

definition demo_post :: "(string \<times> string) list \<Rightarrow> e_request" where
  "demo_post hs = new_e_request\<lparr>er_method := 1592, er_path := channels_path,
     er_query := [\<lparr>eq_param = ''id'', eq_znach = ''A''\<rparr>],
     er_headers := map (\<lambda>(p, z). \<lparr>eq_param = p, eq_znach = z\<rparr>) hs\<rparr>"

definition demo_machine :: machine where
  "demo_machine = fst (new_day 0 (blank_machine (\<lambda>_. ''7'') [] 0 ''A'' 0, None))"

definition demo_mt_srv :: mt_srv where
  "demo_mt_srv = \<lparr>machineTime = [(''A'', demo_machine)], mt_g_db = None\<rparr>"

lemmas request_eval = e_param_def e_znach_def is_pr_def q_of_def c_str_def NUL_def

lemma demo_id: "e_znach (demo_post hs) QUERY ''id'' = ''A''"
  by (simp add: demo_post_def new_e_request_def request_eval)

lemma demo_zone: "zone_header (demo_post []) = None" "zone_header (demo_post [(''x-timezone'', z)]) = Some (c_str z)"
  by (simp_all add: zone_header_def demo_post_def new_e_request_def request_eval)

lemma destroy_machine_None: "destroy_machine m None = None"
  by (simp add: destroy_machine_def db_save_events_day_def db_save_session_def db_save_history_day_def)

text \<open>Two workers create the object of device A at the same time; one of the two is kept.\<close>

lemma demo_race: "mt_reachable (demo_mt_srv, [])"
proof -
  let ?s = "\<lparr>machineTime = [], mt_g_db = None\<rparr>" and ?w = "(''A'', demo_machine)"
  have c: "post_create demo_env (demo_post []) ?s = Ok (demo_machine, ?s)"
    by (simp add: post_create_def demo_id demo_zone demo_env_def new_machine_def offsetTimeZone_def
        UTC_c_str demo_machine_def new_day_def db_save_last_day_def Let_def db_save_events_day_def
        db_save_history_day_def)
  have "mt_reachable (?s, [])" by (rule mt_init) simp
  from mt_next [OF this mt_create [OF c]] have 1: "mt_reachable (?s, [?w])" by (simp add: demo_id)
  from mt_next [OF 1 mt_create [OF c]] have 2: "mt_reachable (?s, [?w, ?w])" by (simp add: demo_id)
  have r: "mt_step (?s, [?w, ?w]) (demo_mt_srv, [?w])"
    using mt_register [of ?s "[]" "''A''" demo_machine "[?w]"] by (simp add: post_register_def demo_mt_srv_def)
  have q: "mt_step (demo_mt_srv, [?w]) (demo_mt_srv, [])"
    using mt_register [of demo_mt_srv "[]" "''A''" demo_machine "[]"]
    by (simp add: post_register_def demo_mt_srv_def destroy_machine_None)
  from mt_next [OF mt_next [OF 2 r] q] show ?thesis .
qed

section \<open>Reachable states\<close>

text \<open>
  C10. Whatever requests arrive, however many workers create objects for the same device at the same
  time and whenever the agent saves, each device id has one object, every object has a current day
  and nineteen channels with values that fit an \<open>int\<close>, a pending count below three, and the
  rows in the data base have the columns of their tables.
\<close>

theorem mt_reachable_inv:
  assumes "mt_reachable (srv, waiting)"
  shows "sorted_wrt (<) (map fst (machineTime srv)) \<and>
    (\<forall>(k, m) \<in> set (machineTime srv) \<union> set waiting. mt_inv m) \<and> dbo_ok (mt_g_db srv)"
  using reachable_inv [OF assms]
  by (auto simp: world_inv_def srv_inv_def srv_ok_def keys_ok_def list_all_iff)

theorem mt_reachable_inv_witness:
  "mt_inv demo_machine \<and> dbo_ok (mt_g_db demo_mt_srv)"
  using mt_reachable_inv [OF demo_race] by (simp add: demo_mt_srv_def)

section \<open>The request that ends the process\<close>

definition unknown_zone :: "mt_env \<Rightarrow> e_request \<Rightarrow> mt_srv \<Rightarrow> bool" where
  "unknown_zone en rq srv \<longleftrightarrow> er_path rq = channels_path \<and> er_query rq \<noteq> [] \<and>
     (let known = (map_of (machineTime srv) (e_znach rq QUERY ''id'') \<noteq> None);
          zone = (case zone_header rq of None \<Rightarrow> ''UTC'' | Some z \<Rightarrow> c_str z)
      in en_tz en zone = None \<and>
         (er_method rq = 1592 \<and> (\<not> known \<or> zone_header rq \<noteq> None) \<or>
          er_method rq = 1593 \<and> known \<and> zone_header rq \<noteq> None \<and> \<not> e_param rq QUERY ''name''))"

lemma get_day_info_ok: "month m \<noteq> [] \<Longrightarrow> \<exists>t. get_day_info loc now m d = Ok t"
  by (simp add: get_day_info_def Let_def)

lemma mt_get_ok: "month m \<noteq> [] \<Longrightarrow> \<exists>t. mt_get loc now day (m, db) = Ok t"
  using get_day_info_ok [of m loc now]
  by (auto simp: mt_get_def split: option.split)

lemma get_handler_ok: "srv_inv srv \<Longrightarrow> \<exists>r. getMachineTime18Channels en rq srv = Ok r"
proof (cases "map_of (machineTime srv) (e_znach rq QUERY ''id'')")
  case None
  then show ?thesis by (simp add: getMachineTime18Channels_def)
next
  case (Some m)
  assume "srv_inv srv"
  then have "month m \<noteq> []" using srv_inv_lookup [OF _ Some] by (simp add: mt_inv_def)
  then have g: "\<exists>t. mt_get loc now day (m, db) = Ok t" for loc now day db by (rule mt_get_ok)
  obtain t t0 where
    "mt_get (en_loc en) (en_now en) (atoi (e_znach rq QUERY ''day'')) (m, mt_g_db srv) = Ok t"
    "mt_get (en_loc en) (en_now en) 0 (m, mt_g_db srv) = Ok t0"
    using g by meson
  then show ?thesis by (simp add: getMachineTime18Channels_def Some)
qed

lemma zone_Inl: "offsetTimeZone tz z = Inl e \<longleftrightarrow> tz (c_str z) = None \<and> e = Uncaught ''unknown time zone''"
  by (auto simp: offsetTimeZone_def split: option.split)

lemma adopt_Inl: "adopt_zone en rq m = Inl e \<longleftrightarrow>
    (\<exists>z. zone_header rq = Some z \<and> en_tz en (c_str z) = None) \<and> e = Uncaught ''unknown time zone''"
  by (auto simp: adopt_zone_def set_timeOffset_def bind_res_Inl zone_Inl split: option.split)

lemma new_machine_Inl: "new_machine cfg junk tz now dev z db = Inl e \<longleftrightarrow>
    tz (c_str z) = None \<and> e = Uncaught ''unknown time zone''"
  by (auto simp: new_machine_def bind_res_Inl zone_Inl Let_def case_prod_unfold split: option.split)

lemma post_create_Inl: "post_create en rq srv = Inl e \<longleftrightarrow>
    en_tz en (c_str (case zone_header rq of None \<Rightarrow> ''UTC'' | Some z \<Rightarrow> z)) = None \<and>
    e = Uncaught ''unknown time zone''"
  by (auto simp: post_create_def bind_res_Inl new_machine_Inl)

lemma post_answer_ok': "map_of (machineTime srv) k \<noteq> None \<Longrightarrow> post_answer en k body srv \<noteq> Inl e"
  by (auto simp: post_answer_def case_prod_unfold Let_def split: option.split)

lemma post_Inl:
  assumes "srv_inv srv"
  shows "postMachineTime18Channels en rq srv = Inl e \<longleftrightarrow>
    e = Uncaught ''unknown time zone'' \<and>
    (map_of (machineTime srv) (e_znach rq QUERY ''id'') = None \<or> zone_header rq \<noteq> None) \<and>
    en_tz en (case zone_header rq of None \<Rightarrow> ''UTC'' | Some z \<Rightarrow> c_str z) = None"
proof -
  let ?k = "e_znach rq QUERY ''id''"
  have a: "post_answer en ?k b (store_state ?k st srv) \<noteq> Inl e" for b st
    by (rule post_answer_ok') (simp add: store_state_def map_of_put_machine)
  have r: "post_answer en ?k b (post_register ?k m s) \<noteq> Inl e" for b m s
    by (rule post_answer_ok') (auto simp: post_register_def map_of_put_machine split: option.split)
  show ?thesis
    using a r
    by (auto simp: postMachineTime18Channels_def Let_def bind_res_Inl bind_res_Inr adopt_Inl post_create_Inl
        UTC_c_str split: option.splits)
qed

lemma put_Inl:
  assumes "srv_inv srv"
  shows "putMachineTime18Channels en rq srv = Inl e \<longleftrightarrow>
    e = Uncaught ''unknown time zone'' \<and> \<not> e_param rq QUERY ''name'' \<and>
    map_of (machineTime srv) (e_znach rq QUERY ''id'') \<noteq> None \<and>
    (\<exists>z. zone_header rq = Some z \<and> en_tz en (c_str z) = None)"
proof (cases "map_of (machineTime srv) (e_znach rq QUERY ''id'')")
  case None
  then show ?thesis by (simp add: putMachineTime18Channels_def)
next
  case (Some m)
  have s: "adopt_zone en rq m = Ok m' \<Longrightarrow> mt_set cfg now v (m', mt_g_db srv) \<noteq> Inl e" for m' cfg now v
    using adopt_zone_ok [of m en rq] srv_inv_lookup [OF assms Some] mt_set_ok [of "(m', mt_g_db srv)" cfg now v]
    by (auto simp: all_ok_def)
  show ?thesis
    using s by (auto simp: putMachineTime18Channels_def Let_def Some bind_res_Inl adopt_Inl)
qed

text \<open>
  Exactly one kind of request ends the process: in a reachable state, handling a request fails
  only if it is a POST that creates or re-zones an object, or a PUT of a known device, and the time
  zone it names in \<open>X-Timezone\<close> (\<open>UTC\<close> for a POST without the header) is not in
  the time zone data base. The exception is not caught, so any peer can stop the server this way;
  no other request, whatever its parameters and body are, stops it.
\<close>

theorem unknown_zone_kills:
  assumes "mt_reachable (srv, waiting)"
  shows "mt_dispatch en rq srv = Inl e \<longleftrightarrow>
    unknown_zone en rq srv \<and> e = Uncaught ''unknown time zone''"
proof -
  have inv: "srv_inv srv" using reachable_inv [OF assms] by (simp add: world_inv_def)
  have g: "mt_obrobka_get en rq srv \<noteq> Inl e"
    using get_handler_ok [OF inv, of en rq] by (auto simp: mt_obrobka_get_def)
  show ?thesis
    using g unfolding mt_dispatch_def mt_obrobka_post_def mt_obrobka_put_def unknown_zone_def Let_def
    by (auto simp: bind_res_Inl post_Inl [OF inv] put_Inl [OF inv] split: option.splits)
qed

theorem unknown_zone_kills_witness:
  "mt_dispatch demo_env (demo_post [(''x-timezone'', ''Mars'')]) demo_mt_srv = Inl (Uncaught ''unknown time zone'') \<and>
   (\<exists>p. mt_dispatch demo_env (demo_post [(''x-timezone'', ''UTC'')]) demo_mt_srv = Ok p)"
proof -
  have m: "er_method (demo_post hs) = 1592" "er_path (demo_post hs) = channels_path"
    "er_query (demo_post hs) \<noteq> []" for hs by (simp_all add: demo_post_def)
  have z: "en_tz demo_env ''Mars'' = None" "en_tz demo_env ''UTC'' = Some 0" by (simp_all add: demo_env_def)
  have c: "c_str ''Mars'' = ''Mars''" by (simp add: c_str_def NUL_def)
  have u: "unknown_zone demo_env (demo_post [(''x-timezone'', ''Mars'')]) demo_mt_srv"
    "\<not> unknown_zone demo_env (demo_post [(''x-timezone'', ''UTC'')]) demo_mt_srv"
    by (simp_all add: unknown_zone_def m demo_zone c UTC_c_str z Let_def)
  have "mt_dispatch demo_env (demo_post [(''x-timezone'', ''UTC'')]) demo_mt_srv \<noteq> Inl e" for e
    using u(2) by (simp add: unknown_zone_kills [OF demo_race])
  then have "\<exists>p. mt_dispatch demo_env (demo_post [(''x-timezone'', ''UTC'')]) demo_mt_srv = Ok p"
    by (cases "mt_dispatch demo_env (demo_post [(''x-timezone'', ''UTC'')]) demo_mt_srv") auto
  then show ?thesis using u(1) by (simp add: unknown_zone_kills [OF demo_race])
qed

end
