(* ===== verification/WorkerPool.thy ===== *)
theory WorkerPool
  imports MachineTimeProps "HOL-Library.Multiset"
begin

text \<open>
  The worker pool of a port of the MachineTime server
  (\<open>esp8266_decoder/source/worker_pool.cpp\<close>): the accept loop puts connections into a queue,
  workers take them out, serve them and come back. The mutex makes each access to the queue one
  step; the condition variable only delays a worker that has nothing to do. A worker whose parser
  never returns stays busy, and an exception ends the process, so neither has a step.
\<close>

section \<open>The interface of a queue\<close>

locale fifo =
  fixes enq :: "'a \<Rightarrow> 'q \<Rightarrow> 'q"
    and deq :: "'q \<Rightarrow> ('a \<times> 'q) option"
    and items :: "'q \<Rightarrow> 'a list"
  assumes items_enq: "items (enq x q) = items q @ [x]"
    and deq_None: "deq q = None \<longleftrightarrow> items q = []"
    and deq_Some: "deq q = Some (x, q') \<Longrightarrow> items q = x # items q'"
begin

lemma order_enq: "acc = taken @ items q \<Longrightarrow> acc @ [x] = taken @ items (enq x q)"
  by (simp add: items_enq)

lemma order_deq: "acc = taken @ items q \<Longrightarrow> deq q = Some (x, q') \<Longrightarrow> acc = (taken @ [x]) @ items q'"
  by (simp add: deq_Some)

lemma deq_enq: "deq q = None \<Longrightarrow> \<exists>q'. deq (enq x q) = Some (x, q')"
  using deq_None [of q] deq_None [of "enq x q"] deq_Some [of "enq x q"] items_enq [of x q]
  by (cases "deq (enq x q)") auto

end

section \<open>The pool\<close>

datatype worker = Idle | Busy int | Done

record pool =
  m_queue :: "int list"
  m_running :: bool
  m_workers :: "worker list"

definition new_pool :: pool where
  "new_pool = \<lparr>m_queue = [], m_running = False, m_workers = []\<rparr>"

definition pool_start :: "nat \<Rightarrow> pool \<Rightarrow> pool" where
  "pool_start n p = p\<lparr>m_running := True, m_workers := m_workers p @ replicate n Idle\<rparr>"

definition pool_stop :: "pool \<Rightarrow> pool" where
  "pool_stop p = p\<lparr>m_running := False\<rparr>"

definition pool_enqueue :: "int \<Rightarrow> pool \<Rightarrow> pool" where
  "pool_enqueue fd p = p\<lparr>m_queue := m_queue p @ [fd]\<rparr>"

definition pool_dequeue :: "pool \<Rightarrow> (int \<times> pool) option" where
  "pool_dequeue p = (case m_queue p of [] \<Rightarrow> None | fd # q \<Rightarrow> Some (fd, p\<lparr>m_queue := q\<rparr>))"

interpretation pq: fifo pool_enqueue pool_dequeue m_queue
  by unfold_locales (auto simp: pool_enqueue_def pool_dequeue_def split: list.splits)

definition set_worker :: "nat \<Rightarrow> worker \<Rightarrow> pool \<Rightarrow> pool" where
  "set_worker i w p = p\<lparr>m_workers := (m_workers p)[i := w]\<rparr>"

text \<open>
  One turn of \<open>worker_func\<close> up to the point where it serves or goes on waiting; a queue entry
  that is no socket is skipped.
\<close>

definition worker_turn :: "nat \<Rightarrow> pool \<Rightarrow> (int option \<times> pool) option" where
  "worker_turn i p =
     (case pool_dequeue p of
        None \<Rightarrow> if m_running p then None else Some (None, set_worker i Done p)
      | Some (fd, p) \<Rightarrow> Some (Some fd, if fd = -1 then p else set_worker i (Busy fd) p))"

section \<open>The pool at work\<close>

text \<open>The connections of a run, in the order they were accepted and taken, and the answers sent.\<close>

record pool_world =
  pw_pool :: pool
  pw_srv :: mt_srv
  pw_accepted :: "int list"
  pw_taken :: "int list"
  pw_answers :: "(int \<times> string) list"

inductive pool_step :: "(int \<Rightarrow> conn) \<Rightarrow> pool_world \<Rightarrow> pool_world \<Rightarrow> bool" for conns where
  pool_accept: "m_running (pw_pool w) \<Longrightarrow> fd \<noteq> -1 \<Longrightarrow>
    pool_step conns w (w\<lparr>pw_pool := pool_enqueue fd (pw_pool w), pw_accepted := pw_accepted w @ [fd]\<rparr>)"
| pool_take: "i < length (m_workers (pw_pool w)) \<Longrightarrow> m_workers (pw_pool w) ! i = Idle \<Longrightarrow>
    worker_turn i (pw_pool w) = Some (Some fd, p) \<Longrightarrow>
    pool_step conns w (w\<lparr>pw_pool := p, pw_taken := pw_taken w @ [fd]\<rparr>)"
| pool_quit: "i < length (m_workers (pw_pool w)) \<Longrightarrow> m_workers (pw_pool w) ! i = Idle \<Longrightarrow>
    worker_turn i (pw_pool w) = Some (None, p) \<Longrightarrow> pool_step conns w (w\<lparr>pw_pool := p\<rparr>)"
| pool_serve: "i < length (m_workers (pw_pool w)) \<Longrightarrow> m_workers (pw_pool w) ! i = Busy fd \<Longrightarrow>
    serve_connection en (conns fd) (pw_srv w) = Some (Ok (out, srv)) \<Longrightarrow>
    pool_step conns w (w\<lparr>pw_pool := set_worker i Idle (pw_pool w), pw_srv := srv,
      pw_answers := pw_answers w @ [(fd, out)]\<rparr>)"
| pool_stops: "pool_step conns w (w\<lparr>pw_pool := pool_stop (pw_pool w)\<rparr>)"

inductive pool_reachable :: "(int \<Rightarrow> conn) \<Rightarrow> pool_world \<Rightarrow> bool" for conns where
  pool_init: "srv_inv srv \<Longrightarrow> pool_reachable conns
    \<lparr>pw_pool = pool_start n new_pool, pw_srv = srv, pw_accepted = [], pw_taken = [], pw_answers = []\<rparr>"
| pool_next: "pool_reachable conns w \<Longrightarrow> pool_step conns w w' \<Longrightarrow> pool_reachable conns w'"

inductive_cases pool_stepE: "pool_step conns w w'"

section \<open>Invariants\<close>

fun worker_fds :: "worker \<Rightarrow> int list" where
  "worker_fds (Busy fd) = [fd]"
| "worker_fds w = []"

definition held :: "worker list \<Rightarrow> int list" where
  "held ws = concat (map worker_fds ws)"

lemma held_update:
  "i < length ws \<Longrightarrow> mset (held (ws[i := w])) + mset (worker_fds (ws ! i)) = mset (held ws) + mset (worker_fds w)"
proof (induction ws arbitrary: i)
  case (Cons v ws)
  show ?case
  proof (cases i)
    case (Suc j)
    with Cons show ?thesis by (simp add: held_def add.assoc)
  qed (simp add: held_def)
qed simp

definition pool_inv :: "pool_world \<Rightarrow> bool" where
  "pool_inv w \<longleftrightarrow> srv_inv (pw_srv w) \<and> list_all (\<lambda>fd. fd \<noteq> -1) (m_queue (pw_pool w)) \<and>
     pw_accepted w = pw_taken w @ m_queue (pw_pool w) \<and>
     mset (pw_taken w) = mset (map fst (pw_answers w)) + mset (held (m_workers (pw_pool w))) \<and>
     (Done \<in> set (m_workers (pw_pool w)) \<longrightarrow> \<not> m_running (pw_pool w) \<and> m_queue (pw_pool w) = [])"

lemma serve_inv:
  "serve_connection en c srv = Some (Ok (out, srv')) \<Longrightarrow> srv_inv srv \<Longrightarrow> srv_inv srv'"
  using dispatch_inv [of srv en]
  by (fastforce simp: serve_connection_def bind_res_Inr all_ok_def mt_post_ok_def split: option.splits)

lemma step_pool_inv:
  assumes "pool_step conns w w'" "pool_inv w"
  shows "pool_inv w'"
  using assms
proof (induction rule: pool_step.induct)
  case (pool_accept w fd)
  then show ?case
    using pq.order_enq [of "pw_accepted w" "pw_taken w" "pw_pool w" fd]
    by (auto simp: pool_inv_def pool_enqueue_def)
next
  case (pool_take i w fd p)
  let ?ws = "m_workers (pw_pool w)"
  obtain q where q: "pool_dequeue (pw_pool w) = Some (fd, q)"
      "p = (if fd = -1 then q else set_worker i (Busy fd) q)"
    using pool_take(3) by (auto simp: worker_turn_def split: option.splits if_splits)
  have ws: "m_workers q = ?ws" "m_running q = m_running (pw_pool w)" "m_queue (pw_pool w) = fd # m_queue q"
    using q(1) by (auto simp: pool_dequeue_def split: list.splits)
  have ok: "fd \<noteq> -1" using pool_take(4) ws(3) by (simp add: pool_inv_def)
  have h: "mset (held (?ws[i := Busy fd])) = mset (held ?ws) + {#fd#}"
    using held_update [OF pool_take(1), of "Busy fd"] pool_take(2) by simp
  have nd: "Done \<notin> set (?ws[i := Busy fd])"
    using pool_take(4) ws(3) set_update_subset_insert [of ?ws i "Busy fd"] by (auto simp: pool_inv_def)
  have acc: "pw_accepted w = (pw_taken w @ [fd]) @ m_queue q"
    by (rule pq.order_deq [OF _ q(1)]) (use pool_take(4) in \<open>simp add: pool_inv_def\<close>)
  show ?case
    using pool_take(4) q(2) ok ws h nd acc by (simp add: pool_inv_def set_worker_def)
next
  case (pool_quit i w p)
  let ?ws = "m_workers (pw_pool w)"
  have p: "p = set_worker i Done (pw_pool w)" "\<not> m_running (pw_pool w)" "m_queue (pw_pool w) = []"
    using pool_quit(3) pq.deq_None [of "pw_pool w"] by (auto simp: worker_turn_def split: option.splits if_splits)
  have "mset (held (?ws[i := Done])) = mset (held ?ws)"
    using held_update [OF pool_quit(1), of Done] pool_quit(2) by simp
  then show ?case using pool_quit(4) p by (simp add: pool_inv_def set_worker_def)
next
  case (pool_serve i w fd en out srv)
  let ?ws = "m_workers (pw_pool w)"
  have h: "mset (held ?ws) = add_mset fd (mset (held (?ws[i := Idle])))"
    using held_update [OF pool_serve(1), of Idle] pool_serve(2) by simp
  have nd: "Done \<in> set (?ws[i := Idle]) \<Longrightarrow> Done \<in> set ?ws"
    using set_update_subset_insert [of ?ws i Idle] by auto
  show ?case
    using pool_serve(4) serve_inv [OF pool_serve(3)] h nd by (auto simp: pool_inv_def set_worker_def)
next
  case (pool_stops w)
  then show ?case by (simp add: pool_inv_def pool_stop_def)
qed

lemma reachable_pool_inv: "pool_reachable conns w \<Longrightarrow> pool_inv w"
proof (induction rule: pool_reachable.induct)
  case (pool_init srv n)
  have "held (replicate n Idle) = []" by (induction n) (simp_all add: held_def)
  with pool_init show ?case by (simp add: pool_inv_def pool_start_def new_pool_def)
next
  case (pool_next w w')
  then show ?case by (simp add: step_pool_inv)
qed

text \<open>
  C15. Connections are taken by the workers in the order they were accepted, none is taken twice and
  none is answered twice: what was accepted is what was taken followed by what still waits, and what
  was taken is what was answered together with what the busy workers hold.
\<close>

theorem pool_serves_in_order:
  assumes "pool_reachable conns w"
  shows "pw_accepted w = pw_taken w @ m_queue (pw_pool w) \<and>
    mset (pw_taken w) = mset (map fst (pw_answers w)) + mset (held (m_workers (pw_pool w)))"
  using reachable_pool_inv [OF assms] by (simp add: pool_inv_def)


section \<open>A run for the witnesses\<close>

definition bad_conn :: conn where
  "bad_conn = \<lparr>cn_bytes = ''BAD'' @ crlf @ crlf, cn_fin = PeerClosed\<rparr>"

lemma bad_served: "\<exists>out. serve_connection demo_env bad_conn srv = Some (Ok (out, srv))"
proof -
  have "read_headers True [] new_e_request bad_conn =
      Some (new_e_request\<lparr>er_header := ''BAD'' @ crlf @ crlf\<rparr>, \<lparr>cn_bytes = [], cn_fin = PeerClosed\<rparr>)"
    by (subst read_headers.simps, subst read_headers.simps)
      (simp add: bad_conn_def resv_line_def crlf_def lf_def first_line_pars_def c_str_def NUL_def Let_def)
  then have "parse_http_request bad_conn =
      Some (new_e_request\<lparr>er_header := ''BAD'' @ crlf @ crlf\<rparr>, \<lparr>cn_bytes = [], cn_fin = PeerClosed\<rparr>)"
    by (simp add: parse_http_request_def read_http_body_def e_znach_def e_check_param_def q_of_def new_e_request_def)
  then show ?thesis
    by (simp add: serve_connection_def mt_dispatch_def new_e_request_def)
qed

definition demo_world :: "string \<Rightarrow> pool_world" where
  "demo_world out = \<lparr>pw_pool = \<lparr>m_queue = [], m_running = False, m_workers = [Done]\<rparr>,
     pw_srv = \<lparr>machineTime = [], mt_g_db = None\<rparr>, pw_accepted = [7], pw_taken = [7], pw_answers = [(7, out)]\<rparr>"

text \<open>One worker serves connection 7 and ends when the pool is stopped.\<close>

lemma demo_run: "\<exists>out. pool_reachable (\<lambda>_. bad_conn) (demo_world out)"
proof -
  let ?srv = "\<lparr>machineTime = [], mt_g_db = None\<rparr>" and ?R = "pool_reachable (\<lambda>_. bad_conn)"
  let ?w = "\<lambda>q run ws acc tk an. \<lparr>pw_pool = \<lparr>m_queue = q, m_running = run, m_workers = ws\<rparr>,
      pw_srv = ?srv, pw_accepted = acc, pw_taken = tk, pw_answers = an\<rparr>"
  obtain out where o: "serve_connection demo_env bad_conn ?srv = Some (Ok (out, ?srv))" using bad_served by blast
  note defs = pool_enqueue_def pool_stop_def worker_turn_def pool_dequeue_def set_worker_def
  have "?R (?w [] True [Idle] [] [] [])"
    using pool_init [of ?srv "\<lambda>_. bad_conn" 1]
    by (simp add: srv_inv_def srv_ok_def keys_ok_def pool_start_def new_pool_def)
  from pool_next [OF this pool_accept [of _ 7]] have "?R (?w [7] True [Idle] [7] [] [])" by (simp add: defs)
  from pool_next [OF this pool_take [of 0]] have "?R (?w [] True [Busy 7] [7] [7] [])" by (simp add: defs)
  from pool_next [OF this pool_serve [of 0 _ 7 demo_env]] o have "?R (?w [] True [Idle] [7] [7] [(7, out)])"
    by (simp add: defs)
  from pool_next [OF this pool_stops] have "?R (?w [] False [Idle] [7] [7] [(7, out)])" by (simp add: defs)
  from pool_next [OF this pool_quit [of 0]] have "?R (demo_world out)" by (simp add: defs demo_world_def)
  then show ?thesis ..
qed

theorem pool_serves_in_order_witness:
  "\<exists>w. pool_reachable (\<lambda>_. bad_conn) w \<and> pw_accepted w = [7] \<and> pw_accepted w = pw_taken w @ m_queue (pw_pool w)"
proof -
  obtain out where r: "pool_reachable (\<lambda>_. bad_conn) (demo_world out)" using demo_run by blast
  from pool_serves_in_order [OF r] r show ?thesis by (auto simp: demo_world_def)
qed


end
