(* ===== verification/LiraRelayFacts.thy ===== *)
theory LiraRelayFacts
  imports LiraRelay
begin

text \<open>
  The linked list of \<open>relay.cpp\<close> as a list of devices: \<open>chain\<close> reads the addresses of the list
  off the heap, \<open>lira_wf\<close> is the invariant (a list without cycles, all its nodes allocated), and
  every request is shown to do to the list of devices what its description says, except for the
  removal of old devices, which never succeeds.
\<close>

section \<open>Lists on the heap\<close>

primrec chain :: "lira_relay \<Rightarrow> ptr \<Rightarrow> nat list \<Rightarrow> bool" where
  "chain st p [] \<longleftrightarrow> p = None"
| "chain st p (a # as) \<longleftrightarrow> p = Some a \<and>
     (case lr_heap st a of None \<Rightarrow> False | Some n \<Rightarrow> chain st (ln_next n) as)"

definition node_at :: "lira_relay \<Rightarrow> nat \<Rightarrow> lnode" where
  "node_at st a = the (lr_heap st a)"

definition devices :: "lira_relay \<Rightarrow> nat list \<Rightarrow> lrele list" where
  "devices st as = map (\<lambda>a. ln_rele (node_at st a)) as"

definition fresh_above :: "lira_relay \<Rightarrow> bool" where
  "fresh_above st \<longleftrightarrow> (\<forall>a. lr_alloc st \<le> a \<longrightarrow> lr_heap st a = None)"

definition lira_wf :: "lira_relay \<Rightarrow> nat list \<Rightarrow> bool" where
  "lira_wf st as \<longleftrightarrow> chain st (lr_head st) as \<and> distinct as \<and> fresh_above st"

primrec ptr_of :: "nat list \<Rightarrow> ptr" where
  "ptr_of [] = None"
| "ptr_of (a # as) = Some a"

definition cell_of :: "nat list \<Rightarrow> cell" where
  "cell_of ys = (if ys = [] then HeadCell else NextCell (last ys))"

lemma chain_ptr: "chain st p as \<Longrightarrow> p = ptr_of as"
  by (cases as) auto

lemma chain_mid:
  assumes "chain st p (ys @ a # zs)"
  shows "lr_heap st a = Some (node_at st a)" "ln_next (node_at st a) = ptr_of zs"
        "chain st (Some a) (a # zs)"
proof -
  have "\<exists>n. lr_heap st a = Some n \<and> chain st (ln_next n) zs" using assms
    by (induction ys arbitrary: p) (auto split: option.splits)
  then obtain n where n: "lr_heap st a = Some n" "chain st (ln_next n) zs" by blast
  then show "lr_heap st a = Some (node_at st a)" "chain st (Some a) (a # zs)"
    by (simp_all add: node_at_def)
  from n chain_ptr [OF n(2)] show "ln_next (node_at st a) = ptr_of zs" by (simp add: node_at_def)
qed

lemma chain_cong:
  assumes "\<And>a. a \<in> set as \<Longrightarrow> map_option ln_next (lr_heap st' a) = map_option ln_next (lr_heap st a)"
  shows "chain st' p as = chain st p as"
  using assms
proof (induction as arbitrary: p)
  case (Cons a as)
  have h: "map_option ln_next (lr_heap st' a) = map_option ln_next (lr_heap st a)"
    by (rule Cons.prems) simp
  have ih: "chain st' q as = chain st q as" for q
    by (rule Cons.IH) (rule Cons.prems, simp)
  show ?case
    using h by (cases "lr_heap st a"; cases "lr_heap st' a") (simp_all add: ih)
qed simp

lemma read_cell_of:
  assumes "chain st (lr_head st) (ys @ zs)"
  shows "read_cell st t (cell_of ys) = Ok (ptr_of zs)"
proof (cases ys rule: rev_cases)
  case Nil
  then show ?thesis using chain_ptr [OF assms] by (simp add: cell_of_def read_cell_def)
next
  case (snoc ys' a)
  then have "chain st (lr_head st) (ys' @ a # zs)" using assms by simp
  from chain_mid [OF this] show ?thesis
    by (simp add: snoc cell_of_def read_cell_def deref_def)
qed

lemma deref_chain:
  "chain st p (ys @ a # zs) \<Longrightarrow> deref st (Some a) = Ok (node_at st a)"
  by (simp add: deref_def chain_mid)

lemma cell_of_snoc [simp]: "cell_of (ys @ [a]) = NextCell a"
  by (simp add: cell_of_def)

lemma length_devices [simp]: "length (devices st as) = length as"
  by (simp add: devices_def)

section \<open>Finding a device\<close>

abbreviation sn_at :: "lira_relay \<Rightarrow> nat \<Rightarrow> int" where
  "sn_at st a \<equiv> lr_sn (ln_rele (node_at st a))"

lemma find_loop_found:
  assumes "chain st (lr_head st) (ys @ zs)" "read_cell st None rr = Ok (Some a)"
    and "deref st (Some a) = Ok (node_at st a)" "sn_at st a = sn"
  shows "find_loop st sn rr (cell_of ys) = Some (Ok rr)"
  using assms(1)
proof (induction zs arbitrary: ys)
  case Nil
  then show ?case by (subst find_loop.simps) (simp add: read_cell_of [of _ ys "[]"])
next
  case (Cons b zs)
  have "chain st (lr_head st) ((ys @ [b]) @ zs)" using Cons.prems by simp
  from Cons.IH [OF this] show ?case
    by (subst find_loop.simps)
      (simp add: read_cell_of [OF Cons.prems] deref_chain [OF Cons.prems] assms(2,3,4))
qed

lemma find_loop_eq:
  assumes "chain st (lr_head st) (ys @ zs)"
  shows "find_loop st sn (cell_of ys) (cell_of ys) =
    Some (Ok (cell_of (ys @ takeWhile (\<lambda>a. sn_at st a \<noteq> sn) zs)))"
  using assms
proof (induction zs arbitrary: ys)
  case Nil
  then show ?case by (subst find_loop.simps) (simp add: read_cell_of [of _ ys "[]"])
next
  case (Cons b zs)
  have c: "chain st (lr_head st) ((ys @ [b]) @ zs)" using Cons.prems by simp
  show ?case
  proof (cases "sn_at st b = sn")
    case True
    have "find_loop st sn (cell_of ys) (cell_of (ys @ [b])) = Some (Ok (cell_of ys))"
      using find_loop_found [OF c, of "cell_of ys" b sn] Cons.prems True
      by (simp add: read_cell_of deref_chain)
    then show ?thesis
      by (subst find_loop.simps)
        (simp add: read_cell_of [OF Cons.prems] deref_chain [OF Cons.prems] True)
  next
    case False
    then show ?thesis using Cons.IH [OF c]
      by (subst find_loop.simps)
        (simp add: read_cell_of [OF Cons.prems] deref_chain [OF Cons.prems])
  qed
qed

section \<open>The poll on a list of devices\<close>

primrec poll_devices ::
  "int \<Rightarrow> (lrele option \<Rightarrow> (string \<times> lrele) res) \<Rightarrow> lrele list \<Rightarrow> (string \<times> lrele list) res" where
  "poll_devices sn f [] = bind_res (f None) (\<lambda>(out, r). Ok (out, [r]))"
| "poll_devices sn f (r # rs) =
     (if lr_sn r = sn then bind_res (f (Some r)) (\<lambda>(out, r'). Ok (out, r' # rs))
      else bind_res (poll_devices sn f rs) (\<lambda>(out, rs'). Ok (out, r # rs')))"

definition poll_device ::
  "int \<Rightarrow> int \<Rightarrow> string \<Rightarrow> string \<Rightarrow> int \<Rightarrow> string \<Rightarrow> bool \<Rightarrow> int \<Rightarrow> string \<Rightarrow> lrele option \<Rightarrow>
     (string \<times> lrele) res" where
  "poll_device now sn sn_txt relays acp acp_txt init cs init_txt d =
     bind_res (bbb_ok (lira_line_head sn relays acp)) (\<lambda>_.
     bind_res (case d of None \<Rightarrow> created_lrele now sn relays acp
               | Some r \<Rightarrow> refresh_lrele now sn relays acp init r) (\<lambda>r.
       answer_lrele (lira_line_head sn relays acp) (d = None) init cs sn_txt relays acp_txt init_txt r))"

lemma poll_devices_new:
  "\<forall>r\<in>set rs. lr_sn r \<noteq> sn \<Longrightarrow>
   poll_devices sn f rs = bind_res (f None) (\<lambda>(out, r). Ok (out, rs @ [r]))"
  by (induction rs) (auto simp: bind_res_assoc intro!: bind_res_cong)

lemma poll_devices_old:
  "\<forall>r\<in>set pre. lr_sn r \<noteq> sn \<Longrightarrow> lr_sn r = sn \<Longrightarrow>
   poll_devices sn f (pre @ r # post) = bind_res (f (Some r)) (\<lambda>(out, r'). Ok (out, pre @ r' # post))"
  by (induction pre) (auto simp: bind_res_assoc intro!: bind_res_cong)

lemma chain_write_rele:
  assumes "lr_heap st a = Some n"
  shows "chain (write_node a (n\<lparr>ln_rele := r\<rparr>) st) p as = chain st p as"
  by (rule chain_cong) (simp add: write_node_def assms)

lemma devices_write_rele:
  assumes "distinct (pre @ a # post)"
  shows "devices (write_node a (n\<lparr>ln_rele := r\<rparr>) st) (pre @ a # post) =
    devices st pre @ r # devices st post"
  using assms by (auto simp: devices_def node_at_def write_node_def)

lemma wf_write_rele:
  assumes "lira_wf st as" "lr_heap st a = Some n"
  shows "lira_wf (write_node a (n\<lparr>ln_rele := r\<rparr>) st) as"
  using assms chain_write_rele [OF assms(2), of r]
  by (auto simp: lira_wf_def fresh_above_def write_node_def)

lemma chain_alloc: "chain st p as \<Longrightarrow> a \<in> set as \<Longrightarrow> lr_heap st a \<noteq> None"
  by (induction as arbitrary: p) (auto split: option.splits)

lemma chain_snoc:
  assumes "chain st p as" "b \<notin> set as" "lr_heap st b = None"
    and "lr_heap st' b = Some \<lparr>ln_rele = r, ln_next = None\<rparr>"
    and "\<And>a. a \<in> set as \<Longrightarrow> lr_heap st' a =
      Some (if a = last as then (node_at st a)\<lparr>ln_next := Some b\<rparr> else node_at st a)"
    and "distinct as" "as \<noteq> []"
  shows "chain st' p (as @ [b])"
  using assms(1,2,5-)
proof (induction as arbitrary: p)
  case (Cons a as)
  show ?case
  proof (cases "as = []")
    case True
    then show ?thesis using Cons.prems assms(4) by (simp add: Cons.prems(3))
  next
    case False
    have "chain st (ln_next (node_at st a)) as" and h: "lr_heap st a = Some (node_at st a)"
      using Cons.prems(1) by (auto simp: node_at_def split: option.splits)
    then have "chain st' (ln_next (node_at st a)) (as @ [b])"
      using False Cons.prems by (intro Cons.IH) auto
    moreover have "lr_heap st' a = Some (node_at st a)"
      using Cons.prems(3) [of a] Cons.prems(4) False by auto
    ultimately show ?thesis using Cons.prems(1) by simp
  qed
qed simp

lemma append_node:
  assumes "lira_wf st as"
  obtains b st1 st2 where "new_node r st = (b, st1)" "write_cell (cell_of as) (Some b) st1 = Ok st2"
    "lira_wf st2 (as @ [b])" "devices st2 (as @ [b]) = devices st as @ [r]"
proof -
  let ?b = "lr_alloc st"
  define w where "w = snd (new_node r st)"
  have nn: "new_node r st = (?b, w)" by (simp add: w_def new_node_def)
  have hw: "lr_heap w = (lr_heap st)(?b := Some \<lparr>ln_rele = r, ln_next = None\<rparr>)"
    "lr_head w = lr_head st" "lr_alloc w = ?b + 1"
    by (simp_all add: w_def new_node_def write_node_def)
  have c: "chain st (lr_head st) as" and d: "distinct as" and f: "lr_heap st ?b = None"
    and fa: "fresh_above st" using assms by (auto simp: lira_wf_def fresh_above_def)
  have nb: "?b \<notin> set as" using chain_alloc [OF c, of ?b] f by blast
  show ?thesis
  proof (cases as rule: rev_cases)
    case Nil
    have "lira_wf (w\<lparr>lr_head := Some ?b\<rparr>) [?b]" using fa
      by (auto simp: lira_wf_def fresh_above_def hw)
    moreover have "devices (w\<lparr>lr_head := Some ?b\<rparr>) [?b] = [r]"
      by (simp add: devices_def node_at_def hw)
    ultimately show ?thesis
      by (intro that [OF nn, of "w\<lparr>lr_head := Some ?b\<rparr>"])
        (auto simp: Nil cell_of_def write_cell_def devices_def)
  next
    case (snoc ys l)
    have hl: "lr_heap st l = Some (node_at st l)" using c chain_mid(1) [of st _ ys l "[]"] by (simp add: snoc)
    have lb: "l \<noteq> ?b" using hl f by auto
    define v where "v = write_node l ((node_at st l)\<lparr>ln_next := Some ?b\<rparr>) w"
    have wc: "write_cell (cell_of as) (Some ?b) w = Ok v"
      using hl lb by (simp add: snoc write_cell_def set_next_def deref_def hw v_def)
    have hv: "lr_heap v = (lr_heap w)(l := Some ((node_at st l)\<lparr>ln_next := Some ?b\<rparr>))"
      "lr_head v = lr_head st" "lr_alloc v = ?b + 1"
      by (simp_all add: v_def write_node_def hw)
    have "chain v (lr_head st) (as @ [?b])"
    proof (rule chain_snoc [OF c nb f _ _ d])
      show "lr_heap v ?b = Some \<lparr>ln_rele = r, ln_next = None\<rparr>" using lb by (simp add: hv hw)
      fix a assume a: "a \<in> set as"
      then obtain x where "lr_heap st a = Some x" using chain_alloc [OF c] by auto
      then show "lr_heap v a = Some (if a = last as then (node_at st a)\<lparr>ln_next := Some ?b\<rparr> else node_at st a)"
        using a nb by (auto simp: hv hw snoc node_at_def)
    qed (simp add: snoc)
    moreover have "fresh_above v" unfolding fresh_above_def
    proof (intro allI impI)
      fix x assume x: "lr_alloc v \<le> x"
      then have "lr_heap st x = None" using fa by (simp add: fresh_above_def hv)
      moreover from this have "x \<noteq> l" using hl by force
      ultimately show "lr_heap v x = None" using x by (simp add: hv hw)
    qed
    ultimately have "lira_wf v (as @ [?b])" using d nb by (simp add: lira_wf_def hv)
    moreover have "devices v (as @ [?b]) = devices st as @ [r]"
      using lb nb by (auto simp: devices_def node_at_def hv hw)
    ultimately show ?thesis by (rule that [OF nn wc])
  qed
qed

section \<open>Polls refine the list\<close>

lemma takeWhile_devices:
  "\<forall>r\<in>set (devices st (takeWhile (\<lambda>a. sn_at st a \<noteq> sn) as)). lr_sn r \<noteq> sn"
  by (auto simp: devices_def dest: set_takeWhileD)

definition is_result ::
  "(string \<times> lira_relay) res option \<Rightarrow> (string \<times> lrele list) res \<Rightarrow> bool" where
  "is_result x y \<longleftrightarrow> (case y of
      Inl e \<Rightarrow> x = Some (Inl e)
    | Inr (out, rs) \<Rightarrow> \<exists>st as. x = Some (Ok (out, st)) \<and> lira_wf st as \<and> devices st as = rs)"

lemma poll_new:
  assumes wf: "lira_wf st as" and no: "\<forall>r\<in>set (devices st as). lr_sn r \<noteq> sn"
  shows "is_result (lira_obrobnyk now sn sn_txt relays acp acp_txt init cs init_txt st)
    (poll_devices sn (poll_device now sn sn_txt relays acp acp_txt init cs init_txt) (devices st as))"
proof -
  have c: "chain st (lr_head st) as" using wf by (simp add: lira_wf_def)
  have t: "takeWhile (\<lambda>a. sn_at st a \<noteq> sn) as = as" using no by (auto simp: takeWhile_eq_all_conv devices_def)
  have f: "find_loop st sn HeadCell HeadCell = Some (Ok (cell_of as))"
    using find_loop_eq [of st "[]" as sn] c by (simp add: t cell_of_def)
  have r: "read_cell st None (cell_of as) = Ok None"
    using read_cell_of [of st as "[]"] c by simp
  have e: "lira_obrobnyk now sn sn_txt relays acp acp_txt init cs init_txt st =
    Some (bind_res (poll_device now sn sn_txt relays acp acp_txt init cs init_txt None) (\<lambda>(out, r).
      let (a, st) = new_node r st in bind_res (write_cell (cell_of as) (Some a) st) (\<lambda>st. Ok (out, st))))"
    by (cases "bbb_ok (lira_line_head sn relays acp)")
      (simp_all add: lira_obrobnyk_def poll_device_def f r Let_def bind_res_assoc)
  show ?thesis
  proof (cases "poll_device now sn sn_txt relays acp acp_txt init cs init_txt None")
    case (Inl x)
    show ?thesis unfolding e poll_devices_new [OF no] Inl by (simp add: is_result_def)
  next
    case (Inr p)
    obtain out q where p: "p = (out, q)" by (cases p)
    from append_node [OF wf, of q] obtain b st1 st2 where n: "new_node q st = (b, st1)"
      and w: "write_cell (cell_of as) (Some b) st1 = Ok st2" and wf2: "lira_wf st2 (as @ [b])"
      and d: "devices st2 (as @ [b]) = devices st as @ [q]" by blast
    show ?thesis unfolding e poll_devices_new [OF no] Inr p
      using wf2 d by (auto simp: is_result_def n w)
  qed
qed

lemma poll_old:
  assumes wf: "lira_wf st as" and as: "as = pre @ a # post"
    and no: "\<forall>r\<in>set (devices st pre). lr_sn r \<noteq> sn" and sn: "sn_at st a = sn"
  shows "is_result (lira_obrobnyk now sn sn_txt relays acp acp_txt init cs init_txt st)
    (poll_devices sn (poll_device now sn sn_txt relays acp acp_txt init cs init_txt) (devices st as))"
proof -
  have c: "chain st (lr_head st) (pre @ a # post)" and d: "distinct (pre @ a # post)"
    using wf by (simp_all add: lira_wf_def as)
  have t: "takeWhile (\<lambda>a. sn_at st a \<noteq> sn) (pre @ a # post) = pre"
    using no sn by (subst takeWhile_append2) (auto simp: devices_def)
  have f: "find_loop st sn HeadCell HeadCell = Some (Ok (cell_of pre))"
    using find_loop_eq [of st "[]" "pre @ a # post" sn] c by (simp add: t cell_of_def)
  have r: "read_cell st None (cell_of pre) = Ok (Some a)" using read_cell_of [OF c] by simp
  have h: "lr_heap st a = Some (node_at st a)" by (rule chain_mid(1) [OF c])
  have ds: "devices st (pre @ a # post) = devices st pre @ ln_rele (node_at st a) # devices st post"
    by (simp add: devices_def)
  note po = poll_devices_old [OF no sn]
  have e: "lira_obrobnyk now sn sn_txt relays acp acp_txt init cs init_txt st =
    Some (bind_res (poll_device now sn sn_txt relays acp acp_txt init cs init_txt
      (Some (ln_rele (node_at st a)))) (\<lambda>(out, q). Ok (out, write_node a ((node_at st a)\<lparr>ln_rele := q\<rparr>) st)))"
    by (cases "bbb_ok (lira_line_head sn relays acp)")
      (simp_all add: lira_obrobnyk_def poll_device_def f r Let_def bind_res_assoc deref_chain [OF c])
  show ?thesis
  proof (cases "poll_device now sn sn_txt relays acp acp_txt init cs init_txt (Some (ln_rele (node_at st a)))")
    case (Inl x)
    show ?thesis unfolding e as ds po Inl by (simp add: is_result_def)
  next
    case (Inr p)
    obtain out q where p: "p = (out, q)" by (cases p)
    let ?st = "write_node a ((node_at st a)\<lparr>ln_rele := q\<rparr>) st"
    have "lira_wf ?st (pre @ a # post)" using wf_write_rele [OF wf h] by (simp add: as)
    moreover have "devices ?st (pre @ a # post) = devices st pre @ q # devices st post"
      by (rule devices_write_rele [OF d])
    ultimately show ?thesis unfolding e as ds po Inr p by (auto simp: is_result_def)
  qed
qed

lemma split_sn:
  "(\<forall>r\<in>set (devices st as). lr_sn r \<noteq> sn) \<or>
   (\<exists>pre a post. as = pre @ a # post \<and> (\<forall>r\<in>set (devices st pre). lr_sn r \<noteq> sn) \<and> sn_at st a = sn)"
  using split_list_first_prop [of as "\<lambda>a. sn_at st a = sn"] by (fastforce simp: devices_def)

lemma poll_refines:
  assumes "lira_wf st as"
  shows "is_result (lira_obrobnyk now sn sn_txt relays acp acp_txt init cs init_txt st)
    (poll_devices sn (poll_device now sn sn_txt relays acp acp_txt init cs init_txt) (devices st as))"
  using split_sn [of st as sn]
proof (elim disjE exE conjE)
qed (rule poll_new [OF assms] poll_old [OF assms]; assumption)+

section \<open>Marking devices offline\<close>

definition stale :: "int \<Rightarrow> int \<Rightarrow> lrele \<Rightarrow> lrele" where
  "stale lim now r = (if now - lr_time_onl r > lim then r\<lparr>lr_acp := -4095\<rparr> else r)"

definition mark_nodes :: "int \<Rightarrow> int \<Rightarrow> nat list \<Rightarrow> lira_relay \<Rightarrow> lira_relay" where
  "mark_nodes lim now bs st = st\<lparr>lr_heap := (\<lambda>a. if a \<in> set bs
     then map_option (\<lambda>n. n\<lparr>ln_rele := stale lim now (ln_rele n)\<rparr>) (lr_heap st a) else lr_heap st a)\<rparr>"

lemma stale_simps [simp]:
  "lr_sn (stale lim now r) = lr_sn r" "lr_time_onl (stale lim now r) = lr_time_onl r"
  "stale lim now (stale lim now r) = stale lim now r"
  by (simp_all add: stale_def)

lemma mark_nodes_simps [simp]:
  "lr_head (mark_nodes lim now bs st) = lr_head st" "lr_alloc (mark_nodes lim now bs st) = lr_alloc st"
  "mark_nodes lim now [] st = st"
  by (simp_all add: mark_nodes_def)

lemma mark_nodes_append:
  "mark_nodes lim now bs (mark_nodes lim now as st) = mark_nodes lim now (as @ bs) st"
  by (rule lira_relay.equality) (auto simp: mark_nodes_def option.map_comp o_def)

lemma chain_mark [simp]: "chain (mark_nodes lim now bs st) p as = chain st p as"
  by (rule chain_cong) (auto simp: mark_nodes_def option.map_comp o_def)

lemma wf_mark: "lira_wf st as \<Longrightarrow> lira_wf (mark_nodes lim now bs st) as"
  by (simp add: lira_wf_def) (auto simp: fresh_above_def mark_nodes_def)

lemma chain_node: "chain st p as \<Longrightarrow> a \<in> set as \<Longrightarrow> lr_heap st a = Some (node_at st a)"
  using chain_mid(1) by (metis in_set_conv_decomp)

lemma devices_mark:
  assumes "chain st p as"
  shows "devices (mark_nodes lim now bs st) as =
    map (\<lambda>a. if a \<in> set bs then stale lim now (ln_rele (node_at st a)) else ln_rele (node_at st a)) as"
  using chain_alloc [OF assms] by (force simp: devices_def node_at_def mark_nodes_def)

lemma write_stale:
  assumes "lr_heap st a = Some n"
  shows "write_node a (n\<lparr>ln_rele := stale lim now (ln_rele n)\<rparr>) st = mark_nodes lim now [a] st"
  using assms by (intro lira_relay.equality) (auto simp: write_node_def mark_nodes_def)

lemma stale_node:
  "(if now - lr_time_onl (ln_rele n) > lim then n\<lparr>ln_rele := (ln_rele n)\<lparr>lr_acp := -4095\<rparr>\<rparr> else n) =
   n\<lparr>ln_rele := stale lim now (ln_rele n)\<rparr>"
  by (simp add: stale_def)

section \<open>The list of devices\<close>

definition fresh :: "int \<Rightarrow> lrele \<Rightarrow> bool" where
  "fresh now r \<longleftrightarrow> now - lr_time_onl r \<le> 172800"

definition quoted_sn :: "lrele \<Rightarrow> string" where
  "quoted_sn r = [CHR 0x22] @ int_str (lr_sn r) @ [CHR 0x22]"

definition comma_list :: "string list \<Rightarrow> string" where
  "comma_list xs = (case xs of [] \<Rightarrow> [] | x # ys \<Rightarrow> x @ concat (map (\<lambda>y. '','' @ y) ys))"

lemma comma_list_snoc:
  "comma_list (xs @ [x]) = comma_list xs @ (if xs = [] then [] else '','') @ x"
  by (cases xs) (simp_all add: comma_list_def)

lemma list_loop_step:
  assumes "read_cell st t rr = Ok (Some a)" "lr_heap st a = Some n"
  shows "list_loop now st rr rr_tmp t fl b =
    (if fresh now (ln_rele n)
     then list_loop now (mark_nodes 8 now [a] st) (NextCell a) rr t False
            (b @ (if fl then [] else '','') @ quoted_sn (ln_rele n))
     else (case expire (mark_nodes 8 now [a] st) a (n\<lparr>ln_rele := stale 8 now (ln_rele n)\<rparr>) rr rr_tmp fl of
             Inl e \<Rightarrow> Some (Inl e)
           | Inr p \<Rightarrow> list_loop now (snd p) LocalCell rr_tmp (fst p) fl b))"
proof -
  have d: "deref st (Some a) = Ok n" by (simp add: deref_def assms(2))
  show ?thesis
    by (subst list_loop.simps)
      (simp only: assms(1) d sum.case option.case Let_def stale_node write_stale [OF assms(2)] fresh_def
        quoted_sn_def lnode.simps stale_simps linorder_not_less [symmetric]
        split: if_split, simp)
qed

lemma list_loop_prefix:
  assumes "chain st (lr_head st) (ys @ zs)" "\<forall>r\<in>set (devices st ys). fresh now r"
  shows "list_loop now st HeadCell HeadCell None True b =
    list_loop now (mark_nodes 8 now ys st) (cell_of ys) (cell_of (butlast ys)) None (ys = [])
      (b @ comma_list (map quoted_sn (devices st ys)))"
  using assms
proof (induction ys arbitrary: zs rule: rev_induct)
  case Nil
  then show ?case by (simp add: cell_of_def devices_def comma_list_def)
next
  case (snoc a ys)
  let ?m = "mark_nodes 8 now ys st"
  have c: "chain st (lr_head st) (ys @ a # zs)" using snoc.prems by simp
  have cm: "chain ?m (lr_head ?m) (ys @ a # zs)" using c by simp
  let ?n = "node_at ?m a"
  have h: "lr_heap ?m a = Some ?n" by (rule chain_mid(1) [OF cm])
  have nm: "ln_rele ?n = (if a \<in> set ys then stale 8 now (ln_rele (node_at st a)) else ln_rele (node_at st a))"
    using devices_mark [OF c, of 8 now ys] by (simp add: devices_def)
  have fr: "fresh now (ln_rele ?n)"
    using snoc.prems(2) by (simp add: devices_def fresh_def nm)
  have q: "quoted_sn (ln_rele ?n) = quoted_sn (ln_rele (node_at st a))"
    by (simp add: quoted_sn_def nm)
  have r: "read_cell ?m None (cell_of ys) = Ok (Some a)" using read_cell_of [OF cm] by simp
  have "list_loop now st HeadCell HeadCell None True b =
    list_loop now ?m (cell_of ys) (cell_of (butlast ys)) None (ys = [])
      (b @ comma_list (map quoted_sn (devices st ys)))"
    using snoc.prems(2) by (intro snoc.IH [OF c]) (simp add: devices_def)
  also have "\<dots> = list_loop now (mark_nodes 8 now (ys @ [a]) st) (NextCell a) (cell_of ys) None False
      (b @ comma_list (map quoted_sn (devices st (ys @ [a]))))"
    unfolding list_loop_step [OF r h] using fr
    by (simp add: mark_nodes_append devices_def comma_list_snoc q)
  finally show ?case by simp
qed

lemma read_next: "lr_heap st a = Some n \<Longrightarrow> read_cell st t (NextCell a) = Ok (ln_next n)"
  by (simp add: read_cell_def deref_def)

lemma expire_fault:
  assumes c: "chain st (lr_head st) (ys @ a # zs)" and d: "distinct (ys @ a # zs)" and n: "ln_next n = ptr_of zs"
  shows "case zs of
      [] \<Rightarrow> expire st a n (cell_of ys) (cell_of (butlast ys)) (ys = []) = Inl NullDeref
    | b # _ \<Rightarrow> \<exists>st'. expire st a n (cell_of ys) (cell_of (butlast ys)) (ys = []) = Ok (Some b, st') \<and>
        lr_heap st' b = None"
proof (cases ys rule: rev_cases)
  case Nil
  show ?thesis
  proof (cases zs)
    case (Cons b zs')
    have "lr_heap st b = Some (node_at st b)"
      using chain_mid(1) [of st _ "[a]" b zs'] c by (simp add: Nil Cons)
    then show ?thesis
      by (simp add: Nil Cons n expire_def Let_def cell_of_def read_cell_def free_node_def deref_def)
  qed (simp add: Nil n expire_def Let_def cell_of_def read_cell_def free_node_def deref_def)
next
  case (snoc ws l)
  have cl: "chain st (lr_head st) (ws @ l # a # zs)" using c by (simp add: snoc)
  have h: "lr_heap st l = Some (node_at st l)" by (rule chain_mid(1) [OF cl])
  have r: "read_cell st t (cell_of ws) = Ok (Some l)" for t using read_cell_of [OF cl] by simp
  show ?thesis
  proof (cases zs)
    case (Cons b zs')
    have "lr_heap st b = Some (node_at st b)"
      using chain_mid(1) [of st _ "ys @ [a]" b zs'] c by (simp add: Cons)
    then show ?thesis using d
      by (simp add: snoc Cons n expire_def Let_def r set_next_def h deref_def read_next write_node_def free_node_def)
  qed (simp add: snoc n expire_def Let_def r set_next_def h deref_def read_next write_node_def free_node_def)
qed

lemma list_loop_removal:
  assumes c: "chain st (lr_head st) (ys @ a # zs)" and d: "distinct (ys @ a # zs)"
    and old: "\<not> fresh now (ln_rele (node_at st a))"
  shows "list_loop now st (cell_of ys) (cell_of (butlast ys)) None (ys = []) b =
    Some (Inl (if zs = [] then NullDeref else Dangling))"
proof -
  have h: "lr_heap st a = Some (node_at st a)" by (rule chain_mid(1) [OF c])
  have r: "read_cell st None (cell_of ys) = Ok (Some a)" using read_cell_of [OF c] by simp
  let ?m = "mark_nodes 8 now [a] st" and ?n = "(node_at st a)\<lparr>ln_rele := stale 8 now (ln_rele (node_at st a))\<rparr>"
  have n: "ln_next ?n = ptr_of zs" using chain_mid(2) [OF c] by simp
  have cm: "chain ?m (lr_head ?m) (ys @ a # zs)" using c by simp
  note e = expire_fault [OF cm d n]
  show ?thesis
  proof (cases zs)
    case Nil
    then show ?thesis unfolding list_loop_step [OF r h] using old e by simp
  next
    case (Cons x xs)
    then obtain st' where x: "lr_heap st' x = None"
      "expire ?m a ?n (cell_of ys) (cell_of (butlast ys)) (ys = []) = Ok (Some x, st')" using e by auto
    have "list_loop now st' LocalCell (cell_of (butlast ys)) (Some x) (ys = []) u = Some (Inl Dangling)" for u
      by (subst list_loop.simps) (simp add: read_cell_def deref_def x)
    then show ?thesis unfolding list_loop_step [OF r h] using old x Cons by simp
  qed
qed

definition list_json :: "lrele list \<Rightarrow> string" where
  \<open>list_json rs = ''{"rr":['' @ comma_list (map quoted_sn rs) @ '']}''\<close>

lemma list_status_fresh:
  assumes wf: "lira_wf st as" and f: "\<forall>r\<in>set (devices st as). fresh now r"
  shows "lira_get_status now 0 st = Some (Ok (list_json (devices st as), mark_nodes 8 now as st))"
proof -
  have c: "chain st (lr_head st) (as @ [])" using wf by (simp add: lira_wf_def)
  have cm: "chain (mark_nodes 8 now as st) (lr_head (mark_nodes 8 now as st)) (as @ [])" using c by simp
  show ?thesis unfolding lira_get_status_def list_loop_prefix [OF c f]
    by (subst list_loop.simps) (use read_cell_of [OF cm] in \<open>simp add: list_json_def\<close>)
qed

lemma list_status_old:
  assumes wf: "lira_wf st (ys @ a # zs)" and f: "\<forall>r\<in>set (devices st ys). fresh now r"
    and old: "\<not> fresh now (ln_rele (node_at st a))"
  shows "lira_get_status now 0 st = Some (Inl (if zs = [] then NullDeref else Dangling))"
proof -
  have c: "chain st (lr_head st) (ys @ a # zs)" and d: "distinct (ys @ a # zs)"
    using wf by (simp_all add: lira_wf_def)
  let ?m = "mark_nodes 8 now ys st"
  have cm: "chain ?m (lr_head ?m) (ys @ a # zs)" using c by simp
  have o: "\<not> fresh now (ln_rele (node_at ?m a))"
    using old d devices_mark [OF c, of 8 now ys] by (simp add: devices_def)
  show ?thesis unfolding lira_get_status_def
    by (simp add: list_loop_prefix [OF c f] list_loop_removal [OF cm d o])
qed

section \<open>Requests for one device\<close>

primrec device_request ::
  "int \<Rightarrow> int \<Rightarrow> (lrele \<Rightarrow> (string \<times> lrele) res) \<Rightarrow> lrele list \<Rightarrow> (string \<times> lrele list) res" where
  "device_request now sn f [] = Ok (no_device, [])"
| "device_request now sn f (r # rs) = (let r = stale 60 now r
     in if lr_sn r = sn then bind_res (f r) (\<lambda>(out, r). Ok (out, r # rs))
        else bind_res (device_request now sn f rs) (\<lambda>(out, rs). Ok (out, r # rs)))"

definition status_request :: "lrele \<Rightarrow> (string \<times> lrele) res" where
  "status_request r = Ok (show_device r, r\<lparr>lr_online := 50\<rparr>)"

definition button_request :: "int \<Rightarrow> lrele \<Rightarrow> (string \<times> lrele) res" where
  "button_request button r = bind_res (press_device (button - 1) r) (\<lambda>(out, r). Ok (out, r\<lparr>lr_online := 50\<rparr>))"

lemma device_request_none:
  "\<forall>r\<in>set rs. lr_sn r \<noteq> sn \<Longrightarrow> device_request now sn f rs = Ok (no_device, map (stale 60 now) rs)"
  by (induction rs) auto

lemma device_request_at:
  "\<forall>r\<in>set pre. lr_sn r \<noteq> sn \<Longrightarrow> lr_sn r = sn \<Longrightarrow>
   device_request now sn f (pre @ r # post) = bind_res (f (stale 60 now r))
     (\<lambda>(out, r). Ok (out, map (stale 60 now) pre @ r # post))"
  by (induction pre) (auto simp: bind_res_assoc intro!: bind_res_cong)

lemma sn_at_mark: "lr_heap st a \<noteq> None \<Longrightarrow> sn_at (mark_nodes lim now bs st) a = sn_at st a"
  by (auto simp: node_at_def mark_nodes_def)

lemma seek_loop_step:
  assumes "lr_heap st a = Some n"
  shows "seek_loop now sn st (Some a) =
    (if lr_sn (ln_rele n) = sn then Some (Ok (Some a, mark_nodes 60 now [a] st))
     else seek_loop now sn (mark_nodes 60 now [a] st) (ln_next n))"
proof -
  have d: "deref st (Some a) = Ok n" by (simp add: deref_def assms)
  show ?thesis
    by (subst seek_loop.simps)
      (simp only: d sum.case option.case Let_def stale_node write_stale [OF assms], simp)
qed

lemma seek_loop_eq:
  assumes "chain st p zs"
  shows "seek_loop now sn st p = Some (Ok (ptr_of (dropWhile (\<lambda>a. sn_at st a \<noteq> sn) zs),
    mark_nodes 60 now (takeWhile (\<lambda>a. sn_at st a \<noteq> sn) zs @ take 1 (dropWhile (\<lambda>a. sn_at st a \<noteq> sn) zs)) st))"
  using assms
proof (induction zs arbitrary: p st)
  case Nil
  then show ?case by (subst seek_loop.simps) simp
next
  case (Cons a zs)
  let ?m = "mark_nodes 60 now [a] st"
  have h: "lr_heap st a = Some (node_at st a)" using chain_mid(1) [of st p "[]" a zs] Cons.prems by simp
  have p: "p = Some a" using Cons.prems by simp
  have c: "chain st (ln_next (node_at st a)) zs" using Cons.prems h by simp
  show ?case
  proof (cases "sn_at st a = sn")
    case True
    then show ?thesis by (simp add: p seek_loop_step [OF h])
  next
    case False
    have s: "sn_at ?m b = sn_at st b" if "b \<in> set zs" for b
      using chain_alloc [OF c that] by (rule sn_at_mark)
    have t: "takeWhile (\<lambda>a. sn_at ?m a \<noteq> sn) zs = takeWhile (\<lambda>a. sn_at st a \<noteq> sn) zs"
      by (rule takeWhile_cong) (simp_all add: s)
    have w: "dropWhile (\<lambda>a. sn_at ?m a \<noteq> sn) zs = dropWhile (\<lambda>a. sn_at st a \<noteq> sn) zs"
      by (rule dropWhile_cong) (simp_all add: s)
    have "chain ?m (ln_next (node_at st a)) zs" using c by simp
    from Cons.IH [OF this] False show ?thesis
      by (simp add: p seek_loop_step [OF h] t w mark_nodes_append)
  qed
qed

definition one_device ::
  "int \<Rightarrow> int \<Rightarrow> (lrele \<Rightarrow> (string \<times> lrele) res) \<Rightarrow> lira_relay \<Rightarrow> (string \<times> lira_relay) res option" where
  "one_device now sn f st = (case seek_loop now sn st (lr_head st) of
      None \<Rightarrow> None
    | Some (Inl e) \<Rightarrow> Some (Inl e)
    | Some (Inr (None, st)) \<Rightarrow> Some (Ok (no_device, st))
    | Some (Inr (Some a, st)) \<Rightarrow> Some (bind_res (deref st (Some a)) (\<lambda>n.
        bind_res (f (ln_rele n)) (\<lambda>(out, r). Ok (out, write_node a (n\<lparr>ln_rele := r\<rparr>) st)))))"

lemma get_one_device: "sn \<noteq> 0 \<Longrightarrow> lira_get_status now sn st = one_device now sn status_request st"
  by (auto simp: lira_get_status_def one_device_def status_request_def update_rele_def bind_res_assoc
      split: option.splits sum.splits intro!: bind_res_cong)

lemma put_one_device: "lira_put_status now sn button st = one_device now sn (button_request button) st"
  by (auto simp: lira_put_status_def one_device_def button_request_def bind_res_assoc
      split: option.splits sum.splits intro!: bind_res_cong)

lemma one_device_refines:
  assumes wf: "lira_wf st as"
  shows "is_result (one_device now sn f st) (device_request now sn f (devices st as))"
  using split_sn [of st as sn]
proof (elim disjE exE conjE)
  assume no: "\<forall>r\<in>set (devices st as). lr_sn r \<noteq> sn"
  have c: "chain st (lr_head st) as" using wf by (simp add: lira_wf_def)
  have t: "takeWhile (\<lambda>a. sn_at st a \<noteq> sn) as = as" and w: "dropWhile (\<lambda>a. sn_at st a \<noteq> sn) as = []"
    using no by (auto simp: takeWhile_eq_all_conv dropWhile_eq_Nil_conv devices_def)
  have "one_device now sn f st = Some (Ok (no_device, mark_nodes 60 now as st))"
    by (simp add: one_device_def seek_loop_eq [OF c] t w)
  moreover have "devices (mark_nodes 60 now as st) as = map (stale 60 now) (devices st as)"
    unfolding devices_mark [OF c] by (simp add: devices_def)
  ultimately show ?thesis
    using wf_mark [OF wf, of 60 now as] by (auto simp: is_result_def device_request_none [OF no])
next
  fix pre a post
  assume as: "as = pre @ a # post" and no: "\<forall>r\<in>set (devices st pre). lr_sn r \<noteq> sn" and sn: "sn_at st a = sn"
  have c: "chain st (lr_head st) (pre @ a # post)" and d: "distinct (pre @ a # post)"
    using wf by (simp_all add: lira_wf_def as)
  let ?m = "mark_nodes 60 now (pre @ [a]) st"
  have w: "dropWhile (\<lambda>a. sn_at st a \<noteq> sn) (pre @ a # post) = a # post"
    using no sn by (subst dropWhile_append2) (auto simp: devices_def)
  have t: "takeWhile (\<lambda>a. sn_at st a \<noteq> sn) (pre @ a # post) = pre"
    using no sn by (subst takeWhile_append2) (auto simp: devices_def)
  have s: "seek_loop now sn st (lr_head st) = Some (Ok (Some a, ?m))"
    by (simp add: seek_loop_eq [OF c] t w)
  have cm: "chain ?m (lr_head ?m) (pre @ a # post)" using c by simp
  have wm: "lira_wf ?m (pre @ a # post)" using wf_mark [OF wf] by (simp add: as)
  have dm: "devices ?m (pre @ a # post) =
      map (stale 60 now) (devices st pre) @ stale 60 now (ln_rele (node_at st a)) # devices st post"
    unfolding devices_mark [OF c] using d by (auto simp: devices_def)
  then have dp: "devices ?m pre = map (stale 60 now) (devices st pre)" "devices ?m post = devices st post"
    and na: "ln_rele (node_at ?m a) = stale 60 now (ln_rele (node_at st a))"
    by (simp_all add: devices_def)
  have o: "one_device now sn f st = Some (bind_res (f (stale 60 now (ln_rele (node_at st a))))
      (\<lambda>(out, r). Ok (out, write_node a ((node_at ?m a)\<lparr>ln_rele := r\<rparr>) ?m)))"
    by (simp add: one_device_def s deref_chain [OF cm] na)
  have q: "device_request now sn f (devices st as) = bind_res (f (stale 60 now (ln_rele (node_at st a))))
      (\<lambda>(out, r). Ok (out, map (stale 60 now) (devices st pre) @ r # devices st post))"
    using device_request_at [OF no sn, of now f "devices st post"] by (simp add: as devices_def)
  show ?thesis
  proof (cases "f (stale 60 now (ln_rele (node_at st a)))")
    case (Inl x)
    show ?thesis unfolding o q Inl by (simp add: is_result_def)
  next
    case (Inr x)
    obtain out r where x: "x = (out, r)" by (cases x)
    have "lira_wf (write_node a ((node_at ?m a)\<lparr>ln_rele := r\<rparr>) ?m) (pre @ a # post)"
      by (rule wf_write_rele [OF wm chain_mid(1) [OF cm]])
    moreover have "devices (write_node a ((node_at ?m a)\<lparr>ln_rele := r\<rparr>) ?m) (pre @ a # post) =
        map (stale 60 now) (devices st pre) @ r # devices st post"
      unfolding devices_write_rele [OF d] dp ..
    ultimately show ?thesis unfolding o q Inr x by (auto simp: is_result_def)
  qed
qed

end
