(* ===== verification/LiraRelayProps.thy ===== *)
theory LiraRelayProps
  imports LiraRelayFacts
begin

text \<open>
  What the relay part of the LiraCalc server does with its linked list: every request refines a
  function on the list of devices, except the removal of old devices, which never succeeds.
\<close>

section \<open>Properties\<close>

text \<open>A list of two devices, for the witnesses.\<close>

definition demo_lrele :: "int \<Rightarrow> int \<Rightarrow> lrele" where
  "demo_lrele sn t = \<lparr>lr_status = ''00000000'', lr_command = xs8, lr_acp = 2047, lr_sn = sn,
     lr_time_onl = t, lr_put = False, lr_online = 0, lr_rand = 7\<rparr>"

definition demo_list :: lira_relay where
  "demo_list = \<lparr>lr_heap = (\<lambda>a. None)(0 := Some \<lparr>ln_rele = demo_lrele 11 0, ln_next = Some 1\<rparr>,
     1 := Some \<lparr>ln_rele = demo_lrele 22 200000, ln_next = None\<rparr>), lr_head = Some 0, lr_alloc = 2\<rparr>"

lemma demo_wf: "lira_wf demo_list [0, 1]"
  by (simp add: lira_wf_def demo_list_def fresh_above_def)

lemma demo_devices: "devices demo_list [0, 1] = [demo_lrele 11 0, demo_lrele 22 200000]"
  by (simp add: devices_def node_at_def demo_list_def)

text \<open>C7. A poll of a device (\<open>obrobnyk_relay\<close>) ends, and does to the linked list what its
  description says: the entry of the first device with the serial number is replaced by what
  \<open>poll_device\<close> makes of it, a new device gets an entry at the end, every other entry stays as
  it is, and the list keeps its form; the poll faults exactly when a text is too long.\<close>

theorem lira_poll_refines:
  assumes "lira_wf st as"
  shows "is_result (lira_obrobnyk now sn sn_txt relays acp acp_txt init cs init_txt st)
    (poll_devices sn (poll_device now sn sn_txt relays acp acp_txt init cs init_txt) (devices st as))"
  by (rule poll_refines [OF assms])

theorem lira_poll_refines_witness:
  "is_result (lira_obrobnyk 9 22 ''22'' xs8 0 ''0'' True 0 ''true'' demo_list)
    (poll_devices 22 (poll_device 9 22 ''22'' xs8 0 ''0'' True 0 ''true'') [demo_lrele 11 0, demo_lrele 22 200000])"
  by (rule lira_poll_refines [OF demo_wf, unfolded demo_devices])

text \<open>The list of the devices: when every device was heard of in the last two days the answer
  names all of them in order, and those silent for more than eight seconds are marked offline.
  Otherwise the request does not answer at all: the removal of the first old device follows the
  pointer it has just redirected, so that it frees the device after it and goes on with the freed
  node, or dereferences the null pointer when there is none.\<close>

theorem lira_list_status:
  assumes "lira_wf st as"
  shows "case dropWhile (fresh now) (devices st as) of
      [] \<Rightarrow> is_result (lira_get_status now 0 st)
              (Ok (list_json (devices st as), map (stale 8 now) (devices st as)))
    | old # rest \<Rightarrow> lira_get_status now 0 st = Some (Inl (if rest = [] then NullDeref else Dangling))"
proof (cases "\<forall>r\<in>set (devices st as). fresh now r")
  case True
  have c: "chain st (lr_head st) as" using assms by (simp add: lira_wf_def)
  have "devices (mark_nodes 8 now as st) as = map (stale 8 now) (devices st as)"
    unfolding devices_mark [OF c] by (simp add: devices_def)
  then have "is_result (lira_get_status now 0 st)
      (Ok (list_json (devices st as), map (stale 8 now) (devices st as)))"
    using list_status_fresh [OF assms True] wf_mark [OF assms, of 8 now as] by (auto simp: is_result_def)
  moreover have "dropWhile (fresh now) (devices st as) = []" using True by (simp add: dropWhile_eq_Nil_conv)
  ultimately show ?thesis by (simp only: list.case)
next
  case False
  then obtain ys a zs where as: "as = ys @ a # zs" and f: "\<forall>r\<in>set (devices st ys). fresh now r"
    and old: "\<not> fresh now (ln_rele (node_at st a))"
    using split_list_first_prop [of as "\<lambda>a. \<not> fresh now (ln_rele (node_at st a))"]
    by (fastforce simp: devices_def)
  have "dropWhile (fresh now) (devices st as) = devices st (a # zs)"
    using f old unfolding as devices_def map_append by (subst dropWhile_append2) auto
  then show ?thesis using list_status_old [OF assms [unfolded as] f old]
    by (simp add: as) (simp add: devices_def)
qed

theorem lira_list_status_witness:
  "lira_get_status 200001 0 demo_list = Some (Inl Dangling)"
  using lira_list_status [OF demo_wf, of 200001, unfolded demo_devices]
  by (simp add: fresh_def demo_lrele_def)

text \<open>C31. A request for one device (\<open>rr_get_status\<close> with a serial number, \<open>rr_put_status\<close>) ends
  and does to the linked list what \<open>device_request\<close> does to the list of devices: the devices up to
  the first one with the serial number are marked offline when silent for over a minute, that one
  is shown (or has its button pressed) and asked to poll without delay, the others stay as they
  are, and an unknown serial number is answered with the fixed text.\<close>

theorem lira_requests_refine:
  assumes "lira_wf st as" "sn \<noteq> 0"
  shows "is_result (lira_get_status now sn st) (device_request now sn status_request (devices st as))
    \<and> is_result (lira_put_status now sn button st) (device_request now sn (button_request button) (devices st as))"
  using one_device_refines [OF assms(1)] by (simp add: get_one_device [OF assms(2)] put_one_device)

theorem lira_requests_refine_witness:
  "is_result (lira_get_status 200001 22 demo_list)
     (device_request 200001 22 status_request [demo_lrele 11 0, demo_lrele 22 200000])
   \<and> is_result (lira_put_status 200001 22 3 demo_list)
     (device_request 200001 22 (button_request 3) [demo_lrele 11 0, demo_lrele 22 200000])"
  by (rule lira_requests_refine [OF demo_wf, unfolded demo_devices]) simp

text \<open>The states the server can be in.\<close>

definition lira_start :: lira_relay where
  "lira_start = \<lparr>lr_heap = (\<lambda>a. None), lr_head = None, lr_alloc = 0\<rparr>"

inductive lira_reach :: "lira_relay \<Rightarrow> bool" where
  start: "lira_reach lira_start"
| poll: "lira_reach st \<Longrightarrow>
    lira_obrobnyk now sn sn_txt relays acp acp_txt init cs init_txt st = Some (Ok (out, st')) \<Longrightarrow> lira_reach st'"
| get: "lira_reach st \<Longrightarrow> lira_get_status now sn st = Some (Ok (out, st')) \<Longrightarrow> lira_reach st'"
| put: "lira_reach st \<Longrightarrow> lira_put_status now sn button st = Some (Ok (out, st')) \<Longrightarrow> lira_reach st'"

definition lrele_ok :: "lrele \<Rightarrow> bool" where
  "lrele_ok r \<longleftrightarrow> length (lr_status r) \<le> 8 \<and> length (lr_command r) \<le> 8 \<and>
     (lr_online r = 0 \<or> lr_online r = 50)"

definition devices_ok :: "lrele list \<Rightarrow> bool" where
  "devices_ok rs \<longleftrightarrow> list_all lrele_ok rs \<and> distinct (map lr_sn rs)"

lemma stale_ok [simp]: "lrele_ok (stale lim now r) = lrele_ok r"
  by (simp add: lrele_ok_def stale_def)

lemma stale_devices_ok: "devices_ok (map (stale lim now) rs) = devices_ok rs"
  by (simp add: devices_ok_def list_all_iff o_def)

lemma poll_devices_ok:
  assumes "devices_ok rs" "poll_devices sn f rs = Ok (out, rs')"
    and "\<And>d out r. f d = Ok (out, r) \<Longrightarrow> (\<forall>q. d = Some q \<longrightarrow> lrele_ok q \<and> lr_sn q = sn) \<Longrightarrow> lrele_ok r \<and> lr_sn r = sn"
  shows "devices_ok rs' \<and> set (map lr_sn rs') = insert sn (set (map lr_sn rs))"
  using assms(1,2)
proof (induction rs arbitrary: rs' out)
  case Nil
  then show ?case using assms(3) [of None] by (auto simp: bind_res_Inr devices_ok_def)
next
  case (Cons r rs)
  show ?case
  proof (cases "lr_sn r = sn")
    case True
    then obtain q where "f (Some r) = Ok (out, q)" "rs' = q # rs"
      using Cons.prems(2) by (auto simp: bind_res_Inr)
    moreover from this have "lrele_ok q \<and> lr_sn q = sn"
      using assms(3) [of "Some r"] Cons.prems(1) True by (auto simp: devices_ok_def)
    ultimately show ?thesis using Cons.prems(1) True by (auto simp: devices_ok_def)
  next
    case False
    then obtain qs where q: "poll_devices sn f rs = Ok (out, qs)" "rs' = r # qs"
      using Cons.prems(2) by (auto simp: bind_res_Inr)
    moreover have "devices_ok qs \<and> set (map lr_sn qs) = insert sn (set (map lr_sn rs))"
      using Cons.prems(1) q by (intro Cons.IH) (auto simp: devices_ok_def)
    ultimately show ?thesis using Cons.prems(1) False by (auto simp: devices_ok_def)
  qed
qed

lemma device_request_ok:
  assumes "devices_ok rs" "device_request now sn f rs = Ok (out, rs')"
    and "\<And>q out r. f q = Ok (out, r) \<Longrightarrow> lrele_ok q \<Longrightarrow> lrele_ok r \<and> lr_sn r = lr_sn q"
  shows "devices_ok rs' \<and> map lr_sn rs' = map lr_sn rs"
  using assms(1,2)
proof (induction rs arbitrary: rs' out)
  case (Cons r rs)
  let ?r = "stale 60 now r"
  show ?case
  proof (cases "lr_sn r = sn")
    case True
    then obtain q where q: "f ?r = Ok (out, q)" "rs' = q # rs"
      using Cons.prems(2) by (auto simp: bind_res_Inr Let_def)
    moreover from this have "lrele_ok q \<and> lr_sn q = lr_sn r"
      using assms(3) [of ?r out q] Cons.prems(1) by (simp add: devices_ok_def)
    ultimately show ?thesis using Cons.prems(1) by (auto simp: devices_ok_def)
  next
    case False
    then obtain qs where q: "device_request now sn f rs = Ok (out, qs)" "rs' = ?r # qs"
      using Cons.prems(2) by (auto simp: bind_res_Inr Let_def)
    moreover have "devices_ok qs \<and> map lr_sn qs = map lr_sn rs"
      using Cons.prems(1) q by (intro Cons.IH) (auto simp: devices_ok_def)
    ultimately show ?thesis using Cons.prems(1) by (auto simp: devices_ok_def dest: arg_cong [where f = set])
  qed
qed (simp add: devices_ok_def)

lemma answer_ok:
  "answer_lrele b c init cs sn_txt relays acp_txt init_txt q = Ok (out, r) \<Longrightarrow> lrele_ok q \<Longrightarrow>
   lrele_ok r \<and> lr_sn r = lr_sn q"
  by (auto simp: answer_lrele_def Let_def bind_res_Inr lrele_ok_def xs8_def split: prod.splits if_splits)

lemma poll_device_ok:
  "poll_device now sn sn_txt relays acp acp_txt init cs init_txt d = Ok (out, r) \<Longrightarrow>
   (\<forall>q. d = Some q \<longrightarrow> lrele_ok q \<and> lr_sn q = sn) \<Longrightarrow> lrele_ok r \<and> lr_sn r = sn"
  by (auto simp: poll_device_def bind_res_Inr created_lrele_def refresh_lrele_def strcpy9_def Let_def
      lrele_ok_def xs8_def dest!: answer_ok split: option.splits if_splits)

lemma status_request_ok:
  "status_request q = Ok (out, r) \<Longrightarrow> lrele_ok q \<Longrightarrow> lrele_ok r \<and> lr_sn r = lr_sn q"
  by (auto simp: status_request_def lrele_ok_def)

lemma button_request_ok:
  "button_request b q = Ok (out, r) \<Longrightarrow> lrele_ok q \<Longrightarrow> lrele_ok r \<and> lr_sn r = lr_sn q"
  by (auto simp: button_request_def press_device_def press_lrele_def lrele_ok_def bind_res_Inr Let_def
      split: if_splits)

lemma is_result_Ok:
  "is_result (Some (Ok (out, st))) y \<Longrightarrow> \<exists>as. lira_wf st as \<and> y = Ok (out, devices st as)"
  by (auto simp: is_result_def split: sum.splits prod.splits)

lemma list_status_ok:
  assumes wf: "lira_wf st as" and r: "lira_get_status now 0 st = Some (Ok (out, st'))"
  shows "lira_wf st' as \<and> devices st' as = map (stale 8 now) (devices st as)"
proof (cases "\<forall>r\<in>set (devices st as). fresh now r")
  case True
  have c: "chain st (lr_head st) as" using wf by (simp add: lira_wf_def)
  have "st' = mark_nodes 8 now as st" using r list_status_fresh [OF wf True] by simp
  then show ?thesis using wf_mark [OF wf, of 8 now as] devices_mark [OF c, of 8 now as]
    by (simp add: devices_def)
next
  case False
  then obtain ys a zs where as: "as = ys @ a # zs" and f: "\<forall>r\<in>set (devices st ys). fresh now r"
    and old: "\<not> fresh now (ln_rele (node_at st a))"
    using split_list_first_prop [of as "\<lambda>a. \<not> fresh now (ln_rele (node_at st a))"]
    by (fastforce simp: devices_def)
  then show ?thesis using list_status_old [OF wf [unfolded as] f old] r by simp
qed

text \<open>Polls with texts of the usual length are answered.\<close>

lemma round_div_le: "0 < b \<Longrightarrow> round_div a b * b \<le> a + b"
proof -
  assume b: "0 < b"
  have "round_div a b \<le> a div b + 1" by (simp add: round_div_def Let_def)
  then have "round_div a b * b \<le> (a div b + 1) * b" using b by (intro mult_right_mono) simp_all
  also have "\<dots> \<le> a + b" using b by (simp add: ring_distribs)
      (metis mult.commute pos_mod_sign mult_div_mod_eq le_add_same_cancel1 add.commute minus_mod_eq_mult_div diff_le_eq)
  finally show ?thesis .
qed

lemma round_div_nonneg: "0 \<le> a \<Longrightarrow> 0 < b \<Longrightarrow> 0 \<le> round_div a b"
  by (auto simp: round_div_def Let_def pos_imp_zdiv_nonneg_iff intro: add_nonneg_nonneg)

lemma scale_down_le: "scale_down n a t \<le> n + t"
proof (induction n arbitrary: t)
  case (Suc n)
  from Suc.IH [of "t + 1"] show ?case by simp
qed simp

lemma acp_percent_bound:
  assumes "\<bar>acp\<bar> \<le> 2 ^ 31"
  shows "\<bar>acp_percent acp\<bar> < 2 ^ 30"
proof -
  define a where "a = \<bar>acp\<bar>"
  define s where "s = scale_up 70 a 0"
  define m where "m = round_div (a * 2 ^ s) 4095"
  define t where "t = scale_down 12 (m * 100) 0"
  define y where "y = round_div (m * 100) (2 ^ t) * 2 ^ t"
  have v: "\<bar>acp_percent acp\<bar> = \<bar>y div 2 ^ s\<bar>"
    unfolding acp_percent_def Let_def y_def t_def m_def s_def a_def by simp
  have a: "0 \<le> a" "a \<le> 2 ^ 31" using assms by (simp_all add: a_def)
  have m0: "0 \<le> m" unfolding m_def by (rule round_div_nonneg) (simp_all add: a)
  have m1: "m * 4095 \<le> a * 2 ^ s + 4095" unfolding m_def by (rule round_div_le) simp
  have y0: "0 \<le> y" unfolding y_def by (rule mult_nonneg_nonneg, rule round_div_nonneg) (simp_all add: m0)
  have t12: "t \<le> 12" unfolding t_def using scale_down_le [of 12 "m * 100" 0] by simp
  have "y \<le> m * 100 + 2 ^ t" unfolding y_def by (rule round_div_le) simp
  also have "(2 :: int) ^ t \<le> 2 ^ 12" using t12 by (intro power_increasing) simp_all
  finally have y1: "y \<le> m * 100 + 4096" by simp
  have p: "1 \<le> (2 :: int) ^ s" by simp
  define v where "v = y div 2 ^ s"
  have "0 \<le> y mod 2 ^ s" by simp
  then have "v * 2 ^ s \<le> y" using minus_mod_eq_div_mult [of y "2 ^ s"] unfolding v_def by linarith
  then have "4095 * (v * 2 ^ s) \<le> 100 * (a * 2 ^ s) + 17182620" using y1 m1 by linarith
  also have "\<dots> \<le> 100 * (a * 2 ^ s) + 17182620 * 2 ^ s" using p by linarith
  finally have "(4095 * v) * 2 ^ s \<le> (100 * a + 17182620) * 2 ^ s" by (simp add: ring_distribs)
  then have "4095 * v \<le> 100 * a + 17182620" using p by (simp add: mult_le_cancel_right)
  then have "v < 2 ^ 30" using a(2) by simp
  moreover have "0 \<le> v" unfolding v_def using y0 by (simp add: pos_imp_zdiv_nonneg_iff)
  ultimately show ?thesis unfolding v by (simp add: v_def [symmetric])
qed

lemma line_head_length:
  assumes "\<bar>sn\<bar> < 2 ^ 31" "\<bar>acp\<bar> < 2 ^ 31" "length relays \<le> 8"
  shows "length (lira_line_head sn relays acp) \<le> 60"
proof -
  have "length (int_str sn) \<le> 11" using assms(1) by (intro int_str_length) simp_all
  moreover have "length (int_str (acp_percent acp)) \<le> 11"
    using acp_percent_bound [of acp] assms(2) by (intro int_str_length) simp_all
  then have "length (pad3 (acp_percent acp)) \<le> 11" by (auto simp: pad3_def Let_def)
  ultimately show ?thesis using assms(3) by (simp add: lira_line_head_def)
qed

lemma sum_length: "0 \<le> s \<Longrightarrow> s \<le> 100 \<Longrightarrow> length cs \<le> 5000 \<Longrightarrow> length (int_str (fst (contr_sum cs (s, a)))) \<le> 11"
  using contr_sum_bounds [of s cs a] by (intro int_str_length) simp_all

lemma answer_ok_short:
  assumes r: "lrele_ok r" and b: "length bbb \<le> 60" and cs: "\<bar>cs\<bar> < 2 ^ 31"
    and l: "length sn_txt \<le> 1000" "length relays \<le> 8" "length acp_txt \<le> 1000" "length init_txt \<le> 40"
  shows "\<exists>p. answer_lrele bbb c init cs sn_txt relays acp_txt init_txt r = Ok p"
proof -
  let ?S = "lira_sum sn_txt relays acp_txt init_txt (lr_rand r)"
  obtain sum1 a where S: "?S = (sum1, a)" by (cases ?S)
  have e: "?S = contr_sum (sn_txt @ relays @ acp_txt @ init_txt) (0, lr_rand r)"
    by (simp add: lira_sum_def contr_sum_append)
  have "length (int_str (fst ?S)) \<le> 11" unfolding e by (rule sum_length) (use l in auto)
  then have s1: "length (int_str sum1) \<le> 11" by (simp add: S)
  have c: "length (int_str cs) \<le> 11" using cs by (intro int_str_length) simp_all
  have o: "length (int_str (lr_online r)) \<le> 11" using r by (intro int_str_length) (auto simp: lrele_ok_def)
  have x: "length (lira_command init r) \<le> 8" "length (lr_command r) \<le> 8"
    using r by (auto simp: lira_command_def lrele_ok_def xs8_def)
  show ?thesis
  proof (cases "cs = sum1")
    case False
    then show ?thesis using b s1 c x l by (simp add: answer_lrele_def S Let_def bbb_ok_def)
  next
    case True
    let ?t = "lira_command init r @ int_str (lr_online r)"
    let ?T = "contr_sum ?t (0, xcorrect sum1 a)"
    obtain sum2 d where T: "?T = (sum2, d)" by (cases ?T)
    have "length (int_str (fst ?T)) \<le> 11" by (rule sum_length) (use x o in auto)
    then have s2: "length (int_str sum2) \<le> 11" by (simp add: T)
    have lc: "lira_command init (r\<lparr>lr_rand := z\<rparr>) = lira_command init r" for z
      by (simp add: lira_command_def)
    show ?thesis using b c x o s2 l True
      by (simp add: answer_lrele_def S T Let_def bbb_ok_def lc)
  qed
qed

lemma poll_device_short:
  assumes "d = None \<or> (\<exists>r. d = Some r \<and> lrele_ok r)" "\<bar>sn\<bar> < 2 ^ 31" "\<bar>acp\<bar> < 2 ^ 31" "\<bar>cs\<bar> < 2 ^ 31"
    and "length sn_txt \<le> 1000" "length relays \<le> 8" "length acp_txt \<le> 1000" "length init_txt \<le> 40"
  shows "\<exists>p. poll_device now sn sn_txt relays acp acp_txt init cs init_txt d = Ok p"
proof -
  have b: "bbb_ok (lira_line_head sn relays acp) = Ok ()"
    using line_head_length [of sn acp relays] assms by (simp add: bbb_ok_def)
  have "\<exists>r. (case d of None \<Rightarrow> created_lrele now sn relays acp
      | Some r \<Rightarrow> refresh_lrele now sn relays acp init r) = Ok r \<and> lrele_ok r"
    using assms(1,6)
    by (auto simp: created_lrele_def refresh_lrele_def strcpy9_def Let_def lrele_ok_def xs8_def)
  then obtain r where r: "(case d of None \<Rightarrow> created_lrele now sn relays acp
      | Some r \<Rightarrow> refresh_lrele now sn relays acp init r) = Ok r" "lrele_ok r" by blast
  show ?thesis unfolding poll_device_def
    using answer_ok_short [OF r(2) line_head_length assms(4)] assms by (simp add: b r(1))
qed

lemma poll_devices_total:
  assumes "\<And>d. d = None \<or> (\<exists>r. d = Some r \<and> lrele_ok r) \<Longrightarrow> \<exists>p. f d = Ok p" "list_all lrele_ok rs"
  shows "\<exists>p. poll_devices sn f rs = Ok p"
  using assms(2)
proof (induction rs)
  case Nil
  then show ?case using assms(1) [of None] by (auto split: prod.splits)
next
  case (Cons r rs)
  then show ?case using assms(1) [of "Some r"] by (auto split: prod.splits)
qed

lemma poll_answers:
  assumes "lira_wf st as" "devices_ok (devices st as)" "\<bar>sn\<bar> < 2 ^ 31" "\<bar>acp\<bar> < 2 ^ 31" "\<bar>cs\<bar> < 2 ^ 31"
    and "length sn_txt \<le> 1000" "length relays \<le> 8" "length acp_txt \<le> 1000" "length init_txt \<le> 40"
  shows "\<exists>out st'. lira_obrobnyk now sn sn_txt relays acp acp_txt init cs init_txt st = Some (Ok (out, st'))"
proof -
  let ?f = "poll_device now sn sn_txt relays acp acp_txt init cs init_txt"
  have f: "\<exists>p. ?f d = Ok p" if "d = None \<or> (\<exists>r. d = Some r \<and> lrele_ok r)" for d
    using poll_device_short [OF that assms(3-)] .
  have "list_all lrele_ok (devices st as)" using assms(2) by (simp add: devices_ok_def)
  from poll_devices_total [of ?f, OF f this] obtain p where "poll_devices sn ?f (devices st as) = Ok p"
    by blast
  then show ?thesis
    using poll_refines [OF assms(1), of now sn sn_txt relays acp acp_txt init cs init_txt]
    by (auto simp: is_result_def split: prod.splits)
qed

lemma reach_wf: "lira_reach st \<Longrightarrow> \<exists>as. lira_wf st as \<and> devices_ok (devices st as)"
proof (induction rule: lira_reach.induct)
  case start
  have "lira_wf lira_start [] \<and> devices_ok (devices lira_start [])"
    by (simp add: lira_wf_def lira_start_def fresh_above_def devices_ok_def devices_def)
  then show ?case ..
next
  case (poll st now sn sn_txt relays acp acp_txt init cs init_txt out st')
  then obtain as where "lira_wf st as" and ok: "devices_ok (devices st as)" by blast
  from poll_refines [OF this(1), of now sn sn_txt relays acp acp_txt init cs init_txt] poll.hyps(2)
  obtain as' where "lira_wf st' as'"
    "poll_devices sn (poll_device now sn sn_txt relays acp acp_txt init cs init_txt) (devices st as) =
       Ok (out, devices st' as')" by (auto dest: is_result_Ok)
  moreover from poll_devices_ok [OF ok this(2)] poll_device_ok have "devices_ok (devices st' as')" by blast
  ultimately show ?case by blast
next
  case (get st now sn out st')
  then obtain as where wf: "lira_wf st as" and ok: "devices_ok (devices st as)" by blast
  show ?case
  proof (cases "sn = 0")
    case True
    then have "lira_wf st' as \<and> devices st' as = map (stale 8 now) (devices st as)"
      using list_status_ok [OF wf] get.hyps(2) by simp
    then show ?thesis using ok by (auto simp: stale_devices_ok intro!: exI [of _ as])
  next
    case False
    from one_device_refines [OF wf, of now sn status_request] get.hyps(2)
    obtain as' where "lira_wf st' as'" "device_request now sn status_request (devices st as) =
       Ok (out, devices st' as')" by (auto simp: get_one_device [OF False] dest: is_result_Ok)
    moreover from device_request_ok [OF ok this(2)] status_request_ok have "devices_ok (devices st' as')" by blast
    ultimately show ?thesis by blast
  qed
next
  case (put st now sn button out st')
  then obtain as where wf: "lira_wf st as" and ok: "devices_ok (devices st as)" by blast
  from one_device_refines [OF wf, of now sn "button_request button"] put.hyps(2)
  obtain as' where "lira_wf st' as'" "device_request now sn (button_request button) (devices st as) =
     Ok (out, devices st' as')" by (auto simp: put_one_device dest: is_result_Ok)
  moreover from device_request_ok [OF ok this(2)] button_request_ok have "devices_ok (devices st' as')" by blast
  ultimately show ?case by blast
qed

definition demo_poll :: "(string \<times> lira_relay) res option" where
  "demo_poll = lira_obrobnyk 9 22 ''22'' xs8 0 ''0'' True 0 ''true'' lira_start"

lemma start_wf: "lira_wf lira_start [] \<and> devices_ok (devices lira_start [])"
  by (simp add: lira_wf_def lira_start_def fresh_above_def devices_ok_def devices_def)

lemma demo_poll_ok: "\<exists>out st. demo_poll = Some (Ok (out, st))"
  unfolding demo_poll_def
  by (rule poll_answers [OF start_wf [THEN conjunct1] start_wf [THEN conjunct2]]) (simp_all add: xs8_def)

text \<open>C21. Whatever requests the server has answered, its list of devices is a list without cycles
  of allocated nodes, with one entry per serial number, and the texts of every entry fit their
  arrays.\<close>

theorem lira_list_invariant:
  "lira_reach st \<Longrightarrow> \<exists>as. lira_wf st as \<and> devices_ok (devices st as)"
  by (rule reach_wf)

theorem lira_list_invariant_witness: "\<exists>out st as. demo_poll = Some (Ok (out, st)) \<and> lira_wf st as"
proof -
  obtain out st where o: "demo_poll = Some (Ok (out, st))" using demo_poll_ok by blast
  then have "lira_reach st" unfolding demo_poll_def by (rule poll [OF start])
  then show ?thesis using lira_list_invariant [of st] o by blast
qed

text \<open>In every state the server can be in, a poll whose texts have the usual lengths and whose
  numbers are machine integers is answered: no buffer overflows and the walk of the list ends.\<close>

theorem lira_poll_answers:
  assumes "lira_reach st" "\<bar>sn\<bar> < 2 ^ 31" "\<bar>acp\<bar> < 2 ^ 31" "\<bar>cs\<bar> < 2 ^ 31"
    and "length sn_txt \<le> 1000" "length relays \<le> 8" "length acp_txt \<le> 1000" "length init_txt \<le> 40"
  shows "\<exists>out st'. lira_obrobnyk now sn sn_txt relays acp acp_txt init cs init_txt st = Some (Ok (out, st'))"
  using reach_wf [OF assms(1)] poll_answers [OF _ _ assms(2-)] by blast

theorem lira_poll_answers_witness:
  "\<exists>out st'. lira_obrobnyk 9 22 ''22'' xs8 0 ''0'' True 0 ''true'' lira_start = Some (Ok (out, st'))"
  by (rule lira_poll_answers [OF start]) (simp_all add: xs8_def)

end
