(* ===== verification/LiraEditFacts.thy ===== *)
theory LiraEditFacts
  imports LiraEdit
begin

text \<open>
  Lemmas on the editing handlers of the LiraCalc server. The locale \<open>engine\<close> is an engine that
  carries out every statement whose values have no quotes: inside it a handler is an equation on the
  tables. Outside it: Roman numerals, the number of messages a handler can make, and the invariant of
  the tables, which holds on any engine.
\<close>

section \<open>An engine that carries out its statements\<close>

locale engine =
  fixes fb :: firebird
  assumes accepts: "\<not> fb_refuses fb t db"
    and commits: "\<not> fb_commit_err fb t db"
begin

lemma exec_eq: "list_all clean_value (st_quoted st) \<Longrightarrow> sql_exec fb st db = (False, st_effect st db)"
  by (simp add: sql_exec_def Let_def accepts commits)

lemma query_eq: "list_all clean_value (q_quoted q) \<Longrightarrow> sql_query fb q db = (False, q_rows q db)"
  by (simp add: sql_query_def Let_def accepts commits)

lemma exec_msg_eq: "list_all clean_value (st_quoted st) \<Longrightarrow> exec_msg fb st msg e = Ok (fst e, st_effect st (snd e))"
  by (simp add: exec_msg_def exec_eq)

lemma exec_all_umovy: "exec_all fb del_umovy_of msg is e =
    Ok (fst e, (snd e)\<lparr>umovy := filter (\<lambda>r. um_l r \<notin> set is) (umovy (snd e))\<rparr>)"
  by (induction "is" arbitrary: e)
    (auto simp: exec_msg_eq del_umovy_of_def delete_where_def intro!: filter_cong)

lemma exec_all_npp: "exec_all fb del_npp_of msg is e =
    Ok (fst e, (snd e)\<lparr>zminny_npp := filter (\<lambda>r. np_z r \<notin> set is) (zminny_npp (snd e))\<rparr>)"
  by (induction "is" arbitrary: e)
    (auto simp: exec_msg_eq del_npp_of_def delete_where_def intro!: filter_cong)

lemma exec_all_npp_plain: "exec_all fb del_npp_plain msg is e =
    Ok (fst e, (snd e)\<lparr>zminny_npp := filter (\<lambda>r. np_z r \<notin> set is) (zminny_npp (snd e))\<rparr>)"
  by (induction "is" arbitrary: e)
    (auto simp: exec_msg_eq del_npp_plain_def delete_where_def intro!: filter_cong)

lemma exec_all_zm_plain: "exec_all fb del_zm_plain msg is e =
    Ok (fst e, (snd e)\<lparr>zminny := filter (\<lambda>r. zm_id r \<notin> set is) (zminny (snd e))\<rparr>)"
  by (induction "is" arbitrary: e)
    (auto simp: exec_msg_eq del_zm_plain_def delete_where_def intro!: filter_cong)

lemma delete_mash_eq:
  "\<exists>out. delete_mash fb now off m db = Ok (out, db\<lparr>
     mashynes := filter (\<lambda>r. ma_id r \<noteq> m) (mashynes db),
     liry := filter (\<lambda>r. li_m r \<noteq> m) (liry db),
     zminny := filter (\<lambda>r. zm_m r \<noteq> m) (zminny db),
     zminny_lira := filter (\<lambda>r. zl_m r \<noteq> m) (zminny_lira db),
     umovy := filter (\<lambda>r. um_l r \<notin> set (id_array 3 (q_rows (q_liry_of m) db))) (umovy db),
     zminny_npp := filter (\<lambda>r. np_z r \<notin> set (id_array 10 (q_rows (q_switches_of m) db))) (zminny_npp db)\<rparr>)"
  by (simp add: delete_mash_def query_eq exec_all_umovy exec_all_npp exec_msg_eq q_liry_of_def q_switches_of_def
      del_links_of_mash_def del_zm_of_mash_def del_liry_of_mash_def del_mash_def delete_where_def finish_def
      new_status_def status_success_def status_info_def status_add_def answer_status_def Let_def)

lemma delete_lira_eq:
  "\<exists>out. delete_lira fb now off l db = Ok (out, db\<lparr>
     umovy := filter (\<lambda>r. um_l r \<noteq> l) (umovy db),
     zminny_lira := filter (\<lambda>r. zl_l r \<noteq> l) (zminny_lira db),
     zminny_npp := filter (\<lambda>r. np_z r \<notin> set (id_array 10
       (q_rows (q_switches_only_here (first_or_zero (q_rows (q_lira_m_quoted l) db)) l) db))) (zminny_npp db),
     zminny := filter (\<lambda>r. zm_id r \<notin> set (id_array 10
       (only_here (first_or_zero (q_rows (q_lira_m_quoted l) db)) l db))) (zminny db),
     liry := filter (\<lambda>r. li_id r \<noteq> l) (liry db)\<rparr>)"
  by (simp add: delete_lira_def query_eq delete_lira_rows_def exec_all_npp_plain exec_all_zm_plain exec_msg_eq
      q_lira_m_quoted_def q_only_here_def q_switches_only_here_def del_umovy_of_lira_def del_links_of_lira_def
      del_lira_row_def delete_where_def new_status_def status_success_def Let_def)

end

definition plain_engine :: firebird where
  "plain_engine = \<lparr>fb_refuses = (\<lambda>t db. False), fb_commit_err = (\<lambda>t db. False), fb_foreign = (\<lambda>t db. db),
     fb_foreign_rows = (\<lambda>t db. [])\<rparr>"

interpretation plain: engine plain_engine
  by unfold_locales (simp_all add: plain_engine_def)

section \<open>Roman numerals\<close>

lemma roman_while_step: "0 < v \<Longrightarrow> v \<le> n \<Longrightarrow> roman_while v s n r = roman_while v s (n - v) (r @ s)"
  by (subst roman_while.simps) simp

lemma roman_while_stop: "n < v \<Longrightarrow> roman_while v s n r = (n, r)"
  by (subst roman_while.simps) simp

definition roman_digit :: "char \<Rightarrow> int" where
  "roman_digit c = (if c = CHR ''M'' then 1000 else if c = CHR ''D'' then 500 else if c = CHR ''C'' then 100
     else if c = CHR ''L'' then 50 else if c = CHR ''X'' then 10 else if c = CHR ''V'' then 5
     else if c = CHR ''I'' then 1 else 0)"

text \<open>How a numeral is read: a letter before a greater one counts negatively.\<close>

fun roman_value :: "string \<Rightarrow> int" where
  "roman_value [] = 0"
| "roman_value [c] = roman_digit c"
| "roman_value (c # d # s) = (if roman_digit c < roman_digit d then - roman_digit c else roman_digit c) + roman_value (d # s)"

lemma roman_value_M: "roman_value (CHR ''M'' # s) = 1000 + roman_value s"
  by (cases s) (auto simp: roman_digit_def)

lemma roman_value_Ms: "roman_value (replicate k (CHR ''M'') @ s) = 1000 * int k + roman_value s"
  by (induction k) (simp_all add: roman_value_M)

lemma roman_while_Ms: "0 \<le> r \<Longrightarrow> r < 1000 \<Longrightarrow>
    roman_while 1000 ''M'' (1000 * int k + r) acc = (r, acc @ concat (replicate k ''M''))"
  by (induction k arbitrary: acc) (simp_all add: roman_while_step roman_while_stop)

definition hundreds :: "string list" where
  "hundreds = [[], ''C'', ''CC'', ''CCC'', ''CD'', ''D'', ''DC'', ''DCC'', ''DCCC'', ''CM'']"

definition tens :: "string list" where
  "tens = [[], ''X'', ''XX'', ''XXX'', ''XL'', ''L'', ''LX'', ''LXX'', ''LXXX'', ''XC'']"

definition units :: "string list" where
  "units = [[], ''I'', ''II'', ''III'', ''IV'', ''V'', ''VI'', ''VII'', ''VIII'', ''IX'']"

lemma digit_cases: "(h :: nat) < 10 \<Longrightarrow> h \<in> {0, 1, 2, 3, 4, 5, 6, 7, 8, 9}"
  by auto

lemma loop_hundreds: "0 \<le> r \<Longrightarrow> r < 100 \<Longrightarrow> h < 10 \<Longrightarrow>
    roman_loop ((900, ''CM'') # (500, ''D'') # (400, ''CD'') # (100, ''C'') # vs) (100 * int h + r) acc =
    roman_loop vs r (acc @ hundreds ! h)"
  by (drule digit_cases) (elim insertE emptyE; simp add: roman_while_step roman_while_stop hundreds_def)

lemma loop_tens: "0 \<le> r \<Longrightarrow> r < 10 \<Longrightarrow> h < 10 \<Longrightarrow>
    roman_loop ((90, ''XC'') # (50, ''L'') # (40, ''XL'') # (10, ''X'') # vs) (10 * int h + r) acc =
    roman_loop vs r (acc @ tens ! h)"
  by (drule digit_cases) (elim insertE emptyE; simp add: roman_while_step roman_while_stop tens_def)

lemma loop_units: "h < 10 \<Longrightarrow>
    roman_loop [(9, ''IX''), (5, ''V''), (4, ''IV''), (1, ''I'')] (int h) acc = acc @ units ! h"
  by (drule digit_cases) (elim insertE emptyE; simp add: roman_while_step roman_while_stop units_def)

lemma to_roman_digits:
  assumes "h < 10" "t < 10" "u < 10" "0 < 1000 * int k + (100 * int h + (10 * int t + int u))"
  shows "to_roman (1000 * int k + (100 * int h + (10 * int t + int u))) =
    concat (replicate k ''M'') @ hundreds ! h @ tens ! t @ units ! u"
proof -
  have "100 * int h + (10 * int t + int u) < 1000" using assms by simp
  then have m: "roman_while 1000 ''M'' (1000 * int k + (100 * int h + (10 * int t + int u))) [] =
      (100 * int h + (10 * int t + int u), concat (replicate k ''M''))"
    by (subst roman_while_Ms) simp_all
  show ?thesis using assms
    by (simp add: to_roman_def roman_numerals_def m loop_hundreds loop_tens loop_units
        del: roman_loop.simps add: roman_loop.simps(2) [of 1000])
qed

definition head_below :: "int \<Rightarrow> string \<Rightarrow> bool" where
  "head_below k s = (case s of [] \<Rightarrow> True | c # cs \<Rightarrow> roman_digit c < k)"

lemma value_hundreds: "h < 10 \<Longrightarrow> head_below 100 s \<Longrightarrow> roman_value (hundreds ! h @ s) = 100 * int h + roman_value s"
  by (drule digit_cases) (elim insertE emptyE; cases s; simp add: hundreds_def head_below_def roman_digit_def)

lemma value_tens: "h < 10 \<Longrightarrow> head_below 10 s \<Longrightarrow> roman_value (tens ! h @ s) = 10 * int h + roman_value s"
  by (drule digit_cases) (elim insertE emptyE; cases s; simp add: tens_def head_below_def roman_digit_def)

lemma value_units: "h < 10 \<Longrightarrow> roman_value (units ! h) = int h"
  by (drule digit_cases) (elim insertE emptyE; simp add: units_def roman_digit_def)

lemma head_units: "h < 10 \<Longrightarrow> head_below 10 (units ! h)"
  by (drule digit_cases) (elim insertE emptyE; simp add: units_def head_below_def roman_digit_def)

lemma head_tens: "h < 10 \<Longrightarrow> head_below 10 s \<Longrightarrow> head_below 100 (tens ! h @ s)"
  by (drule digit_cases) (elim insertE emptyE; cases s; simp add: tens_def head_below_def roman_digit_def)

lemma decimal_split:
  assumes "0 < (n :: int)"
  obtains k h t u where "n = 1000 * int k + (100 * int h + (10 * int t + int u))" "h < 10" "t < 10" "u < 10"
proof -
  obtain m where m: "n = int m" using assms by (metis nonneg_int_cases less_imp_le)
  have a: "m = 1000 * (m div 1000) + m mod 1000" by simp
  have b: "m mod 1000 = 100 * (m mod 1000 div 100) + m mod 100"
    using mult_div_mod_eq [of 100 "m mod 1000"] mod_mod_cancel [of 100 1000 m] by simp
  have c: "m mod 100 = 10 * (m mod 100 div 10) + m mod 10"
    using mult_div_mod_eq [of 10 "m mod 100"] mod_mod_cancel [of 10 100 m] by simp
  define k h t u where d: "k = m div 1000" "h = m mod 1000 div 100" "t = m mod 100 div 10" "u = m mod 10"
  have "m = 1000 * k + (100 * h + (10 * t + u))" using a b c unfolding d by linarith
  then have "n = 1000 * int k + (100 * int h + (10 * int t + int u))" unfolding m by simp
  moreover have "h < 10" "t < 10" "u < 10" unfolding d by (auto simp: less_mult_imp_div_less)
  ultimately show ?thesis by (rule that)
qed

lemma roman_value_eq:
  assumes "0 < n"
  shows "roman_value (to_roman n) = n"
proof -
  obtain k h t u where n: "n = 1000 * int k + (100 * int h + (10 * int t + int u))"
    and d: "h < 10" "t < 10" "u < 10" using assms by (rule decimal_split)
  show ?thesis using assms unfolding n
    by (simp add: to_roman_digits [OF d] roman_value_Ms value_hundreds value_tens value_units head_tens head_units d)
qed

lemma digit_chars:
  "h < 10 \<Longrightarrow> set (hundreds ! h) \<subseteq> set ''MDCLXVI''"
  "h < 10 \<Longrightarrow> set (tens ! h) \<subseteq> set ''MDCLXVI''"
  "h < 10 \<Longrightarrow> set (units ! h) \<subseteq> set ''MDCLXVI''"
  by (drule digit_cases; elim insertE emptyE; simp add: hundreds_def tens_def units_def)+

lemma roman_chars:
  assumes "0 < n"
  shows "set (to_roman n) \<subseteq> set ''MDCLXVI''"
proof -
  obtain k h t u where n: "n = 1000 * int k + (100 * int h + (10 * int t + int u))"
    and d: "h < 10" "t < 10" "u < 10" using assms by (rule decimal_split)
  have "set (replicate k (CHR ''M'')) \<subseteq> set ''MDCLXVI''" by (simp add: set_replicate_conv_if)
  then show ?thesis using assms digit_chars d unfolding n by (simp add: to_roman_digits [OF d])
qed

lemma roman_clean: "0 < n \<Longrightarrow> clean_value (to_roman n)"
  using roman_chars [of n] by (auto simp: clean_value_def list_all_iff NUL_def)

section \<open>Additions\<close>

context engine
begin

lemma add_zm_npp_eq:
  assumes "list_all (\<lambda>r. np_coment r \<noteq> npp_marker \<and> np_id r \<noteq> next_n db) (zminny_npp db)" "next_n db \<noteq> 0"
  shows "add_zm_npp fb z db = (int_str (next_n db),
    db\<lparr>zminny_npp := zminny_npp db @ [\<lparr>np_id = next_n db, np_z = z, np_zn = ''1'', np_umova = ''1=1'',
         np_coment = to_roman (int (length (filter (\<lambda>r. np_z r = z) (zminny_npp db))) + 1)\<rparr>],
       next_n := next_n db + 1\<rparr>)"
proof -
  have f: "filter (\<lambda>r. np_coment r = npp_marker) (zminny_npp db) = []"
    using assms(1) by (auto simp: filter_empty_conv list_all_iff)
  have m: "map (\<lambda>r. if np_id r = next_n db then r\<lparr>np_coment := t\<rparr> else r) (zminny_npp db) = zminny_npp db" for t
    using assms(1) by (intro map_idI) (auto simp: list_all_iff)
  show ?thesis using assms(2)
    by (simp add: add_zm_npp_def exec_eq query_eq ins_npp_def q_npp_marker_def q_npp_count_def upd_npp_coment_def
        first_or_zero_def f m change_where_def roman_clean Let_def add.commute)
qed

end

section \<open>Messages never exceed their arrays\<close>

definition room :: "nat \<Rightarrow> edit res \<Rightarrow> bool" where
  "room n x \<longleftrightarrow> (\<exists>e. x = Ok e \<and> length (fst e) \<le> n)"

definition answers :: "'a res \<Rightarrow> bool" where
  "answers x \<longleftrightarrow> (\<exists>v. x = Ok v)"

lemma answers_if: "(c \<Longrightarrow> answers x) \<Longrightarrow> (\<not> c \<Longrightarrow> answers y) \<Longrightarrow> answers (if c then x else y)"
  by simp

lemma answers_Ok: "answers (Ok v)"
  by (simp add: answers_def)

lemma room_Ok: "length (fst e) \<le> n \<Longrightarrow> room n (Ok e)"
  by (simp add: room_def)

lemma room_mono: "room n x \<Longrightarrow> n \<le> k \<Longrightarrow> room k x"
  by (auto simp: room_def)

lemma room_bind: "room n x \<Longrightarrow> (\<And>e. length (fst e) \<le> n \<Longrightarrow> room k (f e)) \<Longrightarrow> room k (bind_res x f)"
  by (auto simp: room_def)

lemma answers_bind: "room n x \<Longrightarrow> (\<And>e. length (fst e) \<le> n \<Longrightarrow> answers (f e)) \<Longrightarrow> answers (bind_res x f)"
  by (auto simp: room_def)

lemma room_exec: "length (fst e) \<le> n \<Longrightarrow> n < 100 \<Longrightarrow> room (Suc n) (exec_msg fb st msg e)"
  by (auto simp: room_def exec_msg_def status_error_def status_add_def split: prod.splits)

lemma room_exec_all:
  "length (fst e) \<le> n \<Longrightarrow> n + length is < 100 \<Longrightarrow> room (n + length is) (exec_all fb st msg is e)"
proof (induction "is" arbitrary: e n)
  case Nil
  then show ?case by (simp add: room_def)
next
  case (Cons i "is")
  have "room (Suc n) (exec_msg fb (st i) msg e)" using Cons.prems by (intro room_exec) simp_all
  then show ?case using Cons.IH [of _ "Suc n"] Cons.prems(2) by (auto intro!: room_bind)
qed

lemma length_id_array: "length (id_array n rows) \<le> n"
  by (auto simp: id_array_def intro: order_trans [OF length_takeWhile_le])

lemma room_array: "length (fst e) \<le> n \<Longrightarrow> n + k < 100 \<Longrightarrow> room (n + k) (exec_all fb st msg (id_array k rows) e)"
  using length_id_array [of k rows] by (intro room_mono [OF room_exec_all [where n = n]]) simp_all

lemma room_error_if: "length status \<le> n \<Longrightarrow> n < 100 \<Longrightarrow>
    (\<And>s. length s \<le> Suc n \<Longrightarrow> room k' (f s)) \<Longrightarrow> room k' (bind_res (error_if c t k a status) f)"
  by (auto simp: error_if_def status_error_def status_add_def)

lemma answers_error_if: "length status \<le> n \<Longrightarrow> n < 100 \<Longrightarrow>
    (\<And>s. length s \<le> Suc n \<Longrightarrow> answers (f s)) \<Longrightarrow> answers (bind_res (error_if c t k a status) f)"
  by (auto simp: error_if_def status_error_def status_add_def)

lemma answers_finish: "length (fst e) \<le> n \<Longrightarrow> n < 100 \<Longrightarrow> answers (finish now off t k e)"
  by (auto simp: answers_def finish_def status_info_def status_add_def)

lemmas answers_exec = answers_bind [OF room_exec]
lemmas answers_array = answers_bind [OF room_array]

lemma room_last_zm: "length (fst e) \<le> 2 \<Longrightarrow> room 5 (delete_last_zm fb z e)"
  unfolding delete_last_zm_def Let_def split_beta
  by (rule room_error_if [where n = 2], simp, simp, rule room_bind [where n = 4],
      rule room_exec [where n = 3, simplified], simp, rule room_mono [where n = 5],
      auto intro: room_exec [where n = 4, simplified] room_Ok)

lemma delete_mash_answers: "answers (delete_mash fb now off m db)"
  unfolding delete_mash_def Let_def split_beta new_status_def
  by (rule answers_if, rule answers_Ok, rule answers_array [where n = 0], simp, simp)
     (rule answers_if, rule answers_Ok, ((rule answers_array answers_exec answers_finish, assumption, simp)+))

lemma delete_lira_answers: "answers (delete_lira fb now off l db)"
  unfolding delete_lira_def delete_lira_rows_def Let_def split_beta new_status_def bind_res_assoc
  by (rule answers_if, rule answers_Ok, rule answers_if, rule answers_Ok, rule answers_if, rule answers_Ok,
      rule answers_exec [where n = 0], simp, simp)
     ((rule answers_array answers_exec answers_Ok, assumption?, simp?)+)

lemma delete_zm_answers: "answers (delete_zm fb now off l z db)"
proof -
  have "room 5 (if c then delete_last_zm fb z (s, db) else Ok (s, db))" if "length s \<le> 2" for c s
    using that room_last_zm [of "(s, db)"] by (auto intro: room_Ok)
  then show ?thesis
    unfolding delete_zm_def Let_def split_beta new_status_def
    by (intro answers_error_if [where n = 0] answers_error_if [where n = 1] answers_bind [where n = 5]
        answers_exec [where n = 5] answers_finish [where n = 6]) simp_all
qed

lemma delete_small_answers:
  "answers (delete_zm_npp_all fb now off z db)" "answers (delete_zm_npp fb now off n db)"
  "answers (delete_um fb now off u db)"
  unfolding delete_zm_npp_all_def delete_zm_npp_def delete_um_def new_status_def
  by (intro answers_exec [where n = 0] answers_exec [where n = 1] answers_finish [where n = 2]
      answers_finish [where n = 1]; simp)+

section \<open>What stays true of the tables\<close>

definition lyres_ok :: "lira_db \<Rightarrow> bool" where
  "lyres_ok db \<longleftrightarrow> (\<forall>m. length (filter (\<lambda>r. li_m r = m) (liry db)) \<le> 3)"

definition letters_ok :: "lira_db \<Rightarrow> bool" where
  "letters_ok db \<longleftrightarrow> distinct (map (\<lambda>r. (zm_m r, zm_bukva r)) (zminny db)) \<and>
     list_all (\<lambda>r. 0 < zm_id r \<and> zm_id r < next_z db) (zminny db) \<and> 0 < next_z db"

definition links_ok :: "lira_db \<Rightarrow> bool" where
  "links_ok db \<longleftrightarrow> distinct (map (\<lambda>r. (zl_m r, zl_l r, zl_z r)) (zminny_lira db)) \<and>
     list_all (\<lambda>r. 0 < zl_id r \<and> zl_z r < next_z db) (zminny_lira db) \<and> 0 < next_zl db"

definition edit_ok :: "lira_db \<Rightarrow> bool" where
  "edit_ok db \<longleftrightarrow> lyres_ok db \<and> letters_ok db \<and> links_ok db"

definition keeps :: "stmt \<Rightarrow> bool" where
  "keeps st \<longleftrightarrow> list_all clean_value (st_quoted st) \<and> (\<forall>db. edit_ok db \<longrightarrow> edit_ok (st_effect st db))"

lemma filter_change: "(\<And>r. P (f r) = P r) \<Longrightarrow> length (filter P (change_where Q f rows)) = length (filter P rows)"
  by (induction rows) (auto simp: change_where_def)

lemma map_change: "(\<And>r. g (f r) = g r) \<Longrightarrow> map g (change_where Q f rows) = map g rows"
  by (induction rows) (auto simp: change_where_def)

lemma all_change: "(\<And>r. P (f r) = P r) \<Longrightarrow> list_all P (change_where Q f rows) = list_all P rows"
  by (induction rows) (auto simp: change_where_def)

lemma delete_where_all: "list_all P rows \<Longrightarrow> list_all P (delete_where Q rows)"
  by (auto simp: delete_where_def list_all_iff)

lemma delete_where_distinct: "distinct (map g rows) \<Longrightarrow> distinct (map g (delete_where Q rows))"
  by (simp add: delete_where_def distinct_map_filter)

lemma delete_where_filter: "length (filter P (delete_where Q rows)) \<le> length (filter P rows)"
  by (induction rows) (auto simp: delete_where_def)

lemmas edit_ok_defs = edit_ok_def lyres_ok_def letters_ok_def links_ok_def
lemmas change_simps = filter_change map_change all_change

lemma keeps_updates:
  "case zn of None \<Rightarrow> True | Some v \<Rightarrow> clean_value v \<Longrightarrow> keeps (upd_zm_zn zn z)"
  "case zn of None \<Rightarrow> True | Some v \<Rightarrow> clean_value v \<Longrightarrow> keeps (upd_zm_name zn z)"
  "keeps (upd_zm_npp_s n z)" "clean_value t \<Longrightarrow> keeps (upd_umova t u)"
  "clean_value t \<Longrightarrow> clean_value t' \<Longrightarrow> clean_value t'' \<Longrightarrow> keeps (upd_npp t t' t'' n)"
  "clean_value t \<Longrightarrow> clean_value t' \<Longrightarrow> case zn of None \<Rightarrow> True | Some v \<Rightarrow> clean_value v \<Longrightarrow> keeps (upd_mash t t' zn m)"
  "clean_value t \<Longrightarrow> clean_value t' \<Longrightarrow> clean_value t'' \<Longrightarrow> keeps (upd_lira t t' t'' mg br l)"
  "keeps (upd_lira_name l)" "clean_value t \<Longrightarrow> keeps (upd_npp_coment t n)" "keeps (clear_zm_npp z)"
  by (auto simp: keeps_def edit_ok_defs upd_zm_zn_def upd_zm_name_def upd_zm_npp_s_def upd_umova_def upd_npp_def
      upd_mash_def upd_lira_def upd_lira_name_def upd_npp_coment_def clear_zm_npp_def change_simps split: option.splits)

lemma keeps_inserts:
  "keeps (ins_npp z)" "keeps (ins_umova l)" "clean_value t \<Longrightarrow> clean_value t' \<Longrightarrow> keeps (ins_mash t t')"
  by (auto simp: keeps_def edit_ok_defs ins_npp_def ins_umova_def ins_mash_def)

lemma keeps_deletes:
  "keeps (del_npp_of z)" "keeps (del_npp n)" "keeps (del_zm z)" "keeps (del_link l z)" "keeps (del_umova u)"
  "keeps (del_umovy_of l)" "keeps (del_links_of_mash m)" "keeps (del_zm_of_mash m)" "keeps (del_liry_of_mash m)"
  "keeps (del_mash m)" "keeps (del_umovy_of_lira l)" "keeps (del_links_of_lira l)" "keeps (del_npp_plain z)"
  "keeps (del_zm_plain z)" "keeps (del_lira_row l)"
  by (auto simp: keeps_def edit_ok_defs del_npp_of_def del_npp_def del_zm_def del_link_def del_umova_def
      del_umovy_of_def del_links_of_mash_def del_zm_of_mash_def del_liry_of_mash_def del_mash_def
      del_umovy_of_lira_def del_links_of_lira_def del_npp_plain_def del_zm_plain_def del_lira_row_def
      delete_where_all delete_where_distinct intro: order_trans [OF delete_where_filter])

lemma exec_keeps: "keeps st \<Longrightarrow> edit_ok db \<Longrightarrow> edit_ok (snd (sql_exec fb st db))"
  by (auto simp: sql_exec_def keeps_def Let_def)

text \<open>The editing requests, and the handler each is given to.\<close>

datatype edit_req =
    SaveZm int int char int string dbl
  | SaveUsl int int string
  | SaveNpp int int dbl string string
  | SaveMash int string string string
  | SaveLira int int string int int string string
  | AddZminna int char int
  | AddZmNpp int
  | AddUmova int
  | AddLira int
  | AddMash string string
  | DeleteZmNppAll int
  | DeleteZmNpp int
  | DeleteZm int int
  | DeleteUm int
  | DeleteMash int
  | DeleteLira int

primrec serve_edit :: "firebird \<Rightarrow> int \<Rightarrow> int \<Rightarrow> edit_req \<Rightarrow> lira_db \<Rightarrow> (string \<times> lira_db) res" where
  "serve_edit fb now off (SaveZm m z b n name zn) db = save_zm fb now off m z b n name zn db"
| "serve_edit fb now off (SaveUsl u l t) db = save_usl fb now off u l t db"
| "serve_edit fb now off (SaveNpp n z zn um co) db = save_npp fb now off n z zn um co db"
| "serve_edit fb now off (SaveMash m name m1 m2) db = save_mash fb now off m name m1 m2 db"
| "serve_edit fb now off (SaveLira m l name mg br fo fz) db = save_lira fb now off m l name mg br fo fz db"
| "serve_edit fb now off (AddZminna l b zp) db = Ok (add_zminna fb l b zp db)"
| "serve_edit fb now off (AddZmNpp z) db = Ok (add_zm_npp fb z db)"
| "serve_edit fb now off (AddUmova l) db = Ok (add_umova fb l db)"
| "serve_edit fb now off (AddLira m) db = Ok (add_lira fb m db)"
| "serve_edit fb now off (AddMash name m1) db = post_add_mash fb now off name m1 db"
| "serve_edit fb now off (DeleteZmNppAll z) db = delete_zm_npp_all fb now off z db"
| "serve_edit fb now off (DeleteZmNpp n) db = delete_zm_npp fb now off n db"
| "serve_edit fb now off (DeleteZm l z) db = delete_zm fb now off l z db"
| "serve_edit fb now off (DeleteUm u) db = delete_um fb now off u db"
| "serve_edit fb now off (DeleteMash m) db = delete_mash fb now off m db"
| "serve_edit fb now off (DeleteLira l) db = delete_lira fb now off l db"

text \<open>No text of the request has a quote.\<close>

primrec clean_req :: "edit_req \<Rightarrow> bool" where
  "clean_req (SaveZm m z b n name zn) = clean_value name"
| "clean_req (SaveUsl u l t) = clean_value t"
| "clean_req (SaveNpp n z zn um co) = (clean_value um \<and> clean_value co)"
| "clean_req (SaveMash m name m1 m2) = (clean_value name \<and> clean_value m1 \<and> clean_value m2)"
| "clean_req (SaveLira m l name mg br fo fz) = (clean_value name \<and> clean_value fo \<and> clean_value fz)"
| "clean_req (AddZminna l b zp) = clean_value [b]"
| "clean_req (AddZmNpp z) = True"
| "clean_req (AddUmova l) = True"
| "clean_req (AddLira m) = True"
| "clean_req (AddMash name m1) = (clean_value name \<and> clean_value m1)"
| "clean_req (DeleteZmNppAll z) = True"
| "clean_req (DeleteZmNpp n) = True"
| "clean_req (DeleteZm l z) = True"
| "clean_req (DeleteUm u) = True"
| "clean_req (DeleteMash m) = True"
| "clean_req (DeleteLira l) = True"

abbreviation keeps_ok :: "edit res \<Rightarrow> bool" where
  "keeps_ok \<equiv> all_ok (\<lambda>e. edit_ok (snd e))"

lemma all_ok_step: "all_ok Q m \<Longrightarrow> (\<And>x. Q x \<Longrightarrow> all_ok P (f x)) \<Longrightarrow> all_ok P (bind_res m f)"
  by (auto simp: all_ok_def bind_res_Inr)

lemma all_ok_any: "(\<And>x. all_ok P (f x)) \<Longrightarrow> all_ok P (bind_res m f)"
  by (auto simp: all_ok_def bind_res_Inr)

lemma exec_msg_keeps: "keeps st \<Longrightarrow> edit_ok (snd e) \<Longrightarrow> keeps_ok (exec_msg fb st msg e)"
  using exec_keeps [of st "snd e" fb]
  by (auto simp: exec_msg_def split_beta intro!: all_ok_Ok all_ok_any)

lemma exec_all_keeps: "(\<And>i. keeps (st i)) \<Longrightarrow> edit_ok (snd e) \<Longrightarrow> keeps_ok (exec_all fb st msg is e)"
  by (induction "is" arbitrary: e) (auto intro!: all_ok_Ok all_ok_step [OF exec_msg_keeps])

lemma answer_ok_db: "edit_ok (snd e) \<Longrightarrow> edit_ok (snd (answer_status now off e))"
  by (simp add: answer_status_def)

lemma finish_keeps: "edit_ok (snd e) \<Longrightarrow> all_ok (\<lambda>p. edit_ok (snd p)) (finish now off t k e)"
  unfolding finish_def by (intro all_ok_any all_ok_Ok answer_ok_db) simp

lemma c_str_clean: "clean_value s \<Longrightarrow> c_str s = s"
  by (induction s) (auto simp: c_str_def clean_value_def)

lemma clean_append [simp]: "clean_value (s @ t) = (clean_value s \<and> clean_value t)"
  by (simp add: clean_value_def)

lemma clean_simps [simp]:
  "clean_value []" "clean_value (c # s) = (c \<noteq> CHR 0x27 \<and> c \<noteq> NUL \<and> clean_value s)"
  "c \<noteq> CHR 0x27 \<Longrightarrow> c \<noteq> NUL \<Longrightarrow> clean_value (replicate n c)"
  by (auto simp: clean_value_def list_all_iff)

lemma digit_clean: "is_digit c \<Longrightarrow> c \<noteq> CHR 0x27"
  by (auto simp: is_digit_def)

lemma clean_nat_str [simp]: "clean_value (nat_str n)"
  using nat_str_digits [of n] by (auto simp: clean_value_def list_all_iff dest: digit_clean digit_not_nul)

lemma clean_int_str [simp]: "clean_value (int_str i)"
  by (simp add: int_str_def NUL_def)

lemma fmt20_clean: "clean_value (fmt20 d)"
  by (cases d) (simp_all add: fmt20_def pad_zeros_def Let_def NUL_def)

lemma to_roman_clean: "clean_value (to_roman n)"
  using roman_clean [of n] by (cases "0 < n") (auto simp: to_roman_def clean_int_str)

lemmas keep_rules = all_ok_step [OF exec_msg_keeps] all_ok_step [OF exec_all_keeps] finish_keeps all_ok_Ok answer_ok_db

lemma saves_keep:
  assumes "edit_ok db"
  shows "clean_value name \<Longrightarrow> all_ok (\<lambda>p. edit_ok (snd p)) (save_zm fb now off m z b n name zn db)"
    "clean_value t \<Longrightarrow> all_ok (\<lambda>p. edit_ok (snd p)) (save_usl fb now off u l t db)"
    "clean_value um \<Longrightarrow> clean_value co \<Longrightarrow> all_ok (\<lambda>p. edit_ok (snd p)) (save_npp fb now off n z zn um co db)"
    "clean_value name \<Longrightarrow> clean_value m1 \<Longrightarrow> clean_value m2 \<Longrightarrow>
       all_ok (\<lambda>p. edit_ok (snd p)) (save_mash fb now off m name m1 m2 db)"
  unfolding save_zm_def save_usl_def save_npp_def save_mash_def Let_def
  by ((intro all_ok_any all_ok_if keep_rules keeps_updates; auto simp: c_str_clean fmt20_clean assms)+)

lemma save_lira_keeps:
  assumes "edit_ok db" "clean_value name" "clean_value fo" "clean_value fz"
  shows "all_ok (\<lambda>p. edit_ok (snd p)) (save_lira fb now off m l name mg br fo fz db)"
  unfolding save_lira_def Let_def split_beta
  by (intro all_ok_any all_ok_if keep_rules)
    (auto simp: c_str_clean assms intro!: exec_keeps keeps_updates)

lemma deletes_keep:
  assumes "edit_ok db"
  shows "all_ok (\<lambda>p. edit_ok (snd p)) (delete_zm_npp_all fb now off z db)"
    "all_ok (\<lambda>p. edit_ok (snd p)) (delete_zm_npp fb now off n db)"
    "all_ok (\<lambda>p. edit_ok (snd p)) (delete_um fb now off u db)"
    "all_ok (\<lambda>p. edit_ok (snd p)) (delete_mash fb now off m db)"
  unfolding delete_zm_npp_all_def delete_zm_npp_def delete_um_def delete_mash_def Let_def split_beta
  by ((intro all_ok_any all_ok_if keep_rules keeps_deletes keeps_updates; simp add: assms)+)

lemma delete_lira_keeps:
  assumes "edit_ok db"
  shows "all_ok (\<lambda>p. edit_ok (snd p)) (delete_lira fb now off l db)"
proof -
  have "keeps_ok (delete_lira_rows fb l zs sws (new_status, db))" for zs sws
    unfolding delete_lira_rows_def
    by (intro keep_rules exec_msg_keeps keeps_deletes) (simp_all add: assms)
  then show ?thesis
    unfolding delete_lira_def Let_def split_beta
    by (intro all_ok_if all_ok_Ok all_ok_step [where Q = "\<lambda>e. edit_ok (snd e)"]) (auto simp: assms answer_ok_db)
qed

lemma delete_zm_keeps:
  assumes "edit_ok db"
  shows "all_ok (\<lambda>p. edit_ok (snd p)) (delete_zm fb now off l z db)"
proof -
  have d: "keeps_ok (delete_last_zm fb z e)" if "edit_ok (snd e)" for e
    unfolding delete_last_zm_def Let_def split_beta
    by (intro all_ok_any all_ok_if all_ok_step [OF exec_msg_keeps] exec_msg_keeps keeps_deletes all_ok_Ok) (simp_all add: that)
  have c: "keeps_ok (if x then delete_last_zm fb z (s, db) else Ok (s, db))" for x s
    using d [of "(s, db)"] by (simp add: assms all_ok_Ok)
  show ?thesis
    unfolding delete_zm_def Let_def split_beta
    by (intro all_ok_any all_ok_step [OF c] all_ok_step [OF exec_msg_keeps] finish_keeps keeps_deletes) simp_all
qed

lemma plain_adds_keep:
  assumes "edit_ok db"
  shows "edit_ok (snd (add_zm_npp fb z db))" "edit_ok (snd (add_umova fb l db))"
    "clean_value name \<Longrightarrow> clean_value m1 \<Longrightarrow> all_ok (\<lambda>p. edit_ok (snd p)) (post_add_mash fb now off name m1 db)"
proof -
  show "edit_ok (snd (add_zm_npp fb z db))" "edit_ok (snd (add_umova fb l db))"
    using assms by (auto simp: add_zm_npp_def add_umova_def Let_def split_beta to_roman_clean
        NUL_def intro!: exec_keeps keeps_inserts keeps_updates)
  assume "clean_value name" "clean_value m1"
  then show "all_ok (\<lambda>p. edit_ok (snd p)) (post_add_mash fb now off name m1 db)"
    unfolding post_add_mash_def Let_def split_beta
    by (intro all_ok_any all_ok_if all_ok_Ok answer_ok_db)
      (auto simp: assms c_str_clean intro!: exec_keeps keeps_inserts all_ok_any all_ok_Ok answer_ok_db split: list.splits)
qed

section \<open>Additions with a limit\<close>

text \<open>The engine answers the queries the additions decide on.\<close>

definition reads_ok :: "firebird \<Rightarrow> bool" where
  "reads_ok fb \<longleftrightarrow> (\<forall>m l z b db. \<not> fb_refuses fb (c_str (q_text (q_lira_count m))) db \<and>
     \<not> fb_refuses fb (c_str (q_text (q_zm m b))) db \<and> \<not> fb_refuses fb (c_str (q_text (q_link m l z))) db)"

lemma ins_lira_keeps:
  "edit_ok db \<Longrightarrow> length (filter (\<lambda>r. li_m r = m) (liry db)) < 3 \<Longrightarrow> edit_ok (snd (sql_exec fb (ins_lira m) db))"
  by (auto simp: sql_exec_def Let_def ins_lira_def edit_ok_defs)

lemma add_lira_keeps:
  assumes r: "reads_ok fb" and ok: "edit_ok db"
  shows "edit_ok (snd (add_lira fb m db))"
proof -
  let ?n = "length (filter (\<lambda>r. li_m r = m) (liry db))"
  have q: "first_or_zero (snd (sql_query fb (q_lira_count m) db)) = int ?n"
    using r by (simp add: reads_ok_def sql_query_def first_or_zero_def q_lira_count_def Let_def)
  have "edit_ok (snd (sql_exec fb (ins_lira m) db))" if "\<not> 3 \<le> int ?n"
    using ins_lira_keeps [OF ok] that by simp
  then show ?thesis using ok
    by (auto simp: add_lira_def Let_def split_beta q intro!: exec_keeps [OF keeps_updates(8)])
qed

lemma query_zm:
  assumes "reads_ok fb" "clean_value [b]"
  shows "snd (sql_query fb (q_zm m b) db) = map zm_id (filter (\<lambda>r. zm_m r = m \<and> zm_bukva r = b) (zminny db))"
  using assms by (simp add: reads_ok_def sql_query_def q_zm_def Let_def)

lemma first_zero_ids: "list_all (\<lambda>r. 0 < g r) rows \<Longrightarrow> first_or_zero (map g (filter P rows)) = 0 \<longleftrightarrow> filter P rows = []"
  by (induction rows) (auto simp: first_or_zero_def)

lemma first_in: "first_or_zero (map g rows) \<noteq> 0 \<Longrightarrow> \<exists>r\<in>set rows. first_or_zero (map g rows) = g r"
  by (cases rows) (auto simp: first_or_zero_def)

lemma link_zm_keeps:
  assumes ok: "edit_ok db" and z: "z < next_z db"
    and new: "filter (\<lambda>r. zl_m r = m \<and> zl_l r = l \<and> zl_z r = z) (zminny_lira db) = []"
  shows "edit_ok (snd (link_zm fb m l z zp msg db))"
proof -
  have "edit_ok (st_effect (ins_link z l m) db)"
    using ok z new by (auto simp: ins_link_def edit_ok_defs filter_empty_conv list_all_iff)
  moreover have "st_quoted (ins_link z l m) = []" by (simp add: ins_link_def)
  ultimately show ?thesis using ok by (auto simp: link_zm_def sql_exec_def Let_def)
qed

lemma add_zminna_keeps:
  assumes r: "reads_ok fb" and b: "clean_value [b]" and ok: "edit_ok db"
  shows "edit_ok (snd (add_zminna fb l b zp db))"
proof -
  have pos: "list_all (\<lambda>r. 0 < zm_id r) (zminny db)" "list_all (\<lambda>r. 0 < zl_id r) (zminny_lira db)"
    using ok by (auto simp: edit_ok_defs list_all_iff)
  have known: "edit_ok (snd (add_known_zm fb m l z zp db))"
    if z: "z = first_or_zero (snd (sql_query fb (q_zm m b) db))" "z \<noteq> 0" for m z
  proof -
    obtain r where "r \<in> set (zminny db)" "z = zm_id r"
      using z first_in unfolding query_zm [OF r b] by fastforce
    then have "z < next_z db" using ok by (auto simp: edit_ok_defs list_all_iff)
    moreover have "snd (sql_query fb (q_link m l z) db) =
        map zl_id (filter (\<lambda>r. zl_m r = m \<and> zl_l r = l \<and> zl_z r = z) (zminny_lira db))"
      using r by (simp add: reads_ok_def sql_query_def q_link_def Let_def)
    ultimately show ?thesis using link_zm_keeps [OF ok] ok first_zero_ids [OF pos(2)]
      by (auto simp: add_known_zm_def Let_def split_beta)
  qed
  have new: "edit_ok (snd (add_new_zm fb m l b zp db))"
    if z: "first_or_zero (snd (sql_query fb (q_zm m b) db)) = 0" for m
  proof -
    have none: "filter (\<lambda>r. zm_m r = m \<and> zm_bukva r = b) (zminny db) = []"
      using z first_zero_ids [OF pos(1)] unfolding query_zm [OF r b] by blast
    let ?db = "snd (sql_exec fb (ins_zm m b) db)"
    have c: "?db = db \<or> ?db = st_effect (ins_zm m b) db"
      using b by (auto simp: sql_exec_def Let_def ins_zm_def)
    show ?thesis
    proof (cases "?db = db")
      case True
      then show ?thesis using z ok by (auto simp: add_new_zm_def Let_def split_beta)
    next
      case False
      then have e: "?db = st_effect (ins_zm m b) db" using c by simp
      have ok': "edit_ok ?db" unfolding e using ok none
        by (auto simp: ins_zm_def edit_ok_defs list_all_iff filter_empty_conv)
      have f: "first_or_zero (snd (sql_query fb (q_zm m b) ?db)) = next_z db"
        unfolding query_zm [OF r b] e by (simp add: ins_zm_def none first_or_zero_def)
      have n: "filter (\<lambda>r. zl_m r = m \<and> zl_l r = l \<and> zl_z r = next_z db) (zminny_lira ?db) = []"
        unfolding e using ok by (auto simp: ins_zm_def edit_ok_defs list_all_iff filter_empty_conv)
      have "next_z db < next_z ?db" unfolding e by (simp add: ins_zm_def)
      from link_zm_keeps [OF ok' this n] show ?thesis using ok'
        by (auto simp: add_new_zm_def Let_def split_beta f)
    qed
  qed
  show ?thesis using known new ok by (auto simp: add_zminna_def Let_def split_beta)
qed

lemma serve_edit_keeps:
  assumes "reads_ok fb" "clean_req rq" "edit_ok db"
  shows "all_ok (\<lambda>p. edit_ok (snd p)) (serve_edit fb now off rq db)"
  using assms
  by (cases rq) (simp_all add: saves_keep save_lira_keeps deletes_keep delete_lira_keeps delete_zm_keeps
      plain_adds_keep add_lira_keeps add_zminna_keeps all_ok_Ok)

section \<open>Texts without a NUL\<close>

lemma clean_nul_free: "clean_value s \<Longrightarrow> nul_free s"
  by (auto simp: clean_value_def nul_free_def NUL_def list_all_iff)

end
