(* ===== verification/LiraEditProps.thy ===== *)
theory LiraEditProps
  imports LiraEditFacts
begin

text \<open>
  What the editing handlers of the LiraCalc server do to its tables: exactly which rows a deletion
  removes, what an addition adds, what stays true however they are mixed, and where the answer does
  not tell what happened.
\<close>

section \<open>Properties\<close>

definition demo_tables :: lira_db where
  "demo_tables = \<lparr>
     mashynes = [\<lparr>ma_id = 1, ma_name = ''m'', ma_m1 = ''20'', ma_m2 = None\<rparr>],
     liry = [\<lparr>li_id = 1, li_m = 1, li_name = ''delen'', li_magaz = 1, li_form = ''i=x'', li_form_zv = ''x=i'', li_br = 4\<rparr>],
     zminny = [\<lparr>zm_id = 1, zm_m = 1, zm_name = None, zm_bukva = CHR ''k'', zm_zn = None, zm_npp_s = 1\<rparr>],
     zminny_npp = [\<lparr>np_id = 1, np_z = 1, np_zn = ''2'', np_umova = ''1=1'', np_coment = ''I''\<rparr>],
     umovy = [\<lparr>um_id = 1, um_l = 1, um_umova = ''c+d>=61''\<rparr>],
     zminny_lira = [\<lparr>zl_id = 1, zl_z = 1, zl_l = 1, zl_m = 1\<rparr>],
     next_m = 2, next_l = 2, next_z = 2, next_n = 2, next_u = 2, next_zl = 2\<rparr>"

definition mute_engine :: firebird where
  "mute_engine = plain_engine\<lparr>fb_refuses := (\<lambda>t db. True)\<rparr>"

lemma demo_tables_ok: "edit_ok demo_tables"
  by (simp add: edit_ok_defs demo_tables_def)

lemma plain_reads: "reads_ok plain_engine"
  by (simp add: reads_ok_def plain_engine_def)

text \<open>The tables the server can come to from given ones, texts with quotes left aside.\<close>

inductive edit_reach :: "firebird \<Rightarrow> lira_db \<Rightarrow> lira_db \<Rightarrow> bool" for fb :: firebird and db :: lira_db where
  here: "edit_reach fb db db"
| next_edit: "edit_reach fb db db1 \<Longrightarrow> clean_req rq \<Longrightarrow> serve_edit fb now off rq db1 = Ok (out, db2) \<Longrightarrow>
    edit_reach fb db db2"

text \<open>C13. However additions, changes and deletions are mixed, refused or lost in a failing commit, a
  machine has at most three lyres, one variable per letter, and one link per lyre and variable;
  identifiers stay below the next one.\<close>

theorem edit_tables_invariant:
  assumes "reads_ok fb" "edit_ok db" "edit_reach fb db db'"
  shows "edit_ok db'"
  using assms(3)
proof (induction rule: edit_reach.induct)
  case here
  show ?case by (rule assms(2))
next
  case (next_edit db1 rq now off out db2)
  from all_okD [OF serve_edit_keeps [OF assms(1) next_edit(2) next_edit.IH] next_edit(3)] show ?case by simp
qed

theorem edit_tables_invariant_witness: "edit_ok (snd (add_zminna plain_engine 1 (CHR ''z'') 1 demo_tables))"
proof (rule edit_tables_invariant [OF plain_reads demo_tables_ok])
  show "edit_reach plain_engine demo_tables (snd (add_zminna plain_engine 1 (CHR ''z'') 1 demo_tables))"
    by (rule next_edit [OF here, where rq = "AddZminna 1 (CHR ''z'') 1" and now = 0 and off = 0
          and out = "fst (add_zminna plain_engine 1 (CHR ''z'') 1 demo_tables)"]) (simp_all add: NUL_def)
qed

text \<open>On an engine that carries out its statements, deleting a machine removes exactly its row,
  its lyres, variables and links, the conditions of its first three lyres and the positions of its
  first ten switches; nothing else changes. The positions of an eleventh switch, and of a variable
  that is no longer a switch, stay behind.\<close>

theorem delete_mash_exact:
  assumes "engine fb"
  shows "\<exists>out. delete_mash fb now off m db = Ok (out, db\<lparr>
     mashynes := filter (\<lambda>r. ma_id r \<noteq> m) (mashynes db),
     liry := filter (\<lambda>r. li_m r \<noteq> m) (liry db),
     zminny := filter (\<lambda>r. zm_m r \<noteq> m) (zminny db),
     zminny_lira := filter (\<lambda>r. zl_m r \<noteq> m) (zminny_lira db),
     umovy := filter (\<lambda>r. um_l r \<notin> set (id_array 3 (map li_id (filter (\<lambda>r. li_m r = m) (liry db))))) (umovy db),
     zminny_npp := filter (\<lambda>r. np_z r \<notin> set (id_array 10
       (map zm_id (filter (\<lambda>r. zm_m r = m \<and> zm_npp_s r \<noteq> 0) (zminny db))))) (zminny_npp db)\<rparr>)"
  using engine.delete_mash_eq [OF assms, of now off m db] by (simp add: q_liry_of_def q_switches_of_def)

theorem delete_mash_exact_witness:
  "\<exists>out. delete_mash plain_engine 0 0 1 demo_tables = Ok (out, demo_tables\<lparr>mashynes := [], liry := [], zminny := [],
     zminny_lira := [], umovy := [], zminny_npp := []\<rparr>)"
  using delete_mash_exact [OF plain.engine_axioms, of 0 0 1 demo_tables] by (simp add: demo_tables_def id_array_def)



text \<open>A new position of a switch gets the next number and, for a name, the Roman numeral of its
  place in the switch; nothing else changes, when no position has the marker for a name.\<close>

theorem add_zm_npp_numbers:
  assumes "engine fb" "list_all (\<lambda>r. np_coment r \<noteq> npp_marker \<and> np_id r \<noteq> next_n db) (zminny_npp db)" "next_n db \<noteq> 0"
  shows "add_zm_npp fb z db = (int_str (next_n db),
    db\<lparr>zminny_npp := zminny_npp db @ [\<lparr>np_id = next_n db, np_z = z, np_zn = ''1'', np_umova = ''1=1'',
         np_coment = to_roman (int (length (filter (\<lambda>r. np_z r = z) (zminny_npp db))) + 1)\<rparr>],
       next_n := next_n db + 1\<rparr>)"
  using engine.add_zm_npp_eq [OF assms] .

theorem add_zm_npp_numbers_witness:
  "fst (add_zm_npp plain_engine 1 demo_tables) = int_str 2"
  using add_zm_npp_numbers [OF plain.engine_axioms, of demo_tables 1]
  by (simp add: demo_tables_def npp_marker_def)

text \<open>The Roman numeral \<open>to_roman\<close> gives a positive number reads back as that number.\<close>

theorem roman_reads_back:
  assumes "0 < n"
  shows "roman_value (to_roman n) = n"
  by (rule roman_value_eq [OF assms])

theorem roman_reads_back_witness: "roman_value (to_roman 1994) = 1994"
  by (rule roman_reads_back) simp

text \<open>A change the engine refuses is reported as saved: the answer is the one of an engine that
  carries it out, while the tables stay as they were. The commit of the refused statement succeeds,
  and its status is the only one looked at.\<close>

theorem refused_change_reported_saved:
  assumes "3 \<le> length t" "length t \<le> 150" "clean_value t" "u \<noteq> 0" "l \<noteq> 0" "\<bar>u\<bar> < 2 ^ 31"
    and "fb_refuses fb (st_text (upd_umova t u)) db" "\<not> fb_commit_err fb (st_text (upd_umova t u)) db"
  shows "\<exists>out. save_usl fb now off u l t db = Ok (out, db) \<and>
    save_usl plain_engine now off u l t db = Ok (out, st_effect (upd_umova t u) db)"
proof -
  have i: "length (int_str u) \<le> 11" using assms(6) by (intro int_str_length) simp_all
  have c: "c_str t = t" by (rule c_str_clean [OF assms(3)])
  have n: "c_str (st_text (upd_umova t u)) = st_text (upd_umova t u)"
    by (rule c_str_nul_free) (simp add: upd_umova_def quoted_def sq_def clean_nul_free [OF assms(3)] NUL_def)
  have "fits 200 (st_text (upd_umova t u)) = Ok ()"
    using i assms(2) by (simp add: fits_def n) (simp add: upd_umova_def quoted_def sq_def)
  then show ?thesis using assms n
    by (simp add: save_usl_def c error_if_def status_info_def status_add_def new_status_def status_success_def
        exec_msg_def sql_exec_def Let_def plain_engine_def answer_status_def status_html_def) (simp add: upd_umova_def)
qed

theorem refused_change_reported_saved_witness:
  "\<exists>out. save_usl mute_engine 0 0 1 1 ''a=b'' demo_tables = Ok (out, demo_tables) \<and>
    save_usl plain_engine 0 0 1 1 ''a=b'' demo_tables = Ok (out, st_effect (upd_umova ''a=b'' 1) demo_tables)"
  by (rule refused_change_reported_saved) (simp_all add: mute_engine_def plain_engine_def NUL_def)

text \<open>A new machine name overflows the hundred characters of the statement exactly when the name
  has more than one character and name and gear list together have more than 55: with the list the
  page sends (35 characters) a name of 21 characters is enough.\<close>

theorem mash_name_overflow:
  assumes "engine fb" "clean_value name" "clean_value m1" "list_all (\<lambda>r. ma_name r \<noteq> name) (mashynes db)"
  shows "post_add_mash fb now off name m1 db = Inl OutOfRange \<longleftrightarrow>
    1 < length name \<and> 55 < length name + length m1"
proof -
  have c: "c_str name = name" "c_str m1 = m1" using assms(2,3) by (simp_all add: c_str_clean)
  have q: "c_str (q_text (q_mash_name name)) = q_text (q_mash_name name)"
    by (rule c_str_nul_free) (simp add: q_mash_name_def quoted_def sq_def clean_nul_free [OF assms(2)] NUL_def)
  have i: "c_str (st_text (ins_mash name m1)) = st_text (ins_mash name m1)"
    by (rule c_str_nul_free) (simp add: ins_mash_def quoted_def sq_def clean_nul_free [OF assms(2)]
      clean_nul_free [OF assms(3)] NUL_def)
  have f1: "fits 100 (q_text (q_mash_name name)) = (if 60 < length name then Inl OutOfRange else Ok ())"
    by (simp add: fits_def q) (simp add: q_mash_name_def quoted_def sq_def)
  have f2: "fits 100 (st_text (ins_mash name m1)) = (if 55 < length name + length m1 then Inl OutOfRange else Ok ())"
    by (simp add: fits_def i) (simp add: ins_mash_def quoted_def sq_def)
  have r: "sql_query fb (q_mash_name name) db = (False, [])"
    using engine.query_eq [OF assms(1)] assms(2,4)
    by (auto simp: q_mash_name_def filter_empty_conv list_all_iff)
  show ?thesis
    by (simp add: post_add_mash_def c f1 f2 r error_if_def status_success_def status_error_def status_add_def
        new_status_def Let_def split_beta split: list.splits)
qed

theorem mash_name_overflow_witness:
  "post_add_mash plain_engine 0 0 ''aaaaaaaaaaaaaaaaaaaaa'' (replicate 35 (CHR ''1'')) demo_tables = Inl OutOfRange"
  using mash_name_overflow [OF plain.engine_axioms, of "''aaaaaaaaaaaaaaaaaaaaa''" "replicate 35 (CHR ''1'')" demo_tables 0 0]
  by (simp add: NUL_def demo_tables_def)

end
