(* ===== verification/LiraDouble.thy ===== *)
theory LiraDouble
  imports HttpText LiraEdit
begin

text \<open>
  Doubles in the texts of the LiraCalc server: \<open>atof\<close> reads them from a request, \<open>%g\<close> and the
  default format of a stream print them. Both are exact: a decimal or hexadecimal text is rounded to the
  nearest double (ties to even), a double is rounded to the digits the format shows. The sign of a zero
  is not kept.
\<close>

section \<open>Reading\<close>

function bitlen :: "int \<Rightarrow> int" where
  "bitlen n = (if n \<le> 0 then 0 else 1 + bitlen (n div 2))"
  by auto
termination by (relation "measure nat") auto

declare bitlen.simps [simp del]

text \<open>\<open>p / q\<close>, at least 0, to the nearest double.\<close>

definition round_dbl :: "bool \<Rightarrow> int \<Rightarrow> int \<Rightarrow> dbl" where
  "round_dbl neg p q =
     (if p = 0 then Fin 0 0
      else let e0 = bitlen p - bitlen q - 53;
               big = (if e0 \<ge> 0 then p \<ge> 2 ^ 53 * (q * 2 ^ nat e0) else p * 2 ^ nat (- e0) \<ge> 2 ^ 53 * q);
               e = max (if big then e0 + 1 else e0) (- 1074);
               m = (if e \<ge> 0 then round_div p (q * 2 ^ nat e) else round_div (p * 2 ^ nat (- e)) q)
           in if e > 971 \<or> (e = 971 \<and> m = 2 ^ 53) then Inf neg else Fin (if neg then - m else m) e)"

definition scaled :: "bool \<Rightarrow> int \<Rightarrow> int \<Rightarrow> int \<Rightarrow> dbl" where
  "scaled neg m base e = (if e \<ge> 0 then round_dbl neg (m * base ^ nat e) 1 else round_dbl neg m (base ^ nat (- e)))"

definition is_xdigit :: "char \<Rightarrow> bool" where
  "is_xdigit c \<longleftrightarrow> is_digit c \<or> (97 \<le> ord c \<and> ord c \<le> 102)"

definition xdigit_val :: "char \<Rightarrow> int" where
  "xdigit_val c = (if is_digit c then int (ord c) - 48 else int (ord c) - 87)"

definition base_val :: "int \<Rightarrow> string \<Rightarrow> int" where
  "base_val base s = foldl (\<lambda>n c. n * base + xdigit_val c) 0 s"

text \<open>The digits before and after the point, and what follows.\<close>

definition mantissa :: "(char \<Rightarrow> bool) \<Rightarrow> string \<Rightarrow> string \<times> string \<times> string" where
  "mantissa dig s = (case dropWhile dig s of
       [] \<Rightarrow> (takeWhile dig s, [], [])
     | c # r \<Rightarrow> if c = CHR ''.'' then (takeWhile dig s, takeWhile dig r, dropWhile dig r) else (takeWhile dig s, [], c # r))"

definition exponent :: "char \<Rightarrow> string \<Rightarrow> int" where
  "exponent x s = (case s of
       [] \<Rightarrow> 0
     | c # r \<Rightarrow>
         (if c \<noteq> x then 0
          else case r of
              [] \<Rightarrow> 0
            | d # r' \<Rightarrow> if d = CHR ''-'' then - int (digits_val 0 r') else if d = CHR ''+'' then int (digits_val 0 r')
                else int (digits_val 0 r)))"

text \<open>\<open>strtod\<close>, on the text in lower case.\<close>

definition strtod :: "string \<Rightarrow> dbl" where
  "strtod s =
     (let t = map tolower (dropWhile is_space s);
          neg = (t \<noteq> [] \<and> hd t = CHR ''-'');
          u = (if t \<noteq> [] \<and> (hd t = CHR ''-'' \<or> hd t = CHR ''+'') then tl t else t);
          (hi, hf, hr) = mantissa is_xdigit (drop 2 u);
          (di, df, dr) = mantissa is_digit u
      in if take 3 u = ''inf'' then Inf neg
         else if take 3 u = ''nan'' then NaN
         else if take 2 u = ''0x'' \<and> hi @ hf \<noteq> []
         then scaled neg (base_val 16 (hi @ hf)) 2 (exponent (CHR ''p'') hr - 4 * int (length hf))
         else if di @ df \<noteq> []
         then scaled neg (base_val 10 (di @ df)) 10 (exponent (CHR ''e'') dr - int (length df))
         else Fin 0 0)"

definition atof :: "string \<Rightarrow> dbl" where
  "atof s = strtod s"

definition atof_ptr :: "string option \<Rightarrow> dbl res" where
  "atof_ptr p = (case p of None \<Rightarrow> Inl NullDeref | Some s \<Rightarrow> Ok (atof s))"

section \<open>Printing\<close>

text \<open>The decimal exponent of \<open>n / d\<close>, both positive; a double is at least \<open>10 ^ -324\<close>.\<close>

fun below_one :: "nat \<Rightarrow> int \<Rightarrow> int \<Rightarrow> int" where
  "below_one 0 n d = 0"
| "below_one (Suc k) n d = (if d \<le> n * 10 then 1 else 1 + below_one k (n * 10) d)"

definition exp10 :: "int \<Rightarrow> int \<Rightarrow> int" where
  "exp10 n d = (if d \<le> n then int (length (int_str (n div d))) - 1 else - below_one 330 n d)"

definition strip_zeros :: "string \<Rightarrow> string" where
  "strip_zeros s = rev (dropWhile (\<lambda>c. c = CHR ''0'') (rev s))"

definition with_point :: "string \<Rightarrow> string \<Rightarrow> string" where
  "with_point a b = (if strip_zeros b = [] then a else a @ ''.'' @ strip_zeros b)"

text \<open>\<open>%.pg\<close> of a positive value: the digits, then the fixed or the exponential form.\<close>

definition fmt_g_pos :: "nat \<Rightarrow> int \<Rightarrow> int \<Rightarrow> string" where
  "fmt_g_pos p n d =
     (let x = exp10 n d;
          k = int p - 1 - x;
          m = (if k \<ge> 0 then round_div (n * 10 ^ nat k) d else round_div n (d * 10 ^ nat (- k)));
          up = (m = 10 ^ p);
          x = (if up then x + 1 else x);
          ds = int_str (if up then 10 ^ (p - 1) else m)
      in if - 4 \<le> x \<and> x < int p
         then (if x \<ge> 0 then with_point (take (nat x + 1) ds) (drop (nat x + 1) ds)
               else with_point ''0'' (replicate (nat (- x) - 1) (CHR ''0'') @ ds))
         else with_point (take 1 ds) (drop 1 ds) @ ''e'' @ (if x < 0 then ''-'' else ''+'') @ pad_zeros 2 (int_str \<bar>x\<bar>))"

definition fmt_g :: "nat \<Rightarrow> dbl \<Rightarrow> string" where
  "fmt_g p v = (case v of
       NaN \<Rightarrow> ''nan''
     | Inf neg \<Rightarrow> (if neg then ''-inf'' else ''inf'')
     | Fin m e \<Rightarrow>
         (if m = 0 then ''0''
          else (if m < 0 then ''-'' else []) @
               (if e \<ge> 0 then fmt_g_pos p (\<bar>m\<bar> * 2 ^ nat e) 1 else fmt_g_pos p \<bar>m\<bar> (2 ^ nat (- e)))))"

end
