(* ===== verification/LiraViews.thy ===== *)
theory LiraViews
  imports LiraDouble
begin

text \<open>
  What the LiraCalc server shows of its tables: the JSON texts of \<open>get_json.cpp\<close> and the dump of
  \<open>db.cpp\<close>. The engine is the parameter of \<open>LiraStore\<close>, with what else the views rely on: the rows
  of a query whose text a client has changed with a quote, the double a value in a column stands for, and
  what is in a variable nothing was stored in. A field that is NULL reads as zero or as an empty text, as
  the client library clears it. A query with an \<open>ORDER BY\<close> yields its rows in that order. Running a
  query again while its rows are open fails, so the loop of \<open>get_json_liry\<close> around its execution ends
  after one turn.
\<close>

section \<open>Queries\<close>

record lira_view =
  lv_fb :: firebird
  lv_pairs :: "string \<Rightarrow> lira_db \<Rightarrow> (string \<times> int) list"
  lv_double :: "string \<Rightarrow> dbl"
  lv_junk :: int

text \<open>The status after the commit, and the rows fetched, \<open>None\<close> when the text is refused.\<close>

definition view_rows :: "lira_view \<Rightarrow> string \<Rightarrow> (lira_db \<Rightarrow> 'a list) \<Rightarrow> lira_db \<Rightarrow> bool \<times> 'a list option" where
  "view_rows v text rows db =
     (fb_commit_err (lv_fb v) text db, if fb_refuses (lv_fb v) text db then None else Some (rows db))"

definition the_rows :: "'a list option \<Rightarrow> 'a list" where
  "the_rows r = (case r of None \<Rightarrow> [] | Some rows \<Rightarrow> rows)"

definition null_text :: "string option \<Rightarrow> string" where
  "null_text t = (case t of None \<Rightarrow> [] | Some s \<Rightarrow> c_str s)"

definition col_double :: "lira_view \<Rightarrow> string option \<Rightarrow> dbl" where
  "col_double v t = (case t of None \<Rightarrow> Fin 0 0 | Some s \<Rightarrow> lv_double v s)"

section \<open>JSON texts\<close>

text \<open>\<open>replace_double_quotes\<close>\<close>

definition replace_double_quotes :: "string \<Rightarrow> string" where
  "replace_double_quotes s = map (\<lambda>c. if c = CHR 0x22 \<or> c = CHR 0x27 then CHR '' '' else c) (c_str s)"

definition jfield :: "string \<Rightarrow> string \<Rightarrow> string" where
  "jfield k v = dq @ k @ dq @ '':'' @ dq @ v @ dq"

fun commas :: "string list \<Rightarrow> string" where
  "commas [] = []"
| "commas [x] = x"
| "commas (x # y # xs) = x @ '','' @ commas (y # xs)"

definition jobj :: "string list \<Rightarrow> string" where
  "jobj fs = ''{'' @ commas fs @ ''}''"

definition npp_json :: "lira_view \<Rightarrow> npp_row \<Rightarrow> string" where
  "npp_json v r = jobj [jfield ''N_ID'' (int_str (np_id r)), jfield ''Z_ID'' (int_str (np_z r)),
     jfield ''ZNACHENNJA'' (fmt_g 6 (lv_double v (np_zn r))), jfield ''UMOVA'' (c_str (np_umova r)),
     jfield ''COMENT'' (c_str (np_coment r))]"

definition q_npp_s_text :: "int \<Rightarrow> string" where
  "q_npp_s_text z = ''SELECT NPP_S FROM ZMINNY WHERE Z_ID = '' @ qint z"

definition q_npp_text :: "int \<Rightarrow> string" where
  "q_npp_text z = ''SELECT * FROM ZMINNY_NPP WHERE Z_ID = '' @ qint z @ '' ORDER BY N_ID ASC''"

definition npp_of :: "int \<Rightarrow> lira_db \<Rightarrow> npp_row list" where
  "npp_of z db = sort_key np_id (filter (\<lambda>r. np_z r = z) (zminny_npp db))"

definition get_json_npp :: "lira_view \<Rightarrow> int \<Rightarrow> int \<Rightarrow> lira_db \<Rightarrow> string" where
  "get_json_npp v z_id l_id db =
     (let (err, rs) = view_rows v (q_npp_s_text z_id) (\<lambda>db. map zm_npp_s (filter (\<lambda>r. zm_id r = z_id) (zminny db))) db;
          npp_s = (case the_rows rs of [] \<Rightarrow> lv_junk v | n # _ \<Rightarrow> n) in
      if err then ''ERROR SELECT * FROM nZMINNY''
      else let (err, rows) = view_rows v (q_npp_text z_id) (npp_of z_id) db;
               text = ''{'' @ dq @ ''z_id'' @ dq @ '':'' @ int_str z_id @ '','' @ dq @ ''l_id'' @ dq @ '':'' @ int_str l_id @
                 '','' @ dq @ ''npp_s'' @ dq @ '':'' @ int_str npp_s @ '','' @ dq @ ''zm_npp'' @ dq @ '':['' @
                 commas (map (npp_json v) (the_rows rows))
           in text @ (if err then ''ERROR SELECT * FROM nZMINNY_NPP'' else '']}''))"

definition mash_json :: "int \<Rightarrow> mash_row \<Rightarrow> string" where
  "mash_json m r = dq @ ''mash'' @ dq @ '':'' @ jobj [jfield ''M_ID'' (int_str m), jfield ''NAME'' (c_str (ma_name r)),
     jfield ''M1'' (c_str (ma_m1 r)), jfield ''M2'' (null_text (ma_m2 r))]"

definition lira_json :: "lira_row \<Rightarrow> string" where
  "lira_json r = jobj [jfield ''L_ID'' (int_str (li_id r)), jfield ''M_ID'' (int_str (li_m r)), jfield ''NAME'' (c_str (li_name r)),
     jfield ''MAGAZ'' (int_str (li_magaz r)), jfield ''FORM'' (c_str (li_form r)), jfield ''FORM_ZV'' (c_str (li_form_zv r)),
     jfield ''BR_KOL_LIR'' (int_str (li_br r))]"

text \<open>A variable of a lyre; the row of a link whose variable is gone has NULL in every column.\<close>

definition null_zm :: zm_row where
  "null_zm = \<lparr>zm_id = 0, zm_m = 0, zm_name = None, zm_bukva = NUL, zm_zn = None, zm_npp_s = 0\<rparr>"

definition zm_of_link :: "lira_db \<Rightarrow> link_row \<Rightarrow> zm_row list" where
  "zm_of_link db k = (let rows = filter (\<lambda>r. zm_id r = zl_z k) (zminny db) in if rows = [] then [null_zm] else rows)"

definition zm_of_lira :: "int \<Rightarrow> lira_db \<Rightarrow> zm_row list" where
  "zm_of_lira l db = concat (map (zm_of_link db) (sort_key zl_id (filter (\<lambda>k. zl_l k = l) (zminny_lira db))))"

definition zm_json :: "lira_view \<Rightarrow> zm_row \<Rightarrow> string" where
  "zm_json v r = jobj [jfield ''Z_ID'' (int_str (zm_id r)), jfield ''NAME'' (replace_double_quotes (null_text (zm_name r))),
     jfield ''NPP_S'' (int_str (zm_npp_s r)), jfield ''ZNACHENNJA'' (fmt_g 6 (col_double v (zm_zn r))),
     jfield ''BUKVA'' [zm_bukva r]]"

definition q_zm_of_lira_text :: "int \<Rightarrow> string" where
  "q_zm_of_lira_text l = ''SELECT Z.Z_ID, Z.NAME, Z.NPP_S, Z.ZNACHENNJA, Z.BUKVA FROM ZMINNY_LIRA ZL LEFT JOIN ZMINNY Z '' @
     ''ON ZL.Z_ID=Z.Z_ID WHERE ZL.L_ID='' @ int_str l @ '' ORDER BY ZL.ZL_ID ASC''"

text \<open>The loop over the lyres: the texts of their variables, and whether it stopped at an error.\<close>

fun zm_arrays :: "lira_view \<Rightarrow> lira_db \<Rightarrow> bool \<Rightarrow> int list \<Rightarrow> bool \<times> string" where
  "zm_arrays v db first [] = (False, [])"
| "zm_arrays v db first (l # ls) =
     (let (err, rows) = view_rows v (q_zm_of_lira_text l) (zm_of_lira l) db;
          text = (if first then [] else '','') @ ''['' @ commas (map (zm_json v) (the_rows rows)) @ '']''
      in if err then (True, text) else let (err, rest) = zm_arrays v db False ls in (err, text @ rest))"

text \<open>
  The identifiers the loop uses: the first two lyres have a variable each, all others share the third,
  which holds the last one.
\<close>

definition zm_keys :: "int list \<Rightarrow> int list" where
  "zm_keys ids = take 2 ids @ map (\<lambda>_. last ids) (drop 2 ids)"

definition liry_of :: "int \<Rightarrow> lira_db \<Rightarrow> lira_row list" where
  "liry_of m db = sort_key li_id (filter (\<lambda>r. li_m r = m) (liry db))"

definition get_json_liry :: "lira_view \<Rightarrow> int \<Rightarrow> lira_db \<Rightarrow> string" where
  "get_json_liry v m_id db =
     (let (err, ms) = view_rows v (''SELECT * FROM MASHYNES WHERE M_ID='' @ int_str m_id)
            (\<lambda>db. filter (\<lambda>r. ma_id r = m_id) (mashynes db)) db in
      if err \<or> ms = Some [] then ''ERROR SELECT * FROM MASHYNES''
      else let (m, r) = (case the_rows ms of
                 [] \<Rightarrow> (lv_junk v, \<lparr>ma_id = lv_junk v, ma_name = [], ma_m1 = [], ma_m2 = None\<rparr>)
               | r # _ \<Rightarrow> (ma_id r, r));
               text = ''{'' @ jfield ''name1'' (c_str (ma_name r)) @ '','' @ mash_json m r @ '','' @ dq @ ''liry'' @ dq @ '':['';
               (err, ls) = view_rows v (''SELECT * FROM LIRY WHERE M_ID='' @ int_str m_id @ '' ORDER BY L_ID ASC'') (liry_of m_id) db;
               text = text @ commas (map lira_json (the_rows ls)) @ ''],''
           in if err then text @ ''ERROR SELECT * FROM LIRY''
              else let (err, arrays) = zm_arrays v db True (zm_keys (map li_id (the_rows ls)));
                       text = text @ dq @ ''liry_zm_arr'' @ dq @ '':['' @ arrays
                   in text @ (if err then ''ERROR SELECT * FROM ZMINNI'' else '']}''))"

definition get_json_zminny :: "lira_view \<Rightarrow> int \<Rightarrow> int \<Rightarrow> lira_db \<Rightarrow> string" where
  "get_json_zminny v z_id zm_poz db =
     (let (err, rs) = view_rows v (''SELECT * FROM ZMINNY WHERE Z_ID = '' @ int_str z_id)
            (\<lambda>db. filter (\<lambda>r. zm_id r = z_id) (zminny db)) db;
          text = (case the_rows rs of
              [] \<Rightarrow> []
            | r # _ \<Rightarrow> ''{'' @ dq @ ''zm'' @ dq @ '':'' @ jobj [jfield ''Z_ID'' (int_str (zm_id r)), jfield ''M_ID'' (int_str (zm_m r)),
                jfield ''NAME'' (null_text (zm_name r)), jfield ''BUKVA'' [zm_bukva r],
                jfield ''ZNACHENNJA'' (fmt_g 6 (col_double v (zm_zn r))), jfield ''NPP_S'' (int_str (zm_npp_s r))] @
                '','' @ dq @ ''zm_poz'' @ dq @ '':'' @ int_str zm_poz @ ''}'')
      in if err then text @ ''ERROR SELECT * FROM ZMINNI'' else text)"

definition um_json :: "um_row \<Rightarrow> string" where
  "um_json r = jobj [jfield ''U_ID'' (int_str (um_id r)), jfield ''L_ID'' (int_str (um_l r)), jfield ''UMOVA'' (c_str (um_umova r))]"

definition umovy_of :: "int \<Rightarrow> lira_db \<Rightarrow> um_row list" where
  "umovy_of l db = sort_key um_id (filter (\<lambda>r. um_l r = l) (umovy db))"

definition get_json_umovy :: "lira_view \<Rightarrow> int \<Rightarrow> lira_db \<Rightarrow> string" where
  "get_json_umovy v l_id db =
     (let (err, rows) = view_rows v (''SELECT * FROM UMOVY WHERE L_ID = '' @ qint l_id @ '' ORDER BY U_ID ASC'') (umovy_of l_id) db;
          text = ''{'' @ dq @ ''l_id'' @ dq @ '':'' @ int_str l_id @ '','' @ dq @ ''umovy'' @ dq @ '':['' @
            commas (map um_json (the_rows rows))
      in text @ (if err then ''ERROR SELECT * FROM UMOVY'' else '']}''))"

section \<open>Searching machines\<close>

text \<open>\<open>LIKE\<close> of SQL: a percent sign stands for any text, an underscore for any character.\<close>

fun like :: "string \<Rightarrow> string \<Rightarrow> bool" where
  "like [] s = (s = [])"
| "like (p # ps) [] = (p = CHR ''%'' \<and> like ps [])"
| "like (p # ps) (c # s) =
     (if p = CHR ''%'' then like ps (c # s) \<or> like (p # ps) s else (p = CHR ''_'' \<or> p = c) \<and> like ps s)"

definition sql_lower :: "string \<Rightarrow> string" where
  "sql_lower s = map tolower s"

definition names_of :: "mash_row list \<Rightarrow> (string \<times> int) list" where
  "names_of rows = map (\<lambda>r. (ma_name r, ma_id r)) (sort_key ma_id rows)"

definition search_text :: "string \<Rightarrow> string" where
  "search_text name = ''SELECT NAME, M_ID FROM MASHYNES WHERE LOWER(NAME) LIKE LOWER('' @ sq @ ''%'' @ name @ ''%'' @ sq @
     '')  ORDER BY M_ID''"

definition search_rows :: "lira_view \<Rightarrow> string \<Rightarrow> lira_db \<Rightarrow> bool \<times> (string \<times> int) list" where
  "search_rows v name db = (let text = search_text name in
     if clean_value name
     then map_prod id the_rows (view_rows v text (\<lambda>db. names_of (filter
       (\<lambda>r. like (sql_lower (''%'' @ name @ ''%'')) (sql_lower (ma_name r))) (mashynes db))) db)
     else (fb_commit_err (lv_fb v) text db, lv_pairs v text db))"

definition all_rows :: "lira_view \<Rightarrow> string \<Rightarrow> lira_db \<Rightarrow> bool \<times> (string \<times> int) list" where
  "all_rows v text db = map_prod id the_rows (view_rows v text (\<lambda>db. names_of (mashynes db)) db)"

definition found_json :: "string \<times> int \<Rightarrow> string" where
  "found_json r = jobj [jfield ''m_id'' (int_str (snd r)), jfield ''name'' (c_str (fst r))]"

definition found_text :: "int \<Rightarrow> (string \<times> int) list \<Rightarrow> string" where
  "found_text flag rows = (if rows = [] then [] else int_str flag @ dq @ '','' @ dq @ ''mash'' @ dq @ '':['' @ commas (map found_json rows))"

text \<open>The name is a pointer that is read before anything else.\<close>

definition get_json_mash :: "lira_view \<Rightarrow> string option \<Rightarrow> lira_db \<Rightarrow> string res" where
  "get_json_mash v name db = (case name of None \<Rightarrow> Inl NullDeref
     | Some name \<Rightarrow> Ok (let name = c_str name; searching = (name \<noteq> []);
         (err1, rows1) = (if searching then search_rows v name db
           else all_rows v ''SELECT NAME, M_ID FROM MASHYNES  ORDER BY M_ID'' db);
         again = (searching \<and> rows1 = []);
         (err2, rows2) = all_rows v ''SELECT NAME, M_ID FROM MASHYNES ORDER BY M_ID'' db;
         text = ''{'' @ dq @ ''find_fl'' @ dq @ '':'' @ dq @
           (if again then found_text 1 rows2 else found_text (if searching then 2 else 0) rows1)
       in text @ (if (if again then err2 else err1) then ''ERROR SELECT * FROM UMOVY'' else '']}'')))"

end
