(* ===== verification/LiraPages.thy ===== *)
theory LiraPages
  imports LiraViews
begin

text \<open>
  The pages of the LiraCalc server: the list of machines (\<open>index.cpp\<close>), the form for a new machine
  (\<open>add.cpp\<close>) and the dump of the data base (\<open>db.cpp\<close>). The fixed parts are written out line by line.
\<close>

section \<open>The page of the machines\<close>

definition page_head :: string where
  \<open>page_head =
     ''<!DOCTYPE html>'' @
     ''<html>'' @
     ''<head>'' @
     ''<title>Lira Calc Config Editor</title>'' @
     ''<meta http-equiv='Content-Type' content='text/html; charset=UTF-8' />'' @
     ''<meta name="viewport" content="width=device-width, initial-scale=1.0">'' @
     ''<link rel="stylesheet" type="text/css" href="css/home_page.css">'' @
     ''<link rel="stylesheet" type="text/css" href="css/default.css">'' @
     ''<link rel="icon" href="css/famfam/gear.png" type="image/png">'' @
     ''</head>'' @
     ''<body>'' @
     ''<div class="main-container">'' @
     ''<nav>'' @
     ''<div class="container">'' @
     ''<ul class="nav-links">'' @
     ''<li><a href="/index.html" id="nav-home" class="logo">MijServak</a></li>'' @
     ''</ul>'' @
     ''</div>'' @
     ''</nav>'' @
     ''<button id="menuToggle">&#9776;</button>'' @
     ''<div class="content">'' @
     ''<div class="sidebar" id="sidebar">''\<close>

definition page_title :: string where
  \<open>page_title =
     ''<h3 class="sidebar-title"><span data-i18n="machines">Mashyny</span>''\<close>

definition page_all :: string where
  \<open>page_all =
     ''<a href='./' class='refresh-link' data-i18n-title='show_all_machines' data-i18n-aria='show_all_machines' title='Pokazaty vsi verstaty' aria-label='Pokazaty vsi verstaty'></a>''\<close>

definition page_search :: string where
  \<open>page_search =
     ''</h3>'' @
     ''<form class="sidebar-search" action="" method="POST">'' @
     ''<input type="text" name="search_m" id="search_m" data-i18n-placeholder="search_by_name" placeholder="Poshuk za nazvoju">'' @
     ''<input type="submit" data-i18n-value="search_button" value="Znajty">'' @
     ''</form>'' @
     ''<ul class="links-list" id="links-list">''\<close>

definition page_rest :: string where
  \<open>page_rest =
     ''<li><a href='?index=add-mash' class='icon add_icon add-mash' tabindex='-1' data-i18n='add_machine'>Add new mashin</a></li>'' @
     ''</ul>'' @
     ''</div>'' @
     ''<div class="main-content">'' @
     ''<div class='pole_opysu' id='mashyn-details'></div>'' @
     ''<div class='pole_instr' id='instr_coment'></div>'' @
     ''</div>'' @
     ''</div>'' @
     ''<footer class="thin-footer">'' @
     ''<a href='FireBird' class='footer-link icon user_icon mysqlviev' data-i18n='view_db'>perehljad BD</a>'' @
     ''<p><a href='https://github.com/viteck1048/javaIoTserver/tree/main/servak_na_linux/server' style='color: inherit; text-decoration: none;' data-i18n='footer_text'>&copy; 2026 MijServak. Vsi prava zahyshcheno.</a></p>'' @
     ''<a href='#' class='footer-console' id='lc-console-btn'>'' @
     ''<span class='console-mark' id='lc-console-mark'></span><span data-i18n='console'>konsol</span>'' @
     ''</a>'' @
     ''</footer>'' @
     ''<div id='lc-console' role='dialog' data-i18n-aria='console_title' aria-label='Konsol zvitiv'>'' @
     ''<div id='lc-console-bar'>'' @
     ''<span data-i18n='console'>Konsol</span>'' @
     ''<span class='lc-hint' data-i18n='console_hint'>tap '' @ [CHR 0xE2, CHR 0x80, CHR 0x94] @ '' zhornuty</span>'' @
     ''</div>'' @
     ''<div id='instr_zvity'></div>'' @
     ''</div>'' @
     ''</div>'' @
     ''<script type="text/javascript" src="js/jquery-2.1.3.js"></script>'' @
     ''<script type="text/javascript" src="./js/translations.js"></script>'' @
     ''<script type="text/javascript" src="./js/translate.js"></script>'' @
     ''<script type="text/javascript" src="js/application.js"></script>'' @
     ''<script type="text/javascript" src="./js/edit.js"></script>'' @
     ''<script type="text/javascript" src="./js/view.js"></script>'' @
     ''<script type="text/javascript" src="./js/coment.js"></script>'' @
     ''<script type="text/javascript" src="./js/validacija.js"></script>''\<close>

definition page_tail :: string where
  \<open>page_tail =
     ''<script>'' @
     ''var instr_zvity_mem = localStorage.getItem('instr_zvity');'' @
     ''if(instr_zvity_mem != null && instr_zvity_mem.length > 20000) {'' @
     ''instr_zvity_mem = instr_zvity_mem.slice(-20000);'' @
     ''var index = instr_zvity_mem.indexOf('<p');'' @
     ''instr_zvity_mem = instr_zvity_mem.slice(index);'' @
     ''localStorage.setItem('instr_zvity', instr_zvity_mem);'' @
     ''}'' @
     ''$('#instr_zvity').html(instr_zvity_mem || '' @ sq @ sq @ '');'' @
     ''$('#instr_zvity').scrollTop($('#instr_zvity').prop('scrollHeight'));'' @
     ''lcUpdateConsoleMark();'' @
     ''</script>'' @
     ''</body>'' @
     ''</html>''\<close>


text \<open>An entry of the list; the name is put into the link and the text as it is.\<close>

definition list_entry :: "string \<times> int \<Rightarrow> string" where
  \<open>list_entry r = (let name = c_str (fst r); m = int_str (snd r) in
     ''<li><a href='?m_id='' @ m @ ''&name='' @ name @ ''&json=liry' class='mashyn-show-details' id='menu-mashyn-show-details-id'' @
     m @ sq @ ''>'' @ name @ ''</a></li>'')\<close>

definition open_machine :: "int \<Rightarrow> string" where
  \<open>open_machine m_id =
     ''<script type='text/javascript'>'' @
     ''$(document).ready(function() {'' @
     ''var a = document.getElementById('menu-mashyn-show-details-id'' @ int_str m_id @ sq @ '');'' @
     ''if(a) { markActiveMashyn(a.getAttribute('href')); edit_mash(a.getAttribute('href')); }'' @
     ''});'' @
     ''</script>''\<close>

text \<open>The first query, the second one when the first found nothing, and which of them was shown.\<close>

definition index_rows :: "lira_view \<Rightarrow> bool \<Rightarrow> string \<Rightarrow> lira_db \<Rightarrow> bool \<times> bool \<times> (string \<times> int) list" where
  "index_rows v post name db =
     (let (err1, rows1) = (if post then search_rows v name db else all_rows v ''SELECT NAME, M_ID FROM MASHYNES  ORDER BY M_ID'' db)
      in if rows1 \<noteq> [] then (err1, True, rows1)
         else let (err2, rows2) = all_rows v ''SELECT NAME, M_ID FROM MASHYNES ORDER BY M_ID'' db in (err2, False, rows2))"

definition index_cpp_get :: "lira_view \<Rightarrow> bool \<Rightarrow> int \<Rightarrow> string \<Rightarrow> lira_db \<Rightarrow> string" where
  "index_cpp_get v post m_id name db =
     (let (err, found, rows) = index_rows v post name db
      in if err then page_head @ lf @ lf @ ''ERRORE'' @ lf @ lf
         else page_head @ page_title @ (if post \<and> found then page_all else []) @ page_search @ concat (map list_entry rows) @
              page_rest @ (if \<not> post \<and> m_id \<noteq> -1 then open_machine m_id else []) @ page_tail)"

section \<open>The form for a new machine\<close>

definition get_add_mash :: string where
  \<open>get_add_mash =
     ''<h1 class='icon add_icon' data-i18n='new_machine'>novyj verstat</h1>'' @
     ''<form id='add-mash-form' action='add-mash' enctype='multipart/form-data' method='post'>'' @
     ''<input type='hidden' name='mash[M_ID]' value='' @ sq @ sq @ ''/>'' @
     ''<p><label data-i18n='machine_name'>im'ja verstata</label><input name='mash[NAME]' class='txt medium fc_bl_mash_name' value='' @ sq @ sq @ ''/></p>'' @
     ''<p style='display: none;'><label>magaz_1</label><input name='mash[M1]' class='txt dovhe input_non_enter fc_bl_mash_m1' value='11 22 33 44 55 66 77 88 99 111 222'/></p>'' @
     ''<p style='display: none;'><label>magaz_2</label><input name='mash[M2]' class='txt dovhe input_non_enter fc_bl_mash_m2' value='' @ sq @ sq @ ''/></p>'' @
     ''<p><input type='submit' class='save-new-mash' data-i18n-value='save' value='Save'/></p>'' @
     ''</form>''\<close>

section \<open>The dump of the tables\<close>

definition eq_line :: string where
  "eq_line = replicate 201 (CHR ''='')"

definition dash_line :: string where
  "dash_line = replicate 201 (CHR ''-'')"

text \<open>\<open>%w.ws\<close> and \<open>%wd\<close>\<close>

definition right :: "nat \<Rightarrow> string \<Rightarrow> string" where
  "right w s = replicate (w - length s) (CHR '' '') @ s"

definition fmt_s :: "nat \<Rightarrow> string \<Rightarrow> string" where
  "fmt_s w s = right w (take w (c_str s))"

definition fmt_d :: "nat \<Rightarrow> int \<Rightarrow> string" where
  "fmt_d w i = right w (int_str i)"

definition bar :: string where
  "bar = '' ||  ''"

definition dump :: "string \<Rightarrow> string \<Rightarrow> string list \<Rightarrow> string" where
  "dump title head rows = lf @ eq_line @ lf @ title @ lf @ head @ lf @ dash_line @ concat (map (\<lambda>r. lf @ r) rows) @
     lf @ eq_line @ lf @ lf"

text \<open>Nothing is shown of a table whose query is refused. The status after the commit changes nothing.\<close>

definition dump_of :: "string \<Rightarrow> string \<Rightarrow> ('a \<Rightarrow> string) \<Rightarrow> bool \<times> 'a list option \<Rightarrow> string" where
  "dump_of title head row q = (case snd q of None \<Rightarrow> [] | Some rows \<Rightarrow> dump title head (map row rows))"

definition mash_line :: "mash_row \<Rightarrow> string" where
  "mash_line r = fmt_d 10 (ma_id r) @ bar @ fmt_s 30 (ma_name r) @ bar @ fmt_s 70 (ma_m1 r) @ bar @ fmt_s 70 (null_text (ma_m2 r))"

definition select_mash :: "lira_view \<Rightarrow> lira_db \<Rightarrow> string" where
  "select_mash v db = dump_of ''MASHYNES''
     (fmt_s 10 ''M_ID'' @ bar @ fmt_s 30 ''NAME'' @ bar @ fmt_s 70 ''M1'' @ bar @ fmt_s 70 ''M2'') mash_line
     (view_rows v ''SELECT * FROM MASHYNES ORDER BY M_ID'' (\<lambda>db. sort_key ma_id (mashynes db)) db)"

definition lira_line :: "lira_row \<Rightarrow> string" where
  "lira_line r = fmt_d 8 (li_id r) @ bar @ fmt_d 8 (li_m r) @ bar @ fmt_d 3 (li_magaz r) @ bar @ fmt_s 55 (li_form r) @ bar @
     fmt_s 55 (li_form_zv r) @ bar @ fmt_d 3 (li_br r) @ bar @ replicate 8 (CHR '' '') @ c_str (li_name r)"

definition select_liry :: "lira_view \<Rightarrow> lira_db \<Rightarrow> string" where
  "select_liry v db = dump_of ''LIRY''
     (fmt_s 8 ''L_ID'' @ bar @ fmt_s 8 ''M_ID'' @ bar @ fmt_s 3 ''MAGAZ'' @ bar @ fmt_s 55 ''FORM'' @ bar @ fmt_s 55 ''FORM_ZV'' @ bar @
      fmt_s 3 ''BR_KOL_LIR'' @ bar @ fmt_s 30 ''NAME'') lira_line
     (view_rows v ''SELECT * FROM LIRY ORDER BY L_ID'' (\<lambda>db. sort_key li_id (liry db)) db)"

definition zm_line :: "lira_view \<Rightarrow> zm_row \<Rightarrow> string" where
  "zm_line v r = fmt_d 8 (zm_id r) @ bar @ fmt_d 8 (zm_m r) @ bar @ c_str (replicate 4 (CHR '' '') @ [zm_bukva r] @ bar) @
     right 20 (fmt_g 16 (col_double v (zm_zn r))) @ bar @ fmt_d 6 (zm_npp_s r) @ bar @ replicate 25 (CHR '' '') @ null_text (zm_name r)"

definition select_zminny :: "lira_view \<Rightarrow> lira_db \<Rightarrow> string" where
  "select_zminny v db = dump_of ''ZMINNY''
     (fmt_s 8 ''Z_ID'' @ bar @ fmt_s 8 ''M_ID'' @ bar @ ''BUKVA'' @ bar @ fmt_s 20 ''ZNACHENNJA'' @ bar @ fmt_s 6 ''NPP_S'' @ bar @
      fmt_s 30 ''NAME'') (zm_line v)
     (view_rows v ''SELECT * FROM ZMINNY ORDER BY Z_ID'' (\<lambda>db. sort_key zm_id (zminny db)) db)"

definition npp_line :: "lira_view \<Rightarrow> npp_row \<Rightarrow> string" where
  "npp_line v r = fmt_d 8 (np_id r) @ bar @ fmt_d 8 (np_z r) @ bar @ right 20 (fmt_g 16 (lv_double v (np_zn r))) @ bar @
     fmt_s 30 (np_umova r) @ bar @ replicate 25 (CHR '' '') @ c_str (np_coment r)"

definition select_zminny_npp :: "lira_view \<Rightarrow> lira_db \<Rightarrow> string" where
  "select_zminny_npp v db = dump_of ''ZMINNY_NPP''
     (fmt_s 8 ''N_ID'' @ bar @ fmt_s 8 ''Z_ID'' @ bar @ fmt_s 20 ''ZNACHENNJA'' @ bar @ fmt_s 30 ''UMOVA'' @ bar @ fmt_s 30 ''COMENT'')
     (npp_line v)
     (view_rows v ''SELECT * FROM ZMINNY_NPP ORDER BY N_ID'' (\<lambda>db. sort_key np_id (zminny_npp db)) db)"

definition um_line :: "um_row \<Rightarrow> string" where
  "um_line r = fmt_d 8 (um_id r) @ bar @ fmt_d 8 (um_l r) @ bar @ fmt_s 100 (um_umova r)"

definition select_umovy :: "lira_view \<Rightarrow> lira_db \<Rightarrow> string" where
  "select_umovy v db = dump_of ''UMOVY'' (fmt_s 8 ''U_ID'' @ bar @ fmt_s 8 ''L_ID'' @ bar @ fmt_s 100 ''UMOVA'') um_line
     (view_rows v ''SELECT * FROM UMOVY ORDER BY U_ID'' (\<lambda>db. sort_key um_id (umovy db)) db)"

definition link_line :: "link_row \<Rightarrow> string" where
  "link_line r = fmt_d 8 (zl_id r) @ bar @ fmt_d 8 (zl_z r) @ bar @ fmt_d 8 (zl_l r) @ bar @ fmt_d 8 (zl_m r)"

definition select_zminny_lira :: "lira_view \<Rightarrow> lira_db \<Rightarrow> string" where
  "select_zminny_lira v db = dump_of ''ZMINNY_LIRA''
     (fmt_s 8 ''ZL_ID'' @ bar @ fmt_s 8 ''Z_ID'' @ bar @ fmt_s 8 ''L_ID'' @ bar @ fmt_s 8 ''M_ID'') link_line
     (view_rows v ''SELECT * FROM ZMINNY_LIRA ORDER BY ZL_ID'' (\<lambda>db. sort_key zl_id (zminny_lira db)) db)"

definition request_db :: "lira_view \<Rightarrow> lira_db \<Rightarrow> string" where
  \<open>request_db v db =
     ''<!DOCTYPE html>'' @ ''<html>'' @ ''<head>'' @ ''<title>db</title>'' @
     ''<meta http-equiv='Content-Type' content='text/html; charset=UTF-8' />'' @
     ''<meta name="viewport" content="width=device-width, initial-scale=1.0">'' @
     ''<link rel="icon" href="css/famfam/gear.png" type="image/png">'' @ ''</head>'' @ ''<body>'' @
     ''<pre style='margin-left: 5%;'>'' @
     select_mash v db @ select_liry v db @ select_zminny v db @ select_zminny_npp v db @ select_umovy v db @
     select_zminny_lira v db @ ''</pre>'' @ ''</body></html>''\<close>

end
