(* ===== verification/LiraConfig.thy ===== *)
theory LiraConfig
  imports LiraViews
begin

text \<open>
  The configuration file of a machine: \<open>dwnldcnf.cpp\<close> of \<open>servak_na_linux/server\<close>. It asks
  \<open>get_json.cpp\<close> for the tables as JSON, parses the text again and writes lines in Windows-1251. The
  JSON library (\<open>json.hpp\<close>, nlohmann) is not part of the sources: its parser is the argument \<open>parse\<close>,
  \<open>None\<close> for a text that is not JSON. The server is built with \<open>JSON_NOEXCEPTION\<close>, so a parse error or
  a value of another type than asked for ends the process: the fault \<open>Uncaught\<close>.
\<close>

section \<open>UTF-8 to Windows-1251\<close>

definition special_letters :: "(nat \<times> nat) list" where
  "special_letters = [(0x0406, 0xB2), (0x0456, 0xB3), (0x0407, 0xAF), (0x0457, 0xBF), (0x0404, 0xAA), (0x0454, 0xBA),
     (0x0490, 0xA5), (0x0491, 0xB4), (0x0402, 0x80), (0x0403, 0x81), (0x0453, 0x83), (0x0409, 0x8A), (0x040A, 0x8C),
     (0x040C, 0x8D), (0x040B, 0x8E), (0x040F, 0x8F), (0x0452, 0x90), (0x0459, 0x9A), (0x045A, 0x9C), (0x045C, 0x9D),
     (0x045B, 0x9E), (0x045F, 0x9F), (0x040E, 0xA1), (0x045E, 0xA2), (0x0408, 0xA3), (0x00B5, 0xB5), (0x0458, 0xBC),
     (0x0405, 0xBD), (0x0455, 0xBE), (0x042B, 63), (0x044B, 63)]"

definition cp_byte :: "nat \<Rightarrow> nat" where
  "cp_byte u = (case map_of special_letters u of Some b \<Rightarrow> b
     | None \<Rightarrow> if 0x0410 \<le> u \<and> u \<le> 0x044F then u - 0x0350 else 63)"

fun utf_bytes :: "string \<Rightarrow> string" where
  "utf_bytes [] = []"
| "utf_bytes [c] = [if ord c < 128 then c else CHR ''?'']"
| "utf_bytes (c # d # s) =
     (if ord c < 128 then c # utf_bytes (d # s)
      else if ord c div 32 = 6 then char_of (cp_byte ((ord c mod 32) * 64 + ord d mod 64)) # utf_bytes s
      else CHR ''?'' # utf_bytes (d # s))"

definition utf_to_cp1251 :: "string \<Rightarrow> string" where
  "utf_to_cp1251 txt = utf_bytes (c_str txt)"

section \<open>JSON values\<close>

datatype json = JNull | JNum int | JStr string | JArr "json list" | JObj "(string \<times> json) list"

definition json_error :: fault where
  "json_error = Uncaught ''json''"

text \<open>\<open>j[k]\<close> and \<open>get<std::string>().c_str()\<close>.\<close>

definition jget :: "json \<Rightarrow> string \<Rightarrow> json res" where
  "jget j k = (case j of JObj kvs \<Rightarrow> (case map_of kvs k of Some x \<Rightarrow> Ok x | None \<Rightarrow> Inl json_error) | _ \<Rightarrow> Inl json_error)"

definition jstring :: "json \<Rightarrow> string \<Rightarrow> string res" where
  "jstring j k = bind_res (jget j k) (\<lambda>x. case x of JStr s \<Rightarrow> Ok (c_str s) | _ \<Rightarrow> Inl json_error)"

text \<open>What a range loop visits, and the \<open>i\<close>-th element of an array; behind its end an array yields null.\<close>

definition jitems :: "json \<Rightarrow> json list" where
  "jitems j = (case j of JArr xs \<Rightarrow> xs | JObj kvs \<Rightarrow> map snd kvs | JNull \<Rightarrow> [] | _ \<Rightarrow> [j])"

definition jnth :: "json \<Rightarrow> nat \<Rightarrow> json res" where
  "jnth j i = (case j of JArr xs \<Rightarrow> Ok (if i < length xs then xs ! i else JNull) | JNull \<Rightarrow> Ok JNull | _ \<Rightarrow> Inl json_error)"

section \<open>The file\<close>

text \<open>An answer so far: the text, and whether it is the last one (a \<open>return\<close> inside the loops).\<close>

datatype reply = Going string | Done string

fun after :: "reply \<Rightarrow> (string \<Rightarrow> reply res) \<Rightarrow> reply res" where
  "after (Done t) f = Ok (Done t)"
| "after (Going t) f = f t"

fun for_each :: "('a \<Rightarrow> string \<Rightarrow> reply res) \<Rightarrow> 'a list \<Rightarrow> string \<Rightarrow> reply res" where
  "for_each f [] t = Ok (Going t)"
| "for_each f (x # xs) t = bind_res (f x t) (\<lambda>r. after r (for_each f xs))"

text \<open>The test of a text of \<open>get_json.cpp\<close>: it ends in a brace.\<close>

definition ends_ok :: "string \<Rightarrow> bool" where
  "ends_ok t \<longleftrightarrow> t \<noteq> [] \<and> last t = CHR ''}''"

text \<open>
  \<open>dwnldcnf_probnick\<close>: the text answered instead of a file. Its Cyrillic lines are UTF-8 in the source.
\<close>

definition probe_lines :: "nat list list" where
  "probe_lines = [
     [0xD0, 0x86, 32, 0xD1, 0x96, 32, 0xD0, 0x87, 32, 0xD1, 0x97, 32, 0xD0, 0x84, 32, 0xD1, 0x94, 32, 0xD2,
     0x90, 32, 0xD2, 0x91, 32],
     [0xD0, 0xA6, 0xD0, 0xB5, 0xD0, 0xB9, 32, 0xD1, 0x82, 0xD0, 0xB5, 0xD1, 0x81, 0xD1, 0x82, 0xD0, 0xBE, 0xD0,
     0xB2, 0xD0, 0xB8, 0xD0, 0xB9, 32, 0xD0, 0xB7, 0xD0, 0xB3, 0xD0, 0xB5, 0xD0, 0xBD, 0xD0, 0xB5, 0xD1, 0x80,
     0xD0, 0xBE, 0xD0, 0xB2, 0xD0, 0xB0, 0xD0, 0xBD, 0xD0, 0xB8, 0xD0, 0xB9, 32, 0xD1, 0x84, 0xD0, 0xB0, 0xD0,
     0xB9, 0xD0, 0xBB],
     [0xD0, 0x9F, 0xD0, 0xBE, 0xD0, 0xBA, 0xD0, 0xBB, 0xD0, 0xB8, 0xD0, 0xBA, 0xD0, 0xB0, 0xD0, 0xBD, 0xD0,
     0xB8, 0xD0, 0xB9, 32, 0xD0, 0xBF, 0xD0, 0xB5, 0xD1, 0x80, 0xD0, 0xB5, 0xD0, 0xB2, 0xD1, 0x96, 0xD1, 0x80,
     0xD0, 0xB8, 0xD1, 0x82, 0xD0, 0xB8, 32],
     [0xD0, 0xA2, 0xD1, 0x80, 0xD0, 0xB0, 0xD0, 0xBD, 0xD1, 0x81, 0xD0, 0xBB, 0xD1, 0x8F, 0xD1, 0x86, 0xD1,
     0x96, 0xD1, 0x8E, 32, 0xD1, 0x82, 0xD0, 0xB5, 0xD0, 0xBA, 0xD1, 0x81, 0xD1, 0x82, 0xD1, 0x83, 32, 0xD0,
     0xB7, 32, 85, 84, 70, 45, 56, 32, 0xD0, 0xBD, 0xD0, 0xB0, 32, 87, 105, 110, 67, 80, 49, 50, 53, 49],
     [0xD0, 0x86, 32, 0xD0, 0xBF, 0xD0, 0xB5, 0xD1, 0x80, 0xD0, 0xB5, 0xD0, 0xB4, 0xD0, 0xB0, 0xD1, 0x87, 0xD1,
     0x83, 32, 0xD1, 0x97, 0xD1, 0x97, 32, 0xD0, 0xBA, 0xD0, 0xBE, 0xD1, 0x80, 0xD0, 0xB8, 0xD1, 0x81, 0xD1,
     0x82, 0xD1, 0x83, 0xD0, 0xB2, 0xD0, 0xB0, 0xD1, 0x87, 0xD1, 0x8E],
     [0xD0, 0xA7, 0xD0, 0xB5, 0xD1, 0x80, 0xD0, 0xB5, 0xD0, 0xB7, 32, 72, 84, 84, 80, 83, 46]]"

definition dwnldcnf_probnick :: "int \<Rightarrow> string" where
  "dwnldcnf_probnick m_id = ''qwertyqwertyqwerty'' @ crlf @ map char_of [0xc1, 0xf0, 0xee, 0xe9 :: nat] @ crlf @
     ''  '' @ int_str m_id @ ''  '' @ crlf @ concat (map (\<lambda>l. utf_to_cp1251 (map char_of l) @ crlf) probe_lines) @
     utf_to_cp1251 ''use CP1251'' @ crlf @ crlf @ ''lkjhgfdsaoiuytrewq''"

text \<open>
  The parts of \<open>dwnldcnf\<close>; \<open>parse\<close> is the JSON parser.
\<close>

definition npp_entry :: "json \<Rightarrow> json \<Rightarrow> string \<Rightarrow> reply res" where
  "npp_entry zm n t =
     bind_res (jstring zm ''BUKVA'') (\<lambda>b. bind_res (jstring n ''ZNACHENNJA'') (\<lambda>z. bind_res (jstring n ''UMOVA'') (\<lambda>u.
     bind_res (jstring n ''COMENT'') (\<lambda>c.
     Ok (Going (t @ b @ ''='' @ z @ ''?'' @ u @ ''?'' @ dq @ utf_to_cp1251 c @ dq @ crlf))))))"

definition zm_entry ::
  "lira_view \<Rightarrow> (string \<Rightarrow> json option) \<Rightarrow> lira_db \<Rightarrow> int \<Rightarrow> json \<Rightarrow> string \<Rightarrow> reply res" where
  "zm_entry v parse db l_id zm t =
     bind_res (jstring zm ''NPP_S'') (\<lambda>s. bind_res (jstring zm ''BUKVA'') (\<lambda>b. bind_res (jstring zm ''NAME'') (\<lambda>name.
     if atoi s = 0 then
       bind_res (jstring zm ''ZNACHENNJA'') (\<lambda>z.
       Ok (Going (t @ b @ dq @ utf_to_cp1251 name @ dq @ crlf @ (if \<not> dbl_zero (atof z) then b @ ''='' @ z @ crlf else []))))
     else
       bind_res (jstring zm ''Z_ID'') (\<lambda>z.
       let t = t @ b @ ''!'' @ (if atoi s = 2 then ''!'' else []) @ dq @ utf_to_cp1251 name @ dq @ crlf;
           tmp = get_json_npp v (atoi z) l_id db
       in if \<not> ends_ok tmp then Ok (Done (dwnldcnf_probnick 222))
          else case parse tmp of None \<Rightarrow> Inl json_error
            | Some jn \<Rightarrow> bind_res (jget jn ''zm_npp'') (\<lambda>ns. for_each (npp_entry zm) (jitems ns) t)))))"

definition gears_line :: "int \<Rightarrow> string" where
  "gears_line n = (if n = 2 then ''AB'' @ crlf else if n = 3 then ''ABC'' @ crlf else if n = 4 then ''ABCD'' @ crlf else [])"

definition um_entry :: "json \<Rightarrow> string \<Rightarrow> reply res" where
  "um_entry u t = bind_res (jstring u ''UMOVA'') (\<lambda>x. Ok (Going (t @ x @ crlf)))"

definition lira_entry ::
  "lira_view \<Rightarrow> (string \<Rightarrow> json option) \<Rightarrow> lira_db \<Rightarrow> json \<Rightarrow> nat \<times> json \<Rightarrow> string \<Rightarrow> reply res" where
  "lira_entry v parse db j il t = (let (i, lir) = il in
     bind_res (jstring lir ''NAME'') (\<lambda>name. bind_res (jstring lir ''MAGAZ'') (\<lambda>m. bind_res (jstring lir ''FORM'') (\<lambda>f.
     bind_res (jstring lir ''FORM_ZV'') (\<lambda>fz. bind_res (jstring lir ''L_ID'') (\<lambda>l. bind_res (jget j ''liry_zm_arr'') (\<lambda>arr.
     bind_res (jnth arr i) (\<lambda>zms.
     bind_res (for_each (zm_entry v parse db (atoi l)) (jitems zms)
       (t @ ''L'' @ int_str (int i + 1) @ '' '' @ dq @ utf_to_cp1251 name @ dq @ '' M'' @ m @ crlf @ f @ crlf @ fz @ crlf)) (\<lambda>r.
     after r (\<lambda>t. bind_res (jstring lir ''BR_KOL_LIR'') (\<lambda>br.
       let t = t @ gears_line (atoi br); tmp = get_json_umovy v (atoi l) db
       in if \<not> ends_ok tmp then Ok (Done (dwnldcnf_probnick 333))
          else case parse tmp of None \<Rightarrow> Inl json_error
            | Some ju \<Rightarrow> bind_res (jget ju ''umovy'') (\<lambda>us. for_each um_entry (jitems us) t))))))))))))"

definition config_head :: "json \<Rightarrow> string res" where
  "config_head j =
     bind_res (jstring j ''name1'') (\<lambda>name. bind_res (jget j ''mash'') (\<lambda>mash. bind_res (jstring mash ''M1'') (\<lambda>m1.
     bind_res (jstring mash ''M2'') (\<lambda>m2.
     Ok (''//  '' @ name @ crlf @ m1 @ crlf @ (if atoi m2 \<noteq> 0 then ''M2  '' @ m2 @ crlf else []))))))"

definition dwnldcnf :: "lira_view \<Rightarrow> (string \<Rightarrow> json option) \<Rightarrow> int \<Rightarrow> lira_db \<Rightarrow> string res" where
  "dwnldcnf v parse m_id db =
     (let tmp = get_json_liry v m_id db
      in if \<not> ends_ok tmp then Ok (dwnldcnf_probnick 111)
         else case parse tmp of None \<Rightarrow> Inl json_error
           | Some j \<Rightarrow>
               bind_res (config_head j) (\<lambda>t.
               bind_res (jget j ''liry'') (\<lambda>ls.
               bind_res (for_each (lira_entry v parse db j) (enumerate 0 (jitems ls)) t) (\<lambda>r.
               Ok (case r of Done t \<Rightarrow> t | Going t \<Rightarrow> t @ ''L0'' @ crlf)))))"

end
