(* ===== verification/LiraServer.thy ===== *)
theory LiraServer
  imports LiraRequest LiraPages LiraConfig LiraEditFacts
begin

text \<open>
  The LiraCalc server: answers, routing and the thread of a connection (\<open>send_kap\<close>, \<open>send_err\<close>,
  \<open>obrobka_post\<close>, \<open>obrobka_delete\<close>, \<open>obrobka_put\<close>, \<open>send_res\<close> and \<open>_reqest_thread\<close> of
  \<open>servak_na_linux/server/KM_server.cpp\<close>). A request is routed to an action, the action is run on the
  tables and the list of relays, and its text is sent.

  A parameter a handler needs and the request lacks is a null pointer: the fault \<open>NullDeref\<close> (passing it
  to \<open>%s\<close> counts as such). What is sent is what is handed to the socket; \<open>printf\<close> is left out. The
  date line has more characters than its array (see \<open>LiraServerEdges\<close>); its text is the one written.
\<close>

section \<open>World and state\<close>

text \<open>Files by name, with the bytes that can be read from them (none from a directory), clock, engine, JSON parser.\<close>

record lira_world =
  lw_now :: int
  lw_off :: int
  lw_view :: lira_view
  lw_parse :: "string \<Rightarrow> json option"
  lw_files :: "string \<Rightarrow> string option"

record lira_state =
  ls_db :: lira_db
  ls_rel :: lira_relay

section \<open>Answers\<close>

definition date_line :: "int \<Rightarrow> string" where
  "date_line now = (let t = lira_update now 0 in
     lira_daytoweek 3 [] t @ '', '' @ lira_day 2 t @ '' '' @ lira_mon 3 [] t @ '' '' @ lira_ear 4 t @ '' '' @
     lira_hor 2 t @ '':'' @ lira_min t @ '':'' @ lira_sec t @ '' GMT'' @ crlf)"

definition date_buffer :: nat where
  "date_buffer = 30"

definition content_type :: "int \<Rightarrow> string \<Rightarrow> string" where
  "content_type typ typstr =
     (if typ = 1 then ''Content-Type: text/html; charset=UTF-8'' @ crlf
      else if typ = 2 then ''Content-Type: text/plain; charset=UTF-8'' @ crlf
      else if typ = 3 then ''Content-Type: text/json; charset=UTF-8'' @ crlf
      else if typ = 4 then ''Content-Type: application/octet-stream'' @ crlf
      else if typ = 5 then ''Content-Type: text/plain; charset=windows-1251'' @ crlf
      else if typ = 0 then ''Content-Type: '' @ typstr @ crlf
      else [])"

definition lira_send_kap :: "int \<Rightarrow> int \<Rightarrow> int \<Rightarrow> int \<Rightarrow> string \<Rightarrow> string" where
  "lira_send_kap now cod len typ typstr =
     status_line cod @
     (if cod = 200 then ''Content-Length: '' @ int_str len @ crlf @ content_type typ typstr else []) @
     ''Cache-Control: no-cache'' @ crlf @ ''Server: My_Kursach_rskk'' @ crlf @ ''Date: '' @ date_line now @
     (if cod \<noteq> 200 then ''Connection: Closed'' @ crlf else []) @ crlf"

definition joke :: string where
  "joke = ''prykolno, yak ce robytsja''"

definition lira_send_err :: "int \<Rightarrow> int \<Rightarrow> string" where
  "lira_send_err now cod = (if cod > 1000 \<and> cod < 1999 then lira_send_kap now (cod - 1000) (int (length joke)) 0 [] @ joke
     else lira_send_kap now cod 0 0 [])"

section \<open>Actions\<close>

datatype lira_action =
    Ignore
  | Edit edit_req
  | AddMashOnly string
  | SaveMashOnly int string string
  | Poll int string string int string bool int string
  | Press int int
  | Hello
  | Search string
  | Status int
  | Config int
  | Index int
  | JsonLiry int
  | JsonMash "string option"
  | JsonNpp int int
  | JsonUmovy int
  | JsonZminny int int
  | AddForm
  | DumpDb

definition par_txt :: "lira_rq \<Rightarrow> string \<Rightarrow> string res" where
  "par_txt rq k = (case lira_znach rq k of None \<Rightarrow> Inl NullDeref | Some s \<Rightarrow> Ok s)"

definition par_num :: "lira_rq \<Rightarrow> string \<Rightarrow> int res" where
  "par_num rq k = atoi_ptr (lira_znach rq k)"

definition par_real :: "lira_rq \<Rightarrow> string \<Rightarrow> dbl res" where
  "par_real rq k = atof_ptr (lira_znach rq k)"

text \<open>\<open>*(rq->znach(k))\<close>: the first character, the terminator of an empty text.\<close>

definition par_chr :: "lira_rq \<Rightarrow> string \<Rightarrow> char res" where
  "par_chr rq k = bind_res (par_txt rq k) (\<lambda>s. Ok (case s of [] \<Rightarrow> NUL | c # _ \<Rightarrow> c))"

definition at_path :: "lira_rq \<Rightarrow> string \<Rightarrow> bool" where
  "at_path rq p \<longleftrightarrow> c_str (rq_path rq) = p"

section \<open>POST, PUT and DELETE\<close>

text \<open>
  A machine without gear list is refused or its statement gets a null pointer; a change of a machine
  without the second list reads the pointer when the other texts are long enough.
\<close>

definition post_route :: "lira_rq \<Rightarrow> lira_action res" where
  "post_route rq =
     (if rq_param rq ''search_m'' then bind_res (par_txt rq ''search_m'') (\<lambda>s. Ok (Search s))
      else if query_len rq = 4 \<and> at_path rq ''/add-mash'' then
        bind_res (par_txt rq ''mash[NAME]'') (\<lambda>n. Ok (case lira_znach rq ''mash[M1]'' of
          None \<Rightarrow> AddMashOnly n | Some m \<Rightarrow> Edit (AddMash n m)))
      else if query_len rq = 1 \<and> at_path rq ''/add-lira'' then bind_res (par_num rq ''m_id'') (\<lambda>m. Ok (Edit (AddLira m)))
      else if query_len rq = 1 \<and> at_path rq ''/add-umova'' then bind_res (par_num rq ''l_id'') (\<lambda>l. Ok (Edit (AddUmova l)))
      else if query_len rq = 1 \<and> at_path rq ''/add-zm-npp'' then bind_res (par_num rq ''zz_id'') (\<lambda>z. Ok (Edit (AddZmNpp z)))
      else if query_len rq = 3 \<and> at_path rq ''/add-zminna'' then
        bind_res (par_num rq ''l_id'') (\<lambda>l. bind_res (par_chr rq ''bukva'') (\<lambda>b. bind_res (par_num rq ''zm_poz'') (\<lambda>p.
        Ok (Edit (AddZminna l b p)))))
      else if query_len rq = 5 \<and> at_path rq ''/lialiapam'' then
        bind_res (par_num rq ''sn'') (\<lambda>sn. bind_res (par_txt rq ''sn'') (\<lambda>snt. bind_res (par_txt rq ''relays'') (\<lambda>r.
        bind_res (par_num rq ''acp'') (\<lambda>acp. bind_res (par_txt rq ''acp'') (\<lambda>acpt. bind_res (par_num rq ''cs'') (\<lambda>cs.
        bind_res (par_txt rq ''init'') (\<lambda>it.
        Ok (Poll sn snt r acp acpt (lira_check_param rq ''init'' ''true'') cs it))))))))
      else if query_len rq = 1 \<and> at_path rq ''/lialiapam/'' then bind_res (par_txt rq ''param'') (\<lambda>_. Ok Hello)
      else Ok Ignore)"

definition delete_route :: "lira_rq \<Rightarrow> lira_action res" where
  "delete_route rq =
     (if query_len rq = 1 \<and> at_path rq ''/delete-lira'' then bind_res (par_num rq ''l_id'') (\<lambda>l. Ok (Edit (DeleteLira l)))
      else if query_len rq = 1 \<and> at_path rq ''/delete-mash'' then bind_res (par_num rq ''m_id'') (\<lambda>m. Ok (Edit (DeleteMash m)))
      else if query_len rq = 1 \<and> at_path rq ''/delete-um'' then bind_res (par_num rq ''u_id'') (\<lambda>u. Ok (Edit (DeleteUm u)))
      else if query_len rq = 2 \<and> at_path rq ''/delete-zm'' then
        bind_res (par_num rq ''l_id'') (\<lambda>l. bind_res (par_num rq ''z_id'') (\<lambda>z. Ok (Edit (DeleteZm l z))))
      else if query_len rq = 1 \<and> at_path rq ''/delete-zm-npp'' then bind_res (par_num rq ''n_id'') (\<lambda>n. Ok (Edit (DeleteZmNpp n)))
      else if query_len rq = 1 \<and> at_path rq ''/delete-zm-npp-all'' then bind_res (par_num rq ''z_id'') (\<lambda>z. Ok (Edit (DeleteZmNppAll z)))
      else Ok Ignore)"

definition put_route :: "lira_rq \<Rightarrow> lira_action res" where
  "put_route rq =
     (if query_len rq = 2 \<and> at_path rq ''/lialiapam'' \<and> rq_param rq ''sn'' \<and> rq_param rq ''button'' then
        bind_res (par_num rq ''sn'') (\<lambda>sn. bind_res (par_num rq ''button'') (\<lambda>b. Ok (Press sn b)))
      else if query_len rq = 7 \<and> at_path rq ''/save-lira'' then
        bind_res (par_num rq ''lira[M_ID]'') (\<lambda>m. bind_res (par_num rq ''lira[L_ID]'') (\<lambda>l. bind_res (par_txt rq ''lira[NAME]'') (\<lambda>n.
        bind_res (par_num rq ''lira[MAGAZ]'') (\<lambda>mg. bind_res (par_num rq ''lira[BR_KOL_LIR]'') (\<lambda>br.
        bind_res (par_txt rq ''lira[FORM]'') (\<lambda>f. bind_res (par_txt rq ''lira[FORM_ZV]'') (\<lambda>fz.
        Ok (Edit (SaveLira m l n mg br f fz)))))))))
      else if query_len rq = 4 \<and> at_path rq ''/save-mash'' then
        bind_res (par_num rq ''mash[M_ID]'') (\<lambda>m. bind_res (par_txt rq ''mash[NAME]'') (\<lambda>n. bind_res (par_txt rq ''mash[M1]'') (\<lambda>m1.
        Ok (case lira_znach rq ''mash[M2]'' of None \<Rightarrow> SaveMashOnly m n m1 | Some m2 \<Rightarrow> Edit (SaveMash m n m1 m2)))))
      else if query_len rq = 5 \<and> at_path rq ''/save-npp'' then
        bind_res (par_num rq ''npp[N_ID]'') (\<lambda>n. bind_res (par_num rq ''npp[Z_ID]'') (\<lambda>z.
        bind_res (par_real rq ''npp[ZNACHENNJA]'') (\<lambda>zn. bind_res (par_txt rq ''npp[UMOVA]'') (\<lambda>u.
        bind_res (par_txt rq ''npp[COMENT]'') (\<lambda>c. Ok (Edit (SaveNpp n z zn u c)))))))
      else if query_len rq = 3 \<and> at_path rq ''/save-usl'' then
        bind_res (par_num rq ''usl[U_ID]'') (\<lambda>u. bind_res (par_num rq ''usl[L_ID]'') (\<lambda>l. bind_res (par_txt rq ''usl[UMOVA]'') (\<lambda>t.
        Ok (Edit (SaveUsl u l t)))))
      else if query_len rq = 7 \<and> at_path rq ''/save-zm'' then
        bind_res (par_num rq ''zm[M_ID]'') (\<lambda>m. bind_res (par_num rq ''zm[L_ID]'') (\<lambda>_. bind_res (par_num rq ''zm[Z_ID]'') (\<lambda>z.
        bind_res (par_chr rq ''zm[BUKVA]'') (\<lambda>b. bind_res (par_num rq ''zm[NPP_S]'') (\<lambda>s. bind_res (par_txt rq ''zm[NAME]'') (\<lambda>n.
        bind_res (par_real rq ''zm[ZNACHENNJA]'') (\<lambda>zn. Ok (Edit (SaveZm m z b s n zn)))))))))
      else Ok Ignore)"

section \<open>GET\<close>

text \<open>The routes of \<open>send_res\<close> that answer a text, with its type; \<open>None\<close> for the files.\<close>

definition root_route :: "lira_rq \<Rightarrow> (lira_action \<times> int) res" where
  "root_route rq =
     (if query_len rq = 0 then Ok (Index (-1), 1)
      else if query_len rq = 1 \<and> rq_param rq ''m_id'' then bind_res (par_num rq ''m_id'') (\<lambda>m. Ok (Index m, 1))
      else if query_len rq = 3 \<and> lira_check_param rq ''json'' ''liry'' then bind_res (par_num rq ''m_id'') (\<lambda>m. Ok (JsonLiry m, 3))
      else if query_len rq = 2 \<and> lira_check_param rq ''json'' ''mash'' then Ok (JsonMash (lira_znach rq ''name''), 3)
      else if query_len rq = 3 \<and> lira_check_param rq ''json'' ''npp'' then
        bind_res (par_num rq ''z_id'') (\<lambda>z. bind_res (par_num rq ''l_id'') (\<lambda>l. Ok (JsonNpp z l, 3)))
      else if query_len rq = 2 \<and> lira_check_param rq ''json'' ''umovy'' then bind_res (par_num rq ''l_id'') (\<lambda>l. Ok (JsonUmovy l, 3))
      else if query_len rq = 3 \<and> lira_check_param rq ''json'' ''zminny'' then
        bind_res (par_num rq ''z_id'') (\<lambda>z. bind_res (par_num rq ''zm_poz'') (\<lambda>p. Ok (JsonZminny z p, 3)))
      else if query_len rq = 1 \<and> lira_check_param rq ''index'' ''add-mash'' then Ok (AddForm, 1)
      else Ok (Ignore, 0))"

definition is_script :: "lira_rq \<Rightarrow> bool" where
  "is_script rq \<longleftrightarrow> at_path rq ''/script-coment'' \<and> rq_param rq ''res''"

definition res_route :: "lira_rq \<Rightarrow> (lira_action \<times> int) res option" where
  "res_route rq =
     (if at_path rq ''/lialiapam'' \<and> rq_param rq ''sn'' then Some (bind_res (par_num rq ''sn'') (\<lambda>sn. Ok (Status sn, 3)))
      else if at_path rq ''/download'' \<and> rq_param rq ''m_id'' then Some (bind_res (par_num rq ''m_id'') (\<lambda>m. Ok (Config m, 4)))
      else if at_path rq ''/preview'' \<and> rq_param rq ''m_id'' then Some (bind_res (par_num rq ''m_id'') (\<lambda>m. Ok (Config m, 5)))
      else if at_path rq ''/'' then Some (root_route rq)
      else if is_script rq then None
      else if at_path rq ''/FireBird'' then Some (Ok (DumpDb, 1))
      else None)"

section \<open>Running an action\<close>

definition lift_db :: "lira_state \<Rightarrow> (string \<times> lira_db) res \<Rightarrow> (string \<times> lira_state) res option" where
  "lift_db st r = Some (bind_res r (\<lambda>(out, db). Ok (out, st\<lparr>ls_db := db\<rparr>)))"

definition lift_rel :: "lira_state \<Rightarrow> (string \<times> lira_relay) res option \<Rightarrow> (string \<times> lira_state) res option" where
  "lift_rel st r = map_option (\<lambda>r. bind_res r (\<lambda>(out, rel). Ok (out, st\<lparr>ls_rel := rel\<rparr>))) r"

definition add_mash_only :: "firebird \<Rightarrow> int \<Rightarrow> int \<Rightarrow> string \<Rightarrow> lira_db \<Rightarrow> (string \<times> lira_db) res" where
  "add_mash_only fb now off n db =
     bind_res (fits 100 (q_text (q_mash_name (c_str n)))) (\<lambda>_.
       let (err, rows) = sql_query fb (q_mash_name (c_str n)) db
       in if \<not> err \<and> rows = [] \<and> length (c_str n) > 1 then Inl NullDeref else post_add_mash fb now off n [] db)"

definition save_mash_only :: "firebird \<Rightarrow> int \<Rightarrow> int \<Rightarrow> int \<Rightarrow> string \<Rightarrow> string \<Rightarrow> lira_db \<Rightarrow> (string \<times> lira_db) res" where
  "save_mash_only fb now off m n m1 db =
     (if length (c_str n) < 3 \<or> length (c_str m1) < 3 then save_mash fb now off m n m1 [] db else Inl NullDeref)"

fun run_action :: "lira_world \<Rightarrow> lira_action \<Rightarrow> lira_state \<Rightarrow> (string \<times> lira_state) res option" where
  "run_action w Ignore st = Some (Ok ([], st))"
| "run_action w (Edit e) st = lift_db st (serve_edit (lv_fb (lw_view w)) (lw_now w) (lw_off w) e (ls_db st))"
| "run_action w (AddMashOnly n) st = lift_db st (add_mash_only (lv_fb (lw_view w)) (lw_now w) (lw_off w) n (ls_db st))"
| "run_action w (SaveMashOnly m n m1) st =
     lift_db st (save_mash_only (lv_fb (lw_view w)) (lw_now w) (lw_off w) m n m1 (ls_db st))"
| "run_action w (Poll sn snt r acp acpt init cs it) st =
     lift_rel st (lira_obrobnyk (lw_now w) sn snt r acp acpt init cs it (ls_rel st))"
| "run_action w (Press sn b) st = lift_rel st (lira_put_status (lw_now w) sn b (ls_rel st))"
| "run_action w Hello st = Some (Ok (''pryvit, zhorstokyj svite!'', st))"
| "run_action w (Search s) st = Some (Ok (index_cpp_get (lw_view w) True (-1) s (ls_db st), st))"
| "run_action w (Status sn) st = lift_rel st (lira_get_status (lw_now w) sn (ls_rel st))"
| "run_action w (Config m) st = Some (bind_res (dwnldcnf (lw_view w) (lw_parse w) m (ls_db st)) (\<lambda>t. Ok (t, st)))"
| "run_action w (Index m) st = Some (Ok (index_cpp_get (lw_view w) False m [] (ls_db st), st))"
| "run_action w (JsonLiry m) st = Some (Ok (get_json_liry (lw_view w) m (ls_db st), st))"
| "run_action w (JsonMash n) st = Some (bind_res (get_json_mash (lw_view w) n (ls_db st)) (\<lambda>t. Ok (t, st)))"
| "run_action w (JsonNpp z l) st = Some (Ok (get_json_npp (lw_view w) z l (ls_db st), st))"
| "run_action w (JsonUmovy l) st = Some (Ok (get_json_umovy (lw_view w) l (ls_db st), st))"
| "run_action w (JsonZminny z p) st = Some (Ok (get_json_zminny (lw_view w) z p (ls_db st), st))"
| "run_action w AddForm st = Some (Ok (get_add_mash, st))"
| "run_action w DumpDb st = Some (Ok (request_db (lw_view w) (ls_db st), st))"

section \<open>Files\<close>

text \<open>The loop that looks for two dots; it reads the second character first.\<close>

fun climbs :: "string \<Rightarrow> bool" where
  "climbs (a # b # s) = (b \<noteq> NUL \<and> ((a = CHR ''.'' \<and> b = CHR ''.'') \<or> climbs (b # s)))"
| "climbs _ = False"

definition last_dot :: "string \<Rightarrow> nat" where
  "last_dot p = (if CHR ''.'' \<in> set p then length p - 1 - length (takeWhile (\<lambda>c. c \<noteq> CHR ''.'') (rev p)) else 0)"

definition extension :: "string \<Rightarrow> string" where
  "extension path = c_str (drop (last_dot (c_str path) + 1) path)"

definition file_types :: "(string \<times> string) list" where
  "file_types = [(''css'', ''text/css''), (''csv'', ''text/csv''), (''html'', ''text/html; charset=UTF-8''), (''txt'', ''text/plain''),
     (''cnf'', ''application/octet-stream''), (''xml'', ''text/xml''), (''js'', ''text/javascript''), (''jpg'', ''image/jpeg''),
     (''ico'', ''image/x-icon''), (''gif'', ''image/gif''), (''png'', ''image/png''), (''gjvu'', ''image/vnd.gjvu''),
     (''svg+xml'', ''image/svg''), (''mp4'', ''video/mp4'')]"

text \<open>
  Header and, unless for \<open>HEAD\<close>, the content. Writing an empty file into the stream sets its
  \<open>failbit\<close>, so the length is -1, and sending -1 bytes reads whatever follows the empty text in memory:
  the fault \<open>OutOfRange\<close>.
\<close>

definition send_file :: "int \<Rightarrow> bool \<Rightarrow> int \<Rightarrow> string \<Rightarrow> string \<Rightarrow> string res" where
  "send_file now head typ typstr content =
     (let len = (if content = [] then -1 else int (length content))
      in if head then Ok (lira_send_kap now 200 len typ typstr)
         else if content = [] then Inl OutOfRange
         else Ok (lira_send_kap now 200 len typ typstr @ content))"

definition instr_name :: "string \<Rightarrow> string \<Rightarrow> string" where
  "instr_name lng res = ''www/instr/'' @ lng @ ''/'' @ res @ ''.txt''"

text \<open>The help texts: the language is the first two characters of a header, which may be missing.\<close>

definition send_script :: "lira_world \<Rightarrow> bool \<Rightarrow> lira_rq \<Rightarrow> string res" where
  "send_script w head rq =
     (if rq_lang rq = [] then Inl OutOfRange
      else bind_res (par_txt rq ''res'') (\<lambda>res.
        let name = instr_name (c_str (take 2 (rq_lang rq))) res; en = instr_name ''en'' res
        in bind_res (fits 100 name) (\<lambda>_. case lw_files w name of
             Some c \<Rightarrow> send_file (lw_now w) head 2 [] c
           | None \<Rightarrow> bind_res (fits 100 en) (\<lambda>_. case lw_files w en of
               Some c \<Rightarrow> send_file (lw_now w) head 2 [] c
             | None \<Rightarrow> Ok []))))"

text \<open>Without a path the second character of the empty string is read.\<close>

definition send_static :: "lira_world \<Rightarrow> bool \<Rightarrow> string \<Rightarrow> string res" where
  "send_static w head path =
     (if path = [] then Inl OutOfRange
      else if climbs path then Ok (lira_send_err (lw_now w) (if head then 404 else 1404))
      else (case lw_files w (''www'' @ c_str path) of
          None \<Rightarrow> Ok (lira_send_err (lw_now w) 404)
        | Some c \<Rightarrow> (case map_of file_types (extension path) of
              None \<Rightarrow> Ok (lira_send_err (lw_now w) 415)
            | Some t \<Rightarrow> send_file (lw_now w) head 0 t c)))"

section \<open>Handlers\<close>

definition page_of :: "int \<Rightarrow> int \<Rightarrow> string \<Rightarrow> string" where
  "page_of now typ t = lira_send_kap now 200 (int (length t)) typ [] @ t"

text \<open>An action that is not declared is answered with nothing.\<close>

definition answer_action :: "lira_world \<Rightarrow> bool \<Rightarrow> int \<Rightarrow> lira_action \<Rightarrow> lira_state \<Rightarrow> (string \<times> lira_state) res option" where
  "answer_action w head typ a st = (if a = Ignore then Some (Ok ([], st))
     else map_option (\<lambda>r. bind_res r (\<lambda>(t, st).
       Ok (if head then lira_send_kap (lw_now w) 200 (int (length t)) typ [] else page_of (lw_now w) typ t, st))) (run_action w a st))"

definition obrobka :: "(lira_rq \<Rightarrow> lira_action res) \<Rightarrow> lira_world \<Rightarrow> lira_rq \<Rightarrow> lira_state \<Rightarrow> (string \<times> lira_state) res option" where
  "obrobka route w rq st = (case route rq of Inl e \<Rightarrow> Some (Inl e) | Inr a \<Rightarrow> answer_action w False 1 a st)"

definition lira_obrobka_post :: "lira_world \<Rightarrow> lira_rq \<Rightarrow> lira_state \<Rightarrow> (string \<times> lira_state) res option" where
  "lira_obrobka_post w rq st = obrobka post_route w rq st"

definition lira_obrobka_delete :: "lira_world \<Rightarrow> lira_rq \<Rightarrow> lira_state \<Rightarrow> (string \<times> lira_state) res option" where
  "lira_obrobka_delete w rq st = obrobka delete_route w rq st"

definition lira_obrobka_put :: "lira_world \<Rightarrow> lira_rq \<Rightarrow> lira_state \<Rightarrow> (string \<times> lira_state) res option" where
  "lira_obrobka_put w rq st = obrobka put_route w rq st"

definition send_res :: "lira_world \<Rightarrow> bool \<Rightarrow> lira_rq \<Rightarrow> lira_state \<Rightarrow> (string \<times> lira_state) res option" where
  "send_res w head rq st =
     (case res_route rq of
        Some (Inl e) \<Rightarrow> Some (Inl e)
      | Some (Inr (a, typ)) \<Rightarrow> answer_action w head typ a st
      | None \<Rightarrow> Some (bind_res (if is_script rq then send_script w head rq else send_static w head (rq_path rq))
          (\<lambda>t. Ok (t, st))))"

text \<open>The switch over the method.\<close>

definition handle :: "lira_world \<Rightarrow> lira_rq \<Rightarrow> lira_state \<Rightarrow> (string \<times> lira_state) res option" where
  "handle w rq st =
     (if rq_method rq = GET then send_res w False rq st
      else if rq_method rq = HEAD then send_res w True rq st
      else if rq_method rq = POST then lira_obrobka_post w rq st
      else if rq_method rq = PUT then lira_obrobka_put w rq st
      else if rq_method rq = DELETE then lira_obrobka_delete w rq st
      else Some (Ok (lira_send_err (lw_now w) (if rq_method rq = -1 then 400 else 405), st)))"

section \<open>The thread of a connection\<close>

text \<open>The process ends, or the connection was answered (with nothing, at times).\<close>

datatype lira_outcome = Exit | Reply string lira_state

definition reqest_thread :: "lira_world \<Rightarrow> lira_client \<Rightarrow> lira_state \<Rightarrow> lira_outcome res option" where
  "reqest_thread w cl st =
     (case decod_request cl of
        Inl e \<Rightarrow> Some (Inl e)
      | Inr None \<Rightarrow> Some (Ok (Reply [] st))
      | Inr (Some rq) \<Rightarrow>
          if lira_check_param rq ''command'' ''exit'' then Some (Ok Exit)
          else map_option (\<lambda>r. bind_res r (\<lambda>(t, st). Ok (Reply t st))) (handle w rq st))"

text \<open>Connections one after the other, each with the world it meets; the answers one after the other.\<close>

fun serve_all :: "(lira_world \<times> lira_client) list \<Rightarrow> lira_state \<Rightarrow> lira_outcome res option" where
  "serve_all [] st = Some (Ok (Reply [] st))"
| "serve_all ((w, cl) # cs) st =
     (case reqest_thread w cl st of
        Some (Inr (Reply t st')) \<Rightarrow>
          (case serve_all cs st' of Some (Inr (Reply u st'')) \<Rightarrow> Some (Ok (Reply (t @ u) st'')) | r \<Rightarrow> r)
      | r \<Rightarrow> r)"

end
