(* ===== verification/LiraServerFacts.thy ===== *)
theory LiraServerFacts
  imports LiraServer LiraRequestProps LiraRelayProps
begin

text \<open>
  What the handlers of the LiraCalc server share: parameters, the shape of an answer, what an action does
  to the tables and to the list of relays.
\<close>

section \<open>Parameters\<close>

lemma lira_znach_None: "lira_znach rq k = None \<longleftrightarrow> \<not> rq_param rq k"
  by (auto simp: lira_znach_def rq_param_def list_ex_iff find_None_iff)

lemma znach_Some: "rq_param rq k \<Longrightarrow> \<exists>s. lira_znach rq k = Some s"
  using lira_znach_None [of rq k] by (cases "lira_znach rq k") auto

lemma par_txt_eq: "par_txt rq k = (if rq_param rq k then Ok (the (lira_znach rq k)) else Inl NullDeref)"
  using lira_znach_None [of rq k] by (auto simp: par_txt_def split: option.splits)

lemma par_num_eq: "par_num rq k = (if rq_param rq k then Ok (atoi (the (lira_znach rq k))) else Inl NullDeref)"
  using lira_znach_None [of rq k] by (auto simp: par_num_def atoi_ptr_def split: option.splits)

lemma par_real_eq: "par_real rq k = (if rq_param rq k then Ok (atof (the (lira_znach rq k))) else Inl NullDeref)"
  using lira_znach_None [of rq k] by (auto simp: par_real_def atof_ptr_def split: option.splits)

lemma par_chr_eq: "par_chr rq k = (if rq_param rq k
    then Ok (case the (lira_znach rq k) of [] \<Rightarrow> NUL | c # _ \<Rightarrow> c) else Inl NullDeref)"
  by (simp add: par_chr_def par_txt_eq)

lemmas par_eqs = par_txt_eq par_num_eq par_real_eq par_chr_eq

lemma check_param_param: "lira_check_param rq k v \<Longrightarrow> rq_param rq k"
  by (auto simp: lira_check_param_def rq_param_def list_ex_iff)

section \<open>The parameters a route reads\<close>

text \<open>Method, number of parameters, path, and the names whose absence is a null pointer.\<close>

definition needs_table :: "(int \<times> nat \<times> string \<times> string list) list" where
  "needs_table = [
     (POST, 4, ''/add-mash'', [''mash[NAME]'']),
     (POST, 1, ''/add-lira'', [''m_id'']),
     (POST, 1, ''/add-umova'', [''l_id'']),
     (POST, 1, ''/add-zm-npp'', [''zz_id'']),
     (POST, 3, ''/add-zminna'', [''l_id'', ''bukva'', ''zm_poz'']),
     (POST, 5, ''/lialiapam'', [''sn'', ''relays'', ''acp'', ''cs'', ''init'']),
     (POST, 1, ''/lialiapam/'', [''param'']),
     (DELETE, 1, ''/delete-lira'', [''l_id'']),
     (DELETE, 1, ''/delete-mash'', [''m_id'']),
     (DELETE, 1, ''/delete-um'', [''u_id'']),
     (DELETE, 2, ''/delete-zm'', [''l_id'', ''z_id'']),
     (DELETE, 1, ''/delete-zm-npp'', [''n_id'']),
     (DELETE, 1, ''/delete-zm-npp-all'', [''z_id'']),
     (PUT, 7, ''/save-lira'', [''lira[M_ID]'', ''lira[L_ID]'', ''lira[NAME]'', ''lira[MAGAZ]'', ''lira[BR_KOL_LIR]'', ''lira[FORM]'', ''lira[FORM_ZV]'']),
     (PUT, 4, ''/save-mash'', [''mash[M_ID]'', ''mash[NAME]'', ''mash[M1]'']),
     (PUT, 5, ''/save-npp'', [''npp[N_ID]'', ''npp[Z_ID]'', ''npp[ZNACHENNJA]'', ''npp[UMOVA]'', ''npp[COMENT]'']),
     (PUT, 3, ''/save-usl'', [''usl[U_ID]'', ''usl[L_ID]'', ''usl[UMOVA]'']),
     (PUT, 7, ''/save-zm'', [''zm[M_ID]'', ''zm[L_ID]'', ''zm[Z_ID]'', ''zm[BUKVA]'', ''zm[NPP_S]'', ''zm[NAME]'', ''zm[ZNACHENNJA]''])]"

definition route_of :: "int \<Rightarrow> lira_rq \<Rightarrow> lira_action res" where
  "route_of m = (if m = POST then post_route else if m = PUT then put_route else delete_route)"

lemma route_of_simps:
  "route_of POST = post_route" "route_of PUT = put_route" "route_of DELETE = delete_route"
  by (simp_all add: route_of_def method_defs)

lemma route_needs:
  assumes "(m, n, p, names) \<in> set needs_table" "query_len rq = n" "at_path rq p" "m = POST \<longrightarrow> \<not> rq_param rq ''search_m''"
  shows "if (\<exists>k\<in>set names. \<not> rq_param rq k) then route_of m rq = Inl NullDeref
     else \<exists>a. route_of m rq = Ok a \<and> a \<noteq> Ignore"
  using assms
  by (simp add: needs_table_def at_path_def)
    (elim disjE; simp add: route_of_simps post_route_def put_route_def delete_route_def at_path_def par_eqs split: option.split)

section \<open>What an action does to the state\<close>

text \<open>Actions that only show something leave the state as it is.\<close>

definition shows_only :: "lira_action \<Rightarrow> bool" where
  "shows_only a \<longleftrightarrow> (case a of Edit _ \<Rightarrow> False | AddMashOnly _ \<Rightarrow> False | SaveMashOnly _ _ _ \<Rightarrow> False
     | Poll _ _ _ _ _ _ _ _ \<Rightarrow> False | Press _ _ \<Rightarrow> False | Status _ \<Rightarrow> False | _ \<Rightarrow> True)"

lemma shows_only_keeps: "shows_only a \<Longrightarrow> run_action w a st = Some (Ok (t, st')) \<Longrightarrow> st' = st"
  by (cases a) (auto simp: shows_only_def bind_res_Inr)

text \<open>No text a client sent has a quote.\<close>

definition clean_action :: "lira_action \<Rightarrow> bool" where
  "clean_action a \<longleftrightarrow> (case a of Edit e \<Rightarrow> clean_req e | AddMashOnly n \<Rightarrow> clean_value n
     | SaveMashOnly m n m1 \<Rightarrow> clean_value n \<and> clean_value m1 | _ \<Rightarrow> True)"

definition lira_state_ok :: "lira_state \<Rightarrow> bool" where
  "lira_state_ok st \<longleftrightarrow> edit_ok (ls_db st) \<and> lira_reach (ls_rel st)"

lemma lift_dbD:
  "lift_db st r = Some (Ok (t, st')) \<Longrightarrow> \<exists>db. r = Ok (t, db) \<and> st' = st\<lparr>ls_db := db\<rparr>"
  by (auto simp: lift_db_def bind_res_Inr)

lemma lift_relD:
  "lift_rel st r = Some (Ok (t, st')) \<Longrightarrow> \<exists>rel. r = Some (Ok (t, rel)) \<and> st' = st\<lparr>ls_rel := rel\<rparr>"
  by (auto simp: lift_rel_def bind_res_Inr)

lemma add_mash_only_edit:
  "add_mash_only fb now off n db = Ok p \<Longrightarrow> serve_edit fb now off (AddMash n []) db = Ok p"
  by (auto simp: add_mash_only_def bind_res_Inr split: prod.splits if_splits)

lemma save_mash_only_edit:
  "save_mash_only fb now off m n m1 db = Ok p \<Longrightarrow> serve_edit fb now off (SaveMash m n m1 []) db = Ok p"
  by (auto simp: save_mash_only_def split: if_splits)

text \<open>Every action on the tables is one of the editing requests.\<close>

lemma action_edit:
  assumes "run_action w a st = Some (Ok (t, st'))" "clean_action a"
  shows "ls_db st' = ls_db st \<or>
    (\<exists>e. clean_req e \<and> serve_edit (lv_fb (lw_view w)) (lw_now w) (lw_off w) e (ls_db st) = Ok (t, ls_db st'))"
proof -
  consider (views) "shows_only a" | (edit) e where "a = Edit e" | (add) n where "a = AddMashOnly n"
    | (save) m n m1 where "a = SaveMashOnly m n m1" | (rel) r where "run_action w a st = lift_rel st r"
    by (cases a) (auto simp: shows_only_def)
  then show ?thesis
  proof cases
    case views
    then show ?thesis using shows_only_keeps assms(1) by blast
  next
    case edit
    then show ?thesis using assms by (auto dest!: lift_dbD simp: clean_action_def)
  next
    case add
    then have "\<exists>db. add_mash_only (lv_fb (lw_view w)) (lw_now w) (lw_off w) n (ls_db st) = Ok (t, db) \<and> ls_db st' = db"
      using assms(1) by (auto dest!: lift_dbD)
    then show ?thesis using add_mash_only_edit assms(2) add
      by (intro disjI2 exI [of _ "AddMash n []"]) (auto simp: clean_action_def clean_value_def)
  next
    case save
    then have "\<exists>db. save_mash_only (lv_fb (lw_view w)) (lw_now w) (lw_off w) m n m1 (ls_db st) = Ok (t, db) \<and> ls_db st' = db"
      using assms(1) by (auto dest!: lift_dbD)
    then show ?thesis using save_mash_only_edit assms(2) save
      by (intro disjI2 exI [of _ "SaveMash m n m1 []"]) (auto simp: clean_action_def clean_value_def)
  next
    case rel
    then show ?thesis using lift_relD [of st r t st'] assms(1) by auto
  qed
qed

text \<open>Every action on the relays is one of the operations of \<open>relay.cpp\<close>.\<close>

lemma action_relay:
  assumes "run_action w a st = Some (Ok (t, st'))" "lira_reach (ls_rel st)"
  shows "lira_reach (ls_rel st')"
proof (cases "shows_only a")
  case True
  then show ?thesis using shows_only_keeps assms by blast
next
  case False
  then show ?thesis
    using assms by (cases a) (auto simp: shows_only_def dest!: lift_dbD lift_relD intro: lira_reach.intros)
qed

lemma action_state_ok:
  assumes "run_action w a st = Some (Ok (t, st'))" "clean_action a" "reads_ok (lv_fb (lw_view w))" "lira_state_ok st"
  shows "lira_state_ok st'"
  using action_edit [OF assms(1,2)] action_relay [OF assms(1)] assms(3,4) all_okD [OF serve_edit_keeps]
  by (auto simp: lira_state_ok_def)

text \<open>No action walks for ever.\<close>

lemma is_result_ends: "is_result x y \<Longrightarrow> x \<noteq> None"
  by (auto simp: is_result_def split: sum.splits prod.splits)

lemma get_status_ends: "lira_reach rel \<Longrightarrow> lira_get_status now sn rel \<noteq> None"
proof -
  assume "lira_reach rel"
  then obtain as where wf: "lira_wf rel as" using reach_wf by blast
  show ?thesis
  proof (cases "sn = 0")
    case True
    show ?thesis
    proof (cases "\<forall>r\<in>set (devices rel as). fresh now r")
      case True
      then show ?thesis using list_status_fresh [OF wf True] \<open>sn = 0\<close> by simp
    next
      case False
      then obtain ys a zs where as: "as = ys @ a # zs" and f: "\<forall>r\<in>set (devices rel ys). fresh now r"
        and old: "\<not> fresh now (ln_rele (node_at rel a))"
        using split_list_first_prop [of as "\<lambda>a. \<not> fresh now (ln_rele (node_at rel a))"]
        by (fastforce simp: devices_def)
      then show ?thesis using list_status_old [OF wf [unfolded as] f old] \<open>sn = 0\<close> by simp
    qed
  next
    case False
    then show ?thesis using is_result_ends [OF one_device_refines [OF wf, of now sn status_request]]
      by (simp add: get_one_device)
  qed
qed

lemma relay_ends:
  assumes "lira_reach rel"
  shows "lira_put_status now sn b rel \<noteq> None" "lira_obrobnyk now sn snt r acp acpt init cs it rel \<noteq> None"
proof -
  obtain as where wf: "lira_wf rel as" using reach_wf assms by blast
  show "lira_put_status now sn b rel \<noteq> None"
    using is_result_ends [OF one_device_refines [OF wf, of now sn "button_request b"]] by (simp add: put_one_device)
  show "lira_obrobnyk now sn snt r acp acpt init cs it rel \<noteq> None"
    using is_result_ends [OF poll_refines [OF wf, of now sn snt r acp acpt init cs it]] .
qed

lemma action_ends: "lira_reach (ls_rel st) \<Longrightarrow> run_action w a st \<noteq> None"
  using get_status_ends relay_ends by (cases a) (auto simp: lift_db_def lift_rel_def)

section \<open>Answers\<close>

lemma answer_actionD:
  assumes "answer_action w head typ a st = Some (Ok (out, st'))"
  shows "(a = Ignore \<and> out = [] \<and> st' = st) \<or> (\<exists>t. run_action w a st = Some (Ok (t, st')) \<and>
     out = lira_send_kap (lw_now w) 200 (int (length t)) typ [] @ (if head then [] else t))"
  using assms by (auto simp: answer_action_def page_of_def bind_res_Inr split: if_splits)

lemma answer_action_ends: "lira_reach (ls_rel st) \<Longrightarrow> answer_action w head typ a st \<noteq> None"
  using action_ends by (auto simp: answer_action_def)

text \<open>The request was routed to the action, or it only reads files.\<close>

definition routed :: "lira_rq \<Rightarrow> lira_action \<Rightarrow> bool" where
  "routed rq a \<longleftrightarrow> (rq_method rq \<in> {POST, PUT, DELETE} \<and> route_of (rq_method rq) rq = Ok a) \<or>
     (rq_method rq \<in> {GET, HEAD} \<and> (\<exists>typ. res_route rq = Some (Ok (a, typ))))"

lemma handle_actions:
  assumes "handle w rq st = Some (Ok (out, st'))"
  shows "st' = st \<or> (\<exists>a t. routed rq a \<and> run_action w a st = Some (Ok (t, st')))"
  using assms
  by (auto simp: handle_def lira_obrobka_post_def lira_obrobka_put_def lira_obrobka_delete_def obrobka_def send_res_def routed_def route_of_def
      bind_res_Inr method_defs dest!: answer_actionD split: if_splits sum.splits option.splits prod.splits)

lemma handle_ends: "lira_reach (ls_rel st) \<Longrightarrow> handle w rq st \<noteq> None"
  using answer_action_ends [of st]
  by (auto simp: handle_def lira_obrobka_post_def lira_obrobka_put_def lira_obrobka_delete_def obrobka_def send_res_def
      split: sum.splits option.splits prod.splits)

end
