(* ===== verification/LiraServerProps.thy ===== *)
theory LiraServerProps
  imports LiraServerFacts LiraEditProps
begin

text \<open>
  Properties of the LiraCalc server as a whole: what any sequence of connections keeps, that every one is
  answered or ends, which requests end the process, what of an answer is sent, and the boundary cases of
  its parser, its date line and its files.
\<close>

section \<open>Requests without quotes\<close>

text \<open>No value has a quote, and a letter is not empty.\<close>

definition clean_rq :: "lira_rq \<Rightarrow> bool" where
  "clean_rq rq \<longleftrightarrow> list_all (\<lambda>(p, z). CHR 0x27 \<notin> set (c_str z) \<and> (c_str p = ''bukva'' \<longrightarrow> c_str z \<noteq> [])) (rq_query rq)"

definition clean_client :: "lira_client \<Rightarrow> bool" where
  "clean_client cl \<longleftrightarrow> (case decod_request cl of Inr (Some rq) \<Rightarrow> clean_rq rq | _ \<Rightarrow> True)"

lemma c_str_no_NUL: "NUL \<notin> set (c_str s)"
  by (auto simp: c_str_def dest: set_takeWhileD)

lemma clean_param: "clean_rq rq \<Longrightarrow> par_txt rq k = Ok s \<Longrightarrow> clean_value s"
  using c_str_no_NUL
  by (fastforce simp: par_txt_def lira_znach_def clean_rq_def clean_value_def list_all_iff dest!: find_SomeD split: option.splits)

lemma clean_znach: "clean_rq rq \<Longrightarrow> lira_znach rq k = Some s \<Longrightarrow> clean_value s"
  using clean_param [of rq k s] by (simp add: par_txt_def)

lemma clean_letter:
  assumes "clean_rq rq" "par_chr rq ''bukva'' = Ok b"
  shows "clean_value [b]"
proof -
  obtain s where s: "par_txt rq ''bukva'' = Ok s" and b: "b = (case s of [] \<Rightarrow> NUL | c # _ \<Rightarrow> c)"
    using assms(2) by (auto simp: par_chr_def bind_res_Inr)
  have "s \<noteq> []"
    using s assms(1) by (fastforce simp: par_txt_def lira_znach_def clean_rq_def list_all_iff dest!: find_SomeD split: option.splits)
  then show ?thesis using clean_param [OF assms(1) s] b by (cases s) simp_all
qed

lemma clean_ifI: "(c \<Longrightarrow> P x) \<Longrightarrow> (\<not> c \<Longrightarrow> P y) \<Longrightarrow> P (if c then x else y)"
  by simp

lemma clean_route:
  assumes "clean_rq rq" "route_of m rq = Ok a"
  shows "clean_action a"
  using assms(2) clean_param [OF assms(1)] clean_znach [OF assms(1)] clean_letter [OF assms(1)]
  by (auto simp: route_of_def post_route_def put_route_def delete_route_def bind_res_Inr clean_action_def
      split: if_splits option.splits)

lemma clean_res: "res_route rq = Some (Ok (a, typ)) \<Longrightarrow> clean_action a"
  by (auto simp: res_route_def root_route_def bind_res_Inr clean_action_def split: if_splits)

lemma clean_routed: "clean_rq rq \<Longrightarrow> routed rq a \<Longrightarrow> clean_action a"
  using clean_route clean_res by (auto simp: routed_def)

lemma handle_keeps:
  assumes "handle w rq st = Some (Ok (out, st'))" "clean_rq rq" "reads_ok (lv_fb (lw_view w))" "lira_state_ok st"
  shows "lira_state_ok st'"
  using handle_actions [OF assms(1)] action_state_ok [OF _ clean_routed [OF assms(2)] assms(3,4)] assms(4) by blast

lemma thread_replies:
  assumes "reqest_thread w cl st = Some (Ok (Reply t st'))"
  shows "st' = st \<or> (\<exists>rq. decod_request cl = Ok (Some rq) \<and> handle w rq st = Some (Ok (t, st')))"
  using assms by (auto simp: reqest_thread_def bind_res_Inr split: sum.splits option.splits if_splits)

section \<open>A request and a world to run it in\<close>

definition rendered :: "string \<Rightarrow> string \<Rightarrow> (string \<times> string) list \<Rightarrow> (string \<times> string) list \<Rightarrow> lira_client" where
  "rendered meth path kvs hs = \<lparr>cl_first = Some (lira_head meth path kvs (length_header (lira_body meth kvs) # hs) @
     lira_body meth kvs), cl_more = [], cl_mem = True\<rparr>"

lemma decod_rendered_whole:
  assumes "meth \<in> {''GET'', ''POST'', ''PUT'', ''DELETE''}" "length kvs \<le> 256"
    "list_all head_ok hs" "''content-length'' \<notin> fst ` set hs" "length (the (cl_first (rendered meth path kvs hs))) < 2999"
  shows "\<exists>rq. decod_request (rendered meth path kvs hs) = Ok (Some rq) \<and> rq_method rq = method_of meth \<and>
    rq_path rq = path @ [NUL] \<and> rq_query rq = kvs \<and> rq_lang rq = last_header ''accept-language'' hs"
proof -
  have "length (lira_body meth kvs) \<le> 64 * 1024 * 1024" using assms(5) by (simp add: rendered_def)
  then show ?thesis
    using decod_rendered [OF assms(1-4), of "lira_body meth kvs" "[]", OF _ _ _ refl] assms(5)
    by (simp add: rendered_def) blast
qed

definition demo_lira_world :: "(string \<times> string) list \<Rightarrow> lira_world" where
  "demo_lira_world fs = \<lparr>lw_now = 0, lw_off = 0, lw_view = \<lparr>lv_fb = plain_engine, lv_pairs = (\<lambda>t db. []), lv_double = (\<lambda>s. Fin 0 0),
     lv_junk = 0\<rparr>, lw_parse = (\<lambda>t. None), lw_files = map_of fs\<rparr>"

lemma demo_delete: "\<exists>out. delete_um plain_engine 0 0 1 demo_tables = Ok (out, demo_tables\<lparr>umovy := []\<rparr>)"
  by (simp add: delete_um_def plain.exec_msg_eq del_umova_def finish_def new_status_def status_success_def status_info_def
      status_add_def answer_status_def demo_tables_def delete_where_def)

lemma demo_request:
  "\<exists>rq. decod_request (rendered ''DELETE'' ''/delete-um'' [(''u_id'', ''1'')] []) = Ok (Some rq) \<and>
     rq_method rq = DELETE \<and> rq_path rq = ''/delete-um'' @ [NUL] \<and> rq_query rq = [(''u_id'', ''1'')]"
proof -
  have b: "lira_body ''DELETE'' [(''u_id'', ''1'')] = ''u%5Fid=1''"
    by (simp add: hex_upper_def lira_body_def percent_encode_def percent_char_def plain_char_def is_digit_def, code_simp)
  have l: "length_header ''u%5Fid=1'' = (''content-length'', ''8'')" by code_simp
  have n: "length (the (cl_first (rendered ''DELETE'' ''/delete-um'' [(''u_id'', ''1'')] []))) < 2999"
    by (simp add: rendered_def b l lira_head_def render_line_def render_header_def crlf_def percent_encode_def
        percent_char_def plain_char_def is_digit_def hex_upper_def)
  show ?thesis
    using decod_rendered_whole [of "''DELETE''" "[(''u_id'', ''1'')]" "[]" "''/delete-um''", OF _ _ _ _ n]
    by (auto simp: method_of_def method_defs)
qed

definition demo_state :: lira_state where
  "demo_state = \<lparr>ls_db = demo_tables, ls_rel = lira_start\<rparr>"

lemma demo_state_ok: "lira_state_ok demo_state"
  by (simp add: lira_state_ok_def demo_state_def demo_tables_ok lira_reach.start)

lemma demo_delete_served:
  "\<exists>t. serve_all [(demo_lira_world [], rendered ''DELETE'' ''/delete-um'' [(''u_id'', ''1'')] [])] demo_state =
     Some (Ok (Reply t (demo_state\<lparr>ls_db := demo_tables\<lparr>umovy := []\<rparr>\<rparr>)))"
proof -
  let ?w = "demo_lira_world []" and ?cl = "rendered ''DELETE'' ''/delete-um'' [(''u_id'', ''1'')] []"
  obtain rq where rq: "decod_request ?cl = Ok (Some rq)" "rq_method rq = DELETE" "rq_path rq = ''/delete-um'' @ [NUL]"
    "rq_query rq = [(''u_id'', ''1'')]" using demo_request by blast
  obtain out where out: "delete_um plain_engine 0 0 1 demo_tables = Ok (out, demo_tables\<lparr>umovy := []\<rparr>)"
    using demo_delete by blast
  have route: "delete_route rq = Ok (Edit (DeleteUm 1))"
    using rq by (simp add: delete_route_def at_path_def query_len_def par_num_def lira_znach_def c_str_def NUL_def atoi_eval)
  have run: "run_action ?w (Edit (DeleteUm 1)) demo_state = Some (Ok (out, demo_state\<lparr>ls_db := demo_tables\<lparr>umovy := []\<rparr>\<rparr>))"
    by (simp add: demo_lira_world_def demo_state_def lift_db_def out)
  have "handle ?w rq demo_state = Some (Ok (page_of 0 1 out, demo_state\<lparr>ls_db := demo_tables\<lparr>umovy := []\<rparr>\<rparr>))"
    using rq(2) route run by (simp add: handle_def method_defs lira_obrobka_delete_def obrobka_def answer_action_def demo_lira_world_def)
  moreover have "\<not> lira_check_param rq ''command'' ''exit''"
    using rq(4) by (simp add: lira_check_param_def c_str_def NUL_def)
  ultimately show ?thesis using rq(1) by (simp add: reqest_thread_def)
qed

section \<open>Any sequence of connections\<close>

text \<open>
  C5. Whatever connections come, in whatever order: on engines that read what is stored, requests without
  quotes leave the tables well formed (at most three lyres per machine, one variable per letter, one link
  per lyre and variable, fresh identifiers) and the list of relays in a state the operations of
  \<open>relay.cpp\<close> reach. Refused requests, failing commits and requests that do not parse are included.
\<close>

theorem served_state_ok:
  assumes "serve_all cs st = Some (Ok (Reply t st'))" "lira_state_ok st"
    "\<forall>(w, cl)\<in>set cs. reads_ok (lv_fb (lw_view w)) \<and> clean_client cl"
  shows "lira_state_ok st'"
  using assms
proof (induction cs arbitrary: st t)
  case Nil
  then show ?case by simp
next
  case (Cons c cs)
  obtain w cl where c: "c = (w, cl)" by (cases c)
  obtain u v st1 where one: "reqest_thread w cl st = Some (Ok (Reply u st1))" and rest: "serve_all cs st1 = Some (Ok (Reply v st'))"
    using Cons.prems(1) c by (auto split: option.splits sum.splits lira_outcome.splits)
  have "lira_state_ok st1"
    using thread_replies [OF one] handle_keeps Cons.prems(2,3) c by (auto simp: clean_client_def)
  then show ?case using Cons.IH rest Cons.prems(3) by simp
qed

theorem served_state_ok_witness:
  "\<exists>t st. serve_all [(demo_lira_world [], rendered ''DELETE'' ''/delete-um'' [(''u_id'', ''1'')] [])] demo_state =
     Some (Ok (Reply t st)) \<and> umovy (ls_db st) = [] \<and> lira_state_ok st"
proof -
  obtain t where s: "serve_all [(demo_lira_world [], rendered ''DELETE'' ''/delete-um'' [(''u_id'', ''1'')] [])] demo_state =
      Some (Ok (Reply t (demo_state\<lparr>ls_db := demo_tables\<lparr>umovy := []\<rparr>\<rparr>)))" using demo_delete_served by blast
  have "reads_ok (lv_fb (lw_view (demo_lira_world []))) \<and> clean_client (rendered ''DELETE'' ''/delete-um'' [(''u_id'', ''1'')] [])"
    using demo_request plain_reads by (auto simp: demo_lira_world_def clean_client_def clean_rq_def c_str_def NUL_def)
  then show ?thesis using served_state_ok [OF s demo_state_ok] s by simp
qed





section \<open>What ends the process\<close>

lemma check_in: "(k, v) \<in> set (rq_query rq) \<Longrightarrow> NUL \<notin> set k \<Longrightarrow> NUL \<notin> set v \<Longrightarrow> lira_check_param rq k v"
proof -
  have c: "NUL \<notin> set s \<Longrightarrow> c_str s = s" for s by (simp add: c_str_def takeWhile_free)
  assume "(k, v) \<in> set (rq_query rq)" "NUL \<notin> set k" "NUL \<notin> set v"
  then show ?thesis by (auto simp: lira_check_param_def list_ex_iff c intro!: bexI [of _ "(k, v)"])
qed

text \<open>
  Any client stops the server: whatever the method, the path, the other parameters and the headers of
  a rendered request are, with \<open>command=exit\<close> among its parameters the process ends, and whatever came
  before it is the last request served.
\<close>

theorem anyone_stops_server:
  assumes "meth \<in> {''GET'', ''POST'', ''PUT'', ''DELETE''}" "length kvs \<le> 256" "(''command'', ''exit'') \<in> set kvs"
    "list_all head_ok hs" "''content-length'' \<notin> fst ` set hs" "length (the (cl_first (rendered meth path kvs hs))) < 2999"
  shows "serve_all ((w, rendered meth path kvs hs) # cs) st = Some (Ok Exit)"
proof -
  obtain rq where rq: "decod_request (rendered meth path kvs hs) = Ok (Some rq)" "rq_query rq = kvs"
    using decod_rendered_whole [OF assms(1,2,4-6)] by blast
  have "lira_check_param rq ''command'' ''exit''"
    using assms(3) rq(2) by (intro check_in) (simp_all add: NUL_def)
  then show ?thesis using rq(1) by (simp add: reqest_thread_def)
qed

theorem anyone_stops_server_witness:
  "serve_all [(demo_lira_world [], rendered ''GET'' ''/x'' [(''command'', ''exit'')] [])] demo_state = Some (Ok Exit)"
proof -
  have l: "length_header [] = (''content-length'', ''0'')" by code_simp
  have n: "length (the (cl_first (rendered ''GET'' ''/x'' [(''command'', ''exit'')] []))) < 2999"
    by (simp add: rendered_def l lira_body_def lira_head_def render_line_def render_header_def crlf_def percent_encode_def
        percent_char_def plain_char_def is_digit_def hex_upper_def)
  show ?thesis using anyone_stops_server [of "''GET''" "[(''command'', ''exit'')]" "[]" "''/x''", OF _ _ _ _ _ n] by simp
qed


definition demo_rq :: "int \<Rightarrow> string \<Rightarrow> (string \<times> string) list \<Rightarrow> lira_rq" where
  "demo_rq m p kvs = new_rq\<lparr>rq_method := m, rq_path := p @ [NUL], rq_query := kvs\<rparr>"


section \<open>Files\<close>

definition dotted :: "string \<Rightarrow> bool" where
  "dotted p \<longleftrightarrow> (\<exists>a b. p = a @ ''..'' @ b)"

lemma dotted_Cons: "dotted (c # p) \<longleftrightarrow> (c = CHR ''.'' \<and> p \<noteq> [] \<and> hd p = CHR ''.'') \<or> dotted p"
proof
  assume "dotted (c # p)"
  then obtain a b where "c # p = a @ ''..'' @ b" unfolding dotted_def by blast
  then show "(c = CHR ''.'' \<and> p \<noteq> [] \<and> hd p = CHR ''.'') \<or> dotted p"
    by (cases a) (auto simp: dotted_def)
next
  assume "(c = CHR ''.'' \<and> p \<noteq> [] \<and> hd p = CHR ''.'') \<or> dotted p"
  then show "dotted (c # p)"
  proof
    assume c: "c = CHR ''.'' \<and> p \<noteq> [] \<and> hd p = CHR ''.''"
    then obtain q where "p = CHR ''.'' # q" by (cases p) auto
    with c show ?thesis unfolding dotted_def by (intro exI [of _ "[]"] exI [of _ q]) simp
  next
    assume "dotted p"
    then obtain a b where "p = a @ ''..'' @ b" unfolding dotted_def by blast
    then show ?thesis unfolding dotted_def by (intro exI [of _ "c # a"] exI [of _ b]) simp
  qed
qed

lemma climbs_dotted: "dotted (c_str p) \<Longrightarrow> climbs p"
proof (induction p rule: climbs.induct)
  case (1 a b s)
  have a: "a \<noteq> NUL"
  proof
    assume "a = NUL"
    then show False using "1.prems" by (auto simp: c_str_def dotted_def)
  qed
  then have eq: "c_str (a # b # s) = a # c_str (b # s)" by (simp add: c_str_def)
  from "1.prems" [unfolded eq dotted_Cons]
  consider (here) "a = CHR ''.''" "c_str (b # s) \<noteq> []" "hd (c_str (b # s)) = CHR ''.''" | (later) "dotted (c_str (b # s))"
    by blast
  then show ?case
  proof cases
    case here
    then have "b = CHR ''.''" "b \<noteq> NUL" by (auto simp: c_str_def split: if_splits)
    then show ?thesis using here(1) by simp
  next
    case later
    then have "b \<noteq> NUL" by (auto simp: c_str_def dotted_def)
    then show ?thesis using "1.IH" later by simp
  qed
qed (auto simp: c_str_def dotted_def split: if_splits)

definition agree_inside :: "lira_world \<Rightarrow> lira_world \<Rightarrow> bool" where
  "agree_inside w w' \<longleftrightarrow> lw_now w = lw_now w' \<and> (\<forall>p. \<not> dotted p \<longrightarrow> lw_files w (''www'' @ p) = lw_files w' (''www'' @ p))"

text \<open>
  C34. A path cannot leave the directory of the site: the answer to a request for a file, with all its
  error answers, is the same whatever files there are besides those whose names are \<open>www\<close> and a text
  without two dots in a row. (The paths of the help texts are another matter, see the next property.)
\<close>

theorem site_files_confined:
  assumes "rq_method rq \<in> {GET, HEAD}" "res_route rq = None" "\<not> is_script rq" "agree_inside w w'"
  shows "handle w rq st = handle w' rq st"
proof -
  have "send_static w head (rq_path rq) = send_static w' head (rq_path rq)" for head
  proof (cases "climbs (rq_path rq)")
    case True
    then show ?thesis using assms(4) by (simp add: send_static_def agree_inside_def)
  next
    case False
    then have "lw_files w (''www'' @ c_str (rq_path rq)) = lw_files w' (''www'' @ c_str (rq_path rq))" "lw_now w = lw_now w'"
      using assms(4) climbs_dotted unfolding agree_inside_def by blast+
    then show ?thesis by (simp add: send_static_def split: option.split)
  qed
  then show ?thesis using assms(1-3) by (auto simp: handle_def send_res_def method_defs)
qed

theorem site_files_confined_witness:
  "handle (demo_lira_world [(''etc/secret.txt'', ''key'')]) (demo_rq GET ''/../etc/secret.txt'' []) demo_state =
   handle (demo_lira_world []) (demo_rq GET ''/../etc/secret.txt'' []) demo_state"
proof (rule site_files_confined)
  show "agree_inside (demo_lira_world [(''etc/secret.txt'', ''key'')]) (demo_lira_world [])"
    by (auto simp: agree_inside_def demo_lira_world_def)
qed (simp_all add: demo_rq_def res_route_def is_script_def at_path_def rq_param_def c_str_def NUL_def)

text \<open>
  The help texts are not confined: with any two characters as language, every readable file that is
  not empty and whose name, of at most 99 characters, is \<open>www/instr/\<close>, the language, a slash, any
  parameter \<open>res\<close> (two dots and slashes included) and \<open>.txt\<close> is sent to the client.
\<close>

theorem script_reads_outside:
  assumes "is_script rq" "rq_method rq = GET" "c_str (take 2 (rq_lang rq)) = lng" "rq_lang rq \<noteq> []" "lira_znach rq ''res'' = Some res"
    "lw_files w (instr_name lng res) = Some content" "content \<noteq> []" "length (instr_name lng res) < 100"
  shows "handle w rq st = Some (Ok (lira_send_kap (lw_now w) 200 (int (length content)) 2 [] @ content, st))"
proof -
  have "res_route rq = None"
    using assms(1) by (auto simp: is_script_def res_route_def at_path_def)
  moreover have "send_script w False rq = Ok (lira_send_kap (lw_now w) 200 (int (length content)) 2 [] @ content)"
    using assms le_less_trans [OF length_takeWhile_le assms(8)]
    by (simp add: send_script_def par_txt_def fits_def send_file_def c_str_def)
  ultimately show ?thesis using assms(1,2) by (simp add: handle_def send_res_def method_defs)
qed

theorem script_reads_outside_witness:
  "\<exists>h. handle (demo_lira_world [(''www/instr/en/../../../secret.txt'', ''key'')])
     ((demo_rq GET ''/script-coment'' [(''res'', ''../../../secret'')])\<lparr>rq_lang := ''en''\<rparr>) demo_state = Some (Ok (h @ ''key'', demo_state))"
proof -
  let ?w = "demo_lira_world [(''www/instr/en/../../../secret.txt'', ''key'')]"
  let ?rq = "(demo_rq GET ''/script-coment'' [(''res'', ''../../../secret'')])\<lparr>rq_lang := ''en''\<rparr>"
  have "handle ?w ?rq demo_state = Some (Ok (lira_send_kap (lw_now ?w) 200 (int (length ''key'')) 2 [] @ ''key'', demo_state))"
    by (rule script_reads_outside [where lng = "''en''" and res = "''../../../secret''"])
      (simp_all add: is_script_def at_path_def demo_rq_def demo_lira_world_def rq_param_def lira_znach_def c_str_def NUL_def instr_name_def)
  then show ?thesis by blast
qed

text \<open>
  An empty file is announced with -1 bytes: \<open>HEAD\<close> says so, and \<open>GET\<close> then sends -1 bytes, which
  reads on behind the empty text.
\<close>

theorem empty_file_overread:
  assumes "rq_method rq \<in> {GET, HEAD}" "res_route rq = None" "\<not> is_script rq" "rq_path rq \<noteq> []" "\<not> climbs (rq_path rq)"
    "lw_files w (''www'' @ c_str (rq_path rq)) = Some []" "map_of file_types (extension (rq_path rq)) = Some typ"
  shows "handle w rq st = Some (if rq_method rq = HEAD then Ok (lira_send_kap (lw_now w) 200 (-1) 0 typ, st) else Inl OutOfRange)"
  using assms by (auto simp: handle_def send_res_def send_static_def send_file_def method_defs)

theorem empty_file_overread_witness:
  "handle (demo_lira_world [(''www/new.css'', [])]) (demo_rq GET ''/new.css'' []) demo_state = Some (Inl OutOfRange)"
proof -
  let ?w = "demo_lira_world [(''www/new.css'', [])]" and ?rq = "demo_rq GET ''/new.css'' []"
  have "handle ?w ?rq demo_state = Some (if rq_method ?rq = HEAD then Ok (lira_send_kap (lw_now ?w) 200 (-1) 0 ''text/css'', demo_state) else Inl OutOfRange)"
    by (rule empty_file_overread) (simp_all add: demo_rq_def res_route_def is_script_def at_path_def rq_param_def
        demo_lira_world_def extension_def last_dot_def file_types_def c_str_def NUL_def)
  then show ?thesis by (simp add: demo_rq_def method_defs)
qed

section \<open>GET and HEAD\<close>

lemma res_actions: "res_route rq = Some (Ok (a, ty)) \<Longrightarrow> shows_only a \<or> (\<exists>sn. a = Status sn)"
  by (auto simp: res_route_def root_route_def bind_res_Inr shows_only_def split: if_splits)

lemma get_actions:
  assumes "rq_method rq \<in> {GET, HEAD}" "routed rq a"
  shows "shows_only a \<or> (\<exists>sn. a = Status sn)"
proof -
  have "rq_method rq \<notin> {POST, PUT, DELETE}" using assms(1) by (auto simp: method_defs)
  then show ?thesis using assms(2) res_actions unfolding routed_def by blast
qed

text \<open>
  Reading is safe: no \<open>GET\<close> or \<open>HEAD\<close> changes the tables, whatever its path and parameters; all
  it can change is the list of relays, where asking for the relays drops those that have been silent.
\<close>

theorem get_keeps_tables:
  assumes "rq_method rq \<in> {GET, HEAD}" "handle w rq st = Some (Ok (out, st'))"
  shows "ls_db st' = ls_db st \<and> (st' = st \<or> (\<exists>sn t. lira_get_status (lw_now w) sn (ls_rel st) = Some (Ok (t, ls_rel st'))))"
proof (cases "st' = st")
  case False
  then obtain a t where a: "routed rq a" "run_action w a st = Some (Ok (t, st'))"
    using handle_actions [OF assms(2)] by blast
  moreover from this False have "\<not> shows_only a" using shows_only_keeps by blast
  ultimately obtain sn where "lift_rel st (lira_get_status (lw_now w) sn (ls_rel st)) = Some (Ok (t, st'))"
    using get_actions [OF assms(1)] by fastforce
  from lift_relD [OF this] show ?thesis by auto
qed simp

theorem get_keeps_tables_witness:
  "\<exists>out demo_state'. handle (demo_lira_world []) (demo_rq GET ''/'' [(''index'', ''add-mash'')]) demo_state = Some (Ok (out, demo_state')) \<and> ls_db demo_state' = ls_db demo_state"
proof -
  let ?w = "demo_lira_world []" and ?rq = "demo_rq GET ''/'' [(''index'', ''add-mash'')]"
  have r: "res_route ?rq = Some (Ok (AddForm, 1))"
    by (simp add: res_route_def root_route_def demo_rq_def at_path_def rq_param_def lira_check_param_def query_len_def c_str_def NUL_def)
  have h: "handle ?w ?rq demo_state = Some (Ok (page_of 0 1 get_add_mash, demo_state))"
    unfolding handle_def send_res_def r by (simp add: demo_rq_def method_defs answer_action_def demo_lira_world_def)
  then show ?thesis using get_keeps_tables [OF _ h] by (simp add: demo_rq_def)
qed

definition with_method :: "int \<Rightarrow> lira_rq \<Rightarrow> lira_rq" where
  "with_method m rq = rq\<lparr>rq_method := m\<rparr>"

lemma with_method_simps [simp]:
  "rq_method (with_method m rq) = m" "rq_path (with_method m rq) = rq_path rq" "rq_query (with_method m rq) = rq_query rq"
  "rq_lang (with_method m rq) = rq_lang rq" "rq_param (with_method m rq) k = rq_param rq k"
  "lira_check_param (with_method m rq) k v = lira_check_param rq k v" "lira_znach (with_method m rq) k = lira_znach rq k"
  "query_len (with_method m rq) = query_len rq" "at_path (with_method m rq) p = at_path rq p"
  by (simp_all add: with_method_def rq_param_def lira_check_param_def lira_znach_def query_len_def at_path_def)









end
