(* ===== verification/LiraServerEdges.thy ===== *)
theory LiraServerEdges
  imports LiraServerProps
begin

text \<open>
  Edges of the LiraCalc server: a first segment that fills the buffer, the parameters of a \<open>HEAD\<close>, and
  the date line of every answer, which is longer than its array.
\<close>

section \<open>The first segment\<close>

text \<open>
  The buffer is received into up to its last byte: a first segment of 2999 bytes or more (a browser's
  long headers will do) leaves no terminator behind it, and \<open>strlen\<close> reads on behind the block.
\<close>

theorem full_segment_overread:
  assumes "cl_first cl = Some x" "buff_size \<le> length x" "NUL \<notin> set (take buff_size x)"
  shows "serve_all ((w, cl) # cs) st = Some (Inl OutOfRange)"
  using assms by (simp add: reqest_thread_def decod_request_def Let_def first_mem_def cstr_at_def)

theorem full_segment_overread_witness:
  "serve_all [(demo_lira_world [], \<lparr>cl_first = Some (replicate 2999 (CHR ''a'')), cl_more = [], cl_mem = True\<rparr>)] demo_state = Some (Inl OutOfRange)"
  by (rule full_segment_overread [where x = "replicate 2999 (CHR ''a'')"]) (simp_all add: buff_size_def NUL_def)

section \<open>HEAD\<close>

text \<open>
  The parameters of a \<open>HEAD\<close> are dropped: only for \<open>GET\<close> is the text behind the question mark
  read, so a rendered \<open>HEAD\<close> request has no parameter, whatever its URL says, and is answered like one
  without.
\<close>

theorem head_query_ignored:
  assumes hs: "list_all head_ok hs" "''content-length'' \<notin> fst ` set hs"
    and x: "x = render_line ''HEAD'' path kvs @ concat (map render_header hs) @ crlf" "length x < 2999"
  shows "\<exists>rq. decod_request \<lparr>cl_first = Some x, cl_more = cs, cl_mem = m\<rparr> = Ok (Some rq) \<and> rq_method rq = HEAD \<and>
    rq_path rq = path @ [NUL] \<and> rq_query rq = []"
proof -
  have meth: "method_of ''HEAD'' \<noteq> -1" "method_of ''HEAD'' = HEAD" by (simp_all add: method_of_def method_defs)
  let ?zs = "replicate (buff_size - length x - 1) NUL"
  have nul: "NUL \<notin> set x"
  proof -
    have "NUL \<notin> set (target path kvs)" using target_free [OF special_not_plain(7)] by (auto simp: NUL_def)
    moreover have "NUL \<notin> set (concat (map render_header hs))" using hs(1) head_free by (auto simp: list_all_iff)
    ultimately show ?thesis by (simp add: x(1) render_line_target crlf_def) (simp add: NUL_def)
  qed
  have len: "length x < buff_size" "x \<noteq> []" using x by (simp_all add: buff_size_def render_line_def)
  have mem: "first_mem x = render_line ''HEAD'' path kvs @ concat (map render_header hs) @ crlf @ [] @ NUL # ?zs"
    using first_text(1) [OF nul len(1)] x(1) by simp
  let ?rq = "snd (fold meet_header hs (0, line_rq x ''HEAD'' path))"
  have zero: "fst (fold meet_header hs (0, line_rq x ''HEAD'' path)) = 0"
    using hs(2) by (subst fold_no_length) force+
  have lx: "length x = length (render_line ''HEAD'' path kvs) + length (concat (map render_header hs)) + 2 + length ([] :: string)"
    using x(1) by (simp add: crlf_def)
  obtain mid where lmid: "length mid = length (concat (map render_header hs))"
    and scan: "header_loop (length x) 0 (start_scan (first_mem x) x) = Ok \<lparr>sc_mem = cut_line ''HEAD'' path kvs @ mid @ crlf @ [] @ NUL # ?zs,
      sc_i = length (cut_line ''HEAD'' path kvs) + length mid, sc_fl = 0,
      sc_bbb = (if kvs = [] then 0 else length ''HEAD'' + length (percent_encode path) + 2),
      sc_len = 0, sc_rq = ?rq\<rparr>" (is "_ = Ok ?sc")
    using scan_rendered [OF meth(1) hs(1) mem _ lx, of x] unfolding zero by auto
  have rq: "rq_method ?rq = HEAD" "rq_path ?rq = path @ [NUL]"
    by (simp_all add: fold_rq line_rq_def meth(2))
  have loc: "locate_query \<lparr>cl_first = Some x, cl_more = cs, cl_mem = m\<rparr> (length x) ?sc =
      Some (Ok ((cut_line ''HEAD'' path kvs @ mid @ crlf) @ [] @ NUL # ?zs, length (cut_line ''HEAD'' path kvs @ mid @ crlf), ?rq))"
    using locate_whole [of ?sc "length x" "\<lparr>cl_first = Some x, cl_more = cs, cl_mem = m\<rparr>"] rq(1)
    by (simp add: method_defs lx lmid length_cut_line crlf_def)
  have "decod_request \<lparr>cl_first = Some x, cl_more = cs, cl_mem = m\<rparr> = Ok (Some (?rq\<lparr>rq_query := []\<rparr>))"
    by (rule decod_from [OF _ nul len(2,1) scan, where kvs = "[]" and post = ?zs and p = "cut_line ''HEAD'' path kvs @ mid @ crlf"])
      (use loc in simp_all)
  then show ?thesis using rq by simp
qed

theorem head_query_ignored_witness:
  "\<exists>rq. decod_request \<lparr>cl_first = Some (render_line ''HEAD'' ''/lialiapam'' [(''sn'', ''7'')] @ crlf), cl_more = [], cl_mem = True\<rparr> =
     Ok (Some rq) \<and> rq_query rq = []"
proof -
  have "length (render_line ''HEAD'' ''/lialiapam'' [(''sn'', ''7'')] @ crlf) < 2999"
    by (simp add: render_line_def crlf_def percent_encode_def percent_char_def plain_char_def is_digit_def hex_upper_def)
  then show ?thesis
    using head_query_ignored [of "[]" "render_line ''HEAD'' ''/lialiapam'' [(''sn'', ''7'')] @ crlf" "''/lialiapam''"
        "[(''sn'', ''7'')]" "[]" True] by auto
qed

section \<open>The date line\<close>

lemma sum_years_lower: "365 * k \<le> sum_years y k"
proof (induction k arbitrary: y)
  case (Suc k)
  have "365 \<le> year_days y" by (simp add: year_days_def)
  with Suc.IH [of "y + 1"] show ?case by simp
qed simp

lemma month_lengths_bound: "m < 12 \<Longrightarrow> month_lengths y ! m \<le> 31"
  by (drule month_cases, elim insertE emptyE) (simp_all add: month_lengths_def)

lemma date_ranges:
  assumes "date_ok n t" "n < 60000"
  shows "1970 \<le> mt_e t \<and> mt_e t < 10000 \<and> 1 \<le> mt_mo t \<and> mt_mo t \<le> 12 \<and> 1 \<le> mt_d t \<and> mt_d t \<le> 31 \<and>
    1 \<le> mt_dw t \<and> mt_dw t \<le> 7"
proof -
  obtain k m d where t: "mt_e t = 1970 + int k" "mt_mo t = int m + 1" "mt_d t = int d + 1" "m < 12"
    "d < month_lengths (1970 + int k) ! m" "n = sum_years 1970 k + sum_list (take m (month_lengths (1970 + int k))) + d"
    "mt_dw t = int ((n + 3) mod 7) + 1" using assms(1) unfolding date_ok_def by blast
  have k: "365 * k < 60000" using sum_years_lower [of k 1970] t(6) assms(2) by linarith
  have d: "d < 31" using month_lengths_bound [OF t(4), of "1970 + int k"] t(5) by linarith
  have w: "(n + 3) mod 7 < 7" by simp
  show ?thesis unfolding t(1-3,7) using k d w t(4) by auto
qed

lemma update_date_ok: "\<exists>n < 60000. date_ok n (lira_update now ch_p)"
proof -
  let ?u = "lira_utc now ch_p"
  let ?init = "\<lparr>mt_s = ?u mod 60, mt_mi = ?u div 60 mod 60, mt_h = ?u div 60 div 60 mod 24, mt_d = 1, mt_mo = 1,
      mt_e = 1970, mt_dw = 4\<rparr>"
  have "date_ok 0 ?init" unfolding date_ok_def
    by (intro exI [of _ 0] exI [of _ "0::nat"]) (simp add: month_lengths_def)
  then have ok: "date_ok (nat (?u div 86400)) (lira_update now ch_p)"
    using count_days_ok [of 0 ?init "nat (?u div 86400)"] by (simp add: lira_update_def Let_def lira_days)
  have "?u div 86400 \<le> (2 ^ 32 - 1) div 86400"
    by (rule zdiv_mono1) (use lira_utc_range [of now ch_p] in simp_all)
  then have "nat (?u div 86400) < 60000" by simp
  then show ?thesis using ok by blast
qed

lemma nat_str_length_ge: "10 ^ k \<le> n \<Longrightarrow> Suc k \<le> length (nat_str n)"
proof (induction k arbitrary: n)
  case 0
  show ?case by (cases "nat_str n") simp_all
next
  case (Suc k)
  then have n: "10 \<le> n" using order_trans [OF self_le_power [of "10::nat" "Suc k"]] by simp
  have "10 ^ k \<le> n div 10" using Suc.prems by (simp add: less_eq_div_iff_mult_less_eq)
  with Suc.IH have "Suc k \<le> length (nat_str (n div 10))" by blast
  then show ?case using n by (subst nat_str.simps) simp
qed

lemma year_length: "1000 \<le> y \<Longrightarrow> y < 10000 \<Longrightarrow> length (int_str y) = 4"
  using nat_str_length [of "nat y" 3] nat_str_length_ge [of 3 "nat y"] by (auto simp: int_str_def le_nat_iff nat_less_iff)

lemma name_starts:
  "1 \<le> mo \<Longrightarrow> mo \<le> 12 \<Longrightarrow> length (take 3 (full_months ! nat (mo - 1))) = 3"
  "1 \<le> dw \<Longrightarrow> dw \<le> 7 \<Longrightarrow> length (take 3 (full_days ! nat (dw - 1))) = 3"
proof -
  have m: "x \<in> set full_months \<union> set full_days \<Longrightarrow> length (take 3 x) = 3" for x
    by (auto simp: full_months_def full_days_def)
  show "1 \<le> mo \<Longrightarrow> mo \<le> 12 \<Longrightarrow> length (take 3 (full_months ! nat (mo - 1))) = 3"
    by (rule m, rule UnI1, rule nth_mem) (unfold full_months_def, simp)
  show "1 \<le> dw \<Longrightarrow> dw \<le> 7 \<Longrightarrow> length (take 3 (full_days ! nat (dw - 1))) = 3"
    by (rule m, rule UnI2, rule nth_mem) (unfold full_days_def, simp)
qed

text \<open>
  C40. Every answer overflows the array of its date line: whatever the time is, the line has 31
  characters and a terminator, and the array 30 bytes.
\<close>

theorem date_line_overflows:
  "length (date_line now) = 31 \<and> date_buffer < length (date_line now) + 1"
proof -
  let ?t = "lira_update now 0"
  obtain n where n: "n < 60000" "date_ok n ?t" using update_date_ok by blast
  note r = date_ranges [OF n(2,1)]
  have clock: "0 \<le> mt_s ?t" "mt_s ?t < 60" "0 \<le> mt_mi ?t" "mt_mi ?t < 60" "0 \<le> mt_h ?t" "mt_h ?t < 24"
    using update_ranges [of now 0] unfolding Let_def by blast+
  have "length (lira_daytoweek 3 [] ?t) = 3" "length (lira_mon 3 [] ?t) = 3" "length (lira_ear 4 ?t) = 4"
    using r name_starts year_length by (simp_all add: lira_daytoweek_def lira_mon_def lira_ear_def del: length_take)
  moreover have "length (lira_day 2 ?t) = 2" "length (lira_hor 2 ?t) = 2" "length (lira_min ?t) = 2" "length (lira_sec ?t) = 2"
    using r clock by (simp_all add: lira_day_def lira_hor_def lira_min_def lira_sec_def pad2_length)
  ultimately show ?thesis by (simp add: date_line_def Let_def crlf_def date_buffer_def)
qed

end
