(* ===== verification/LiraJson.thy ===== *)
theory LiraJson
  imports LiraConfig
begin

text \<open>
  The JSON the LiraCalc server writes: values, their text as \<open>get_json.cpp\<close> lays it out (no blanks, no
  escapes), and a reader for the part of JSON such texts lie in. What the reader accepts is JSON: numbers
  that fit 32 bits and have no leading zero, strings of UTF-8 characters of at most two bytes without
  quotes, backslashes and control characters, objects without repeated names. So the JSON library, by its
  documentation a conforming parser, reads these texts to the same values.
\<close>

section \<open>Strings\<close>

fun json_chars :: "string \<Rightarrow> bool" where
  "json_chars [] = True"
| "json_chars [c] = (32 \<le> ord c \<and> ord c < 128 \<and> c \<noteq> CHR 0x22 \<and> c \<noteq> CHR 0x5C)"
| "json_chars (c # d # s) =
     (if ord c < 128 then 32 \<le> ord c \<and> c \<noteq> CHR 0x22 \<and> c \<noteq> CHR 0x5C \<and> json_chars (d # s)
      else 0xC2 \<le> ord c \<and> ord c \<le> 0xDF \<and> 0x80 \<le> ord d \<and> ord d \<le> 0xBF \<and> json_chars s)"

definition ascii_char :: "char \<Rightarrow> bool" where
  "ascii_char c \<longleftrightarrow> 32 \<le> ord c \<and> ord c < 128 \<and> c \<noteq> CHR 0x22 \<and> c \<noteq> CHR 0x5C"

lemma json_chars_Cons: "ascii_char c \<Longrightarrow> json_chars (c # s) = json_chars s"
  by (cases s) (simp_all add: ascii_char_def)

lemma json_chars_ascii: "\<forall>c\<in>set s. ascii_char c \<Longrightarrow> json_chars s"
  by (induction s) (simp_all add: json_chars_Cons)

lemma json_chars_free: "json_chars s \<Longrightarrow> c \<in> set s \<Longrightarrow> c \<noteq> CHR 0x22 \<and> c \<noteq> NUL"
  by (induction s rule: json_chars.induct) (auto simp: NUL_def split: if_splits)

lemma json_chars_c_str [simp]: "json_chars s \<Longrightarrow> c_str s = s"
  using json_chars_free [of s] by (auto simp: c_str_def takeWhile_eq_all_conv)

lemma digit_ascii: "is_digit c \<Longrightarrow> ascii_char c"
  by (auto simp: is_digit_def ascii_char_def)

lemma json_chars_nat [simp]: "json_chars (nat_str n)"
  using nat_str_digits [of n] by (intro json_chars_ascii) (auto simp: list_all_iff digit_ascii)

lemma json_chars_int [simp]: "json_chars (int_str i)"
  by (simp add: int_str_def json_chars_Cons ascii_char_def)

section \<open>Values and their texts\<close>

definition jquote :: "string \<Rightarrow> string" where
  "jquote s = CHR 0x22 # s @ [CHR 0x22]"

primrec json_text :: "json \<Rightarrow> string" where
  "json_text JNull = ''null''"
| "json_text (JNum i) = int_str i"
| "json_text (JStr s) = jquote s"
| "json_text (JArr xs) = ''['' @ commas (map json_text xs) @ '']''"
| "json_text (JObj kvs) = ''{'' @ commas (map (\<lambda>(k, t). jquote k @ '':'' @ t) (map (map_prod id json_text) kvs)) @ ''}''"

definition fits_int :: "int \<Rightarrow> bool" where
  "fits_int i \<longleftrightarrow> - (2 ^ 31) \<le> i \<and> i < 2 ^ 31"

primrec json_ok :: "json \<Rightarrow> bool" where
  "json_ok JNull = False"
| "json_ok (JNum i) = fits_int i"
| "json_ok (JStr s) = json_chars s"
| "json_ok (JArr xs) = list_all json_ok xs"
| "json_ok (JObj kvs) = (list_all (\<lambda>(k, b). json_chars k \<and> b) (map (map_prod id json_ok) kvs) \<and> distinct (map fst kvs))"

section \<open>The reader\<close>

definition read_str :: "string \<Rightarrow> (string \<times> string) option" where
  "read_str s = (case s of
       [] \<Rightarrow> None
     | c # s \<Rightarrow> let body = takeWhile (\<lambda>c. c \<noteq> CHR 0x22) s
         in if c = CHR 0x22 \<and> json_chars body \<and> length body < length s then Some (body, drop (length body + 1) s) else None)"

definition read_num :: "string \<Rightarrow> (int \<times> string) option" where
  "read_num s =
     (let neg = (s \<noteq> [] \<and> hd s = CHR ''-''); s = (if neg then tl s else s);
          ds = takeWhile is_digit s; rest = dropWhile is_digit s;
          i = (if neg then - int (digits_val 0 ds) else int (digits_val 0 ds))
      in if ds = [] \<or> (hd ds = CHR ''0'' \<and> (length ds > 1 \<or> neg)) \<or> \<not> fits_int i \<or>
           (rest \<noteq> [] \<and> hd rest \<in> {CHR ''.'', CHR ''e'', CHR ''E''}) then None else Some (i, rest))"

fun read_val :: "nat \<Rightarrow> string \<Rightarrow> (json \<times> string) option"
  and read_items :: "nat \<Rightarrow> string \<Rightarrow> (json list \<times> string) option"
  and read_members :: "nat \<Rightarrow> string \<Rightarrow> ((string \<times> json) list \<times> string) option" where
  "read_val 0 s = None"
| "read_val (Suc n) s =
     (if s = [] then None
      else if hd s = CHR 0x22 then map_option (map_prod JStr id) (read_str s)
      else if hd s = CHR ''['' then
        (if tl s \<noteq> [] \<and> hd (tl s) = CHR '']'' then Some (JArr [], tl (tl s))
         else map_option (map_prod JArr id) (read_items n (tl s)))
      else if hd s = CHR ''{'' then
        (if tl s \<noteq> [] \<and> hd (tl s) = CHR ''}'' then Some (JObj [], tl (tl s))
         else case read_members n (tl s) of None \<Rightarrow> None
           | Some (kvs, r) \<Rightarrow> if distinct (map fst kvs) then Some (JObj kvs, r) else None)
      else map_option (map_prod JNum id) (read_num s))"
| "read_items 0 s = None"
| "read_items (Suc n) s =
     (case read_val n s of None \<Rightarrow> None
      | Some (v, r) \<Rightarrow>
          if r \<noteq> [] \<and> hd r = CHR '','' then map_option (map_prod (Cons v) id) (read_items n (tl r))
          else if r \<noteq> [] \<and> hd r = CHR '']'' then Some ([v], tl r) else None)"
| "read_members 0 s = None"
| "read_members (Suc n) s =
     (case read_str s of None \<Rightarrow> None
      | Some (k, r) \<Rightarrow>
          if r = [] \<or> hd r \<noteq> CHR '':'' then None
          else case read_val n (tl r) of None \<Rightarrow> None
            | Some (v, r) \<Rightarrow>
                if r \<noteq> [] \<and> hd r = CHR '','' then map_option (map_prod (Cons (k, v)) id) (read_members n (tl r))
                else if r \<noteq> [] \<and> hd r = CHR ''}'' then Some ([(k, v)], tl r) else None)"

definition json_read :: "string \<Rightarrow> json option" where
  "json_read s = (case read_val (length s + 1) s of Some (j, []) \<Rightarrow> Some j | _ \<Rightarrow> None)"

section \<open>Reading back a text\<close>

primrec need :: "json \<Rightarrow> nat" where
  "need JNull = 1"
| "need (JNum i) = 1"
| "need (JStr s) = 1"
| "need (JArr xs) = Suc (sum_list (map (\<lambda>x. Suc x) (map need xs)))"
| "need (JObj kvs) = Suc (sum_list (map (\<lambda>(k, x). Suc x) (map (map_prod id need) kvs)))"

definition ends :: "string \<Rightarrow> bool" where
  "ends r \<longleftrightarrow> (r = [] \<or> hd r \<in> {CHR '','', CHR '']'', CHR ''}''})"

lemma read_quoted:
  assumes "json_chars s"
  shows "read_str (jquote s @ r) = Some (s, r)"
proof -
  have "\<forall>c\<in>set s. c \<noteq> CHR 0x22" using json_chars_free assms by blast
  then have "takeWhile (\<lambda>c. c \<noteq> CHR 0x22) (s @ CHR 0x22 # r) = s" by (simp add: takeWhile_append)
  then show ?thesis using assms by (simp add: read_str_def jquote_def)
qed

lemma nat_str_leading: "nat_str n \<noteq> [] \<and> (hd (nat_str n) = CHR ''0'' \<longrightarrow> n = 0)"
proof (induction n rule: nat_str.induct)
  case (1 n)
  show ?case
  proof (cases "n < 10")
    case True
    then have "digit_char n = CHR ''0'' \<longrightarrow> n = 0" using ord_digit_char [of n] by (auto simp del: ord_digit_char)
    then show ?thesis using True by (subst (1 2) nat_str.simps) simp
  next
    case False
    with 1 show ?thesis by (subst (1 2) nat_str.simps) (auto simp: hd_append)
  qed
qed

lemma nat_str_zero: "nat_str 0 = ''0''"
  by (subst nat_str.simps) (simp add: digit_char_def, code_simp)

lemma read_int:
  assumes "fits_int i" "ends r"
  shows "read_num (int_str i @ r) = Some (i, r)"
proof -
  let ?n = "nat \<bar>i\<bar>"
  have d: "\<forall>c\<in>set (nat_str ?n). is_digit c" using nat_str_digits by (simp add: list_all_iff)
  have e: "r = [] \<or> \<not> is_digit (hd r)" "r = [] \<or> hd r \<notin> {CHR ''.'', CHR ''e'', CHR ''E''}"
    using assms(2) by (auto simp: ends_def is_digit_def)
  have t: "takeWhile is_digit (nat_str ?n @ r) = nat_str ?n" "dropWhile is_digit (nat_str ?n @ r) = r"
    using d e(1) by (cases r; simp add: takeWhile_append dropWhile_append)+
  have z: "hd (nat_str ?n) = CHR ''0'' \<longrightarrow> i = 0 \<and> length (nat_str ?n) = 1"
    using nat_str_leading [of ?n] nat_str_zero by auto
  have neg: "hd (nat_str ?n @ r) \<noteq> CHR ''-''"
    using d nat_str_leading [of ?n] by (cases "nat_str ?n") (auto simp: is_digit_def)
  have v: "digits_val 0 (nat_str ?n) = ?n" by (rule digits_val_nat_str)
  show ?thesis
  proof (cases "i < 0")
    case True
    then have s: "int_str i = CHR ''-'' # nat_str ?n" by (simp add: int_str_def)
    have "- int ?n = i" using True by simp
    then show ?thesis unfolding read_num_def s Let_def using t v z e(2) True assms(1) by auto
  next
    case False
    then have s: "int_str i = nat_str ?n" by (simp add: int_str_def)
    have "int ?n = i" using False by simp
    then show ?thesis unfolding read_num_def s Let_def using t v z e(2) neg assms(1) by auto
  qed
qed

lemma int_str_head: "hd (int_str i) \<notin> {CHR 0x22, CHR ''['', CHR ''{'', CHR '']'', CHR ''}''} \<and> int_str i \<noteq> []"
proof -
  have "\<forall>c\<in>set (int_str i). is_digit c \<or> c = CHR ''-''"
    using nat_str_digits by (auto simp: int_str_def list_all_iff)
  moreover have "int_str i \<noteq> []" by (simp add: int_str_def)
  ultimately show ?thesis by (cases "int_str i") (auto simp: is_digit_def)
qed

lemma text_head: "json_text j \<noteq> [] \<and> hd (json_text j) \<noteq> CHR '']'' \<and> hd (json_text j) \<noteq> CHR ''}''"
  using int_str_head by (cases j) (auto simp: jquote_def)

lemma commas_Cons: "xs \<noteq> [] \<Longrightarrow> commas (x # xs) = x @ '','' @ commas xs"
  by (cases xs) simp_all

lemma read_items_text:
  assumes "xs \<noteq> []" "\<And>x n r. x \<in> set xs \<Longrightarrow> need x \<le> n \<Longrightarrow> ends r \<Longrightarrow> read_val n (json_text x @ r) = Some (x, r)"
    "sum_list (map Suc (map need xs)) \<le> n"
  shows "read_items n (commas (map json_text xs) @ '']'' @ r) = Some (xs, r)"
  using assms
proof (induction xs arbitrary: n)
  case (Cons x xs)
  then obtain m where n: "n = Suc m" by (cases n) auto
  then have m: "need x \<le> m" "sum_list (map Suc (map need xs)) \<le> m" using Cons.prems(3) by auto
  show ?case
  proof (cases "xs = []")
    case True
    have "read_val m (json_text x @ '']'' @ r) = Some (x, '']'' @ r)"
      by (rule Cons.prems(2) [OF _ m(1)]) (simp_all add: ends_def)
    then show ?thesis using True n by simp
  next
    case False
    have "read_val m (json_text x @ '','' @ commas (map json_text xs) @ '']'' @ r) = Some (x, '','' @ commas (map json_text xs) @ '']'' @ r)"
      by (rule Cons.prems(2) [OF _ m(1)]) (simp_all add: ends_def)
    moreover have "read_items m (commas (map json_text xs) @ '']'' @ r) = Some (xs, r)"
      by (rule Cons.IH [OF False _ m(2)]) (use Cons.prems(2) in auto)
    ultimately show ?thesis using False n by (simp add: commas_Cons)
  qed
qed simp

abbreviation member_text :: "string \<times> json \<Rightarrow> string" where
  "member_text kv \<equiv> jquote (fst kv) @ '':'' @ json_text (snd kv)"

lemma read_members_text:
  assumes "kvs \<noteq> []" "\<And>x n r. x \<in> snd ` set kvs \<Longrightarrow> need x \<le> n \<Longrightarrow> ends r \<Longrightarrow> read_val n (json_text x @ r) = Some (x, r)"
    "sum_list (map (\<lambda>kv. Suc (need (snd kv))) kvs) \<le> n" "\<forall>kv\<in>set kvs. json_chars (fst kv)"
  shows "read_members n (commas (map member_text kvs) @ ''}'' @ r) = Some (kvs, r)"
  using assms
proof (induction kvs arbitrary: n)
  case (Cons kv kvs)
  obtain k x where kv: "kv = (k, x)" by (cases kv)
  obtain m where n: "n = Suc m" using Cons.prems(3) by (cases n) auto
  then have m: "need x \<le> m" "sum_list (map (\<lambda>kv. Suc (need (snd kv))) kvs) \<le> m" using Cons.prems(3) kv by auto
  have k: "read_str (jquote k @ rest) = Some (k, rest)" for rest using Cons.prems(4) kv by (simp add: read_quoted)
  show ?case
  proof (cases "kvs = []")
    case True
    have "read_val m (json_text x @ ''}'' @ r) = Some (x, ''}'' @ r)"
      by (rule Cons.prems(2) [OF _ m(1)]) (simp_all add: ends_def kv)
    then show ?thesis using True n kv k by simp
  next
    case False
    have "read_val m (json_text x @ '','' @ commas (map member_text kvs) @ ''}'' @ r) = Some (x, '','' @ commas (map member_text kvs) @ ''}'' @ r)"
      by (rule Cons.prems(2) [OF _ m(1)]) (simp_all add: ends_def kv)
    moreover have "read_members m (commas (map member_text kvs) @ ''}'' @ r) = Some (kvs, r)"
      by (rule Cons.IH [OF False _ m(2)]) (use Cons.prems(2,4) in auto)
    ultimately show ?thesis using False n kv k by (simp add: commas_Cons)
  qed
qed simp

lemma json_text_obj: "json_text (JObj kvs) = ''{'' @ commas (map member_text kvs) @ ''}''"
  by (simp add: split_beta comp_def)

lemma need_obj: "need (JObj kvs) = Suc (sum_list (map (\<lambda>kv. Suc (need (snd kv))) kvs))"
  by (simp add: split_beta comp_def)

lemma json_ok_obj: "json_ok (JObj kvs) \<longleftrightarrow> (\<forall>kv\<in>set kvs. json_chars (fst kv) \<and> json_ok (snd kv)) \<and> distinct (map fst kvs)"
  by (auto simp: list_all_iff)

declare json_text.simps(5) [simp del] need.simps(5) [simp del] json_ok.simps(5) [simp del]

lemma commas_head: "xs \<noteq> [] \<Longrightarrow> hd xs \<noteq> [] \<Longrightarrow> hd (commas xs @ r) = hd (hd xs)"
  by (cases xs rule: commas.cases) simp_all

lemma commas_nonempty: "xs \<noteq> [] \<Longrightarrow> hd xs \<noteq> [] \<Longrightarrow> commas xs \<noteq> []"
  by (cases xs rule: commas.cases) simp_all

lemma snd_snds: "snd kv \<in> Basic_BNFs.snds kv"
  by (cases kv) simp

lemma read_text: "json_ok j \<Longrightarrow> need j \<le> n \<Longrightarrow> ends r \<Longrightarrow> read_val n (json_text j @ r) = Some (j, r)"
proof (induction j arbitrary: n r)
  case (JNum i)
  obtain m where "n = Suc m" using JNum.prems(2) by (cases n) auto
  moreover obtain h t where "int_str i = h # t" using int_str_head [of i] by (cases "int_str i") auto
  ultimately show ?case using JNum read_int [of i r] int_str_head [of i] by simp
next
  case (JStr s)
  then obtain m where "n = Suc m" by (cases n) auto
  then show ?case using JStr read_quoted [of s r] by (simp add: jquote_def)
next
  case (JArr xs)
  then obtain m where m: "n = Suc m" "sum_list (map Suc (map need xs)) \<le> m" by (cases n) auto
  show ?case
  proof (cases "xs = []")
    case False
    have h: "hd (commas (map json_text xs) @ '']'' @ r) \<noteq> CHR '']''" "commas (map json_text xs) \<noteq> []"
      using False text_head [of "hd xs"] commas_head [of "map json_text xs"] commas_nonempty [of "map json_text xs"]
      by (simp_all add: hd_map)
    have "read_items m (commas (map json_text xs) @ '']'' @ r) = Some (xs, r)"
      using JArr False m(2) by (intro read_items_text) (auto simp: list_all_iff)
    then show ?thesis using m(1) h by simp
  qed (simp add: m(1))
next
  case (JObj kvs)
  then obtain m where m: "n = Suc m" "sum_list (map (\<lambda>kv. Suc (need (snd kv))) kvs) \<le> m" by (cases n) (auto simp: need_obj)
  have ok: "\<forall>kv\<in>set kvs. json_chars (fst kv) \<and> json_ok (snd kv)" "distinct (map fst kvs)"
    using JObj.prems(1) by (simp_all add: json_ok_obj)
  show ?case
  proof (cases "kvs = []")
    case False
    have h: "hd (commas (map member_text kvs) @ ''}'' @ r) \<noteq> CHR ''}''" "commas (map member_text kvs) \<noteq> []"
      using False commas_head [of "map member_text kvs"] commas_nonempty [of "map member_text kvs"]
      by (simp_all add: hd_map jquote_def)
    have "read_members m (commas (map member_text kvs) @ ''}'' @ r) = Some (kvs, r)"
    proof (rule read_members_text [OF False _ m(2)])
      fix x k q assume x: "x \<in> snd ` set kvs" "need x \<le> k" "ends q"
      then obtain kv where "kv \<in> set kvs" "x = snd kv" by blast
      then show "read_val k (json_text x @ q) = Some (x, q)"
        using JObj.IH [OF _ snd_snds, of kv k q] ok(1) x by blast
    qed (use ok(1) in blast)
    then show ?thesis using m(1) h ok(2) by (simp add: json_text_obj)
  qed (simp add: m(1) json_text_obj)
qed simp

lemma length_commas: "sum_list (map (\<lambda>t. Suc (length t)) xs) \<le> Suc (length (commas xs))"
  by (induction xs rule: commas.induct) simp_all

lemma need_text: "json_ok j \<Longrightarrow> need j \<le> length (json_text j)"
proof (induction j)
  case (JNum i)
  then show ?case using int_str_head [of i] by (cases "int_str i") simp_all
next
  case (JArr xs)
  have "sum_list (map Suc (map need xs)) \<le> sum_list (map (\<lambda>t. Suc (length t)) (map json_text xs))"
    using JArr by (auto simp: list_all_iff comp_def intro!: sum_list_mono)
  then show ?case using length_commas [of "map json_text xs"] by simp
next
  case (JObj kvs)
  have "sum_list (map (\<lambda>kv. Suc (need (snd kv))) kvs) \<le> sum_list (map (\<lambda>t. Suc (length t)) (map member_text kvs))"
    unfolding map_map
  proof (rule sum_list_mono)
    fix kv assume kv: "kv \<in> set kvs"
    then have "need (snd kv) \<le> length (json_text (snd kv))"
      using JObj.IH [OF kv snd_snds] JObj.prems by (auto simp: json_ok_obj)
    then show "Suc (need (snd kv)) \<le> ((\<lambda>t. Suc (length t)) \<circ> member_text) kv" by simp
  qed
  then show ?case using length_commas [of "map member_text kvs"] by (simp add: need_obj json_text_obj)
qed (simp_all add: jquote_def)

lemma json_read_text: "json_ok j \<Longrightarrow> json_read (json_text j) = Some j"
  using read_text [of j "length (json_text j) + 1" "[]"] need_text [of j] by (simp add: json_read_def ends_def)

end
