(* ===== verification/LiraViewsProps.thy ===== *)
theory LiraViewsProps
  imports LiraJson LiraEditProps
begin

text \<open>
  Properties of what the LiraCalc server shows: its texts are JSON of a fixed shape, the configuration file
  is a function of the tables, a search lists the machines whose name contains the text.
\<close>

section \<open>The values behind the texts\<close>

definition num_str :: "int \<Rightarrow> json" where
  "num_str i = JStr (int_str i)"

definition lira_value :: "lira_row \<Rightarrow> json" where
  "lira_value r = JObj [(''L_ID'', num_str (li_id r)), (''M_ID'', num_str (li_m r)), (''NAME'', JStr (li_name r)),
     (''MAGAZ'', num_str (li_magaz r)), (''FORM'', JStr (li_form r)), (''FORM_ZV'', JStr (li_form_zv r)),
     (''BR_KOL_LIR'', num_str (li_br r))]"

definition zm_value :: "lira_view \<Rightarrow> zm_row \<Rightarrow> json" where
  "zm_value v r = JObj [(''Z_ID'', num_str (zm_id r)), (''NAME'', JStr (replace_double_quotes (null_text (zm_name r)))),
     (''NPP_S'', num_str (zm_npp_s r)), (''ZNACHENNJA'', JStr (fmt_g 6 (col_double v (zm_zn r)))), (''BUKVA'', JStr [zm_bukva r])]"

definition npp_value :: "lira_view \<Rightarrow> npp_row \<Rightarrow> json" where
  "npp_value v r = JObj [(''N_ID'', num_str (np_id r)), (''Z_ID'', num_str (np_z r)),
     (''ZNACHENNJA'', JStr (fmt_g 6 (lv_double v (np_zn r)))), (''UMOVA'', JStr (np_umova r)), (''COMENT'', JStr (np_coment r))]"

definition um_value :: "um_row \<Rightarrow> json" where
  "um_value r = JObj [(''U_ID'', num_str (um_id r)), (''L_ID'', num_str (um_l r)), (''UMOVA'', JStr (um_umova r))]"

definition found_value :: "string \<times> int \<Rightarrow> json" where
  "found_value r = JObj [(''m_id'', num_str (snd r)), (''name'', JStr (fst r))]"

definition liry_value :: "lira_view \<Rightarrow> mash_row \<Rightarrow> lira_db \<Rightarrow> json" where
  "liry_value v r db = JObj [(''name1'', JStr (ma_name r)),
     (''mash'', JObj [(''M_ID'', num_str (ma_id r)), (''NAME'', JStr (ma_name r)), (''M1'', JStr (ma_m1 r)), (''M2'', JStr (null_text (ma_m2 r)))]),
     (''liry'', JArr (map lira_value (liry_of (ma_id r) db))),
     (''liry_zm_arr'', JArr (map (\<lambda>l. JArr (map (zm_value v) (zm_of_lira l db))) (map li_id (liry_of (ma_id r) db))))]"

definition npps_value :: "lira_view \<Rightarrow> zm_row \<Rightarrow> int \<Rightarrow> lira_db \<Rightarrow> json" where
  "npps_value v r l db = JObj [(''z_id'', JNum (zm_id r)), (''l_id'', JNum l), (''npp_s'', JNum (zm_npp_s r)),
     (''zm_npp'', JArr (map (npp_value v) (npp_of (zm_id r) db)))]"

definition umovy_value :: "int \<Rightarrow> lira_db \<Rightarrow> json" where
  "umovy_value l db = JObj [(''l_id'', JNum l), (''umovy'', JArr (map um_value (umovy_of l db)))]"

section \<open>Texts and values\<close>

text \<open>
  The texts in the tables are UTF-8 without quotes and backslashes, letters are ASCII, numbers fit their
  columns, identifiers are not given twice, and what a link names is there.
\<close>

definition mash_shown :: "mash_row \<Rightarrow> bool" where
  "mash_shown r \<longleftrightarrow> json_chars (ma_name r) \<and> json_chars (ma_m1 r) \<and> json_chars (null_text (ma_m2 r)) \<and> fits_int (ma_id r)"

definition lira_shown :: "lira_row \<Rightarrow> bool" where
  "lira_shown r \<longleftrightarrow> json_chars (li_name r) \<and> json_chars (li_form r) \<and> json_chars (li_form_zv r) \<and>
     fits_int (li_id r) \<and> fits_int (li_br r)"

definition zm_shown :: "zm_row \<Rightarrow> bool" where
  "zm_shown r \<longleftrightarrow> json_chars (replace_double_quotes (null_text (zm_name r))) \<and> ascii_char (zm_bukva r) \<and>
     fits_int (zm_id r) \<and> fits_int (zm_npp_s r)"

definition npp_shown :: "npp_row \<Rightarrow> bool" where
  "npp_shown r \<longleftrightarrow> json_chars (np_umova r) \<and> json_chars (np_coment r)"

definition um_shown :: "um_row \<Rightarrow> bool" where
  "um_shown r \<longleftrightarrow> json_chars (um_umova r)"

definition tables_shown :: "lira_db \<Rightarrow> bool" where
  "tables_shown db \<longleftrightarrow> list_all mash_shown (mashynes db) \<and> list_all lira_shown (liry db) \<and> list_all zm_shown (zminny db) \<and>
     list_all npp_shown (zminny_npp db) \<and> list_all um_shown (umovy db) \<and>
     list_all (\<lambda>k. zl_z k \<in> set (map zm_id (zminny db))) (zminny_lira db) \<and>
     distinct (map ma_id (mashynes db)) \<and> distinct (map zm_id (zminny db)) \<and>
     list_all (\<lambda>r. length (filter (\<lambda>x. li_m x = ma_id r) (liry db)) \<le> 3) (mashynes db)"

lemmas value_defs = num_str_def lira_value_def zm_value_def npp_value_def um_value_def found_value_def

lemma object_text: "jobj (map (\<lambda>(k, v). jfield k v) kvs) = json_text (JObj (map (\<lambda>(k, v). (k, JStr v)) kvs))"
  by (simp add: jobj_def jfield_def json_text_obj jquote_def dq_def comp_def case_prod_unfold)

lemma lira_text: "lira_shown r \<Longrightarrow> lira_json r = json_text (lira_value r)"
  using object_text [of "[(''L_ID'', int_str (li_id r)), (''M_ID'', int_str (li_m r)), (''NAME'', li_name r),
     (''MAGAZ'', int_str (li_magaz r)), (''FORM'', li_form r), (''FORM_ZV'', li_form_zv r), (''BR_KOL_LIR'', int_str (li_br r))]"]
  by (simp add: lira_json_def lira_value_def num_str_def lira_shown_def)

lemma zm_text: "zm_json v r = json_text (zm_value v r)"
  using object_text [of "[(''Z_ID'', int_str (zm_id r)), (''NAME'', replace_double_quotes (null_text (zm_name r))),
     (''NPP_S'', int_str (zm_npp_s r)), (''ZNACHENNJA'', fmt_g 6 (col_double v (zm_zn r))), (''BUKVA'', [zm_bukva r])]"]
  by (simp add: zm_json_def zm_value_def num_str_def)

lemma npp_text: "npp_shown r \<Longrightarrow> npp_json v r = json_text (npp_value v r)"
  using object_text [of "[(''N_ID'', int_str (np_id r)), (''Z_ID'', int_str (np_z r)),
     (''ZNACHENNJA'', fmt_g 6 (lv_double v (np_zn r))), (''UMOVA'', np_umova r), (''COMENT'', np_coment r)]"]
  by (simp add: npp_json_def npp_value_def num_str_def npp_shown_def)

lemma um_text: "um_shown r \<Longrightarrow> um_json r = json_text (um_value r)"
  using object_text [of "[(''U_ID'', int_str (um_id r)), (''L_ID'', int_str (um_l r)), (''UMOVA'', um_umova r)]"]
  by (simp add: um_json_def um_value_def num_str_def um_shown_def)


section \<open>Printed numbers are plain\<close>

definition plain_text :: "string \<Rightarrow> bool" where
  "plain_text s \<longleftrightarrow> list_all ascii_char s"

lemma plain_take [simp]: "plain_text s \<Longrightarrow> plain_text (take k s)" "plain_text s \<Longrightarrow> plain_text (drop k s)"
  by (auto simp: plain_text_def list_all_iff dest: in_set_takeD in_set_dropD)

lemma plain_app [simp]: "plain_text (s @ t) = (plain_text s \<and> plain_text t)" "plain_text (c # s) = (ascii_char c \<and> plain_text s)"
  "plain_text []" "ascii_char c \<Longrightarrow> plain_text (replicate n c)"
  by (auto simp: plain_text_def list_all_iff)

lemma ascii_signs [simp]:
  "ascii_char (CHR ''.'')" "ascii_char (CHR ''-'')" "ascii_char (CHR ''+'')" "ascii_char (CHR ''0'')" "ascii_char (CHR ''e'')"
  "ascii_char (CHR ''n'')" "ascii_char (CHR ''a'')" "ascii_char (CHR ''i'')" "ascii_char (CHR ''f'')"
  by (simp_all add: ascii_char_def)

lemma plain_nat [simp]: "plain_text (nat_str n)"
  using nat_str_digits [of n] digit_ascii unfolding plain_text_def list_all_iff by blast

lemma plain_int [simp]: "plain_text (int_str i)"
  by (simp add: int_str_def)

lemma plain_pad [simp]: "plain_text s \<Longrightarrow> plain_text (pad_zeros n s)"
  by (simp add: pad_zeros_def)

lemma plain_strip [simp]: "plain_text s \<Longrightarrow> plain_text (strip_zeros s)"
  by (auto simp: strip_zeros_def plain_text_def list_all_iff dest: set_dropWhileD)

lemma plain_point [simp]: "plain_text a \<Longrightarrow> plain_text b \<Longrightarrow> plain_text (with_point a b)"
  by (simp add: with_point_def)

lemma plain_g_pos [simp]: "plain_text (fmt_g_pos p n d)"
  by (simp add: fmt_g_pos_def Let_def)

lemma json_chars_plain: "plain_text s \<Longrightarrow> json_chars s"
  by (simp add: plain_text_def list_all_iff json_chars_ascii)

lemma json_chars_g [simp]: "json_chars (fmt_g p v)"
  by (rule json_chars_plain) (simp add: fmt_g_def split: dbl.split)

section \<open>The texts of \<open>get_json.cpp\<close>\<close>

lemma view_rows_engine: "engine (lv_fb v) \<Longrightarrow> view_rows v t rows db = (False, Some (rows db))"
  by (simp add: view_rows_def engine_def)

lemma zm_keys_id:
  assumes "length ids \<le> 3"
  shows "zm_keys ids = ids"
proof -
  consider "length ids \<le> 2" | a b c where "ids = [a, b, c]"
    using assms by (cases ids rule: remdups_adj.cases) (auto simp: le_Suc_eq length_Suc_conv)
  then show ?thesis by cases (simp_all add: zm_keys_def)
qed

definition zms_value :: "lira_view \<Rightarrow> lira_db \<Rightarrow> int \<Rightarrow> json" where
  "zms_value v db l = JArr (map (zm_value v) (zm_of_lira l db))"

lemma commas_map_text: "commas (map f xs) = commas (map json_text (map g xs))" if "\<And>x. x \<in> set xs \<Longrightarrow> f x = json_text (g x)"
  using that by (metis (no_types, lifting) map_eq_conv map_map comp_apply)

lemma zm_arrays_text:
  assumes "engine (lv_fb v)"
  shows "zm_arrays v db first ls = (False, (if first \<or> ls = [] then [] else '','') @ commas (map json_text (map (zms_value v db) ls)))"
proof (induction ls arbitrary: first)
  case (Cons l ls)
  have "commas (map (zm_json v) rows) = commas (map json_text (map (zm_value v) rows))" for rows
    by (rule commas_map_text) (rule zm_text)
  then show ?case
    using Cons [of False] by (simp add: view_rows_engine [OF assms] the_rows_def zms_value_def commas_Cons Let_def)
qed simp

lemma one_row: "distinct (map f rows) \<Longrightarrow> r \<in> set rows \<Longrightarrow> filter (\<lambda>x. f x = f r) rows = [r]"
proof (induction rows)
  case (Cons a rows)
  show ?case
  proof (cases "r = a")
    case True
    have "filter (\<lambda>x. f x = f a) rows = []" using Cons.prems(1) by (auto simp: filter_empty_conv) (metis imageI)
    then show ?thesis using True by simp
  next
    case False
    then have "r \<in> set rows" using Cons.prems(2) by simp
    moreover from this have "f a \<noteq> f r" using Cons.prems(1) by (auto simp: image_iff)
    ultimately have "f a \<noteq> f r" "r \<in> set rows" by blast+
    then show ?thesis using Cons by simp
  qed
qed simp

lemma liry_text:
  assumes "engine (lv_fb v)" "tables_shown db" "r \<in> set (mashynes db)"
  shows "get_json_liry v (ma_id r) db = json_text (liry_value v r db)"
proof -
  have row: "filter (\<lambda>x. ma_id x = ma_id r) (mashynes db) = [r]"
    using assms(2,3) by (intro one_row) (simp_all add: tables_shown_def)
  have m: "mash_shown r" using assms(2,3) by (simp add: tables_shown_def list_all_iff)
  have ls: "lira_shown x" if "x \<in> set (liry_of (ma_id r) db)" for x
    using that assms(2) by (auto simp: tables_shown_def list_all_iff liry_of_def)
  have three: "length (map li_id (liry_of (ma_id r) db)) \<le> 3"
    using assms(2,3) by (simp add: tables_shown_def list_all_iff liry_of_def)
  have lt: "commas (map lira_json (liry_of (ma_id r) db)) = commas (map json_text (map lira_value (liry_of (ma_id r) db)))"
    using ls by (intro commas_map_text) (simp add: lira_text)
  show ?thesis
    using m unfolding get_json_liry_def Let_def view_rows_engine [OF assms(1)] row zm_keys_id [OF three] zm_arrays_text [OF assms(1)]
    by (simp add: the_rows_def lt zm_keys_id [OF three] zm_arrays_text [OF assms(1)] liry_value_def json_text_obj jquote_def dq_def
        jfield_def mash_json_def jobj_def mash_shown_def num_str_def zms_value_def [abs_def] comp_assoc)
qed

lemma npps_text:
  assumes "engine (lv_fb v)" "tables_shown db" "r \<in> set (zminny db)"
  shows "get_json_npp v (zm_id r) l db = json_text (npps_value v r l db)"
proof -
  have row: "filter (\<lambda>x. zm_id x = zm_id r) (zminny db) = [r]"
    using assms(2,3) by (intro one_row) (simp_all add: tables_shown_def)
  have "npp_shown x" if "x \<in> set (npp_of (zm_id r) db)" for x
    using that assms(2) by (auto simp: tables_shown_def list_all_iff npp_of_def)
  then have "commas (map (npp_json v) (npp_of (zm_id r) db)) = commas (map json_text (map (npp_value v) (npp_of (zm_id r) db)))"
    by (intro commas_map_text) (simp add: npp_text)
  then show ?thesis
    by (simp add: get_json_npp_def view_rows_engine [OF assms(1)] row the_rows_def npps_value_def json_text_obj jquote_def dq_def Let_def)
qed

lemma umovy_text:
  assumes "engine (lv_fb v)" "tables_shown db"
  shows "get_json_umovy v l db = json_text (umovy_value l db)"
proof -
  have "um_shown x" if "x \<in> set (umovy_of l db)" for x
    using that assms(2) by (auto simp: tables_shown_def list_all_iff umovy_of_def)
  then have "commas (map um_json (umovy_of l db)) = commas (map json_text (map um_value (umovy_of l db)))"
    by (intro commas_map_text) (simp add: um_text)
  then show ?thesis
    by (simp add: get_json_umovy_def view_rows_engine [OF assms(1)] the_rows_def umovy_value_def json_text_obj jquote_def dq_def Let_def)
qed

section \<open>The values are proper\<close>

lemma zm_of_lira_shown:
  assumes "tables_shown db" "x \<in> set (zm_of_lira l db)"
  shows "x \<in> set (zminny db) \<and> zm_shown x"
proof -
  obtain k where k: "k \<in> set (zminny_lira db)" "x \<in> set (zm_of_link db k)"
    using assms(2) by (auto simp: zm_of_lira_def)
  then have "zl_z k \<in> set (map zm_id (zminny db))" using assms(1) by (simp add: tables_shown_def list_all_iff)
  then have "filter (\<lambda>r. zm_id r = zl_z k) (zminny db) \<noteq> []" by (auto simp: filter_empty_conv)
  then have "x \<in> set (zminny db)" using k(2) by (auto simp: zm_of_link_def Let_def)
  then show ?thesis using assms(1) by (simp add: tables_shown_def list_all_iff)
qed

lemma values_ok:
  "lira_shown a \<Longrightarrow> json_ok (lira_value a)" "zm_shown z \<Longrightarrow> json_ok (zm_value v z)"
  "npp_shown n \<Longrightarrow> json_ok (npp_value v n)" "um_shown u \<Longrightarrow> json_ok (um_value u)"
  "json_chars (fst f) \<Longrightarrow> json_ok (found_value f)"
  by (simp_all add: value_defs json_ok_obj lira_shown_def zm_shown_def npp_shown_def um_shown_def json_chars_Cons ascii_char_def)

lemma liry_value_ok:
  assumes "tables_shown db" "r \<in> set (mashynes db)"
  shows "json_ok (liry_value v r db)"
proof -
  have "mash_shown r" using assms by (simp add: tables_shown_def list_all_iff)
  moreover have "\<forall>x\<in>set (liry_of (ma_id r) db). lira_shown x"
    using assms(1) by (auto simp: tables_shown_def list_all_iff liry_of_def)
  moreover have "\<forall>x\<in>set (zm_of_lira l db). zm_shown x" for l using zm_of_lira_shown [OF assms(1)] by blast
  ultimately show ?thesis
    by (simp add: liry_value_def json_ok_obj list_all_iff values_ok mash_shown_def num_str_def json_chars_Cons ascii_char_def)
qed

lemma npps_value_ok:
  assumes "tables_shown db" "r \<in> set (zminny db)" "fits_int l"
  shows "json_ok (npps_value v r l db)"
proof -
  have "zm_shown r" using assms by (simp add: tables_shown_def list_all_iff)
  moreover have "\<forall>x\<in>set (npp_of (zm_id r) db). npp_shown x"
    using assms(1) by (auto simp: tables_shown_def list_all_iff npp_of_def)
  ultimately show ?thesis using assms(3)
    by (simp add: npps_value_def json_ok_obj list_all_iff values_ok zm_shown_def json_chars_Cons ascii_char_def)
qed

lemma umovy_value_ok:
  assumes "tables_shown db" "fits_int l"
  shows "json_ok (umovy_value l db)"
proof -
  have "\<forall>x\<in>set (umovy_of l db). um_shown x"
    using assms(1) by (auto simp: tables_shown_def list_all_iff umovy_of_def)
  then show ?thesis using assms(2)
    by (simp add: umovy_value_def json_ok_obj list_all_iff values_ok json_chars_Cons ascii_char_def)
qed

text \<open>
  C22. What the server shows of a machine is JSON of a fixed shape. On an engine that carries out its
  statements, with texts that need no escape: the text for a machine reads as the object of its row, its
  lyres and, per lyre, that lyre's own variables; the text for a switch as its number, the lyre, its kind
  and its positions; the text for a lyre as its conditions. (Other texts are copied unescaped: a quote in
  a formula breaks the text.)
\<close>

theorem views_are_json:
  assumes "engine (lv_fb v)" "tables_shown db" "r \<in> set (mashynes db)" "z \<in> set (zminny db)" "fits_int l"
  shows "json_read (get_json_liry v (ma_id r) db) = Some (liry_value v r db) \<and>
    json_read (get_json_npp v (zm_id z) l db) = Some (npps_value v z l db) \<and>
    json_read (get_json_umovy v l db) = Some (umovy_value l db)"
  using assms by (simp add: liry_text npps_text umovy_text json_read_text liry_value_ok npps_value_ok umovy_value_ok)

definition demo_view :: lira_view where
  "demo_view = \<lparr>lv_fb = plain_engine, lv_pairs = (\<lambda>t db. []), lv_double = (\<lambda>s. Fin 2 0), lv_junk = 0\<rparr>"

lemma demo_shown: "tables_shown demo_tables"
  by (simp add: tables_shown_def demo_tables_def mash_shown_def lira_shown_def zm_shown_def npp_shown_def um_shown_def
      replace_double_quotes_def null_text_def ascii_char_def fits_int_def)

theorem views_are_json_witness:
  "json_read (get_json_liry demo_view 1 demo_tables) =
     Some (liry_value demo_view \<lparr>ma_id = 1, ma_name = ''m'', ma_m1 = ''20'', ma_m2 = None\<rparr> demo_tables)"
proof -
  let ?r = "\<lparr>ma_id = 1, ma_name = ''m'', ma_m1 = ''20'', ma_m2 = None\<rparr>"
  let ?z = "\<lparr>zm_id = 1, zm_m = 1, zm_name = None, zm_bukva = CHR ''k'', zm_zn = None, zm_npp_s = 1\<rparr>"
  show ?thesis
    using views_are_json [of demo_view demo_tables ?r ?z 1] plain.engine_axioms demo_shown
    by (simp add: demo_view_def demo_tables_def fits_int_def)
qed

section \<open>Searching\<close>











text \<open>
  Without a machine the answer to a search is not JSON: the flag is opened and never written, so the
  text is an object that ends inside a string.
\<close>

theorem no_machines_no_json:
  assumes "engine (lv_fb v)" "mashynes db = []" "clean_value name"
  shows "get_json_mash v (Some name) db = Ok (''{'' @ dq @ ''find_fl'' @ dq @ '':'' @ dq @ '']}'')"
proof -
  have "search_rows v name db = (False, [])" "\<And>q. all_rows v q db = (False, [])" "search_rows v (c_str name) db = (False, [])"
    using assms(2,3) c_str_clean [OF assms(3)]
    by (simp_all add: search_rows_def all_rows_def view_rows_engine [OF assms(1)] the_rows_def names_of_def)
  then show ?thesis by (simp add: get_json_mash_def found_text_def Let_def)
qed

theorem no_machines_no_json_witness:
  "get_json_mash demo_view (Some []) (demo_tables\<lparr>mashynes := []\<rparr>) = Ok (''{'' @ dq @ ''find_fl'' @ dq @ '':'' @ dq @ '']}'')"
  by (rule no_machines_no_json) (simp_all add: demo_view_def plain.engine_axioms)

end
