(* ===== verification/LiraConfigProps.thy ===== *)
theory LiraConfigProps
  imports LiraViewsProps
begin

text \<open>
  The configuration file of a machine as a function of the tables: the detour over JSON texts and their
  parser loses nothing.
\<close>

section \<open>The file, from the tables\<close>

definition npp_lines :: "lira_view \<Rightarrow> char \<Rightarrow> npp_row \<Rightarrow> string" where
  "npp_lines v b r = [b] @ ''='' @ fmt_g 6 (lv_double v (np_zn r)) @ ''?'' @ np_umova r @ ''?'' @
     dq @ utf_to_cp1251 (np_coment r) @ dq @ crlf"

definition zm_lines :: "lira_view \<Rightarrow> lira_db \<Rightarrow> zm_row \<Rightarrow> string" where
  "zm_lines v db r =
     (let name = dq @ utf_to_cp1251 (replace_double_quotes (null_text (zm_name r))) @ dq @ crlf;
          zn = fmt_g 6 (col_double v (zm_zn r))
      in if zm_npp_s r = 0
         then [zm_bukva r] @ name @ (if dbl_zero (atof zn) then [] else [zm_bukva r] @ ''='' @ zn @ crlf)
         else [zm_bukva r] @ ''!'' @ (if zm_npp_s r = 2 then ''!'' else []) @ name @
              concat (map (npp_lines v (zm_bukva r)) (npp_of (zm_id r) db)))"

definition lira_lines :: "lira_view \<Rightarrow> lira_db \<Rightarrow> nat \<times> lira_row \<Rightarrow> string" where
  "lira_lines v db ir = (let (i, r) = ir in
     ''L'' @ int_str (int i + 1) @ '' '' @ dq @ utf_to_cp1251 (li_name r) @ dq @ '' M'' @ int_str (li_magaz r) @ crlf @
     li_form r @ crlf @ li_form_zv r @ crlf @ concat (map (zm_lines v db) (zm_of_lira (li_id r) db)) @
     gears_line (li_br r) @ concat (map (\<lambda>u. um_umova u @ crlf) (umovy_of (li_id r) db)))"

definition config_text :: "lira_view \<Rightarrow> lira_db \<Rightarrow> mash_row \<Rightarrow> string" where
  "config_text v db r =
     ''//  '' @ ma_name r @ crlf @ ma_m1 r @ crlf @
     (if atoi (null_text (ma_m2 r)) \<noteq> 0 then ''M2  '' @ null_text (ma_m2 r) @ crlf else []) @
     concat (map (lira_lines v db) (enumerate 0 (liry_of (ma_id r) db))) @ ''L0'' @ crlf"

section \<open>Members of a value\<close>

lemma jget_obj: "jget (JObj kvs) k = (case map_of kvs k of Some x \<Rightarrow> Ok x | None \<Rightarrow> Inl json_error)"
  by (simp add: jget_def)

lemma jstring_obj: "map_of kvs k = Some (JStr s) \<Longrightarrow> json_chars s \<Longrightarrow> jstring (JObj kvs) k = Ok s"
  by (simp add: jstring_def jget_obj)

lemma letter_json [simp]: "ascii_char c \<Longrightarrow> json_chars [c]"
  by (simp add: ascii_char_def)

declare json_chars.simps(2) [simp del]

lemma int_back: "fits_int i \<Longrightarrow> atoi (int_str i) = i"
  by (simp add: fits_int_def atoi_int_str)

lemma for_each_all:
  "(\<And>x t. x \<in> set xs \<Longrightarrow> f x t = Ok (Going (t @ g x))) \<Longrightarrow> for_each f xs t = Ok (Going (t @ concat (map g xs)))"
proof (induction xs arbitrary: t)
  case (Cons x xs)
  have "f x t = Ok (Going (t @ g x))" by (rule Cons.prems) simp
  then show ?case using Cons.IH [of "t @ g x"] Cons.prems by simp
qed simp

lemma for_each_map: "for_each f (map g xs) t = for_each (\<lambda>x. f (g x)) xs t"
proof (induction xs arbitrary: t)
  case (Cons x xs)
  have "after r (for_each f (map g xs)) = after r (for_each (\<lambda>x. f (g x)) xs)" for r
    using Cons by (cases r) simp_all
  then show ?case by simp
qed simp

lemma obj_ends: "ends_ok (json_text (JObj kvs))"
  by (simp add: ends_ok_def json_text_obj)

section \<open>The parser\<close>

text \<open>
  The JSON library: it reads every text the reference reader reads, to the same value, its members in the
  order of the text.
\<close>

locale json_parser =
  fixes parse :: "string \<Rightarrow> json option"
  assumes reads: "json_read t = Some j \<Longrightarrow> parse t = Some j"
begin

lemma parse_text: "json_ok j \<Longrightarrow> parse (json_text j) = Some j"
  by (rule reads [OF json_read_text])

end

interpretation ref: json_parser json_read
  by unfold_locales

section \<open>Entries\<close>

lemma npp_entry_eq:
  assumes "npp_shown r" "zm_shown z"
  shows "npp_entry (zm_value v z) (npp_value v r) t = Ok (Going (t @ npp_lines v (zm_bukva z) r))"
  using assms by (simp add: npp_entry_def npp_value_def zm_value_def jstring_obj npp_shown_def zm_shown_def npp_lines_def
      json_chars_Cons)

lemma um_entries_eq:
  assumes "tables_shown db"
  shows "for_each um_entry (map um_value (umovy_of l db)) t = Ok (Going (t @ concat (map (\<lambda>u. um_umova u @ crlf) (umovy_of l db))))"
  unfolding for_each_map
proof (rule for_each_all)
  fix u t assume "u \<in> set (umovy_of l db)"
  then have "um_shown u" using assms by (auto simp: tables_shown_def list_all_iff umovy_of_def)
  then show "um_entry (um_value u) t = Ok (Going (t @ um_umova u @ crlf))"
    by (simp add: um_entry_def um_value_def jstring_obj um_shown_def)
qed

context json_parser
begin

lemma zm_entry_eq:
  assumes "engine (lv_fb v)" "tables_shown db" "r \<in> set (zminny db)" "fits_int l"
  shows "zm_entry v parse db l (zm_value v r) t = Ok (Going (t @ zm_lines v db r))"
proof -
  have s: "zm_shown r" using assms(2,3) by (simp add: tables_shown_def list_all_iff)
  then have ints: "atoi (int_str (zm_npp_s r)) = zm_npp_s r" "atoi (int_str (zm_id r)) = zm_id r"
    by (simp_all add: int_back zm_shown_def)
  have strs: "jstring (zm_value v r) ''NPP_S'' = Ok (int_str (zm_npp_s r))" "jstring (zm_value v r) ''BUKVA'' = Ok [zm_bukva r]"
    "jstring (zm_value v r) ''NAME'' = Ok (replace_double_quotes (null_text (zm_name r)))"
    "jstring (zm_value v r) ''ZNACHENNJA'' = Ok (fmt_g 6 (col_double v (zm_zn r)))"
    "jstring (zm_value v r) ''Z_ID'' = Ok (int_str (zm_id r))"
    using s by (simp_all add: zm_value_def num_str_def jstring_obj zm_shown_def json_chars_Cons)
  have tx: "get_json_npp v (zm_id r) l db = json_text (npps_value v r l db)" by (rule npps_text [OF assms(1,2,3)])
  have p: "parse (json_text (npps_value v r l db)) = Some (npps_value v r l db)"
    by (rule parse_text [OF npps_value_ok [OF assms(2,3,4)]])
  have e: "ends_ok (json_text (npps_value v r l db))" by (simp add: npps_value_def obj_ends)
  have items: "jget (npps_value v r l db) ''zm_npp'' = Ok (JArr (map (npp_value v) (npp_of (zm_id r) db)))"
    by (simp add: npps_value_def jget_obj)
  have each: "for_each (npp_entry (zm_value v r)) (map (npp_value v) (npp_of (zm_id r) db)) u =
      Ok (Going (u @ concat (map (npp_lines v (zm_bukva r)) (npp_of (zm_id r) db))))" for u
  proof -
    have "for_each (\<lambda>x. npp_entry (zm_value v r) (npp_value v x)) (npp_of (zm_id r) db) u =
      Ok (Going (u @ concat (map (npp_lines v (zm_bukva r)) (npp_of (zm_id r) db))))"
      using assms(2) s by (intro for_each_all npp_entry_eq) (auto simp: tables_shown_def list_all_iff npp_of_def)
    then show ?thesis by (simp add: for_each_map)
  qed
  show ?thesis
    by (simp add: zm_entry_def strs ints tx e p items each jitems_def zm_lines_def Let_def)
qed

lemma zm_entries_eq:
  assumes "engine (lv_fb v)" "tables_shown db" "fits_int l"
  shows "for_each (zm_entry v parse db l) (map (zm_value v) (zm_of_lira l db)) t =
    Ok (Going (t @ concat (map (zm_lines v db) (zm_of_lira l db))))"
  unfolding for_each_map
  using zm_entry_eq [OF assms(1,2) _ assms(3)] zm_of_lira_shown [OF assms(2)] by (intro for_each_all) blast

lemma lira_entry_eq:
  assumes "engine (lv_fb v)" "tables_shown db" "i < length ls" "ls = liry_of (ma_id r) db"
  shows "lira_entry v parse db (liry_value v r db) (i, lira_value (ls ! i)) t = Ok (Going (t @ lira_lines v db (i, ls ! i)))"
proof -
  let ?a = "ls ! i"
  have "?a \<in> set ls" using assms(3) by simp
  then have a: "lira_shown ?a" using assms(2,4) by (auto simp: tables_shown_def list_all_iff liry_of_def)
  then have l: "fits_int (li_id ?a)" "atoi (int_str (li_id ?a)) = li_id ?a" "atoi (int_str (li_br ?a)) = li_br ?a"
    by (simp_all add: lira_shown_def int_back)
  have strs: "jstring (lira_value ?a) ''NAME'' = Ok (li_name ?a)" "jstring (lira_value ?a) ''MAGAZ'' = Ok (int_str (li_magaz ?a))"
    "jstring (lira_value ?a) ''FORM'' = Ok (li_form ?a)" "jstring (lira_value ?a) ''FORM_ZV'' = Ok (li_form_zv ?a)"
    "jstring (lira_value ?a) ''L_ID'' = Ok (int_str (li_id ?a))" "jstring (lira_value ?a) ''BR_KOL_LIR'' = Ok (int_str (li_br ?a))"
    using a by (simp_all add: lira_value_def num_str_def jstring_obj lira_shown_def)
  have arr: "jget (liry_value v r db) ''liry_zm_arr'' = Ok (JArr (map (\<lambda>l. JArr (map (zm_value v) (zm_of_lira l db))) (map li_id ls)))"
    unfolding assms(4) by (simp add: liry_value_def jget_obj)
  have nth: "jnth (JArr (map (\<lambda>l. JArr (map (zm_value v) (zm_of_lira l db))) (map li_id ls))) i = Ok (JArr (map (zm_value v) (zm_of_lira (li_id ?a) db)))"
    using assms(3) by (simp add: jnth_def)
  have um: "get_json_umovy v (li_id ?a) db = json_text (umovy_value (li_id ?a) db)" by (rule umovy_text [OF assms(1,2)])
  have p: "parse (json_text (umovy_value (li_id ?a) db)) = Some (umovy_value (li_id ?a) db)"
    by (rule parse_text [OF umovy_value_ok [OF assms(2) l(1)]])
  have e: "ends_ok (json_text (umovy_value (li_id ?a) db))" by (simp add: umovy_value_def obj_ends)
  have us: "jget (umovy_value (li_id ?a) db) ''umovy'' = Ok (JArr (map um_value (umovy_of (li_id ?a) db)))"
    by (simp add: umovy_value_def jget_obj)
  show ?thesis
    unfolding lira_entry_def lira_lines_def Let_def prod.case strs arr bind_res.simps nth l(2,3) um
    by (simp add: jitems_def zm_entries_eq [OF assms(1,2) l(1)] e p us um_entries_eq [OF assms(2)])
qed

lemma lira_entries_eq:
  assumes "engine (lv_fb v)" "tables_shown db" "ls = liry_of (ma_id r) db"
  shows "for_each (lira_entry v parse db (liry_value v r db)) (enumerate 0 (map lira_value ls)) t =
    Ok (Going (t @ concat (map (lira_lines v db) (enumerate 0 ls))))"
proof -
  have e: "enumerate 0 (map lira_value ls) = map (\<lambda>i. (i, lira_value (ls ! i))) [0..<length ls]"
    "enumerate 0 ls = map (\<lambda>i. (i, ls ! i)) [0..<length ls]"
    by (rule nth_equalityI; simp add: nth_enumerate_eq)+
  have "for_each (\<lambda>i. lira_entry v parse db (liry_value v r db) (i, lira_value (ls ! i))) [0..<length ls] t =
      Ok (Going (t @ concat (map (\<lambda>i. lira_lines v db (i, ls ! i)) [0..<length ls])))"
    by (intro for_each_all lira_entry_eq [OF assms(1,2) _ assms(3)]) simp
  then show ?thesis unfolding e for_each_map by (simp add: comp_def)
qed

lemma config_eq:
  assumes "engine (lv_fb v)" "tables_shown db" "r \<in> set (mashynes db)"
  shows "dwnldcnf v parse (ma_id r) db = Ok (config_text v db r)"
proof -
  let ?j = "liry_value v r db"
  have m: "mash_shown r" using assms(2,3) by (simp add: tables_shown_def list_all_iff)
  have tx: "get_json_liry v (ma_id r) db = json_text ?j" by (rule liry_text [OF assms(1,2,3)])
  have p: "parse (json_text ?j) = Some ?j" by (rule parse_text [OF liry_value_ok [OF assms(2,3)]])
  have e: "ends_ok (json_text ?j)" by (simp add: liry_value_def obj_ends)
  have h: "config_head ?j = Ok (''//  '' @ ma_name r @ crlf @ ma_m1 r @ crlf @
      (if atoi (null_text (ma_m2 r)) \<noteq> 0 then ''M2  '' @ null_text (ma_m2 r) @ crlf else []))"
    using m by (simp add: config_head_def liry_value_def jget_obj jstring_obj mash_shown_def)
  have ls: "jget ?j ''liry'' = Ok (JArr (map lira_value (liry_of (ma_id r) db)))" by (simp add: liry_value_def jget_obj)
  show ?thesis
    using lira_entries_eq [OF assms(1,2) refl]
    by (simp add: dwnldcnf_def tx Let_def e p h ls jitems_def config_text_def)
qed

end

section \<open>The file is a function of the tables\<close>

text \<open>
  The configuration file is the function \<open>config_text\<close> of the tables: on an engine that carries out
  its statements, with a JSON library that reads the texts of the reference reader as it does, and with
  texts that need no escape, the download of a machine is its name, its two gear lists, and for each lyre
  in order its line, its formulas, its variables with the positions of the switches, its gears and its
  conditions, the names in Windows-1251. No error text appears, no lyre is mixed up with another, and the
  detour over JSON changes nothing but the six digits constants are printed with.
\<close>

theorem config_refines_tables:
  assumes "engine (lv_fb v)" "tables_shown db" "json_parser parse" "r \<in> set (mashynes db)"
  shows "dwnldcnf v parse (ma_id r) db = Ok (config_text v db r)"
  by (rule json_parser.config_eq [OF assms(3,1,2,4)])

lemma demo_ints: "int_str 1 = ''1''" "int_str 2 = ''2''" "int_str 200000 = ''200000''"
  by (simp_all add: int_str_def nat_str.simps digit_char_def) code_simp+

lemma demo_two: "fmt_g 6 (Fin 2 0) = ''2''"
  by (simp add: fmt_g_def fmt_g_pos_def exp10_def round_div_def with_point_def strip_zeros_def demo_ints Let_def)

theorem config_refines_tables_witness:
  "dwnldcnf demo_view json_read 1 demo_tables = Ok (
     ''//  m'' @ crlf @ ''20'' @ crlf @ ''L1 '' @ dq @ ''delen'' @ dq @ '' M1'' @ crlf @ ''i=x'' @ crlf @ ''x=i'' @ crlf @
     ''k!'' @ dq @ dq @ crlf @ ''k=2?1=1?'' @ dq @ ''I'' @ dq @ crlf @ ''ABCD'' @ crlf @ ''c+d>=61'' @ crlf @ ''L0'' @ crlf)"
  (is "_ = Ok ?t")
proof -
  let ?r = "\<lparr>ma_id = 1, ma_name = ''m'', ma_m1 = ''20'', ma_m2 = None\<rparr>"
  have t: "config_text demo_view demo_tables ?r = ?t"
    by (simp add: config_text_def demo_tables_def demo_view_def liry_of_def zm_of_lira_def zm_of_link_def umovy_of_def npp_of_def
        lira_lines_def zm_lines_def npp_lines_def gears_line_def utf_to_cp1251_def null_text_def replace_double_quotes_def
        demo_two demo_ints Let_def atoi_eval c_str_def NUL_def)
  have "dwnldcnf demo_view json_read (ma_id ?r) demo_tables = Ok (config_text demo_view demo_tables ?r)"
    using plain.engine_axioms demo_shown
    by (intro config_refines_tables) (simp_all add: demo_view_def ref.json_parser_axioms demo_tables_def)
  then show ?thesis using t by simp
qed

end
