(* ===== verification/LiraConnect.thy ===== *)
theory LiraConnect
  imports LiraRequestFacts
begin

text \<open>
  Opening the data base of the LiraCalc server: \<open>connect_db\<close> of \<open>servak_na_linux/server/db.cpp\<close>. When
  the data base cannot be attached it is created, and the statements of \<open>www/DBscripts/firebird.sql\<close> are
  carried out one by one; without either the process ends. What the engine says to each step is an
  argument. The script is cut in memory at every \<open>---\<close>, looking back two bytes, at the beginning into
  the bytes before the block: these two are an argument as well.
\<close>

section \<open>Cutting the script\<close>

definition flat_char :: "char \<Rightarrow> char" where
  "flat_char c = (if c = CHR 0x0A \<or> c = CHR 0x0D then CHR '' '' else c)"

text \<open>The loop over the bytes: what is in memory, backwards, and the place of the last cut, \<open>nsz\<close>.\<close>

fun cut_loop :: "string \<Rightarrow> int option \<Rightarrow> string \<Rightarrow> string \<times> int option" where
  "cut_loop mem nsz [] = (rev mem, nsz)"
| "cut_loop mem nsz (c # cs) =
     (case mem of
        a # b # rest \<Rightarrow>
          if b = CHR ''-'' \<and> a = CHR ''-'' \<and> flat_char c = CHR ''-''
          then cut_loop (CHR '' '' # CHR '' '' # NUL # rest) (Some (int (length rest) - 2)) cs
          else cut_loop (flat_char c # mem) nsz cs
      | _ \<Rightarrow> cut_loop (flat_char c # mem) nsz cs)"

definition cut_script :: "char \<times> char \<Rightarrow> string \<Rightarrow> string \<times> int option" where
  "cut_script before script = (let (mem, nsz) = cut_loop [snd before, fst before] None script in (drop 2 mem @ [NUL], nsz))"

section \<open>Carrying it out\<close>

text \<open>
  The loop over the statements: those handed to the engine and whether it took them all. An uninitialised
  \<open>nsz\<close> (a script without a cut) is the fault \<open>OutOfRange\<close>, as is leaving the block. An empty first
  statement that is taken would be handed over for ever.
\<close>

partial_function (option) script_loop ::
  "(string \<Rightarrow> bool) \<Rightarrow> int option \<Rightarrow> string \<Rightarrow> nat \<Rightarrow> string list \<Rightarrow> (string list \<times> bool) res option" where
  "script_loop refuses nsz mem i sent =
     (let i = (if i = 0 then 0 else i + 1) in
      case cstr_at mem i of
        Inl e \<Rightarrow> Some (Inl e)
      | Inr s \<Rightarrow>
          if refuses s then Some (Ok (sent @ [s], False))
          else (case nsz of
              None \<Rightarrow> Some (Inl OutOfRange)
            | Some n \<Rightarrow> if int (i + length s) = n then Some (Ok (sent @ [s], True))
                else script_loop refuses nsz mem (i + length s) (sent @ [s])))"

text \<open>
  The outcomes of \<open>connect_db\<close>: attached, created (with the statements handed over and whether all were
  taken; then the server attaches, otherwise it removes the file), or the end of the process.
\<close>

datatype connection = Attached | Created "string list" bool | Lost

definition connect_db ::
  "bool \<Rightarrow> bool \<Rightarrow> (string \<Rightarrow> bool) \<Rightarrow> char \<times> char \<Rightarrow> string option \<Rightarrow> connection res option" where
  "connect_db attached created refuses before script =
     (if attached then Some (Ok Attached)
      else if \<not> created then Some (Ok Lost)
      else (case script of
          None \<Rightarrow> Some (Inl NullDeref)
        | Some text \<Rightarrow>
            let (mem, nsz) = cut_script before text
            in map_option (\<lambda>r. bind_res r (\<lambda>(sent, all). Ok (Created sent all))) (script_loop refuses nsz mem 0 [])))"

section \<open>What is carried out\<close>

text \<open>The statements of a script: its parts before the cuts, in one line each, the later ones indented.\<close>

fun statements :: "string list \<Rightarrow> string list" where
  "statements [] = []"
| "statements (p # ps) = map flat_char p # map (\<lambda>q. ''  '' @ map flat_char q) ps"

fun carry_out :: "(string \<Rightarrow> bool) \<Rightarrow> string list \<Rightarrow> string list \<times> bool" where
  "carry_out refuses [] = ([], True)"
| "carry_out refuses (s # ss) =
     (if refuses s then ([s], False) else let (sent, all) = carry_out refuses ss in (s # sent, all))"

lemma contains_Cons3: "contains ''---'' (c # s) = ((c = CHR ''-'' \<and> take 2 s = ''--'') \<or> contains ''---'' s)"
  by (auto simp: contains_def numeral_2_eq_2 numeral_3_eq_3)

lemma contains_Nil3: "\<not> contains ''---'' []"
  by (simp add: contains_def)

lemma flat_dash: "flat_char c = CHR ''-'' \<longleftrightarrow> c = CHR ''-''"
  by (simp add: flat_char_def)

lemma cut_loop_free:
  "\<not> contains ''---'' (b # a # t) \<Longrightarrow> cut_loop (a # b # rest) nsz (t @ u) = cut_loop (rev (map flat_char t) @ a # b # rest) nsz u"
proof (induction t arbitrary: a b rest)
  case (Cons c t)
  have no: "\<not> (b = CHR ''-'' \<and> a = CHR ''-'' \<and> c = CHR ''-'')" "\<not> contains ''---'' (a # c # t)"
    using Cons.prems by (auto simp: contains_Cons3)
  have "\<not> contains ''---'' (a # flat_char c # t)"
    using no(2) flat_dash [of c] by (auto simp: contains_Cons3 take_Cons' split: if_splits)
  from Cons.IH [OF this, of "b # rest"] no(1) show ?case by (auto simp: flat_dash)
qed simp

text \<open>One part and its cut, behind two characters that are no dashes or before a part that starts with none.\<close>

lemma cut_loop_part:
  assumes "\<not> contains ''---'' (b # a # p @ ''--'')"
  shows "cut_loop (a # b # rest) nsz (p @ ''---'' @ u) =
    cut_loop (CHR '' '' # CHR '' '' # NUL # rev (map flat_char p) @ a # b # rest) (Some (int (length p + length rest))) u"
proof -
  have "cut_loop (a # b # rest) nsz ((p @ ''--'') @ ''-'' @ u) =
      cut_loop (CHR ''-'' # CHR ''-'' # rev (map flat_char p) @ a # b # rest) nsz (''-'' @ u)"
    using cut_loop_free [OF assms, of rest nsz "''-'' @ u"] by (simp add: flat_char_def)
  then show ?thesis by (simp add: flat_char_def)
qed

definition part_ok :: "string \<Rightarrow> bool" where
  "part_ok p \<longleftrightarrow> \<not> contains ''---'' (p @ ''--'') \<and> NUL \<notin> set p"

definition mem_of :: "string list \<Rightarrow> string" where
  "mem_of ss = concat (map (\<lambda>s. s @ [NUL]) ss)"

lemma blanks_free: "\<not> contains ''---'' (CHR '' '' # CHR '' '' # s) \<longleftrightarrow> \<not> contains ''---'' s"
  by (simp add: contains_Cons3)

lemma cut_loop_parts:
  assumes "list_all part_ok ps" "part_ok tail"
  shows "cut_loop (CHR '' '' # CHR '' '' # rest) nsz (concat (map (\<lambda>p. p @ ''---'') ps) @ tail) =
    (rev rest @ mem_of (map (\<lambda>q. ''  '' @ map flat_char q) ps) @ ''  '' @ map flat_char tail,
     if ps = [] then nsz else Some (int (length rest + length (mem_of (map (\<lambda>q. ''  '' @ map flat_char q) ps))) - 3))"
  using assms
proof (induction ps arbitrary: rest nsz)
  case Nil
  have "\<not> contains ''---'' (CHR '' '' # CHR '' '' # tail)"
  proof
    assume "contains ''---'' (CHR '' '' # CHR '' '' # tail)"
    then have "contains ''---'' tail" by (simp add: contains_Cons3)
    then obtain u v where "tail = u @ ''---'' @ v" unfolding contains_iff by blast
    then have "tail @ ''--'' = u @ ''---'' @ (v @ ''--'')" by simp
    then have "contains ''---'' (tail @ ''--'')" unfolding contains_iff by blast
    then show False using Nil by (simp add: part_ok_def)
  qed
  from cut_loop_free [OF this, of rest nsz "[]"] show ?case by (simp add: mem_of_def)
next
  case (Cons p ps)
  let ?u = "concat (map (\<lambda>p. p @ ''---'') ps) @ tail"
  have "\<not> contains ''---'' (CHR '' '' # CHR '' '' # p @ ''--'')" using Cons.prems by (simp add: blanks_free part_ok_def)
  from cut_loop_part [OF this, of rest nsz ?u]
  have "cut_loop (CHR '' '' # CHR '' '' # rest) nsz (p @ ''---'' @ ?u) =
      cut_loop (CHR '' '' # CHR '' '' # NUL # rev (map flat_char p) @ CHR '' '' # CHR '' '' # rest) (Some (int (length p + length rest))) ?u" .
  then show ?case
    using Cons.IH [of "NUL # rev (map flat_char p) @ CHR '' '' # CHR '' '' # rest" "Some (int (length p + length rest))"] Cons.prems
    by (simp add: mem_of_def)
qed

lemma cut_script_parts:
  assumes "p \<noteq> []" "hd p \<noteq> CHR ''-''" "list_all part_ok (p # ps)" "part_ok tail"
  shows "cut_script before (concat (map (\<lambda>p. p @ ''---'') (p # ps)) @ tail) =
    (mem_of (statements (p # ps)) @ ''  '' @ map flat_char tail @ [NUL], Some (int (length (mem_of (statements (p # ps)))) - 1))"
proof -
  obtain j1 j2 where j: "before = (j1, j2)" by (cases before)
  obtain c q where p: "p = c # q" "c \<noteq> CHR ''-''" using assms(1,2) by (cases p) auto
  let ?u = "concat (map (\<lambda>p. p @ ''---'') ps) @ tail"
  have "\<not> contains ''---'' (c # q @ ''--'')" using assms(3) p by (simp add: part_ok_def)
  then have "\<not> contains ''---'' (j1 # j2 # p @ ''--'')" using p by (auto simp: contains_Cons3)
  from cut_loop_part [OF this, of "[]" None ?u] cut_loop_parts [OF _ assms(4), of ps "NUL # rev (map flat_char p) @ [j2, j1]"] assms(3)
  show ?thesis
    by (simp add: cut_script_def j mem_of_def)
qed

lemma script_loop_runs:
  assumes "\<forall>s\<in>set (s # ss). NUL \<notin> set s" "mem = mem_of (ds @ s # ss) @ t"
    "nsz = Some (int (length (mem_of (ds @ s # ss))) - 1)" "(if i = 0 then 0 else i + 1) = length (mem_of ds)"
    "ds = [] \<longrightarrow> s \<noteq> []"
  shows "script_loop refuses nsz mem i sent = (let (out, all) = carry_out refuses (s # ss) in Some (Ok (sent @ out, all)))"
  using assms
proof (induction ss arbitrary: s ds i sent)
  case Nil
  let ?i = "if i = 0 then 0 else i + 1"
  have "cstr_at mem ?i = Ok s"
    using cstr_at_app [of s "mem_of ds" t] Nil by (simp add: mem_of_def)
  then show ?case
    using Nil by (subst script_loop.simps) (simp add: Let_def mem_of_def)
next
  case (Cons s' ss)
  let ?i = "if i = 0 then 0 else i + 1"
  have c: "cstr_at mem ?i = Ok s"
    using cstr_at_app [of s "mem_of ds" "mem_of (s' # ss) @ t"] Cons.prems by (simp add: mem_of_def)
  have ne: "int (?i + length s) \<noteq> int (length (mem_of (ds @ s # s' # ss))) - 1"
    using Cons.prems(4) by (simp add: mem_of_def)
  have pos: "?i + length s \<noteq> 0"
    using Cons.prems(4,5) by (cases ds) (auto simp: mem_of_def)
  have "script_loop refuses nsz mem (?i + length s) (sent @ [s]) =
      (let (out, all) = carry_out refuses (s' # ss) in Some (Ok ((sent @ [s]) @ out, all)))"
  proof (rule Cons.IH [of s' "ds @ [s]"])
    show "(if ?i + length s = 0 then 0 else ?i + length s + 1) = length (mem_of (ds @ [s]))"
      using pos Cons.prems(4) by (simp add: mem_of_def)
  qed (use Cons.prems in simp_all)
  then show ?case
    using c ne Cons.prems(3) by (subst script_loop.simps) (simp add: Let_def split_beta)
qed

text \<open>
  A new data base gets the statements of the script in order, up to the first one the engine refuses:
  for a script of parts that are each followed by three dashes (the first part not empty and not starting
  with a dash), every part is handed over in one line; the text behind the last cut is not. The two bytes
  before the block do not matter.
\<close>

theorem script_carried_out:
  assumes "p \<noteq> []" "hd p \<noteq> CHR ''-''" "list_all part_ok (p # ps)" "part_ok tail"
  shows "connect_db False True refuses before (Some (concat (map (\<lambda>p. p @ ''---'') (p # ps)) @ tail)) =
    (let (sent, all) = carry_out refuses (statements (p # ps)) in Some (Ok (Created sent all)))"
proof -
  have n: "NUL \<notin> set (map flat_char q)" if "part_ok q" for q
    using that by (auto simp: part_ok_def flat_char_def NUL_def split: if_splits)
  have "\<forall>s\<in>set (statements (p # ps)). NUL \<notin> set s"
    using assms(3) n by (auto simp: list_all_iff NUL_def)
  then have run: "script_loop refuses (Some (int (length (mem_of (statements (p # ps)))) - 1))
      (mem_of (statements (p # ps)) @ ''  '' @ map flat_char tail @ [NUL]) 0 [] =
      (let (out, all) = carry_out refuses (statements (p # ps)) in Some (Ok ([] @ out, all)))"
    using script_loop_runs [of "map flat_char p" "map (\<lambda>q. ''  '' @ map flat_char q) ps" _ "[]" "''  '' @ map flat_char tail @ [NUL]"]
      assms(1) by (simp add: mem_of_def)
  have "connect_db False True refuses before (Some (concat (map (\<lambda>p. p @ ''---'') (p # ps)) @ tail)) =
      map_option (\<lambda>r. bind_res r (\<lambda>(sent, all). Ok (Created sent all)))
        (let (out, all) = carry_out refuses (statements (p # ps)) in Some (Ok ([] @ out, all)))"
    by (simp only: connect_db_def if_False if_True not_True_eq_False option.case cut_script_parts [OF assms] Let_def prod.case run)
  then show ?thesis
    by (cases "carry_out refuses (statements (p # ps))") (simp only: Let_def prod.case option.map bind_res.simps append_Nil)
qed

lemma script_carried_out_example:
  "connect_db False True (\<lambda>s. False) (NUL, NUL) (Some (''A'' @ [CHR 0x0A] @ ''---'' @ [CHR 0x0A] @ ''B;---'')) =
     Some (Ok (Created [''A '', ''   B;''] True))"
  using script_carried_out [of "''A'' @ [CHR 0x0A]" "[CHR 0x0A # ''B;'']" "[]" "\<lambda>s. False" "(NUL, NUL)"]
  by (simp add: part_ok_def contains_Cons3 contains_def numeral_2_eq_2 numeral_3_eq_3 flat_char_def NUL_def)

end
