(* ===== verification/LiraSetup.thy ===== *)
theory LiraSetup
  imports Prelude
begin

text \<open>
  The settings file of LiraCalc on Windows: \<open>servak_na_linux/server/setup.cpp\<close>. A file in UTF-8 or
  UTF-16 with a byte order mark holds one parameter per line, an identifier and a value with a blank
  between; the lines are kept in memory, looked up, changed and written back in the encoding they came in.
  \<open>wchar_t\<close> has 16 bits and \<open>char\<close> is signed there. A file is its bytes, \<open>None\<close> when it cannot be
  opened. The array the lines are read into has 999 elements and is not cleared: what is in it at first is
  the argument \<open>fresh\<close>; what \<open>swprintf\<close> leaves of a line that does not fit is the argument \<open>spill\<close>.
\<close>

type_synonym u16 = "16 word"
type_synonym wstr = "u16 list"

section \<open>Characters from bytes\<close>

text \<open>Zero stands for the end of the file and for bytes that are no character.\<close>

definition nxt10 :: "byte list \<Rightarrow> u16 \<times> byte list" where
  "nxt10 bs = (case bs of
     [] \<Rightarrow> (0, [])
   | b # r \<Rightarrow>
       if b < 0x80 then (ucast b, r)
       else if b < 0xC0 then (0, r)
       else if b < 0xE0 then
         (case r of
            [] \<Rightarrow> (0, [])
          | c # r \<Rightarrow> (push_bit 6 (ucast (b AND 0x1F)) + ucast (c AND 0x3F), r))
       else if b < 0xF0 then
         (case r of
            c # d # r \<Rightarrow> (push_bit 6 (push_bit 6 (ucast (b AND 0x0F)) + ucast (c AND 0x3F)) + ucast (d AND 0x3F), r)
          | _ \<Rightarrow> (0, []))
       else (if length r < 3 then (0, []) else (32, drop 3 r)))"

definition nxt20 :: "byte list \<Rightarrow> u16 \<times> byte list" where
  "nxt20 bs = (case bs of b # c # r \<Rightarrow> (push_bit 8 (scast b) + scast c, r) | _ \<Rightarrow> (0, []))"

definition nxt30 :: "byte list \<Rightarrow> u16 \<times> byte list" where
  "nxt30 bs = (case bs of b # c # r \<Rightarrow> (scast b + push_bit 8 (scast c), r) | _ \<Rightarrow> (0, []))"

definition nxt_of :: "nat \<Rightarrow> byte list \<Rightarrow> u16 \<times> byte list" where
  "nxt_of format bs = (if format = 1 then nxt10 bs else if format = 2 then nxt20 bs else if format = 3 then nxt30 bs else (0, bs))"

text \<open>The mark at the beginning: the format it stands for, zero for none, and the bytes behind it.\<close>

definition read_mark :: "byte list \<Rightarrow> nat \<times> byte list" where
  "read_mark bs = (case bs of
     b # c # r \<Rightarrow>
       if b = 0xEF then
         (if c = 0xBB then (case r of [] \<Rightarrow> (0, []) | d # r \<Rightarrow> (if d = 0xBF then 1 else 0, r)) else (0, r))
       else if b = 0xFE then (if c = 0xFF then 2 else 0, r)
       else if b = 0xFF then (if c = 0xFE then 3 else 0, r)
       else (0, r)
   | _ \<Rightarrow> (0, []))"

definition nxtWCH0 :: "nat \<Rightarrow> byte list \<Rightarrow> u16 \<times> nat \<times> byte list" where
  "nxtWCH0 format bs =
     (let (format, bs) = (if format = 0 then read_mark bs else (format, bs))
      in if format = 0 then (0, 0, bs) else let (w, bs) = nxt_of format bs in (w, format, bs))"

lemma nxt_of_shorter: "nxt_of f bs = (w, r) \<Longrightarrow> w \<noteq> 0 \<Longrightarrow> length r < length bs"
  by (auto simp: nxt_of_def nxt10_def nxt20_def nxt30_def split: list.splits if_splits)

lemma read_mark_shorter: "length (snd (read_mark bs)) \<le> length bs"
  by (auto simp: read_mark_def split: list.split)

lemma nxtWCH0_shorter: "nxtWCH0 f bs = (w, f', r) \<Longrightarrow> w \<noteq> 0 \<Longrightarrow> length r < length bs"
  using nxt_of_shorter read_mark_shorter [of bs]
  by (fastforce simp: nxtWCH0_def Let_def split: if_splits prod.splits)

section \<open>Lines\<close>

definition wcs :: "wstr \<Rightarrow> wstr" where
  "wcs s = takeWhile (\<lambda>w. w \<noteq> 0) s"

definition line_in :: "wstr \<Rightarrow> wstr res" where
  "line_in buf = (if 0 \<in> set buf then Ok (wcs buf) else Inl OutOfRange)"

text \<open>One line: the line if there is one, whether to go on, the format, the rest of the file, the array.\<close>

function readstring0 ::
  "nat \<Rightarrow> byte list \<Rightarrow> wstr \<Rightarrow> nat \<Rightarrow> (wstr option \<times> bool \<times> nat \<times> byte list \<times> wstr) res" where
  "readstring0 format bs buf i =
     (case nxtWCH0 format bs of (w, format', bs') \<Rightarrow>
        if w = 0 then
          (if i > 0 then bind_res (line_in buf) (\<lambda>l. Ok (Some l, False, format', bs', buf))
           else Ok (None, False, format', bs', buf))
        else if w = 10 then
          (if i < length buf then bind_res (line_in (buf[i := 0])) (\<lambda>l. Ok (Some l, True, format', bs', buf[i := 0]))
           else Inl OutOfRange)
        else if w = 13 then readstring0 format' bs' buf i
        else if i < length buf then readstring0 format' bs' (buf[i := w]) (i + 1)
        else Inl OutOfRange)"
  by auto
termination
proof (relation "measure (\<lambda>(f, bs, buf, i). length bs)")
qed (auto dest: nxtWCH0_shorter [OF sym])

fun open_lines :: "nat \<Rightarrow> nat \<Rightarrow> byte list \<Rightarrow> wstr \<Rightarrow> (nat \<times> wstr list) res" where
  "open_lines 0 format bs buf = Ok (format, [])"
| "open_lines (Suc n) format bs buf =
     bind_res (readstring0 format bs buf 0) (\<lambda>(l, more, format, bs, buf).
       if more then bind_res (open_lines n format bs buf) (\<lambda>(f, ls). Ok (f, the l # ls))
       else Ok (format, case l of None \<Rightarrow> [] | Some l \<Rightarrow> [l]))"

section \<open>The table\<close>

datatype block = NullBlock | Live | Freed

record wsetup =
  ws_mmm :: "wstr list"
  ws_block :: block
  brbr_mem :: nat
  ws_adrr :: "string option"
  ws_format :: nat

definition new_wsetup :: wsetup where
  "new_wsetup = \<lparr>ws_mmm = [], ws_block = NullBlock, brbr_mem = 0, ws_adrr = None, ws_format = 0\<rparr>"

definition lenght_setup :: "byte list option \<Rightarrow> nat" where
  "lenght_setup file = (case file of None \<Rightarrow> 0 | Some bs \<Rightarrow> length (filter (\<lambda>b. b = 10) bs))"

definition open_setup :: "byte list option \<Rightarrow> wstr \<Rightarrow> string \<Rightarrow> nat \<Rightarrow> wsetup \<Rightarrow> (nat \<times> wsetup) res" where
  "open_setup file fresh adr brbr st =
     (let brbr = (if brbr = 0 then lenght_setup file else brbr)
      in if length adr \<ge> 99 then Inl OutOfRange
         else (case file of
             None \<Rightarrow> Ok (0, \<lparr>ws_mmm = [], ws_block = Live, brbr_mem = brbr, ws_adrr = Some adr, ws_format = 1\<rparr>)
           | Some bs \<Rightarrow>
               bind_res (open_lines brbr 0 bs fresh) (\<lambda>(format, ls).
                 if format = 0
                 then Ok (0, \<lparr>ws_mmm = ls, ws_block = Live, brbr_mem = brbr, ws_adrr = None, ws_format = 0\<rparr>)
                 else Ok (length ls, \<lparr>ws_mmm = ls, ws_block = Live, brbr_mem = brbr, ws_adrr = Some adr, ws_format = format\<rparr>))))"

definition close_setup :: "wsetup \<Rightarrow> (nat \<times> wsetup) res" where
  "close_setup st = (case ws_block st of
     NullBlock \<Rightarrow> Ok (0, st) | Live \<Rightarrow> Ok (0, st\<lparr>ws_block := Freed\<rparr>) | Freed \<Rightarrow> Inl Dangling)"

text \<open>The line of an identifier: its place, \<open>Inl True\<close> when a line without a blank comes first.\<close>

fun seek_id :: "wstr \<Rightarrow> wstr list \<Rightarrow> nat \<Rightarrow> bool + nat" where
  "seek_id k [] i = Inl False"
| "seek_id k (l # ls) i =
     (if 32 \<notin> set l then Inl True
      else if takeWhile (\<lambda>w. w \<noteq> 32) l = k then Inr i
      else seek_id k ls (i + 1))"

definition set_setup :: "wstr \<Rightarrow> wstr \<Rightarrow> wsetup \<Rightarrow> (int \<times> wsetup) res" where
  "set_setup k v st =
     (if ws_block st = Freed then Inl Dangling
      else (case seek_id k (ws_mmm st) 0 of
          Inl True \<Rightarrow> Ok (-1, st)
        | Inr i \<Rightarrow> Ok (1, st\<lparr>ws_mmm := (ws_mmm st)[i := k @ 32 # v]\<rparr>)
        | Inl False \<Rightarrow>
            let st' = st\<lparr>ws_mmm := ws_mmm st @ [k @ 32 # v]\<rparr>
            in if length (ws_mmm st) = brbr_mem st
               then Ok (3, st'\<lparr>brbr_mem := brbr_mem st + 1, ws_block := Live\<rparr>)
               else Ok (2, st')))"

text \<open>The value is copied to the caller's array when there is one and it is large enough.\<close>

definition get_setup :: "wstr \<Rightarrow> bool \<Rightarrow> int \<Rightarrow> wsetup \<Rightarrow> (int \<times> wstr option) res" where
  "get_setup k null sz_param st =
     (if ws_block st = Freed \<and> ws_mmm st \<noteq> [] then Inl Dangling
      else (case seek_id k (ws_mmm st) 0 of
          Inl True \<Rightarrow> Ok (-1, None)
        | Inl False \<Rightarrow> Ok (0, None)
        | Inr i \<Rightarrow>
            let v = drop (length k + 1) (ws_mmm st ! i)
            in if sz_param = 0 \<or> null then Ok (int (length v) + 1, None)
               else if sz_param < int (length v) + 1 then Ok (-2, None)
               else Ok (int (length v) + 1, Some v)))"

section \<open>Writing\<close>

definition wide_line :: "(wstr \<Rightarrow> wstr) \<Rightarrow> wstr \<Rightarrow> wstr" where
  "wide_line spill l = (if length l + 2 < 999 then l @ [13, 10] else wcs (take 998 (spill l)))"

text \<open>
  \<open>(wchar_t)0x10000\<close> is zero, so the last comparison never holds: as in the code, characters from
  0x800 on are written as nothing.
\<close>

definition enc1 :: "u16 \<Rightarrow> byte list" where
  "enc1 w =
     (if w < 0x80 then [ucast w]
      else if w < 0x800 then [0xC0 + ucast (drop_bit 6 w mod 0x20), 0x80 + ucast (w mod 0x40)]
      else if w < 0x10000 then
        [0xE0 + ucast (drop_bit 6 (drop_bit 6 w) mod 0x10), 0x80 + ucast (drop_bit 6 w mod 0x40), 0x80 + ucast (w mod 0x40)]
      else [])"

definition enc2 :: "u16 \<Rightarrow> byte list" where
  "enc2 w = [ucast w, ucast (drop_bit 8 w)]"

definition writeF1 :: "(wstr \<Rightarrow> wstr) \<Rightarrow> wstr \<Rightarrow> byte list" where
  "writeF1 spill l = concat (map enc1 (wide_line spill l))"

definition writeF2 :: "(wstr \<Rightarrow> wstr) \<Rightarrow> wstr \<Rightarrow> byte list" where
  "writeF2 spill l = concat (map enc2 (wide_line spill l))"

text \<open>The array itself, as it is in memory.\<close>

definition writeF3 :: "(wstr \<Rightarrow> wstr) \<Rightarrow> wstr \<Rightarrow> byte list" where
  "writeF3 spill l = concat (map (\<lambda>w. [ucast w, ucast (drop_bit 8 w)]) (wide_line spill l))"

definition file_text :: "(wstr \<Rightarrow> wstr) \<Rightarrow> nat \<Rightarrow> wstr list \<Rightarrow> byte list" where
  "file_text spill format ls =
     (if format = 1 then [0xEF, 0xBB, 0xBF] @ concat (map (writeF1 spill) ls)
      else if format = 2 then [0xFE, 0xFF] @ concat (map (writeF2 spill) ls)
      else if format = 3 then [0xFF, 0xFE] @ concat (map (writeF3 spill) ls)
      else [])"

text \<open>What it returns and what is written, \<open>None\<close> for no file.\<close>

definition save_setup :: "(wstr \<Rightarrow> wstr) \<Rightarrow> wsetup \<Rightarrow> (nat \<times> byte list option) res" where
  "save_setup spill st = (case ws_adrr st of
     None \<Rightarrow> Ok (0, None)
   | Some adr \<Rightarrow> if ws_block st = Freed then Inl Dangling
       else Ok (1, Some (file_text spill (ws_format st) (ws_mmm st))))"

end
