(* ===== verification/LiraSetupProps.thy ===== *)
theory LiraSetupProps
  imports LiraSetup
begin

text \<open>
  What the settings file of LiraCalc keeps: a table is a store, with the laws of a map under its
  invariant; saved and opened again it is the same in UTF-8 and in UTF-16 with the low byte first, but for
  characters that do not survive. What is lost is stated exactly.
\<close>

section \<open>Characters survive\<close>

lemma unat_low: "unat (ucast (w :: u16) :: byte) = unat w mod 256"
  by (simp add: unsigned_ucast_eq take_bit_eq_mod)

lemma unat_wide: "unat (ucast (b :: byte) :: u16) = unat b"
  by (simp add: unsigned_ucast_eq take_bit_nat_eq_self unsigned_less [of b, simplified] order_less_trans [OF unsigned_less [of b]])

lemma unat_and_1F: "unat ((b :: byte) AND 0x1F) = unat b mod 32"
  using arg_cong [OF take_bit_eq_mask [of 5 b], of unat] by (simp add: mask_eq_exp_minus_1 unsigned_take_bit_eq) (simp add: take_bit_eq_mod)

lemma unat_and_3F: "unat ((b :: byte) AND 0x3F) = unat b mod 64"
  using arg_cong [OF take_bit_eq_mask [of 6 b], of unat] by (simp add: mask_eq_exp_minus_1 unsigned_take_bit_eq) (simp add: take_bit_eq_mod)

lemma enc1_ascii: "w < 0x80 \<Longrightarrow> nxt10 (enc1 w @ r) = (w, r)"
  by (simp add: enc1_def nxt10_def word_less_nat_alt unat_low word_unat_eq_iff unat_wide)

lemma enc1_bytes:
  "unat (0xC0 + ucast (drop_bit 6 (w :: u16) mod 0x20) :: byte) = 192 + unat w div 64 mod 32"
  "unat (0x80 + ucast (w mod 0x40) :: byte) = 128 + unat w mod 64"
  by (simp_all add: unat_word_ariths unat_low unat_mod unsigned_drop_bit_eq drop_bit_eq_div mod_mod_cancel)

lemma two_bytes_read:
  assumes "unat b = 192 + n div 64" "unat c = 128 + n mod 64" "n < 0x800"
  shows "nxt10 (b # c # r) = (of_nat n, r)"
proof -
  have q: "n div 64 < 32" using assms(3) by simp
  have m: "(192 + n div 64) mod 32 = n div 64" "(128 + n mod 64) mod 64 = n mod 64"
    using q mod_mult_self3 [of 6 32 "n div 64"] mod_mult_self3 [of 2 64 "n mod 64"] by simp_all
  have "push_bit 6 (ucast (b AND 0x1F) :: u16) + ucast (c AND 0x3F) = of_nat n"
    using assms q m
    by (simp add: word_unat_eq_iff unat_word_ariths push_bit_eq_mult unat_wide unat_and_1F unat_and_3F unat_of_nat)
  then show ?thesis using assms(1) q by (simp add: nxt10_def word_less_nat_alt)
qed

lemma enc1_two:
  assumes "0x80 \<le> w" "w < 0x800"
  shows "nxt10 (enc1 w @ r) = (w, r)"
proof -
  have w: "128 \<le> unat w" "unat w < 0x800" using assms by (simp_all add: word_less_nat_alt word_le_nat_alt)
  then have "enc1 w = [0xC0 + ucast (drop_bit 6 w mod 0x20), 0x80 + ucast (w mod 0x40)]"
    by (simp add: enc1_def word_less_nat_alt)
  then show ?thesis
    using two_bytes_read [OF _ _ w(2), of _ _ r] enc1_bytes [of w] w by simp
qed

lemma enc1_wide: "0x800 \<le> w \<Longrightarrow> enc1 w = []"
  by (auto simp: enc1_def word_less_nat_alt word_le_nat_alt)

lemma scast_plain: "\<not> bit b 7 \<Longrightarrow> (scast (b :: byte) :: u16) = ucast b"
proof (rule bit_word_eqI)
  fix n
  assume "\<not> bit b 7" "n < LENGTH(16)"
  moreover have "n < 7 \<or> n = 7 \<or> 8 \<le> n" by arith
  ultimately show "bit (scast b :: u16) n = bit (ucast b :: u16) n"
    by (auto simp: bit_simps min_def dest: bit_imp_le_length)
qed

lemma nxt30_enc2:
  assumes "\<not> bit w 7"
  shows "nxt30 (enc2 w @ r) = (w, r)"
proof -
  have "(scast (ucast w :: byte) :: u16) = ucast (ucast w :: byte)"
    using assms by (intro scast_plain) (simp add: bit_simps)
  moreover have "(ucast (ucast w :: byte) :: u16) + push_bit 8 (scast (ucast (drop_bit 8 w) :: byte)) = w"
  proof (subst disjunctive_add)
    show "(ucast (ucast w :: byte) :: u16) OR push_bit 8 (scast (ucast (drop_bit 8 w) :: byte)) = w"
    proof (rule bit_word_eqI)
      fix n
      assume "n < LENGTH(16)"
      then consider "n < 8" | "8 \<le> n" "n < 15" | "n = 15" by fastforce
      then show "bit ((ucast (ucast w :: byte) :: u16) OR push_bit 8 (scast (ucast (drop_bit 8 w) :: byte))) n = bit w n"
        by cases (auto simp: bit_simps min_def)
    qed
  qed (auto simp: bit_simps)
  ultimately show ?thesis by (simp add: enc2_def nxt30_def)
qed

section \<open>Saving and opening\<close>

text \<open>The characters that survive in a format: below 0x800, or with a low byte that is not negative as \<open>char\<close>.\<close>

definition keeps :: "nat \<Rightarrow> u16 \<Rightarrow> bool" where
  "keeps f w \<longleftrightarrow> f = 1 \<and> w < 0x800 \<or> f = 3 \<and> \<not> bit w 7"

definition wide_line_ok :: "nat \<Rightarrow> wstr \<Rightarrow> bool" where
  "wide_line_ok f l \<longleftrightarrow> length l < 997 \<and> list_all (\<lambda>w. keeps f w \<and> w \<noteq> 0 \<and> w \<noteq> 10 \<and> w \<noteq> 13) l"

definition enc_of :: "nat \<Rightarrow> u16 \<Rightarrow> byte list" where
  "enc_of f w = (if f = 1 then enc1 w else enc2 w)"

definition mark_of :: "nat \<Rightarrow> byte list" where
  "mark_of f = (if f = 1 then [0xEF, 0xBB, 0xBF] else if f = 2 then [0xFE, 0xFF] else [0xFF, 0xFE])"

lemma nxt_of_enc: "keeps f w \<Longrightarrow> nxt_of f (enc_of f w @ r) = (w, r)"
  using enc1_ascii [of w r] enc1_two [of w r] nxt30_enc2 [of w r]
  by (cases "w < 0x80") (auto simp: keeps_def nxt_of_def enc_of_def not_less)

lemma keeps_format: "keeps f w \<Longrightarrow> f = 1 \<or> f = 3"
  by (auto simp: keeps_def)

lemma nxtWCH0_enc: "keeps f w \<Longrightarrow> nxtWCH0 f (enc_of f w @ r) = (w, f, r)"
  using nxt_of_enc [of f w r] keeps_format [of f w] by (auto simp: nxtWCH0_def)

lemma nxtWCH0_mark: "f = 1 \<or> f = 3 \<Longrightarrow> nxtWCH0 0 (mark_of f @ bs) = nxtWCH0 f bs"
  by (auto simp: nxtWCH0_def mark_of_def read_mark_def)

lemma line_end_keeps: "f = 1 \<or> f = 3 \<Longrightarrow> keeps f 10 \<and> keeps f 13"
  by (auto simp: keeps_def)

declare readstring0.simps [simp del]

lemma readstring0_mark: "f = 1 \<or> f = 3 \<Longrightarrow> readstring0 0 (mark_of f @ bs) buf i = readstring0 f bs buf i"
  by (subst (1 2) readstring0.simps) (simp add: nxtWCH0_mark)

text \<open>Characters written with \<open>e\<close> and read as \<open>d\<close> of them, none of them the end of a line.\<close>

lemma readstring0_chars:
  "\<forall>w\<in>set l. d w \<noteq> 0 \<and> d w \<noteq> 10 \<and> d w \<noteq> 13 \<and> (\<forall>r. nxtWCH0 f (e w @ r) = (d w, f, r)) \<Longrightarrow>
     readstring0 f (concat (map e l) @ r) (a @ b) (length a) =
       (if length l \<le> length b then readstring0 f r (a @ map d l @ drop (length l) b) (length a + length l)
        else Inl OutOfRange)"
proof (induction l arbitrary: a b)
  case (Cons w l)
  show ?case
  proof (cases b)
    case Nil
    then show ?thesis using Cons.prems by (subst readstring0.simps) simp
  next
    case (Cons c b')
    have "readstring0 f (e w @ concat (map e l) @ r) (a @ b) (length a) =
        readstring0 f (concat (map e l) @ r) ((a @ [d w]) @ b') (length (a @ [d w]))"
      using Cons.prems Cons by (subst readstring0.simps) simp
    then show ?thesis using Cons.IH [of "a @ [d w]" b'] Cons.prems Cons by simp
  qed
qed simp

lemma wcs_line: "0 \<notin> set l \<Longrightarrow> wcs (l @ 0 # r) = l"
  unfolding wcs_def by (subst takeWhile_append2) auto

lemma readstring0_line:
  assumes l: "wide_line_ok f l" and buf: "length buf = 999" and f: "f = 1 \<or> f = 3"
  shows "readstring0 f (concat (map (enc_of f) (l @ [13, 10])) @ r) buf 0 =
    Ok (Some l, True, f, r, l @ 0 # drop (length l + 1) buf)"
proof -
  have ok: "list_all (\<lambda>w. keeps f w \<and> w \<noteq> 0 \<and> w \<noteq> 10 \<and> w \<noteq> 13) l" and len: "length l < 997"
    using l by (auto simp: wide_line_ok_def)
  define b where "b = drop (length l) buf"
  have b: "b = buf ! length l # drop (length l + 1) buf" using len buf by (simp add: b_def Cons_nth_drop_Suc)
  have z: "0 \<notin> set l" using ok by (auto simp: list_all_iff)
  have "readstring0 f (concat (map (enc_of f) (l @ [13, 10])) @ r) buf 0 =
      readstring0 f (enc_of f 13 @ enc_of f 10 @ r) (l @ b) (length l)"
    using readstring0_chars [of l id f "enc_of f" "enc_of f 13 @ enc_of f 10 @ r" "[]" buf] ok len buf
    by (simp add: b_def list_all_iff nxtWCH0_enc)
  also have "\<dots> = readstring0 f (enc_of f 10 @ r) (l @ b) (length l)"
    using line_end_keeps [OF f] by (subst readstring0.simps) (simp add: nxtWCH0_enc)
  also have "\<dots> = Ok (Some l, True, f, r, l @ 0 # drop (length l + 1) buf)"
    using line_end_keeps [OF f] z by (subst readstring0.simps) (simp add: nxtWCH0_enc b line_in_def wcs_line)
  finally show ?thesis .
qed

lemma readstring0_end: "f = 1 \<or> f = 3 \<Longrightarrow> readstring0 f [] buf 0 = Ok (None, False, f, [], buf)"
  by (subst readstring0.simps) (auto simp: nxtWCH0_def nxt_of_def nxt10_def nxt30_def)

lemma open_lines_written:
  assumes "f = 1 \<or> f = 3"
  shows "list_all (wide_line_ok f) ls \<Longrightarrow> length ls = n \<or> length ls \<le> n \<and> r = [] \<Longrightarrow> length buf = 999 \<Longrightarrow>
    open_lines n f (concat (map (\<lambda>l. concat (map (enc_of f) (l @ [13, 10]))) ls) @ r) buf = Ok (f, ls)"
proof (induction ls arbitrary: n buf)
  case Nil
  then show ?case using readstring0_end [OF assms] by (cases n) auto
next
  case (Cons l ls)
  then obtain m where n: "n = Suc m" by (cases n) auto
  have len: "length l < 997" using Cons.prems by (simp add: wide_line_ok_def)
  have "open_lines m f (concat (map (\<lambda>l. concat (map (enc_of f) (l @ [13, 10]))) ls) @ r) (l @ 0 # drop (length l + 1) buf) = Ok (f, ls)"
    by (rule Cons.IH) (use Cons.prems n len in auto)
  with readstring0_line [OF _ Cons.prems(3) assms, of l] Cons.prems show ?case
    by (simp add: n del: map_append)
qed

lemma writeF3_enc: "writeF3 spill l = concat (map enc2 (wide_line spill l))"
  by (simp add: writeF3_def enc2_def [abs_def])

lemma file_text_enc:
  assumes "f = 1 \<or> f = 3" "list_all (wide_line_ok f) ls"
  shows "file_text spill f ls = mark_of f @ concat (map (\<lambda>l. concat (map (enc_of f) (l @ [13, 10]))) ls)"
proof -
  have "map (writeF1 spill) ls = map (\<lambda>l. concat (map enc1 (l @ [13, 10]))) ls"
    "map (writeF3 spill) ls = map (\<lambda>l. concat (map enc2 (l @ [13, 10]))) ls"
    using assms(2) by (auto simp: list_all_iff wide_line_ok_def wide_line_def writeF1_def writeF3_enc)
  then show ?thesis using assms(1) by (auto simp: file_text_def mark_of_def enc_of_def fun_eq_iff cong: map_cong)
qed

lemma line_feeds: "f = 1 \<or> f = 3 \<Longrightarrow>
  length ls \<le> length (filter (\<lambda>b. b = 10) (concat (map (\<lambda>l. concat (map (enc_of f) (l @ [13, 10]))) ls)))"
  by (induction ls) (auto simp: enc_of_def enc1_def enc2_def)

section \<open>The table as a store\<close>

text \<open>
  The interface: a store that has an invariant and admits some keys only. Reading after a sequence of
  changes gives the last value set.
\<close>

locale kv_table =
  fixes find_value :: "'s \<Rightarrow> 'k \<Rightarrow> 'v option"
    and change :: "'k \<Rightarrow> 'v \<Rightarrow> 's \<Rightarrow> 's"
    and inv :: "'s \<Rightarrow> bool"
    and key :: "'k \<Rightarrow> bool"
  assumes change_inv: "inv s \<Longrightarrow> key k \<Longrightarrow> inv (change k v s)"
    and change_value: "inv s \<Longrightarrow> key k \<Longrightarrow> find_value (change k v s) j = (if j = k then Some v else find_value s j)"
begin

lemma changes:
  "inv s \<Longrightarrow> list_all (\<lambda>e. key (fst e)) kvs \<Longrightarrow>
     inv (fold (\<lambda>(k, v). change k v) kvs s) \<and>
     find_value (fold (\<lambda>(k, v). change k v) kvs s) j =
       (case map_of (rev kvs) j of None \<Rightarrow> find_value s j | Some v \<Rightarrow> Some v)"
proof (induction kvs arbitrary: s)
  case (Cons e kvs)
  obtain k v where e: "e = (k, v)" by (cases e)
  show ?case
    using Cons.prems Cons.IH [of "change k v s"] change_inv [of s k v] change_value [of s k v]
    by (auto simp: e map_add_def split: option.split)
qed simp

end

text \<open>A client asks for the size first and then for the value. A change is what \<open>set_setup\<close> leaves.\<close>

definition setup_value :: "wsetup \<Rightarrow> wstr \<Rightarrow> wstr option" where
  "setup_value st k = (case get_setup k True 0 st of
     Inl e \<Rightarrow> None
   | Inr (n, _) \<Rightarrow> (case get_setup k False n st of Inl e \<Rightarrow> None | Inr (_, v) \<Rightarrow> v))"

definition changed_setup :: "wstr \<Rightarrow> wstr \<Rightarrow> wsetup \<Rightarrow> wsetup" where
  "changed_setup k v st = (case set_setup k v st of Inl e \<Rightarrow> st | Inr (_, st') \<Rightarrow> st')"

definition wsetup_ok :: "wsetup \<Rightarrow> bool" where
  "wsetup_ok st \<longleftrightarrow> ws_block st \<noteq> Freed \<and> list_all (\<lambda>l. 32 \<in> set l) (ws_mmm st)"

definition line_id :: "wstr \<Rightarrow> wstr" where
  "line_id l = takeWhile (\<lambda>w. w \<noteq> 32) l"

lemma seek_id_None:
  "list_all (\<lambda>l. 32 \<in> set l) ls \<Longrightarrow> k \<notin> line_id ` set ls \<Longrightarrow> seek_id k ls i = Inl False"
  by (induction ls arbitrary: i) (auto simp: line_id_def)

lemma seek_id_hit:
  "list_all (\<lambda>l. 32 \<in> set l) ls \<Longrightarrow> line_id l = k \<Longrightarrow> 32 \<in> set l \<Longrightarrow> k \<notin> line_id ` set ls \<Longrightarrow>
     seek_id k (ls @ l # ls') i = Inr (i + length ls)"
  by (induction ls arbitrary: i) (auto simp: line_id_def)

lemma line_id_new [simp]: "32 \<notin> set k \<Longrightarrow> line_id (k @ 32 # v) = k"
  unfolding line_id_def by (subst takeWhile_append2) auto

text \<open>Either no line has the identifier, or there is a first one.\<close>

lemma first_line:
  "k \<in> line_id ` set ls \<Longrightarrow> \<exists>a l b. ls = a @ l # b \<and> line_id l = k \<and> k \<notin> line_id ` set a"
proof (induction ls)
  case (Cons m ls)
  show ?case
  proof (cases "line_id m = k")
    case True
    then show ?thesis by (intro exI [of _ "[]"] exI [of _ m] exI [of _ ls]) simp
  next
    case False
    with Cons obtain a l b where "ls = a @ l # b" "line_id l = k" "k \<notin> line_id ` set a" by auto
    with False show ?thesis by (intro exI [of _ "m # a"] exI [of _ l] exI [of _ b]) auto
  qed
qed simp

definition line_value :: "wstr list \<Rightarrow> wstr \<Rightarrow> wstr option" where
  "line_value ls k = map_option (\<lambda>l. drop (length k + 1) l) (find (\<lambda>l. line_id l = k) ls)"

lemma line_value_None: "k \<notin> line_id ` set ls \<Longrightarrow> line_value ls k = None"
  by (auto simp: line_value_def find_None_iff)

lemma find_skip: "k \<notin> line_id ` set a \<Longrightarrow> find (\<lambda>l. line_id l = k) (a @ b) = find (\<lambda>l. line_id l = k) b"
  by (induction a) auto

lemma setup_value_line: "wsetup_ok st \<Longrightarrow> setup_value st k = line_value (ws_mmm st) k"
proof (cases "k \<in> line_id ` set (ws_mmm st)")
  case True
  assume ok: "wsetup_ok st"
  obtain a l b where s: "ws_mmm st = a @ l # b" "line_id l = k" "k \<notin> line_id ` set a"
    using first_line [OF True] by blast
  then have "seek_id k (ws_mmm st) 0 = Inr (length a)"
    using ok seek_id_hit [of a l k b 0] by (simp add: wsetup_ok_def)
  then show ?thesis
    using ok s by (simp add: setup_value_def get_setup_def wsetup_ok_def Let_def line_value_def find_skip)
next
  case False
  assume ok: "wsetup_ok st"
  then have "seek_id k (ws_mmm st) 0 = Inl False" using False seek_id_None by (auto simp: wsetup_ok_def)
  then show ?thesis using ok False by (simp add: setup_value_def get_setup_def wsetup_ok_def line_value_None)
qed

lemma changed_setup_lines:
  assumes "wsetup_ok st" "32 \<notin> set k"
  shows "wsetup_ok (changed_setup k v st) \<and>
    line_value (ws_mmm (changed_setup k v st)) j = (if j = k then Some v else line_value (ws_mmm st) j)"
proof (cases "k \<in> line_id ` set (ws_mmm st)")
  case True
  obtain a l b where s: "ws_mmm st = a @ l # b" "line_id l = k" "k \<notin> line_id ` set a"
    using first_line [OF True] by blast
  then have "seek_id k (ws_mmm st) 0 = Inr (length a)"
    using assms seek_id_hit [of a l k b 0] by (simp add: wsetup_ok_def)
  then have "ws_mmm (changed_setup k v st) = a @ (k @ 32 # v) # b" "ws_block (changed_setup k v st) = ws_block st"
    using assms s by (simp_all add: changed_setup_def set_setup_def wsetup_ok_def)
  moreover have "find (\<lambda>l. line_id l = j) (a @ l # b) = find (\<lambda>l. line_id l = j) (a @ (k @ 32 # v) # b)" if "j \<noteq> k"
    using that s(2) assms(2) by (induction a) auto
  ultimately show ?thesis using assms s by (auto simp: wsetup_ok_def line_value_def find_skip)
next
  case False
  then have "seek_id k (ws_mmm st) 0 = Inl False" using assms seek_id_None by (auto simp: wsetup_ok_def)
  then have "ws_mmm (changed_setup k v st) = ws_mmm st @ [k @ 32 # v]" "ws_block (changed_setup k v st) \<noteq> Freed"
    using assms by (auto simp: changed_setup_def set_setup_def wsetup_ok_def Let_def)
  moreover have "find (\<lambda>l. line_id l = j) (ls @ [k @ 32 # v]) = find (\<lambda>l. line_id l = j) ls" if "j \<noteq> k" for ls
    using that assms(2) by (induction ls) auto
  ultimately show ?thesis using assms False by (auto simp: wsetup_ok_def line_value_def find_skip)
qed

interpretation ws: kv_table setup_value changed_setup wsetup_ok "\<lambda>k. 32 \<notin> set k"
proof
  fix st and k v j :: wstr
  assume st: "wsetup_ok st" "32 \<notin> set k"
  from changed_setup_lines [OF st] show "wsetup_ok (changed_setup k v st)" by blast
  with st changed_setup_lines [OF st] show "setup_value (changed_setup k v st) j = (if j = k then Some v else setup_value st j)"
    by (simp add: setup_value_line)
qed

section \<open>Properties\<close>

lemma open_setup_lines:
  "open_lines (lenght_setup (Some bs)) 0 bs fresh = Ok (f, ls) \<Longrightarrow> f \<noteq> 0 \<Longrightarrow> length adr < 99 \<Longrightarrow>
     open_setup (Some bs) fresh adr 0 st = Ok (length ls,
       \<lparr>ws_mmm = ls, ws_block = Live, brbr_mem = lenght_setup (Some bs), ws_adrr = Some adr, ws_format = f\<rparr>)"
  by (simp add: open_setup_def)

text \<open>
  After any sequence of changes of a table whose lines have blanks, a client reads the last value set
  for an identifier, or what was there before if none was; identifiers have no blank. Before the first
  opening the table is empty and can be changed as well.
\<close>

theorem setup_reads_last_change:
  assumes "wsetup_ok st" "list_all (\<lambda>e. 32 \<notin> set (fst e)) kvs"
  shows "setup_value (fold (\<lambda>(k, v). changed_setup k v) kvs st) k =
    (case map_of (rev kvs) k of None \<Rightarrow> setup_value st k | Some v \<Rightarrow> Some v)"
  using ws.changes [OF assms] by simp

theorem setup_reads_last_change_witness:
  "setup_value (fold (\<lambda>(k, v). changed_setup k v) [([0x61], [0x31]), ([0x62], [0x32]), ([0x61], [0x33])] new_wsetup) [0x61] = Some [0x33]"
  by (subst setup_reads_last_change) (simp_all add: wsetup_ok_def new_wsetup_def)

text \<open>
  C33. A table that is saved and opened again is the same, in UTF-8 and in UTF-16 (low byte first), whatever
  was in the array of the lines, if it has a line, its lines have less than 997 characters and its characters
  are such as survive: below 0x800 in UTF-8, with a low byte below 0x80 in UTF-16.
\<close>

theorem wide_setup_roundtrip:
  assumes "ws_format st = 1 \<or> ws_format st = 3" "ws_adrr st = Some adr" "length adr < 99" "ws_block st \<noteq> Freed"
    "ws_mmm st \<noteq> []" "list_all (wide_line_ok (ws_format st)) (ws_mmm st)" "length fresh = 999"
  shows "\<exists>bs n. save_setup spill st = Ok (1, Some bs) \<and> length (ws_mmm st) \<le> n \<and>
    open_setup (Some bs) fresh adr 0 st0 = Ok (length (ws_mmm st), st\<lparr>ws_block := Live, brbr_mem := n\<rparr>)"
proof -
  define f ls where "f = ws_format st" and "ls = ws_mmm st"
  note f = assms(1) [folded f_def] and ls = assms(6) [folded f_def ls_def]
  let ?body = "concat (map (\<lambda>l. concat (map (enc_of f) (l @ [13, 10]))) ls)"
  let ?bs = "mark_of f @ ?body"
  define n where "n = lenght_setup (Some ?bs)"
  have n: "length ls \<le> n" using line_feeds [OF f, of ls] by (simp add: n_def lenght_setup_def trans_le_add2)
  then obtain m where m: "n = Suc m" using assms(5) by (cases n) (auto simp: ls_def)
  have "open_lines n 0 ?bs fresh = open_lines n f ?body fresh"
    by (simp add: m readstring0_mark [OF f])
  then have o: "open_lines n 0 ?bs fresh = Ok (f, ls)"
    using open_lines_written [OF f ls, of n "[]" fresh] n assms(7) by simp
  have "save_setup spill st = Ok (1, Some ?bs)"
    using assms(2,4) file_text_enc [OF f ls, of spill] by (simp add: save_setup_def f_def ls_def)
  moreover have "open_setup (Some ?bs) fresh adr 0 st0 = Ok (length ls, st\<lparr>ws_block := Live, brbr_mem := n\<rparr>)"
    using open_setup_lines [OF o [unfolded n_def], of adr st0] f assms(2,3)
    by (cases st) (auto simp only: n_def f_def ls_def wsetup.simps)
  ultimately show ?thesis using n unfolding ls_def by blast
qed

theorem wide_setup_roundtrip_witness:
  "\<exists>bs n. save_setup id \<lparr>ws_mmm = [[0x61, 32, 0x416]], ws_block = Live, brbr_mem = 1, ws_adrr = Some ''s.ini'', ws_format = 1\<rparr> =
      Ok (1, Some bs) \<and> 1 \<le> n \<and>
    open_setup (Some bs) (replicate 999 0x20) ''s.ini'' 0 new_wsetup =
      Ok (1, \<lparr>ws_mmm = [[0x61, 32, 0x416]], ws_block = Live, brbr_mem = n, ws_adrr = Some ''s.ini'', ws_format = 1\<rparr>)"
  using wide_setup_roundtrip [of "\<lparr>ws_mmm = [[0x61, 32, 0x416]], ws_block = Live, brbr_mem = 1, ws_adrr = Some ''s.ini'', ws_format = 1\<rparr>"
      "''s.ini''" "replicate 999 0x20" id new_wsetup]
  by (simp add: wide_line_ok_def keeps_def)

text \<open>
  In UTF-8 a character from 0x800 on leaves no trace in the file: it is the file of the lines without such
  characters. The comparison with \<open>(wchar_t)0x10000\<close>, which is zero, never holds.
\<close>

lemma wide_characters_lost:
  assumes "list_all (\<lambda>l. length l < 997) ls"
  shows "file_text spill 1 ls = file_text spill 1 (map (filter (\<lambda>w. w < 0x800)) ls)"
proof -
  have f: "concat (map enc1 l) = concat (map enc1 (filter (\<lambda>w. w < 0x800) l))" for l
    by (induction l) (auto simp: enc1_wide not_less)
  have "writeF1 spill l = writeF1 spill (filter (\<lambda>w. w < 0x800) l)" if "length l < 997" for l
    using that f [of l] le_less_trans [OF length_filter_le that, of "\<lambda>w. w < 0x800"] by (simp add: writeF1_def wide_line_def)
  then have "map (writeF1 spill) ls = map (writeF1 spill) (map (filter (\<lambda>w. w < 0x800)) ls)"
    using assms by (simp add: list_all_iff)
  then show ?thesis by (simp add: file_text_def del: map_map)
qed

definition swapped :: "u16 \<Rightarrow> u16" where
  "swapped w = push_bit 8 w"

lemma nxt20_swapped:
  assumes "w < 0x80"
  shows "nxt20 (enc2 w @ r) = (swapped w, r)"
proof -
  have w: "unat w < 128" using assms by (simp add: word_less_nat_alt)
  then have "ucast (drop_bit 8 w) = (0 :: byte)"
    by (simp add: word_unat_eq_iff unat_low drop_bit_eq_div unat_div)
  moreover have "drop_bit 7 w = 0" using w by (simp add: word_unat_eq_iff drop_bit_eq_div unat_div)
  then have "\<not> bit w 7" by (simp add: bit_iff_odd_drop_bit)
  then have "\<not> bit (ucast w :: byte) 7" by (simp add: bit_simps)
  then have "(scast (ucast w :: byte) :: u16) = w"
    using w scast_plain [of "ucast w"] by (simp add: word_unat_eq_iff unat_low unat_wide)
  ultimately show ?thesis by (simp add: nxt20_def enc2_def swapped_def)
qed

lemma swapped_plain:
  assumes "w < 0x80" "w \<noteq> 0"
  shows "swapped w \<noteq> 0 \<and> swapped w \<noteq> 10 \<and> swapped w \<noteq> 13"
proof -
  have "unat (swapped w) = unat w * 256"
    using assms(1) by (simp add: swapped_def push_bit_eq_mult unat_word_ariths word_less_nat_alt)
  moreover have "unat w \<noteq> 0" using assms(2) by (simp add: unat_eq_0)
  ultimately show ?thesis by (auto simp: word_unat_eq_iff)
qed

lemma swapped_line:
  assumes "list_all (\<lambda>w. w < 0x80 \<and> w \<noteq> 0) l" "l \<noteq> []"
  shows "readstring0 2 (concat (map enc2 l)) buf 0 =
    (if length l \<le> length buf
     then bind_res (line_in (map swapped l @ drop (length l) buf)) (\<lambda>m. Ok (Some m, False, 2, [], map swapped l @ drop (length l) buf))
     else Inl OutOfRange)"
proof -
  have "\<forall>w\<in>set l. swapped w \<noteq> 0 \<and> swapped w \<noteq> 10 \<and> swapped w \<noteq> 13 \<and> (\<forall>r. nxtWCH0 2 (enc2 w @ r) = (swapped w, 2, r))"
    using assms(1) swapped_plain by (auto simp: list_all_iff nxtWCH0_def nxt_of_def nxt20_swapped)
  from readstring0_chars [OF this, of "[]" "[]" buf]
  have "readstring0 2 (concat (map enc2 l)) buf 0 =
      (if length l \<le> length buf then readstring0 2 [] (map swapped l @ drop (length l) buf) (length l) else Inl OutOfRange)"
    by simp
  also have "readstring0 2 [] b (length l) = bind_res (line_in b) (\<lambda>m. Ok (Some m, False, 2, [], b))" for b
    using assms(2) by (subst readstring0.simps) (simp add: nxtWCH0_def nxt_of_def nxt20_def)
  finally show ?thesis .
qed

lemma enc_of_1 [simp]: "enc_of (Suc 0) = enc1"
  by (rule ext) (simp add: enc_of_def)

text \<open>Bytes behind the last line feed are not read when the number of lines is not given.\<close>

lemma enc1_no_feed: "w \<noteq> 10 \<Longrightarrow> 10 \<notin> set (enc1 w)"
  using enc1_bytes [of w] by (auto simp: enc1_def word_unat_eq_iff unat_low word_less_nat_alt)

lemma last_line_lost:
  assumes "list_all (wide_line_ok 1) ls" "ls \<noteq> []" "10 \<notin> set rest" "length fresh = 999" "length adr < 99"
  shows "open_setup (Some (mark_of 1 @ concat (map (\<lambda>l. concat (map enc1 (l @ [13, 10]))) ls) @ rest)) fresh adr 0 st =
    Ok (length ls, \<lparr>ws_mmm = ls, ws_block = Live, brbr_mem = length ls, ws_adrr = Some adr, ws_format = 1\<rparr>)"
proof -
  let ?body = "concat (map (\<lambda>l. concat (map (enc_of 1) (l @ [13, 10]))) ls)"
  let ?bs = "mark_of 1 @ ?body @ rest"
  have feeds: "filter (\<lambda>b. b = 10) (concat (map enc1 l)) = []" if "wide_line_ok 1 l" for l
    using that enc1_no_feed by (auto simp: filter_empty_conv wide_line_ok_def list_all_iff)
  have "length (filter (\<lambda>b. b = 10) (concat (map (\<lambda>l. concat (map enc1 (l @ [13, 10]))) ls))) = length ls"
    using assms(1) by (induction ls) (simp_all add: feeds enc1_def)
  then have n: "lenght_setup (Some ?bs) = length ls"
    using assms(3) by (auto simp: lenght_setup_def mark_of_def enc_of_def filter_empty_conv)
  obtain m where m: "length ls = Suc m" using assms(2) by (cases ls) auto
  have "open_lines (length ls) 0 ?bs fresh = open_lines (length ls) 1 (?body @ rest) fresh"
    by (simp add: m readstring0_mark)
  also have "\<dots> = Ok (1, ls)" by (rule open_lines_written) (use assms in auto)
  finally have "open_lines (lenght_setup (Some ?bs)) 0 ?bs fresh = Ok (1, ls)" by (simp only: n)
  from open_setup_lines [OF this] assms(5) n show ?thesis by (simp add: enc_of_def)
qed

lemma concat_map_concat: "concat (map g (concat xss)) = concat (map (\<lambda>xs. concat (map g xs)) xss)"
  by (induction xss) auto

text \<open>
  UTF-16 with the high byte first is written low byte first. What is read back has the bytes of every
  character swapped, no line end is recognised, and the whole file with what was in the array behind it is
  one line, or the array is overrun.
\<close>

theorem high_byte_first_is_swapped:
  fixes ls :: "wstr list"
  defines "t \<equiv> concat (map (\<lambda>l. l @ [13, 10]) ls)"
  assumes "list_all (\<lambda>l. length l < 997 \<and> list_all (\<lambda>w. w < 0x80 \<and> w \<noteq> 0) l) ls" "ls \<noteq> []" "length adr < 99"
  shows "open_setup (Some (file_text spill 2 ls)) fresh adr 0 st =
    (if length t \<le> length fresh
     then bind_res (line_in (map swapped t @ drop (length t) fresh)) (\<lambda>m.
       Ok (1, \<lparr>ws_mmm = [m], ws_block = Live, brbr_mem = lenght_setup (Some (file_text spill 2 ls)),
         ws_adrr = Some adr, ws_format = 2\<rparr>))
     else Inl OutOfRange)"
proof -
  let ?bs = "file_text spill 2 ls"
  have "map (writeF2 spill) ls = map (\<lambda>l. concat (map enc2 (l @ [13, 10]))) ls"
    using assms(2) by (auto simp: list_all_iff wide_line_def writeF2_def)
  then have "concat (map (writeF2 spill) ls) = concat (map enc2 t)"
    by (simp only: t_def concat_map_concat map_map comp_def)
  then have bs: "?bs = [0xFE, 0xFF] @ concat (map enc2 t)" by (simp add: file_text_def)
  have t: "list_all (\<lambda>w. w < 0x80 \<and> w \<noteq> 0) t" "t \<noteq> []"
    using assms(2,3) by (auto simp: t_def list_all_iff)
  have "10 \<in> set ?bs" using assms(3) unfolding bs t_def by (cases ls) (auto simp: enc2_def)
  then have "lenght_setup (Some ?bs) \<noteq> 0" by (auto simp: lenght_setup_def filter_empty_conv)
  then obtain m where m: "lenght_setup (Some ?bs) = Suc m" by (cases "lenght_setup (Some ?bs)") auto
  have "readstring0 0 ?bs fresh 0 = readstring0 2 (concat (map enc2 t)) fresh 0"
    unfolding bs by (subst (1 2) readstring0.simps) (simp add: nxtWCH0_def read_mark_def)
  then have "open_lines (Suc m) 0 ?bs fresh =
      (if length t \<le> length fresh then bind_res (line_in (map swapped t @ drop (length t) fresh)) (\<lambda>l. Ok (2, [l])) else Inl OutOfRange)"
    using swapped_line [OF t, of fresh] by (cases "line_in (map swapped t @ drop (length t) fresh)") simp_all
  then show ?thesis
    using assms(4) m by (cases "line_in (map swapped t @ drop (length t) fresh)") (simp_all add: open_setup_def)
qed

end
