(* ===== verification/RelayEndToEnd.thy ===== *)
theory RelayEndToEnd
  imports RelayDecod RelayProps RelayHttpProps
begin

text \<open>
  The relay server from the bytes of a connection to the bytes of the answer: the parser
  (\<open>RelayDecod\<close>), the dispatch and the handlers (\<open>RelayHttp\<close>) and the operations of \<open>relay.cpp\<close>
  (\<open>Relay\<close>) put together.
\<close>

section \<open>What a client sends\<close>





section \<open>The press of a button\<close>














end
