(* ===== verification/MachineTimeEndToEnd.thy ===== *)
theory MachineTimeEndToEnd
  imports MachineTimeProps MachineTimeDays CrypterProps EspHttpProps
begin

text \<open>
  A packet of a device, from the bytes of its connection to the channels of its object and back: the HTTP
  parser (\<open>EspHttp\<close>), the router and the PUT handler (\<open>MachineTimeHttp\<close>), the cipher (\<open>Crypter\<close>) and the
  channels (\<open>MachineTime\<close>, \<open>MachineTimeDays\<close>) put together.
\<close>

section \<open>The size of an armoured message\<close>


lemma mask_bytes_length: "mask_bytes ds c r = (es, c', r') \<Longrightarrow> length es = length ds"
  by (induction ds arbitrary: c r es c' r') (auto simp: Let_def split: prod.splits)



section \<open>The request\<close>





section \<open>The machine\<close>





section \<open>One packet over the wire\<close>


section \<open>The greeting\<close>







section \<open>Properties\<close>



end
