(* ===== verification/LiraEndToEnd.thy ===== *)
theory LiraEndToEnd
  imports LiraServerProps LiraConfigProps
begin

text \<open>
  The configuration file of a machine, from the bytes of the request to the bytes of the answer: the parser
  of requests (\<open>LiraRequest\<close>), the routes and the thread (\<open>LiraServer\<close>), the views as JSON (\<open>LiraViews\<close>)
  and the file made of them (\<open>LiraConfig\<close>) put together, behind whatever connections came before.
\<close>

section \<open>One connection\<close>

text \<open>The two paths and the types their answers are sent with.\<close>

definition config_paths :: "(string \<times> int) list" where
  "config_paths = [(''/download'', 4), (''/preview'', 5)]"

lemma serve_all_after:
  assumes "serve_all cs st = Some (Ok (Reply u st'))" "reqest_thread w cl st' = Some (Ok (Reply t st''))"
  shows "serve_all (cs @ [(w, cl)]) st = Some (Ok (Reply (u @ t) st''))"
  using assms(1)
proof (induction cs arbitrary: st u)
  case Nil then show ?case using assms(2) by simp
next
  case (Cons c cs)
  obtain w' cl' where c: "c = (w', cl')" by (cases c)
  from Cons.prems obtain a s1 b where "reqest_thread w' cl' st = Some (Ok (Reply a s1))"
      "serve_all cs s1 = Some (Ok (Reply b st'))" "u = a @ b"
    by (auto simp: c split: option.splits sum.splits lira_outcome.splits)
  then show ?case using Cons.IH [of s1 b] by (simp add: c)
qed

lemma config_route:
  assumes "(path, typ) \<in> set config_paths" "rq_path rq = path @ [NUL]" "rq_query rq = [(''m_id'', int_str m)]" "fits_int m"
  shows "res_route rq = Some (Ok (Config m, typ))" "\<not> lira_check_param rq ''command'' ''exit''"
proof -
  have name: "c_str ''m_id'' = ''m_id''" by (simp add: c_str_def NUL_def)
  have z: "lira_znach rq ''m_id'' = Some (int_str m)"
    using assms(3) name by (simp add: lira_znach_def)
  have n: "par_num rq ''m_id'' = Ok m"
    unfolding par_num_def z using int_back [OF assms(4)] by (simp add: atoi_ptr_def)
  show "\<not> lira_check_param rq ''command'' ''exit''"
    using assms(3) by (simp add: lira_check_param_def c_str_def NUL_def)
  have p: "rq_param rq ''m_id''"
    using assms(3) by (simp add: rq_param_def c_str_def NUL_def)
  show "res_route rq = Some (Ok (Config m, typ))"
    using assms(1,2) n p by (auto simp: config_paths_def res_route_def at_path_def c_str_def NUL_def)
qed

lemma config_request:
  assumes "(path, typ) \<in> set config_paths" "fits_int m" "list_all head_ok hs" "''content-length'' \<notin> fst ` set hs"
    "length (the (cl_first (rendered ''GET'' path [(''m_id'', int_str m)] hs))) < 2999"
    "dwnldcnf (lw_view w) (lw_parse w) m (ls_db st) = Ok t"
  shows "reqest_thread w (rendered ''GET'' path [(''m_id'', int_str m)] hs) st = Some (Ok (Reply (page_of (lw_now w) typ t) st))"
proof -
  obtain rq where rq: "decod_request (rendered ''GET'' path [(''m_id'', int_str m)] hs) = Ok (Some rq)"
      "rq_method rq = method_of ''GET''" "rq_path rq = path @ [NUL]" "rq_query rq = [(''m_id'', int_str m)]"
    using decod_rendered_whole [of "''GET''" "[(''m_id'', int_str m)]" hs path] assms(3-5) by auto
  then show ?thesis
    using config_route [OF assms(1) rq(3,4) assms(2)] assms(6)
    by (simp add: reqest_thread_def handle_def send_res_def answer_action_def method_of_def method_defs)
qed

section \<open>Behind any connections\<close>

text \<open>
  C8. Whatever connections came before, and whatever they changed, a download or a preview of a machine is
  answered with status 200, the number of bytes and the file \<open>config_text\<close>, the direct function of the
  tables as they are now: its name, its two gear lists, and for each lyre in order its line, its formulas,
  its variables with the positions of the switches, its gears and its conditions, the names in Windows-1251.
  The request is read from its bytes, and the file made over JSON texts and their parser; neither detour
  loses anything, and nothing in the state is changed. The engine carries out its statements, the JSON
  library reads the texts of the reference reader as it does, and the texts of the tables need no escape.
\<close>

theorem download_serves_tables:
  assumes "serve_all cs st = Some (Ok (Reply u st'))" "tables_shown (ls_db st')" "r \<in> set (mashynes (ls_db st'))"
    "engine (lv_fb (lw_view w))" "json_parser (lw_parse w)" "(path, typ) \<in> set config_paths"
    "list_all head_ok hs" "''content-length'' \<notin> fst ` set hs"
    "length (the (cl_first (rendered ''GET'' path [(''m_id'', int_str (ma_id r))] hs))) < 2999"
  shows "serve_all (cs @ [(w, rendered ''GET'' path [(''m_id'', int_str (ma_id r))] hs)]) st = Some (Ok (Reply (u @
     lira_send_kap (lw_now w) 200 (int (length (config_text (lw_view w) (ls_db st') r))) typ [] @
     config_text (lw_view w) (ls_db st') r) st'))"
proof -
  have "fits_int (ma_id r)" using assms(2,3) by (simp add: tables_shown_def mash_shown_def list_all_iff)
  moreover have "dwnldcnf (lw_view w) (lw_parse w) (ma_id r) (ls_db st') = Ok (config_text (lw_view w) (ls_db st') r)"
    by (rule json_parser.config_eq [OF assms(5,4,2,3)])
  ultimately show ?thesis
    using serve_all_after [OF assms(1) config_request [OF assms(6) _ assms(7-9)]] by (simp add: page_of_def)
qed

text \<open>A condition is deleted, then the file is downloaded: it no longer has the line of the condition.\<close>

theorem download_serves_tables_witness:
  "\<exists>t h. serve_all [(demo_lira_world [], rendered ''DELETE'' ''/delete-um'' [(''u_id'', ''1'')] []),
      ((demo_lira_world [])\<lparr>lw_view := demo_view, lw_parse := json_read\<rparr>, rendered ''GET'' ''/download'' [(''m_id'', ''1'')] [])] demo_state =
    Some (Ok (Reply (t @ h @
     ''//  m'' @ crlf @ ''20'' @ crlf @ ''L1 '' @ dq @ ''delen'' @ dq @ '' M1'' @ crlf @ ''i=x'' @ crlf @ ''x=i'' @ crlf @
     ''k!'' @ dq @ dq @ crlf @ ''k=2?1=1?'' @ dq @ ''I'' @ dq @ crlf @ ''ABCD'' @ crlf @ ''L0'' @ crlf)
     (demo_state\<lparr>ls_db := demo_tables\<lparr>umovy := []\<rparr>\<rparr>)))"
  (is "\<exists>t h. _ = Some (Ok (Reply (t @ h @ ?f) ?st))")
proof -
  let ?r = "\<lparr>ma_id = 1, ma_name = ''m'', ma_m1 = ''20'', ma_m2 = None\<rparr>"
  let ?w = "(demo_lira_world [])\<lparr>lw_view := demo_view, lw_parse := json_read\<rparr>"
  obtain t where s: "serve_all [(demo_lira_world [], rendered ''DELETE'' ''/delete-um'' [(''u_id'', ''1'')] [])] demo_state =
      Some (Ok (Reply t ?st))" using demo_delete_served by blast
  have f: "config_text demo_view (demo_tables\<lparr>umovy := []\<rparr>) ?r = ?f"
    by (simp add: config_text_def demo_tables_def demo_view_def liry_of_def zm_of_lira_def zm_of_link_def umovy_of_def npp_of_def
        lira_lines_def zm_lines_def npp_lines_def gears_line_def utf_to_cp1251_def null_text_def replace_double_quotes_def
        demo_two demo_ints Let_def atoi_eval c_str_def NUL_def)
  have shown: "tables_shown (demo_tables\<lparr>umovy := []\<rparr>)"
    using demo_shown by (simp add: tables_shown_def demo_tables_def)
  have l: "length_header [] = (''content-length'', ''0'')" by code_simp
  have n: "length (the (cl_first (rendered ''GET'' ''/download'' [(''m_id'', int_str (ma_id ?r))] []))) < 2999"
    by (simp add: rendered_def l demo_ints lira_body_def lira_head_def render_line_def render_header_def crlf_def percent_encode_def
        percent_char_def plain_char_def is_digit_def hex_upper_def)
  show ?thesis
    using download_serves_tables [OF s, of ?r ?w "''/download''" 4 "[]"] shown f n plain.engine_axioms ref.json_parser_axioms
    by (auto simp: demo_ints config_paths_def demo_view_def demo_tables_def)
qed

end
