(* ===== verification/EspMain.thy ===== *)
theory EspMain
  imports SetupProps MachineTimeHttp
begin





section \<open>The settings in effect\<close>











section \<open>Properties\<close>




end
