(* ===== verification/Spec2Isabelle.thy ===== *)
theory Spec2Isabelle
  imports RelayProps RelayHttpProps RelayDecod CrypterProps SetupProps EspHttpProps EspTime MachineTimeRestart
    MachineTimeProps WorkerPool LiraRelayProps LiraEditProps LiraServerEdges LiraConfigProps LiraConnect
    LiraSetupProps RelayEndToEnd MachineTimeEndToEnd LiraEndToEnd EspMain
begin

text \<open>
  A verification library for the C++ servers of this repository.

  \<^bold>\<open>The program.\<close> A gateway in Java (\<open>servak_na_linux_2_java\<close>) faces the browser and
  forwards requests to three C++ servers, each an HTTP server of its own:

  \<^item> the \<^emph>\<open>relay server\<close> (\<open>servak_na_winapi_relays/source\<close>): devices with eight relays
    poll it; users see the relays' state, press buttons, fetch log files. Devices and users are linked in an
    SQLite data base the gateway writes too;
  \<^item> the \<^emph>\<open>MachineTime server\<close> (\<open>esp8266_decoder/source\<close>): devices send the working time of 19
    channels in encrypted packets; it keeps days, sessions, starts and stops, saves them to SQLite and shows
    them as JSON. A pool of workers serves each port, an agent saves from time to time;
  \<^item> the \<^emph>\<open>LiraCalc server\<close> (\<open>servak_na_linux/server\<close>): tables of machines, lyres (sets of change
    gears), variables and conditions in a Firebird data base, edited and searched over HTTP, a configuration
    file per machine, the files of the site, and an older version of the relay service.

  The servers share no memory. They share code, in copies: the xorshift generator (\<open>XorRand\<close>), percent
  decoding and answers (\<open>HttpText\<close>), the scan of a request (\<open>header_loop\<close> of
  \<open>LiraRequest\<close>, used by \<open>RelayDecod\<close> as well).

  \<^bold>\<open>How code is modelled.\<close> A class or struct is a record, a handler a function from the state to the
  answer and the new state; names are the source's, with a prefix where two servers have the same one.
  Characters are bytes. Fixed-width arithmetic wraps (\<open>u32\<close>, \<open>to_int32\<close>, \<open>to_int16\<close>) where
  it can leave its range. What ends the process or is undefined in C++ (a null pointer, an index out of
  range, an exception nobody catches) is a value of type \<open>fault\<close>, the left side of a sum (\<open>'a res\<close>).
  A loop that can run for ever is a \<open>partial_function\<close>: \<open>None\<close> stands for not returning. Whatever a
  call takes from outside (clock, files, time zone data base, random numbers, what is in fresh memory, the
  SQL engine's refusals, a JSON parser) is an argument.

  \<^bold>\<open>Prelude.\<close> \<open>Prelude\<close> holds faults, C strings, \<open>atoi\<close> and \<open>std::stoi\<close>, decimal printing,
  searching in texts, and the collections \<open>srv_defs\<close> and \<open>wf_intros\<close>.

  \<^bold>\<open>Relay server.\<close>
  \<^item> \<open>XorRand\<close>: \<open>MyRand\<close> of \<open>relay.cpp\<close>; locale \<open>generator\<close> (no two states are ever merged),
    interpreted as \<open>xr\<close>;
  \<^item> \<open>RelayStore\<close>: \<open>sqlite_helper.h\<close> and the statements of \<open>relay.cpp\<close>; locale
    \<open>relay_store\<close> (\<open>rst\<close>);
  \<^item> \<open>Relay\<close>: all of \<open>relay.cpp\<close>: \<open>relay_srv\<close> holds the list \<open>rele_list\<close> and the data base;
    \<open>RelayFacts\<close>: the step relation \<open>relay_step\<close>, one rule per operation, and its invariant;
    \<open>RelayProps\<close>: the poll protocol with a specification of the device's side, delivery of a press, access
    control (\<open>RelayDemo\<close> is a concrete state for the witnesses);
  \<^item> \<open>RelayHttp\<close>, \<open>RelayHttpProps\<close>: \<open>request.h\<close>, \<open>http_utils.cpp\<close>,
    \<open>relay_http_handlers.cpp\<close> and the main loop's dispatch, which refines \<open>relay_step\<close>;
  \<^item> \<open>RelayDecod\<close>: \<open>decod_request\<close> of \<open>server_relays.cpp\<close>, the inverse of a client's rendering;
  \<^item> \<open>RelayEndToEnd\<close>: a press of a button from the bytes of the user's request to the bytes of the answer
    to the device.

  \<^bold>\<open>MachineTime server.\<close>
  \<^item> \<open>ChaCha\<close>, \<open>Crypter\<close>, \<open>CrypterProps\<close>: \<open>MyCrypter.h\<close>; locales \<open>armour\<close> (\<open>b64\<close>) and
    \<open>channel\<close> (\<open>crypt\<close>), from which the conversation theorem follows;
  \<^item> \<open>Setup\<close>, \<open>SetupProps\<close>: \<open>setup.cpp\<close> and the command line; locale \<open>kv_store\<close> (\<open>cfg\<close>);
  \<^item> \<open>EspHttp\<close>, \<open>EspHttpProps\<close>: \<open>http_parser.cpp\<close>, \<open>http_utils.cpp\<close>, with exact
    conditions for a parser that never returns;
  \<^item> \<open>EspTime\<close>: \<open>my_time.cpp\<close>;
  \<^item> \<open>MachineStore\<close>: the tables and statements; \<open>MachineTime\<close>, \<open>MachineView\<close>: the class
    \<open>MachineTime\<close>; \<open>MachineTimeFacts\<close> (the invariant), \<open>MachineTimeDays\<close> (what times and events
    mean), \<open>MachineTimeRestart\<close> (what a restart brings back);
  \<^item> \<open>MachineTimeHttp\<close>, \<open>MachineTimeProps\<close>: handlers, router, worker, agent, and the states the
    server reaches when these interleave;
  \<^item> \<open>WorkerPool\<close>: \<open>worker_pool.cpp\<close> as a step relation; locale \<open>fifo\<close> (\<open>pq\<close>);
  \<^item> \<open>EspMain\<close>: \<open>main\<close> of \<open>server.cpp\<close> up to the ports it listens on;
  \<^item> \<open>MachineTimeEndToEnd\<close>: a device's session, greeting and encrypted packets, from the bytes of its
    connections to the channels of its object and back.

  \<^bold>\<open>LiraCalc server.\<close>
  \<^item> \<open>LiraTime\<close>: \<open>my_time.cpp\<close>, equal to \<open>gmtime\<close>; \<open>LiraStatus\<close>: \<open>status.cpp\<close>;
  \<^item> \<open>LiraRelay\<close>, \<open>LiraRelayFacts\<close>, \<open>LiraRelayProps\<close>: \<open>relay.cpp\<close>, its linked list on a heap
    with pointers to pointers, refined to a list of devices;
  \<^item> \<open>LiraStore\<close>: the tables, statements and engine; \<open>LiraEdit\<close>, \<open>LiraEditFacts\<close>,
    \<open>LiraEditProps\<close>: \<open>add.cpp\<close>, \<open>save.cpp\<close>, \<open>delete.cpp\<close>; locale \<open>engine\<close> (\<open>plain\<close>);
    \<open>LiraConnect\<close>: how \<open>connect_db\<close> of \<open>db.cpp\<close> opens or creates the data base;
  \<^item> \<open>LiraRequest\<close>, \<open>LiraRequestFacts\<close>, \<open>LiraRequestProps\<close>: the class \<open>Request\<close> and
    \<open>decod_request\<close> of \<open>KM_server.cpp\<close> on a byte memory it changes in place;
  \<^item> \<open>LiraDouble\<close>: how doubles are read and printed; \<open>LiraViews\<close>: \<open>get_json.cpp\<close>;
    \<open>LiraPages\<close>: \<open>index.cpp\<close>, the form of \<open>add.cpp\<close>, the dump of \<open>db.cpp\<close>; \<open>LiraConfig\<close>:
    \<open>dwnldcnf.cpp\<close>; \<open>LiraJson\<close>: the JSON these texts are;
  \<^item> \<open>LiraViewsProps\<close>, \<open>LiraConfigProps\<close>: the texts are JSON of a fixed shape, the configuration file is
    a function of the rows, for any parser that reads the texts of \<open>LiraJson\<close> back (locale
    \<open>json_parser\<close>, \<open>ref\<close>);
  \<^item> \<open>LiraServer\<close>: routing, answers, files and the thread of a connection; \<open>LiraServerFacts\<close>,
    \<open>LiraServerProps\<close>: it keeps the tables and the list well formed, always ends, sends only its files;
    \<open>LiraServerEdges\<close>: where its arrays are too short; \<open>LiraEndToEnd\<close>: the configuration file from the
    bytes of a request, behind any connections;
  \<^item> \<open>LiraSetup\<close>, \<open>LiraSetupProps\<close>: \<open>setup.cpp\<close>, a settings file in three encodings for Windows (no other
    file calls it); locale \<open>kv_table\<close> (\<open>ws\<close>), a store whose laws hold under an invariant; what saving and
    opening keep and what they lose.

  \<^bold>\<open>Bounds and fuel.\<close> Loops whose end is not structural either have a measure (calendar loops, \<open>bitlen\<close>
  and digits, the scan of a text from an index) or are \<open>partial_function\<close>s with theorems saying when they
  return (receive loops, walks over the linked list, the loop over the schema's statements). The JSON
  reader's fuel is one more than the length of the text, which every round shortens. Sizes are the source's:
  256 parameters, a first segment of 2999 bytes (101 KB in the relay server), one megabyte of body in the
  MachineTime server, messages of 16-bit length (24572 bytes of content), 19 channels, 8 relays. Constants
  of the exact decimal conversions (at most 330 places below one) cover every double.

  \<^bold>\<open>Not modelled.\<close> Sockets, signals, threads and the start of each \<open>main\<close>: calls of the operating
  system (what is done with an accepted connection is modelled, and the workers' interleaving is a step
  relation). \<open>tz.cpp\<close>, a copy of
  a third-party date library, whose use is a parameter. SQLite, Firebird and \<open>json.hpp\<close>, which are
  libraries. The gateway, the site's scripts and the firmware, which are in other languages. Console output,
  but for the bounds of the buffers it is put together in.
\<close>

end
